(* ===== verification/Prelude.thy ===== *)
theory Prelude
  imports Main "HOL-Library.Word"
begin

text \<open>
  Shared vocabulary of the development: Rust's results as sums, its fixed-width integers and
  their checked and saturating operations, UTF-8 strings, and tables of rows with the effect of
  an SQL \<open>UPDATE .. WHERE\<close>. The named collections gather the rewrite rules and the
  inversion rules that the component theories add to \<open>simp\<close> and \<open>auto\<close>.
\<close>

named_theorems rust_arith \<open>characterisations of checked and saturating machine arithmetic\<close>
named_theorems result_splits \<open>when a fallible operation succeeds or fails\<close>
named_theorems table_simps \<open>rewrite rules for reads and updates of tables\<close>

section \<open>Results\<close>

text \<open>
  \<^verbatim>\<open>Result<T, E>\<close> is \<open>'e + 'a\<close> with the error on the left. The operator
  \<^verbatim>\<open>?\<close> is \<open>rbind\<close>, \<^verbatim>\<open>ok_or\<close> keeps its name, and \<open>ensure\<close>
  is an \<^verbatim>\<open>if\<close> that returns early.
\<close>

fun rbind :: "'e + 'a \<Rightarrow> ('a \<Rightarrow> 'e + 'b) \<Rightarrow> 'e + 'b" where
  "rbind (Inl e) f = Inl e"
| "rbind (Inr x) f = f x"

definition ensure :: "bool \<Rightarrow> 'e \<Rightarrow> 'e + unit" where
  "ensure c e = (if c then Inr () else Inl e)"

definition ok_or :: "'a option \<Rightarrow> 'e \<Rightarrow> 'e + 'a" where
  "ok_or x e = (case x of None \<Rightarrow> Inl e | Some y \<Rightarrow> Inr y)"

definition map_err :: "('e \<Rightarrow> 'f) \<Rightarrow> 'e + 'a \<Rightarrow> 'f + 'a" where
  "map_err f r = (case r of Inl e \<Rightarrow> Inl (f e) | Inr x \<Rightarrow> Inr x)"

fun is_ok :: "'e + 'a \<Rightarrow> bool" where
  "is_ok (Inl _) = False"
| "is_ok (Inr _) = True"

lemma rbind_eq_Inr [result_splits]:
  "rbind r f = Inr y \<longleftrightarrow> (\<exists>x. r = Inr x \<and> f x = Inr y)"
  by (cases r) auto

lemma rbind_eq_Inl [result_splits]:
  "rbind r f = Inl e \<longleftrightarrow> r = Inl e \<or> (\<exists>x. r = Inr x \<and> f x = Inl e)"
  by (cases r) auto

lemma ensure_eq_Inr [result_splits]: "ensure c e = Inr u \<longleftrightarrow> c"
  by (simp add: ensure_def)

lemma ensure_eq_Inl [result_splits]: "ensure c e = Inl e' \<longleftrightarrow> \<not> c \<and> e' = e"
  by (auto simp: ensure_def)

lemma ensure_simps [simp]:
  "ensure True e = Inr ()"
  "ensure False e = Inl e"
  by (simp_all add: ensure_def)

lemma ok_or_eq_Inr [result_splits]: "ok_or x e = Inr y \<longleftrightarrow> x = Some y"
  by (cases x) (simp_all add: ok_or_def)

lemma ok_or_eq_Inl [result_splits]: "ok_or x e = Inl e' \<longleftrightarrow> x = None \<and> e' = e"
  by (cases x) (auto simp: ok_or_def)

lemma ok_or_simps [simp]:
  "ok_or None e = Inl e"
  "ok_or (Some y) e = Inr y"
  by (simp_all add: ok_or_def)

lemma map_err_eq_Inr [result_splits]: "map_err f r = Inr y \<longleftrightarrow> r = Inr y"
  by (cases r) (simp_all add: map_err_def)

lemma map_err_simps [simp]:
  "map_err f (Inl e) = Inl (f e)"
  "map_err f (Inr x) = Inr x"
  by (simp_all add: map_err_def)

text \<open>A \<^verbatim>\<open>for\<close> loop whose body may return early: the state after the last turn.\<close>

fun rfold :: "('s \<Rightarrow> 'a \<Rightarrow> 'e + 's) \<Rightarrow> 'a list \<Rightarrow> 's \<Rightarrow> 'e + 's" where
  "rfold f [] s = Inr s"
| "rfold f (a # as) s = rbind (f s a) (rfold f as)"

lemma rfold_keeps:
  assumes "rfold f as s = Inr s'" and "P s"
    and "\<And>t a t'. \<lbrakk>a \<in> set as; P t; f t a = Inr t'\<rbrakk> \<Longrightarrow> P t'"
  shows "P s'"
  using assms by (induction as arbitrary: s) (auto simp: rbind_eq_Inr)

lemma rfold_succeeds:
  assumes "P s" and "\<And>t a. \<lbrakk>a \<in> set as; P t\<rbrakk> \<Longrightarrow> \<exists>t'. f t a = Inr t' \<and> P t'"
  shows "\<exists>s'. rfold f as s = Inr s' \<and> P s'"
  using assms
proof (induction as arbitrary: s)
  case (Cons a as)
  then obtain t where "f s a = Inr t" "P t" by (meson list.set_intros(1))
  with Cons show ?case by simp
qed simp

lemma is_ok_iff: "is_ok r \<longleftrightarrow> (\<exists>x. r = Inr x)"
  by (cases r) auto

section \<open>Machine integers\<close>

type_synonym u8 = "8 word"
type_synonym u32 = "32 word"
type_synonym u64 = "64 word"
type_synonym uuid = "128 word"

text \<open>
  Unsigned integers are words. \<^verbatim>\<open>checked_add\<close> and \<^verbatim>\<open>checked_sub\<close>
  return nothing exactly where the exact result does not fit the width.
\<close>

definition checked_add :: "'a::len word \<Rightarrow> 'a word \<Rightarrow> 'a word option" where
  "checked_add a b = (if unat a + unat b < 2 ^ LENGTH('a) then Some (a + b) else None)"

definition checked_sub :: "'a::len word \<Rightarrow> 'a word \<Rightarrow> 'a word option" where
  "checked_sub a b = (if b \<le> a then Some (a - b) else None)"

lemma checked_add_eq_Some [rust_arith]:
  "checked_add a b = Some c \<longleftrightarrow> unat c = unat a + unat b"
proof
  assume "checked_add a b = Some c"
  then show "unat c = unat a + unat b"
    by (auto simp: checked_add_def unat_word_ariths split: if_splits)
next
  fix c :: "'a word"
  assume eq: "unat c = unat a + unat b"
  have "unat c < 2 ^ LENGTH('a)" by (rule unsigned_less)
  with eq have fits: "unat a + unat b < 2 ^ LENGTH('a)" by simp
  then have "unat (a + b) = unat a + unat b" by (simp add: unat_word_ariths)
  with eq have "c = a + b" by (simp add: word_unat_eq_iff)
  with fits show "checked_add a b = Some c" by (simp add: checked_add_def)
qed

lemma checked_add_eq_None [rust_arith]:
  "checked_add a b = None \<longleftrightarrow> 2 ^ LENGTH('a) \<le> unat a + unat (b :: 'a::len word)"
  by (auto simp: checked_add_def)

lemma checked_sub_eq_Some [rust_arith]:
  "checked_sub a b = Some c \<longleftrightarrow> unat a = unat c + unat b"
proof
  assume "checked_sub a b = Some c"
  then have "b \<le> a" and "c = a - b"
    by (auto simp: checked_sub_def split: if_splits)
  then show "unat a = unat c + unat b"
    by (simp add: unat_sub word_le_nat_alt)
next
  assume eq: "unat a = unat c + unat b"
  then have le: "b \<le> a" by (simp add: word_le_nat_alt)
  then have "unat (a - b) = unat a - unat b" by (simp add: unat_sub)
  with eq have "c = a - b" by (simp add: word_unat_eq_iff)
  with le show "checked_sub a b = Some c" by (simp add: checked_sub_def)
qed

lemma checked_sub_eq_None [rust_arith]: "checked_sub a b = None \<longleftrightarrow> unat a < unat b"
  by (auto simp: checked_sub_def word_le_nat_alt)

text \<open>
  An \<^verbatim>\<open>i64\<close> is an \<open>int\<close> within the type's bounds; the saturating
  operations clamp the exact result into them and the checked ones reject it outside.
\<close>

type_synonym i64 = int

definition i64_min :: i64 where
  "i64_min = - (2 ^ 63)"

definition i64_max :: i64 where
  "i64_max = 2 ^ 63 - 1"

definition in_i64 :: "int \<Rightarrow> bool" where
  "in_i64 x \<longleftrightarrow> i64_min \<le> x \<and> x \<le> i64_max"

definition clamp_i64 :: "int \<Rightarrow> i64" where
  "clamp_i64 x = max i64_min (min i64_max x)"

definition saturating_add :: "i64 \<Rightarrow> i64 \<Rightarrow> i64" where
  "saturating_add a b = clamp_i64 (a + b)"

definition saturating_sub :: "i64 \<Rightarrow> i64 \<Rightarrow> i64" where
  "saturating_sub a b = clamp_i64 (a - b)"

definition saturating_mul :: "i64 \<Rightarrow> i64 \<Rightarrow> i64" where
  "saturating_mul a b = clamp_i64 (a * b)"

definition checked_sub_i64 :: "i64 \<Rightarrow> i64 \<Rightarrow> i64 option" where
  "checked_sub_i64 a b = (if in_i64 (a - b) then Some (a - b) else None)"

definition checked_add_i64 :: "i64 \<Rightarrow> i64 \<Rightarrow> i64 option" where
  "checked_add_i64 a b = (if in_i64 (a + b) then Some (a + b) else None)"

text \<open>\<^verbatim>\<open>i64::MAX as u64\<close>, the largest value the SQLite columns hold.\<close>

definition i64_max_u64 :: u64 where
  "i64_max_u64 = 2 ^ 63 - 1"

lemma unat_i64_max_u64 [simp]: "unat i64_max_u64 = 9223372036854775807"
  by (simp add: i64_max_u64_def)

lemma i64_bounds [simp]:
  "i64_min = -9223372036854775808"
  "i64_max = 9223372036854775807"
  by (simp_all add: i64_min_def i64_max_def)

lemma clamp_i64_in [simp]: "in_i64 (clamp_i64 x)"
  by (simp add: clamp_i64_def in_i64_def)

lemma clamp_i64_id [rust_arith]: "in_i64 x \<Longrightarrow> clamp_i64 x = x"
  by (simp add: clamp_i64_def in_i64_def)

lemma clamp_i64_mono: "x \<le> y \<Longrightarrow> clamp_i64 x \<le> clamp_i64 y"
  by (simp add: clamp_i64_def)

lemma checked_sub_i64_eq_Some [rust_arith]:
  "checked_sub_i64 a b = Some c \<longleftrightarrow> c = a - b \<and> in_i64 c"
  by (auto simp: checked_sub_i64_def)

lemma checked_add_i64_eq_Some [rust_arith]:
  "checked_add_i64 a b = Some c \<longleftrightarrow> c = a + b \<and> in_i64 c"
  by (auto simp: checked_add_i64_def)

text \<open>\<^verbatim>\<open>u64::try_from(x)\<close> and \<^verbatim>\<open>u32::try_from(x)\<close> for a signed \<open>x\<close>.\<close>

definition word_try_from :: "int \<Rightarrow> 'a::len word option" where
  "word_try_from x = (if 0 \<le> x \<and> x < 2 ^ LENGTH('a) then Some (word_of_int x) else None)"

lemma word_try_from_eq_Some:
  "word_try_from x = Some w \<longleftrightarrow> x = int (unat w)"
proof
  assume "word_try_from x = Some w"
  then show "x = int (unat w)"
    by (auto simp: word_try_from_def unsigned_of_int take_bit_int_eq_self split: if_splits)
next
  fix w :: "'a word"
  assume eq: "x = int (unat w)"
  have "unat w < 2 ^ LENGTH('a)" by (rule unsigned_less)
  then have "x < 2 ^ LENGTH('a)" using eq
    by (metis of_nat_less_iff of_nat_numeral of_nat_power)
  with eq show "word_try_from x = Some w" by (simp add: word_try_from_def)
qed

lemma word_try_from_int [rust_arith]: "word_try_from (int n) = Some w \<longleftrightarrow> unat w = n"
  unfolding word_try_from_eq_Some by (metis of_nat_eq_iff)

section \<open>Strings\<close>

text \<open>
  A Rust \<^verbatim>\<open>String\<close> is its UTF-8 bytes, so \<open>length\<close> is \<^verbatim>\<open>len()\<close>.
  \<^verbatim>\<open>chars().count()\<close> counts the bytes that start a character. A character is a control
  character (Unicode category Cc) when it is one of the ASCII controls, DEL, or in
  U+0080..U+009F, whose encoding is the byte C2 followed by one of 80..9F.
\<close>

definition byte :: "char \<Rightarrow> nat" where
  "byte c = of_char c"

definition is_continuation :: "char \<Rightarrow> bool" where
  "is_continuation c \<longleftrightarrow> 128 \<le> byte c \<and> byte c < 192"

definition chars_count :: "string \<Rightarrow> nat" where
  "chars_count s = length (filter (\<lambda>c. \<not> is_continuation c) s)"

definition is_ascii_control :: "char \<Rightarrow> bool" where
  "is_ascii_control c \<longleftrightarrow> byte c < 32 \<or> byte c = 127"

fun has_control :: "string \<Rightarrow> bool" where
  "has_control [] = False"
| "has_control [c] = is_ascii_control c"
| "has_control (c # d # s) =
     (is_ascii_control c \<or> (byte c = 194 \<and> 128 \<le> byte d \<and> byte d < 160) \<or> has_control (d # s))"

lemma chars_count_le_length: "chars_count s \<le> length s"
  by (simp add: chars_count_def)

lemma has_control_ascii: "c \<in> set s \<Longrightarrow> is_ascii_control c \<Longrightarrow> has_control s"
  by (induction s rule: has_control.induct) auto

section \<open>Decimal printing\<close>

text \<open>\<^verbatim>\<open>format!("{}", n)\<close> for an unsigned integer.\<close>

definition digit_char :: "nat \<Rightarrow> char" where
  "digit_char d = char_of (48 + d)"

fun show_nat :: "nat \<Rightarrow> string" where
  "show_nat n = (if n < 10 then [digit_char n] else show_nat (n div 10) @ [digit_char (n mod 10)])"

declare show_nat.simps [simp del]

fun read_nat :: "string \<Rightarrow> nat" where
  "read_nat s = foldl (\<lambda>acc c. acc * 10 + (byte c - 48)) 0 s"

lemma byte_digit_char: "d < 10 \<Longrightarrow> byte (digit_char d) = 48 + d"
  by (simp add: byte_def digit_char_def)

lemma read_show_nat: "read_nat (show_nat n) = n"
proof (induction n rule: show_nat.induct)
  case (1 n)
  then show ?case
    by (cases "n < 10") (simp_all add: show_nat.simps [of n] byte_digit_char)
qed

lemma show_nat_inject [simp]: "show_nat m = show_nat n \<longleftrightarrow> m = n"
  by (metis read_show_nat)

lemma show_nat_digits: "c \<in> set (show_nat n) \<Longrightarrow> 48 \<le> byte c \<and> byte c < 58"
proof (induction n rule: show_nat.induct)
  case (1 n)
  then show ?case
    by (cases "n < 10") (auto simp: show_nat.simps [of n] byte_digit_char)
qed

lemma show_nat_no_colon [simp]: "CHR '':'' \<notin> set (show_nat n)"
  using show_nat_digits [of "CHR '':''" n] by (auto simp: byte_def)

text \<open>A separator that occurs in neither left part splits an append uniquely.\<close>

lemma append_sep_inject:
  assumes "x \<notin> set as" and "x \<notin> set bs"
  shows "as @ x # cs = bs @ x # ds \<longleftrightarrow> as = bs \<and> cs = ds"
proof
  assume eq: "as @ x # cs = bs @ x # ds"
  have "takeWhile (\<lambda>c. c \<noteq> x) (as @ x # cs) = as"
    and "takeWhile (\<lambda>c. c \<noteq> x) (bs @ x # ds) = bs"
    using assms by (auto simp: takeWhile_tail takeWhile_append2)
  with eq show "as = bs \<and> cs = ds" by auto
qed simp

section \<open>Tables\<close>

text \<open>
  A table is the list of its rows in insertion order. \<open>update_where p f\<close> is the effect of
  \<^verbatim>\<open>UPDATE .. SET f WHERE p\<close>; \<open>rows_where\<close> counts the rows it changes.
\<close>

definition update_where :: "('r \<Rightarrow> bool) \<Rightarrow> ('r \<Rightarrow> 'r) \<Rightarrow> 'r list \<Rightarrow> 'r list" where
  "update_where p f rs = map (\<lambda>r. if p r then f r else r) rs"

definition rows_where :: "('r \<Rightarrow> bool) \<Rightarrow> 'r list \<Rightarrow> nat" where
  "rows_where p rs = length (filter p rs)"

lemma set_update_where [table_simps]:
  "set (update_where p f rs) = (\<lambda>r. if p r then f r else r) ` set rs"
  by (simp add: update_where_def)

lemma length_update_where [table_simps, simp]: "length (update_where p f rs) = length rs"
  by (simp add: update_where_def)

lemma map_update_where [table_simps]:
  "(\<And>r. p r \<Longrightarrow> g (f r) = g r) \<Longrightarrow> map g (update_where p f rs) = map g rs"
  by (simp add: update_where_def)

lemma image_set_update_where [table_simps]:
  "(\<And>r. p r \<Longrightarrow> g (f r) = g r) \<Longrightarrow> g ` set (update_where p f rs) = g ` set rs"
  by (metis list.set_map map_update_where)

lemma update_where_Nil [table_simps, simp]: "update_where p f [] = []"
  by (simp add: update_where_def)

lemma update_where_Cons [table_simps]:
  "update_where p f (r # rs) = (if p r then f r else r) # update_where p f rs"
  by (simp add: update_where_def)

lemma update_where_none [table_simps]:
  "(\<And>r. r \<in> set rs \<Longrightarrow> \<not> p r) \<Longrightarrow> update_where p f rs = rs"
  by (simp add: update_where_def map_idI)

lemma find_update_where:
  assumes "\<And>r. p r \<Longrightarrow> q (f r) = q r"
  shows "find q (update_where p f rs) = map_option (\<lambda>r. if p r then f r else r) (find q rs)"
  using assms by (induction rs) (auto simp: update_where_Cons)

lemma find_SomeD: "find q rs = Some r \<Longrightarrow> r \<in> set rs \<and> q r"
  by (induction rs) (auto split: if_splits)

section \<open>Validated newtypes\<close>

text \<open>
  The contract of a newtype whose only constructor validates its argument: the constructor
  accepts exactly the valid raw values and keeps them, and the wrapped value determines the
  newtype. \<^verbatim>\<open>serde(try_from, into)\<close> deserialises with the constructor and serialises
  with the accessor, so the round trip below is the one a value makes over the wire or through
  the database.
\<close>

locale validated_newtype =
  fixes mk :: "'raw \<Rightarrow> 'e + 'a"
    and get :: "'a \<Rightarrow> 'raw"
    and valid :: "'raw \<Rightarrow> bool"
  assumes mk_valid: "mk r = Inr a \<Longrightarrow> valid r"
    and get_mk: "mk r = Inr a \<Longrightarrow> get a = r"
    and mk_total: "valid r \<Longrightarrow> is_ok (mk r)"
begin

lemma is_ok_mk [simp]: "is_ok (mk r) \<longleftrightarrow> valid r"
  using mk_valid mk_total by (auto simp: is_ok_iff)

lemma wire_round_trip: "mk r = Inr a \<Longrightarrow> mk (get a) = Inr a"
  using get_mk by simp

lemma accepted_is_valid: "mk r = Inr a \<Longrightarrow> valid (get a)"
  using get_mk mk_valid by simp

lemma mk_injective: "mk r = Inr a \<Longrightarrow> mk s = Inr a \<Longrightarrow> r = s"
  using get_mk by metis

lemma contract: "(is_ok (mk r) \<longleftrightarrow> valid r) \<and> (\<forall>a. mk r = Inr a \<longrightarrow> get a = r \<and> mk (get a) = Inr a)"
  using get_mk wire_round_trip by simp

end

end
