(* ===== verification/Ids.thy ===== *)
theory Ids
  imports Prelude
begin

text \<open>
  Strong identifiers, bounded counters and upstream text keys
  (\<^verbatim>\<open>crates/gridops-core/src/fleet/ids.rs\<close>). The two macros of the source are functions
  of the constructor they generate; each type they are applied to is a datatype with that
  constructor. Every constructor satisfies the contract of a validated newtype.
\<close>

section \<open>Fleet UUIDs\<close>

datatype nil_fleet_uuid = NilFleetUuid

datatype 'p fleet_id_parse_error = Parse_Malformed 'p | Parse_Nil nil_fleet_uuid

text \<open>\<^verbatim>\<open>macro_rules! fleet_uuid\<close>: the generated constructor rejects the nil UUID.\<close>

definition fleet_uuid_try_new :: "(uuid \<Rightarrow> 'id) \<Rightarrow> uuid \<Rightarrow> nil_fleet_uuid + 'id" where
  "fleet_uuid_try_new C v = (if v = 0 then Inl NilFleetUuid else Inr (C v))"

text \<open>
  The generated \<^verbatim>\<open>FromStr\<close> parses with the \<^verbatim>\<open>uuid\<close> crate, the
  parameter \<open>parse_str\<close>.
\<close>

definition fleet_uuid_from_str ::
  "(string \<Rightarrow> 'p + uuid) \<Rightarrow> (uuid \<Rightarrow> 'id) \<Rightarrow> string \<Rightarrow> 'p fleet_id_parse_error + 'id" where
  "fleet_uuid_from_str parse_str C s =
     rbind (map_err Parse_Malformed (parse_str s)) (\<lambda>u. map_err Parse_Nil (fleet_uuid_try_new C u))"

datatype host_id = HostId (host_uuid: uuid)
datatype backend_id = BackendId (backend_uuid: uuid)
datatype workload_id = WorkloadId (workload_uuid: uuid)
datatype placement_id = PlacementId (placement_uuid: uuid)
datatype command_id = CommandId (command_uuid: uuid)
datatype allocation_id = AllocationId (allocation_uuid: uuid)
datatype resource_domain_id = ResourceDomainId (resource_domain_uuid: uuid)
datatype profile_id = ProfileId (profile_uuid: uuid)
datatype operation_id = OperationId (operation_uuid: uuid)
datatype ci_target_id = CiTargetId (ci_target_uuid: uuid)
datatype session_id = SessionId (session_uuid: uuid)
datatype authority_session_id = AuthoritySessionId (authority_session_uuid: uuid)
datatype control_plane_incarnation = ControlPlaneIncarnation (incarnation_uuid: uuid)
datatype prepared_environment_id = PreparedEnvironmentId (prepared_environment_uuid: uuid)
datatype bootstrap_reference = BootstrapReference (bootstrap_uuid: uuid)
datatype log_stream_id = LogStreamId (log_stream_uuid: uuid)
datatype artifact_id = ArtifactId (artifact_uuid: uuid)
datatype release_manifest_id = ReleaseManifestId (release_manifest_uuid: uuid)
datatype event_id = EventId (event_uuid: uuid)
datatype result_id = ResultId (result_uuid: uuid)
datatype batch_id = BatchId (batch_uuid: uuid)
datatype diagnostic_id = DiagnosticId (diagnostic_uuid: uuid)

lemma fleet_uuid_newtype:
  assumes "\<And>u. get (C u) = u"
  shows "validated_newtype (fleet_uuid_try_new C) get (\<lambda>u. u \<noteq> 0)"
  by unfold_locales (auto simp: fleet_uuid_try_new_def assms split: if_splits)

interpretation host_newtype:
  validated_newtype "fleet_uuid_try_new HostId" host_uuid "\<lambda>u. u \<noteq> 0"
  by (rule fleet_uuid_newtype) simp

interpretation placement_newtype:
  validated_newtype "fleet_uuid_try_new PlacementId" placement_uuid "\<lambda>u. u \<noteq> 0"
  by (rule fleet_uuid_newtype) simp

section \<open>Bounded counters\<close>

definition MAX_COUNTER :: u64 where
  "MAX_COUNTER = i64_max_u64"

datatype counter_kind = Kind_HostEpoch | Kind_Generation | Kind_Revision

datatype counter_error = CounterError counter_kind u64

text \<open>\<^verbatim>\<open>macro_rules! bounded_counter\<close>.\<close>

definition bounded_counter_try_from ::
  "(u64 \<Rightarrow> 'c) \<Rightarrow> counter_kind \<Rightarrow> u64 \<Rightarrow> counter_error + 'c" where
  "bounded_counter_try_from C kind value =
     (if value = 0 \<or> value > MAX_COUNTER then Inl (CounterError kind value)
      else Inr (C value))"

datatype host_epoch = HostEpoch (epoch_get: u64)
datatype generation = Generation (generation_get: u64)
datatype revision = Revision (revision_get: u64)

definition host_epoch_new :: "u64 \<Rightarrow> counter_error + host_epoch" where
  "host_epoch_new = bounded_counter_try_from HostEpoch Kind_HostEpoch"

definition generation_new :: "u64 \<Rightarrow> counter_error + generation" where
  "generation_new = bounded_counter_try_from Generation Kind_Generation"

definition revision_new :: "u64 \<Rightarrow> counter_error + revision" where
  "revision_new = bounded_counter_try_from Revision Kind_Revision"

definition counter_valid :: "u64 \<Rightarrow> bool" where
  "counter_valid v \<longleftrightarrow> 1 \<le> unat v \<and> unat v \<le> 2 ^ 63 - 1"

lemma counter_guard_iff: "(v = 0 \<or> v > MAX_COUNTER) \<longleftrightarrow> \<not> counter_valid v"
  by (auto simp: counter_valid_def MAX_COUNTER_def word_less_nat_alt unat_eq_zero
      Suc_le_eq unat_gt_0)

lemma bounded_counter_newtype:
  assumes "\<And>u. get (C u) = u"
  shows "validated_newtype (bounded_counter_try_from C kind) get counter_valid"
  by unfold_locales
    (auto simp: bounded_counter_try_from_def counter_guard_iff assms split: if_splits)

interpretation epoch_newtype: validated_newtype host_epoch_new epoch_get counter_valid
  unfolding host_epoch_new_def by (rule bounded_counter_newtype) simp

interpretation generation_newtype: validated_newtype generation_new generation_get counter_valid
  unfolding generation_new_def by (rule bounded_counter_newtype) simp

interpretation revision_newtype: validated_newtype revision_new revision_get counter_valid
  unfolding revision_new_def by (rule bounded_counter_newtype) simp

text \<open>The derived order of the counters is the order of their values.\<close>

instantiation host_epoch :: linorder
begin

definition less_eq_host_epoch :: "host_epoch \<Rightarrow> host_epoch \<Rightarrow> bool" where
  "less_eq_host_epoch a b \<longleftrightarrow> epoch_get a \<le> epoch_get b"

definition less_host_epoch :: "host_epoch \<Rightarrow> host_epoch \<Rightarrow> bool" where
  "less_host_epoch a b \<longleftrightarrow> epoch_get a < epoch_get b"

instance
  by intro_classes
    (auto simp: less_eq_host_epoch_def less_host_epoch_def host_epoch.expand)

end

instantiation generation :: linorder
begin

definition less_eq_generation :: "generation \<Rightarrow> generation \<Rightarrow> bool" where
  "less_eq_generation a b \<longleftrightarrow> generation_get a \<le> generation_get b"

definition less_generation :: "generation \<Rightarrow> generation \<Rightarrow> bool" where
  "less_generation a b \<longleftrightarrow> generation_get a < generation_get b"

instance
  by intro_classes
    (auto simp: less_eq_generation_def less_generation_def generation.expand)

end

instantiation revision :: linorder
begin

definition less_eq_revision :: "revision \<Rightarrow> revision \<Rightarrow> bool" where
  "less_eq_revision a b \<longleftrightarrow> revision_get a \<le> revision_get b"

definition less_revision :: "revision \<Rightarrow> revision \<Rightarrow> bool" where
  "less_revision a b \<longleftrightarrow> revision_get a < revision_get b"

instance
  by intro_classes
    (auto simp: less_eq_revision_def less_revision_def revision.expand)

end

section \<open>Upstream text\<close>

text \<open>The \<^verbatim>\<open>kind\<close> field of each error is the literal the source puts there.\<close>

datatype fleet_text_error =
    Text_Empty string
  | Text_TooLong string nat
  | Text_Control string

datatype upstream_text = UpstreamText (as_str: string)

definition upstream_text_new :: "string \<Rightarrow> fleet_text_error + upstream_text" where
  "upstream_text_new value =
     (if value = [] then Inl (Text_Empty ''upstream text'')
      else if chars_count value > 128 then Inl (Text_TooLong ''upstream text'' 128)
      else if has_control value then Inl (Text_Control ''upstream text'')
      else Inr (UpstreamText value))"

definition upstream_text_valid :: "string \<Rightarrow> bool" where
  "upstream_text_valid s \<longleftrightarrow> s \<noteq> [] \<and> chars_count s \<le> 128 \<and> \<not> has_control s"

interpretation upstream_text_newtype:
  validated_newtype upstream_text_new as_str upstream_text_valid
  by unfold_locales
    (auto simp: upstream_text_new_def upstream_text_valid_def split: if_splits)

section \<open>Properties\<close>

text \<open>
  A counter is accepted exactly within 1 .. 2^63 - 1, the range the database column holds,
  keeps its value, and is accepted again when it is read back, for epochs, generations and
  revisions alike; an upstream text is accepted exactly when it is non-empty, at most 128
  characters long and free of control characters.
\<close>

theorem counters_and_text_round_trip:
  "(host_epoch_new v = Inr e \<longleftrightarrow> counter_valid v \<and> epoch_get e = v) \<and>
   (generation_new v = Inr g \<longleftrightarrow> counter_valid v \<and> generation_get g = v) \<and>
   (revision_new v = Inr r \<longleftrightarrow> counter_valid v \<and> revision_get r = v) \<and>
   (upstream_text_new s = Inr t \<longleftrightarrow>
      s \<noteq> [] \<and> chars_count s \<le> 128 \<and> \<not> has_control s \<and> as_str t = s)"
  by (cases e; cases g; cases r; cases t)
    (auto simp: host_epoch_new_def generation_new_def revision_new_def
      bounded_counter_try_from_def counter_guard_iff upstream_text_new_def)

end
