(* ===== verification/Domain.thy ===== *)
theory Domain
  imports Ids
begin

text \<open>
  Upstream CI targets and platforms, value types of
  \<^verbatim>\<open>crates/gridops-core/src/fleet/domain.rs\<close> (the lifecycle axes of that file are in
  the theory \<open>Lifecycle\<close>). The resource arithmetic of that file is in
  \<open>Resources\<close>. The scope key of a target determines the target.
\<close>

section \<open>Upstream identities\<close>

datatype external_id = ExternalId (external_get: u64)

datatype external_id_error = ExternalIdError u64 u64

definition external_id_try_from :: "u64 \<Rightarrow> external_id_error + external_id" where
  "external_id_try_from value =
     (if value = 0 \<or> value > i64_max_u64 then Inl (ExternalIdError value i64_max_u64)
      else Inr (ExternalId value))"

interpretation external_newtype:
  validated_newtype external_id_try_from external_get counter_valid
  by unfold_locales
    (auto simp: external_id_try_from_def counter_guard_iff [unfolded MAX_COUNTER_def]
      split: if_splits)

datatype bitbucket_connection_id = BitbucketConnectionId (connection_text: upstream_text)

definition bitbucket_connection_id_new ::
  "string \<Rightarrow> fleet_text_error + bitbucket_connection_id" where
  "bitbucket_connection_id_new value =
     rbind (upstream_text_new value) (\<lambda>t. Inr (BitbucketConnectionId t))"

abbreviation connection_str :: "bitbucket_connection_id \<Rightarrow> string" where
  "connection_str c \<equiv> as_str (connection_text c)"

interpretation connection_newtype:
  validated_newtype bitbucket_connection_id_new connection_str upstream_text_valid
  by unfold_locales
    (auto simp: bitbucket_connection_id_new_def result_splits is_ok_iff
      dest: upstream_text_newtype.mk_valid upstream_text_newtype.get_mk
        upstream_text_newtype.mk_total)

datatype non_nil_target_uuid = NonNilTargetUuid (target_uuid: uuid)

definition non_nil_target_uuid_new :: "uuid \<Rightarrow> nil_fleet_uuid + non_nil_target_uuid" where
  "non_nil_target_uuid_new value =
     (if value = 0 then Inl NilFleetUuid else Inr (NonNilTargetUuid value))"

interpretation target_uuid_newtype:
  validated_newtype non_nil_target_uuid_new target_uuid "\<lambda>u. u \<noteq> 0"
  by unfold_locales (auto simp: non_nil_target_uuid_new_def split: if_splits)

section \<open>CI targets\<close>

datatype ci_target =
    GithubRepository (installation_id: external_id) (repository_id: external_id)
  | GithubOrganization (installation_id: external_id) (organization_id: external_id)
  | BitbucketWorkspace (connection_id: bitbucket_connection_id)
      (workspace_uuid: non_nil_target_uuid)
  | BitbucketRepository (connection_id: bitbucket_connection_id)
      (workspace_uuid: non_nil_target_uuid) (repository_uuid: non_nil_target_uuid)

fun is_github :: "ci_target \<Rightarrow> bool" where
  "is_github (GithubRepository _ _) = True"
| "is_github (GithubOrganization _ _) = True"
| "is_github _ = False"

definition is_bitbucket :: "ci_target \<Rightarrow> bool" where
  "is_bitbucket t \<longleftrightarrow> \<not> is_github t"

text \<open>
  The display of a UUID belongs to the \<^verbatim>\<open>uuid\<close> crate and is the parameter
  \<open>show_uuid\<close>.
\<close>

fun canonical_key :: "(uuid \<Rightarrow> string) \<Rightarrow> ci_target \<Rightarrow> string" where
  "canonical_key show_uuid (GithubRepository inst repo) =
     ''github:repository:'' @ show_nat (unat (external_get inst)) @ '':'' @
     show_nat (unat (external_get repo))"
| "canonical_key show_uuid (GithubOrganization inst org) =
     ''github:organization:'' @ show_nat (unat (external_get inst)) @ '':'' @
     show_nat (unat (external_get org))"
| "canonical_key show_uuid (BitbucketWorkspace conn ws) =
     ''bitbucket:workspace:'' @ connection_str conn @ '':'' @ show_uuid (target_uuid ws)"
| "canonical_key show_uuid (BitbucketRepository conn ws repo) =
     ''bitbucket:repository:'' @ connection_str conn @ '':'' @ show_uuid (target_uuid ws) @
     '':'' @ show_uuid (target_uuid repo)"

text \<open>
  What the key relies on of the UUID display: different UUIDs print differently, in the fixed
  width of the hyphenated form.
\<close>

definition uuid_display :: "(uuid \<Rightarrow> string) \<Rightarrow> bool" where
  "uuid_display show_uuid \<longleftrightarrow> inj show_uuid \<and> (\<forall>u. length (show_uuid u) = 36)"

lemma connection_str_inject: "connection_str c = connection_str d \<longleftrightarrow> c = d"
  by (cases c; cases d) (auto intro: upstream_text.expand)

lemma target_uuid_inject: "target_uuid a = target_uuid b \<longleftrightarrow> a = b"
  by (cases a; cases b) simp

lemma external_get_inject: "external_get a = external_get b \<longleftrightarrow> a = b"
  by (cases a; cases b) simp

lemma github_key_inject:
  "show_nat (unat (external_get a)) @ CHR '':'' # show_nat (unat (external_get b)) =
   show_nat (unat (external_get c)) @ CHR '':'' # show_nat (unat (external_get d)) \<longleftrightarrow>
   a = c \<and> b = d"
  by (simp add: append_sep_inject external_get_inject flip: word_unat_eq_iff)

lemma uuid_suffix_inject:
  assumes "uuid_display show_uuid"
  shows "s @ CHR '':'' # show_uuid u = t @ CHR '':'' # show_uuid v \<longleftrightarrow> s = t \<and> u = v"
proof -
  have "length (show_uuid u) = length (show_uuid v)"
    using assms by (simp add: uuid_display_def)
  then have "s @ CHR '':'' # show_uuid u = t @ CHR '':'' # show_uuid v \<longleftrightarrow>
      s = t \<and> show_uuid u = show_uuid v"
    by (simp add: append_eq_append_conv)
  also have "\<dots> \<longleftrightarrow> s = t \<and> u = v"
    using assms by (auto simp: uuid_display_def inj_eq)
  finally show ?thesis .
qed

lemma uuid_suffix_inject2:
  assumes "uuid_display show_uuid"
  shows "s @ CHR '':'' # show_uuid u @ CHR '':'' # show_uuid v =
         t @ CHR '':'' # show_uuid u' @ CHR '':'' # show_uuid v' \<longleftrightarrow> s = t \<and> u = u' \<and> v = v'"
  using uuid_suffix_inject [OF assms, of "s @ CHR '':'' # show_uuid u" v
      "t @ CHR '':'' # show_uuid u'" v'] uuid_suffix_inject [OF assms, of s u t u']
  by auto

lemma canonical_key_inject:
  assumes "uuid_display show_uuid"
  shows "canonical_key show_uuid s = canonical_key show_uuid t \<longleftrightarrow> s = t"
  by (cases s; cases t)
    (simp_all add: github_key_inject uuid_suffix_inject [OF assms] uuid_suffix_inject2 [OF assms]
      connection_str_inject target_uuid_inject)

section \<open>Platforms\<close>

datatype runtime_kind = Docker | TartVm | NativeProcess

datatype execution_os = Linux | Macos | Windows

datatype architecture = X64 | Arm64

section \<open>Properties\<close>

text \<open>
  A display with the shape of the hyphenated form: 32 hexadecimal digits in groups of 8, 4, 4, 4
  and 12.
\<close>

definition nibble :: "uuid \<Rightarrow> nat \<Rightarrow> nat" where
  "nibble u i = unat (take_bit 4 (drop_bit (4 * i) u))"

definition hex_char :: "nat \<Rightarrow> char" where
  "hex_char d = char_of (if d < 10 then 48 + d else 87 + d)"

definition hex_digits :: "uuid \<Rightarrow> string" where
  "hex_digits u = map (\<lambda>i. hex_char (nibble u i)) (rev [0..<32])"

definition hyphenated :: "uuid \<Rightarrow> string" where
  "hyphenated u =
     (let h = hex_digits u
      in take 8 h @ ''-'' @ take 4 (drop 8 h) @ ''-'' @ take 4 (drop 12 h) @ ''-'' @
         take 4 (drop 16 h) @ ''-'' @ drop 20 h)"

lemma nibble_less: "nibble u i < 16"
  using take_bit_nat_less_exp [of 4 "unat (drop_bit (4 * i) u)"]
  by (simp add: nibble_def unsigned_take_bit_eq)

lemma hex_char_inject: "m < 16 \<Longrightarrow> n < 16 \<Longrightarrow> hex_char m = hex_char n \<longleftrightarrow> m = n"
  by (auto simp: hex_char_def char_of_eq_iff take_bit_nat_eq_self split: if_splits)

lemma nibbles_determine_uuid:
  assumes "\<And>i. i < 32 \<Longrightarrow> nibble u i = nibble v i"
  shows "u = v"
proof (rule bit_word_eqI)
  fix n
  assume "n < LENGTH(128)"
  then have "n div 4 < 32" and split: "4 * (n div 4) + n mod 4 = n" by simp_all
  from assms [OF this(1)]
  have "take_bit 4 (drop_bit (4 * (n div 4)) u) = take_bit 4 (drop_bit (4 * (n div 4)) v)"
    by (simp add: nibble_def flip: word_unat_eq_iff)
  then have "bit (take_bit 4 (drop_bit (4 * (n div 4)) u)) (n mod 4) =
      bit (take_bit 4 (drop_bit (4 * (n div 4)) v)) (n mod 4)" by simp
  then show "bit u n = bit v n"
    using split by (simp add: bit_take_bit_iff bit_drop_bit_eq)
qed

lemma hex_digits_inject: "hex_digits u = hex_digits v \<Longrightarrow> u = v"
  by (rule nibbles_determine_uuid) (auto simp: hex_digits_def hex_char_inject nibble_less)

lemma length_hex_digits: "length (hex_digits u) = 32"
  by (simp add: hex_digits_def)

lemma regroup:
  "take 8 h @ take 4 (drop 8 h) @ take 4 (drop 12 h) @ take 4 (drop 16 h) @ drop 20 h = h"
  using append_take_drop_id [of 4 "drop 16 h"] append_take_drop_id [of 4 "drop 12 h"]
    append_take_drop_id [of 4 "drop 8 h"]
  by simp

lemma hyphenated_display: "uuid_display hyphenated"
proof -
  have "u = v" if "hyphenated u = hyphenated v" for u v
  proof (rule hex_digits_inject)
    let ?parts = "\<lambda>h. [take 8 h, take 4 (drop 8 h), take 4 (drop 12 h), take 4 (drop 16 h),
                      drop 20 h]"
    from that have "?parts (hex_digits u) = ?parts (hex_digits v)"
      by (simp add: hyphenated_def Let_def length_hex_digits)
    then have "concat (?parts (hex_digits u)) = concat (?parts (hex_digits v))"
      by (rule arg_cong)
    then show "hex_digits u = hex_digits v" by (simp only: concat.simps append_Nil2 regroup)
  qed
  then show ?thesis
    by (auto simp: uuid_display_def inj_def hyphenated_def Let_def length_hex_digits)
qed

text \<open>
  The scope key identifies the target: two targets with the same canonical key are the same
  target, across all four kinds, for any UUID display that is injective and of fixed width, even
  though a Bitbucket connection name may itself contain the separator.
\<close>

theorem canonical_key_identifies_target:
  assumes "uuid_display show_uuid"
  shows "canonical_key show_uuid s = canonical_key show_uuid t \<longleftrightarrow> s = t"
  using assms by (rule canonical_key_inject)

theorem canonical_key_identifies_target_witness:
  "let c = BitbucketConnectionId (UpstreamText ''a:b''); w = NonNilTargetUuid 1
   in uuid_display hyphenated \<and>
      canonical_key hyphenated (BitbucketWorkspace c w) \<noteq>
      canonical_key hyphenated (BitbucketRepository c w w)"
  using hyphenated_display canonical_key_identifies_target [OF hyphenated_display]
  by (simp only: Let_def ci_target.distinct simp_thms)

end
