(* ===== verification/Resources.thy ===== *)
theory Resources
  imports Prelude
begin

text \<open>
  Integer resource units of \<^verbatim>\<open>crates/gridops-core/src/fleet/domain.rs\<close>: workload requests
  and the aggregates admission computes with. Amounts satisfy the contract of a resource ledger:
  addition and subtraction are exact in every dimension and \<open>fits\<close> compares every
  dimension, which is what makes the capacity check of admission sound.
\<close>

section \<open>Errors and bounds\<close>

datatype resource_error =
    CpuOutOfRange
  | MemoryOutOfRange
  | DiskOutOfRange
  | AmountOutOfRange u64
  | Underflow
  | Overflow

definition MAX_CPU_MILLIS :: u32 where
  "MAX_CPU_MILLIS = 4000000"

definition MAX_MEMORY_MIB :: u64 where
  "MAX_MEMORY_MIB = 4 * 1024 * 1024"

definition MAX_DISK_BYTES :: u64 where
  "MAX_DISK_BYTES = 64 * 1024 * 1024 * 1024 * 1024"

lemma unat_resource_maxima [simp]:
  "unat MAX_CPU_MILLIS = 4000000"
  "unat MAX_MEMORY_MIB = 4194304"
  "unat MAX_DISK_BYTES = 70368744177664"
  by (simp_all add: MAX_CPU_MILLIS_def MAX_MEMORY_MIB_def MAX_DISK_BYTES_def)

section \<open>Workload requests\<close>

record resource_request =
  rr_cpu_millis :: u32
  rr_memory_mib :: u64
  rr_disk_bytes :: u64

definition resource_request_new ::
  "u32 \<Rightarrow> u64 \<Rightarrow> u64 \<Rightarrow> resource_error + resource_request" where
  "resource_request_new cpu_millis memory_mib disk_bytes =
     (if cpu_millis = 0 \<or> cpu_millis > MAX_CPU_MILLIS then Inl CpuOutOfRange
      else if memory_mib = 0 \<or> memory_mib > MAX_MEMORY_MIB then Inl MemoryOutOfRange
      else if disk_bytes > MAX_DISK_BYTES then Inl DiskOutOfRange
      else Inr \<lparr>rr_cpu_millis = cpu_millis, rr_memory_mib = memory_mib,
                rr_disk_bytes = disk_bytes\<rparr>)"

definition resource_request_checked_add ::
  "resource_request \<Rightarrow> resource_request \<Rightarrow> resource_error + resource_request" where
  "resource_request_checked_add a b =
     rbind (ok_or (checked_add (rr_cpu_millis a) (rr_cpu_millis b)) Overflow) (\<lambda>cpu.
     rbind (ok_or (checked_add (rr_memory_mib a) (rr_memory_mib b)) Overflow) (\<lambda>mem.
     rbind (ok_or (checked_add (rr_disk_bytes a) (rr_disk_bytes b)) Overflow) (\<lambda>disk.
     resource_request_new cpu mem disk)))"

definition request_wf :: "resource_request \<Rightarrow> bool" where
  "request_wf r \<longleftrightarrow>
     1 \<le> unat (rr_cpu_millis r) \<and> unat (rr_cpu_millis r) \<le> 4000000 \<and>
     1 \<le> unat (rr_memory_mib r) \<and> unat (rr_memory_mib r) \<le> 4194304 \<and>
     unat (rr_disk_bytes r) \<le> 70368744177664"

lemma resource_request_new_eq_Inr:
  "resource_request_new c m d = Inr r \<longleftrightarrow>
     r = \<lparr>rr_cpu_millis = c, rr_memory_mib = m, rr_disk_bytes = d\<rparr> \<and> request_wf r"
  by (auto simp: resource_request_new_def request_wf_def word_less_nat_alt Suc_le_eq
      unat_gt_0 split: if_splits)

text \<open>
  Two well-formed requests never overflow a machine integer: their sum either is a well-formed
  request or exceeds one of the documented maxima.
\<close>

lemma request_add_exact:
  assumes "request_wf a" and "request_wf b"
  shows "resource_request_checked_add a b =
    resource_request_new (rr_cpu_millis a + rr_cpu_millis b)
      (rr_memory_mib a + rr_memory_mib b) (rr_disk_bytes a + rr_disk_bytes b)"
  using assms
  by (simp add: resource_request_checked_add_def request_wf_def checked_add_def)

lemma unat_request_add:
  assumes "request_wf a" and "request_wf b"
  shows "unat (rr_cpu_millis a + rr_cpu_millis b) =
      unat (rr_cpu_millis a) + unat (rr_cpu_millis b)"
    and "unat (rr_memory_mib a + rr_memory_mib b) =
      unat (rr_memory_mib a) + unat (rr_memory_mib b)"
    and "unat (rr_disk_bytes a + rr_disk_bytes b) =
      unat (rr_disk_bytes a) + unat (rr_disk_bytes b)"
  using assms by (simp_all add: request_wf_def unat_word_ariths)

section \<open>Aggregate amounts\<close>

record resource_amount =
  ra_cpu_millis :: u64
  ra_memory_mib :: u64
  ra_disk_bytes :: u64

definition amount_zero :: resource_amount where
  "amount_zero = \<lparr>ra_cpu_millis = 0, ra_memory_mib = 0, ra_disk_bytes = 0\<rparr>"

definition resource_amount_new ::
  "u64 \<Rightarrow> u64 \<Rightarrow> u64 \<Rightarrow> resource_error + resource_amount" where
  "resource_amount_new cpu_millis memory_mib disk_bytes =
     (if \<exists>value \<in> set [cpu_millis, memory_mib, disk_bytes]. value > i64_max_u64
      then Inl (AmountOutOfRange i64_max_u64)
      else Inr \<lparr>ra_cpu_millis = cpu_millis, ra_memory_mib = memory_mib,
                ra_disk_bytes = disk_bytes\<rparr>)"

definition amount_from_request :: "resource_request \<Rightarrow> resource_error + resource_amount" where
  "amount_from_request r =
     resource_amount_new (ucast (rr_cpu_millis r)) (rr_memory_mib r) (rr_disk_bytes r)"

definition amount_checked_add ::
  "resource_amount \<Rightarrow> resource_amount \<Rightarrow> resource_error + resource_amount" where
  "amount_checked_add a b =
     rbind (ok_or (checked_add (ra_cpu_millis a) (ra_cpu_millis b)) Overflow) (\<lambda>cpu.
     rbind (ok_or (checked_add (ra_memory_mib a) (ra_memory_mib b)) Overflow) (\<lambda>mem.
     rbind (ok_or (checked_add (ra_disk_bytes a) (ra_disk_bytes b)) Overflow) (\<lambda>disk.
     resource_amount_new cpu mem disk)))"

definition amount_checked_sub ::
  "resource_amount \<Rightarrow> resource_amount \<Rightarrow> resource_error + resource_amount" where
  "amount_checked_sub a b =
     rbind (ok_or (checked_sub (ra_cpu_millis a) (ra_cpu_millis b)) Underflow) (\<lambda>cpu.
     rbind (ok_or (checked_sub (ra_memory_mib a) (ra_memory_mib b)) Underflow) (\<lambda>mem.
     rbind (ok_or (checked_sub (ra_disk_bytes a) (ra_disk_bytes b)) Underflow) (\<lambda>disk.
     resource_amount_new cpu mem disk)))"

definition amount_fits :: "resource_amount \<Rightarrow> resource_request \<Rightarrow> bool" where
  "amount_fits a r \<longleftrightarrow>
     ra_cpu_millis a \<ge> ucast (rr_cpu_millis r) \<and>
     ra_memory_mib a \<ge> rr_memory_mib r \<and>
     ra_disk_bytes a \<ge> rr_disk_bytes r"

text \<open>\<^verbatim>\<open>ResourceAmountExt::fits_request\<close> of the admission module.\<close>

definition amount_fits_request :: "resource_amount \<Rightarrow> resource_amount \<Rightarrow> bool" where
  "amount_fits_request a r \<longleftrightarrow>
     ra_cpu_millis a \<ge> ra_cpu_millis r \<and>
     ra_memory_mib a \<ge> ra_memory_mib r \<and>
     ra_disk_bytes a \<ge> ra_disk_bytes r"

section \<open>The ledger contract\<close>

datatype resource_dim = Cpu | Memory | Disk

lemma all_dims: "(\<forall>k. P k) \<longleftrightarrow> P Cpu \<and> P Memory \<and> P Disk"
  by (metis resource_dim.exhaust)

fun amount_dim :: "resource_dim \<Rightarrow> resource_amount \<Rightarrow> nat" where
  "amount_dim Cpu a = unat (ra_cpu_millis a)"
| "amount_dim Memory a = unat (ra_memory_mib a)"
| "amount_dim Disk a = unat (ra_disk_bytes a)"

definition amount_wf :: "resource_amount \<Rightarrow> bool" where
  "amount_wf a \<longleftrightarrow> (\<forall>k. amount_dim k a \<le> 9223372036854775807)"

text \<open>Adding up a list from a starting balance, stopping at the first error.\<close>

fun ledger_sum :: "('a \<Rightarrow> 'a \<Rightarrow> 'e + 'a) \<Rightarrow> 'a \<Rightarrow> 'a list \<Rightarrow> 'e + 'a" where
  "ledger_sum add acc [] = Inr acc"
| "ledger_sum add acc (x # xs) = rbind (add acc x) (\<lambda>acc'. ledger_sum add acc' xs)"

locale resource_ledger =
  fixes zero :: 'a
    and add :: "'a \<Rightarrow> 'a \<Rightarrow> 'e + 'a"
    and sub :: "'a \<Rightarrow> 'a \<Rightarrow> 'e + 'a"
    and fits :: "'a \<Rightarrow> 'a \<Rightarrow> bool"
    and dim :: "'k \<Rightarrow> 'a \<Rightarrow> nat"
  assumes dim_zero: "dim k zero = 0"
    and dim_add: "add a b = Inr c \<Longrightarrow> dim k c = dim k a + dim k b"
    and dim_sub: "sub a b = Inr c \<Longrightarrow> dim k a = dim k c + dim k b"
    and dim_fits: "fits a r \<longleftrightarrow> (\<forall>k. dim k r \<le> dim k a)"
begin

lemma dim_ledger_sum:
  "ledger_sum add acc xs = Inr t \<Longrightarrow> dim k t = dim k acc + (\<Sum>x\<leftarrow>xs. dim k x)"
  by (induction xs arbitrary: acc) (auto simp: result_splits dim_add)

lemma dim_total: "ledger_sum add zero xs = Inr t \<Longrightarrow> dim k t = (\<Sum>x\<leftarrow>xs. dim k x)"
  using dim_ledger_sum dim_zero by fastforce

text \<open>
  The admission argument: what is charged plus what is asked for stays within the capacity when
  the request fits what subtraction leaves.
\<close>

lemma charged_plus_request_within_capacity:
  assumes "ledger_sum add zero charged = Inr used" and "sub cap used = Inr remaining"
    and "fits remaining request"
  shows "(\<Sum>x\<leftarrow>charged. dim k x) + dim k request \<le> dim k cap"
  using assms(3) dim_sub [OF assms(2), of k] dim_total [OF assms(1), of k]
  by (auto simp: dim_fits dest: spec [of _ k])

end

lemma resource_amount_new_eq_Inr:
  "resource_amount_new c m d = Inr a \<longleftrightarrow>
     a = \<lparr>ra_cpu_millis = c, ra_memory_mib = m, ra_disk_bytes = d\<rparr> \<and> amount_wf a"
  by (auto simp: resource_amount_new_def amount_wf_def all_dims word_less_nat_alt not_less)

lemma amount_eq_iff_dims:
  fixes a b :: resource_amount
  shows "a = b \<longleftrightarrow> (\<forall>k. amount_dim k a = amount_dim k b)"
  by (cases a; cases b) (simp add: all_dims word_unat_eq_iff)

lemma amount_checked_add_eq_Inr:
  "amount_checked_add a b = Inr c \<longleftrightarrow>
     (\<forall>k. amount_dim k c = amount_dim k a + amount_dim k b) \<and> amount_wf c"
  by (cases c)
    (auto simp: amount_checked_add_def result_splits rust_arith resource_amount_new_eq_Inr
      all_dims)

lemma amount_checked_sub_eq_Inr:
  "amount_checked_sub a b = Inr c \<longleftrightarrow>
     (\<forall>k. amount_dim k a = amount_dim k c + amount_dim k b) \<and> amount_wf c"
  by (cases c)
    (auto simp: amount_checked_sub_def result_splits rust_arith resource_amount_new_eq_Inr
      all_dims)

lemma amount_fits_request_iff:
  "amount_fits_request a r \<longleftrightarrow> (\<forall>k. amount_dim k r \<le> amount_dim k a)"
  by (simp add: amount_fits_request_def word_le_nat_alt all_dims)

interpretation amounts: resource_ledger
  amount_zero amount_checked_add amount_checked_sub amount_fits_request amount_dim
proof unfold_locales
  show "amount_dim k amount_zero = 0" for k by (cases k) (simp_all add: amount_zero_def)
qed (auto simp: amount_checked_add_eq_Inr amount_checked_sub_eq_Inr amount_fits_request_iff)

lemma amount_from_request_wf:
  assumes "request_wf r"
  obtains a where "amount_from_request r = Inr a"
    and "amount_dim Cpu a = unat (rr_cpu_millis r)"
    and "amount_dim Memory a = unat (rr_memory_mib r)"
    and "amount_dim Disk a = unat (rr_disk_bytes r)"
proof -
  let ?a = "\<lparr>ra_cpu_millis = ucast (rr_cpu_millis r), ra_memory_mib = rr_memory_mib r,
             ra_disk_bytes = rr_disk_bytes r\<rparr>"
  have cpu: "unat (ucast (rr_cpu_millis r) :: u64) = unat (rr_cpu_millis r)"
    using assms by (simp add: unsigned_ucast_eq take_bit_nat_eq_self request_wf_def)
  have "amount_dim k ?a \<le> 9223372036854775807" for k
    using assms by (cases k) (auto simp: request_wf_def cpu)
  then have "amount_from_request r = Inr ?a"
    by (simp add: amount_from_request_def resource_amount_new_eq_Inr amount_wf_def)
  then show thesis using that cpu by simp
qed

lemma amount_fits_via_request:
  assumes "amount_from_request r = Inr q"
  shows "amount_fits a r \<longleftrightarrow> amount_fits_request a q"
  using assms
  by (auto simp: amount_from_request_def resource_amount_new_eq_Inr amount_fits_def
      amount_fits_request_def)

section \<open>Properties\<close>

text \<open>
  Adding two well-formed requests never wraps a machine integer: it yields the exact sum in
  every dimension when that is within the documented maxima, and otherwise the error of the first
  dimension that is exceeded, never \<open>Overflow\<close>.
\<close>

theorem request_addition_exact_or_named_error:
  assumes "request_wf a" and "request_wf b"
  shows "case resource_request_checked_add a b of
      Inr c \<Rightarrow> request_wf c \<and>
        unat (rr_cpu_millis c) = unat (rr_cpu_millis a) + unat (rr_cpu_millis b) \<and>
        unat (rr_memory_mib c) = unat (rr_memory_mib a) + unat (rr_memory_mib b) \<and>
        unat (rr_disk_bytes c) = unat (rr_disk_bytes a) + unat (rr_disk_bytes b)
    | Inl CpuOutOfRange \<Rightarrow> unat (rr_cpu_millis a) + unat (rr_cpu_millis b) > 4000000
    | Inl MemoryOutOfRange \<Rightarrow> unat (rr_memory_mib a) + unat (rr_memory_mib b) > 4194304
    | Inl DiskOutOfRange \<Rightarrow> unat (rr_disk_bytes a) + unat (rr_disk_bytes b) > 70368744177664
    | Inl _ \<Rightarrow> False"
proof (cases "resource_request_checked_add a b")
  case (Inr c)
  then have "request_wf c" and "rr_cpu_millis c = rr_cpu_millis a + rr_cpu_millis b"
    and "rr_memory_mib c = rr_memory_mib a + rr_memory_mib b"
    and "rr_disk_bytes c = rr_disk_bytes a + rr_disk_bytes b"
    using request_add_exact [OF assms] by (auto simp: resource_request_new_eq_Inr)
  with Inr show ?thesis using unat_request_add [OF assms] by simp
next
  case (Inl e)
  have "rr_cpu_millis a + rr_cpu_millis b \<noteq> 0" and "rr_memory_mib a + rr_memory_mib b \<noteq> 0"
    using unat_request_add [OF assms] assms by (auto simp: request_wf_def unat_eq_zero)
  with Inl show ?thesis
    using request_add_exact [OF assms] unat_request_add [OF assms]
    by (auto simp: resource_request_new_def word_less_nat_alt split: if_splits)
qed

theorem request_addition_exact_or_named_error_witness:
  "let a = \<lparr>rr_cpu_millis = 3000000, rr_memory_mib = 5, rr_disk_bytes = 0\<rparr>
   in request_wf a \<and> resource_request_checked_add a a = Inl CpuOutOfRange \<and>
      unat (rr_cpu_millis a) + unat (rr_cpu_millis a) > 4000000"
proof -
  let ?a = "\<lparr>rr_cpu_millis = 3000000, rr_memory_mib = 5, rr_disk_bytes = 0\<rparr>"
  have wf: "request_wf ?a" by (simp add: request_wf_def)
  have run: "resource_request_checked_add ?a ?a = Inl CpuOutOfRange"
    by (simp add: request_add_exact [OF wf wf] resource_request_new_def MAX_CPU_MILLIS_def)
  from request_addition_exact_or_named_error [OF wf wf] wf run show ?thesis
    by (simp add: Let_def)
qed

text \<open>
  Amount arithmetic is exact: addition and subtraction agree with the natural numbers in
  every dimension and stay within the signed 64-bit range, and subtracting what was added gives
  the amount back.
\<close>

theorem amount_arithmetic_exact:
  "(amount_checked_add a b = Inr c \<longleftrightarrow>
      (\<forall>k. amount_dim k c = amount_dim k a + amount_dim k b) \<and> amount_wf c) \<and>
   (amount_checked_sub c b = Inr a \<longleftrightarrow>
      (\<forall>k. amount_dim k c = amount_dim k a + amount_dim k b) \<and> amount_wf a)"
  by (simp add: amount_checked_add_eq_Inr amount_checked_sub_eq_Inr)

text \<open>
  The capacity check is sound: when the charged amounts add up, subtract from the capacity
  and the request fits the remainder, the charges and the request together stay within the
  capacity in every dimension, as natural numbers.
\<close>

theorem admission_arithmetic_sound:
  assumes "ledger_sum amount_checked_add amount_zero charged = Inr used"
    and "amount_checked_sub cap used = Inr remaining"
    and "amount_fits_request remaining request"
  shows "(\<Sum>x\<leftarrow>charged. amount_dim k x) + amount_dim k request \<le> amount_dim k cap"
  using assms by (rule amounts.charged_plus_request_within_capacity)

theorem admission_arithmetic_sound_witness:
  "let c = \<lparr>ra_cpu_millis = 4000, ra_memory_mib = 8192, ra_disk_bytes = 100\<rparr>;
       r = \<lparr>ra_cpu_millis = 2000, ra_memory_mib = 1024, ra_disk_bytes = 50\<rparr>
   in (\<Sum>x\<leftarrow>[r]. amount_dim Cpu x) + amount_dim Cpu r \<le> amount_dim Cpu c"
proof -
  let ?c = "\<lparr>ra_cpu_millis = 4000, ra_memory_mib = 8192, ra_disk_bytes = 100\<rparr>"
  let ?r = "\<lparr>ra_cpu_millis = 2000, ra_memory_mib = 1024, ra_disk_bytes = 50\<rparr>"
  let ?m = "\<lparr>ra_cpu_millis = 2000, ra_memory_mib = 7168, ra_disk_bytes = 50\<rparr>"
  have "ledger_sum amount_checked_add amount_zero [?r] = Inr ?r"
    by (simp add: amount_checked_add_def amount_zero_def checked_add_def rbind_eq_Inr
        resource_amount_new_eq_Inr amount_wf_def all_dims)
  moreover have "amount_checked_sub ?c ?r = Inr ?m"
    by (simp add: amount_checked_sub_def checked_sub_def resource_amount_new_eq_Inr
        amount_wf_def all_dims)
  moreover have "amount_fits_request ?m ?r" by (simp add: amount_fits_request_def)
  ultimately have "(\<Sum>x\<leftarrow>[?r]. amount_dim Cpu x) + amount_dim Cpu ?r \<le> amount_dim Cpu ?c"
    by (rule admission_arithmetic_sound)
  then show ?thesis by (simp add: Let_def)
qed

end
