(* ===== verification/Primitives.thy ===== *)
theory Primitives
  imports Ids
begin

text \<open>
  Bounded wire primitives and deployment limits
  (\<^verbatim>\<open>crates/gridops-core/src/fleet/protocol/primitives.rs\<close> and
  \<^verbatim>\<open>limits.rs\<close>). Base64, SHA-256, JSON and calendar arithmetic belong to the
  crates \<^verbatim>\<open>base64\<close>, \<^verbatim>\<open>sha2\<close>, \<^verbatim>\<open>serde_json\<close> and
  \<^verbatim>\<open>chrono\<close> and are arguments of the definitions that call them. Every bounded
  primitive satisfies the contract of a validated newtype, and a sandbox path never leaves its
  root.
\<close>

section \<open>Constants and errors\<close>

definition MAX_SAFE_INTEGER :: nat where
  "MAX_SAFE_INTEGER = 9007199254740991"

definition MAX_DATABASE_INTEGER :: nat where
  "MAX_DATABASE_INTEGER = 9223372036854775807"

definition MAX_JSON_BYTES :: nat where
  "MAX_JSON_BYTES = 2 * 1024 * 1024"

definition MAX_BATCH_BYTES :: nat where
  "MAX_BATCH_BYTES = 256 * 1024"

definition MAX_CHUNK_BYTES :: nat where
  "MAX_CHUNK_BYTES = 256 * 1024"

definition MAX_RESOURCE_DOMAIN_DEPTH :: nat where
  "MAX_RESOURCE_DOMAIN_DEPTH = 64"

datatype contract_error =
    IntegerRange
  | PayloadTooLarge
  | InvalidJson
  | InvalidTimestamp
  | InvalidText
  | UnsafePath

text \<open>The functions of the crates \<^verbatim>\<open>base64\<close> (URL-safe, no padding) and \<^verbatim>\<open>sha2\<close>.\<close>

record byte_codec =
  b64_encode :: "u8 list \<Rightarrow> string"
  b64_decode :: "string \<Rightarrow> u8 list option"
  sha256 :: "u8 list \<Rightarrow> u8 list"

text \<open>
  What the code relies on: decoding inverts encoding, an encoding of \<open>n\<close> bytes has
  \<open>\<lceil>4n/3\<rceil>\<close> characters, and a digest has 32 bytes.
\<close>

definition byte_codec_laws :: "byte_codec \<Rightarrow> bool" where
  "byte_codec_laws k \<longleftrightarrow>
     (\<forall>bs. b64_decode k (b64_encode k bs) = Some bs) \<and>
     (\<forall>bs. length (b64_encode k bs) = (4 * length bs + 2) div 3) \<and>
     (\<forall>bs. length (sha256 k bs) = 32)"

section \<open>Digests\<close>

datatype sha256_digest = Sha256Digest (digest_bytes: "u8 list")

definition sha256_digest_of :: "byte_codec \<Rightarrow> u8 list \<Rightarrow> sha256_digest" where
  "sha256_digest_of k bytes = Sha256Digest (sha256 k bytes)"

definition sha256_digest_try_from :: "byte_codec \<Rightarrow> string \<Rightarrow> contract_error + sha256_digest" where
  "sha256_digest_try_from k value =
     (if length value \<noteq> 43 then Inl InvalidText
      else case b64_decode k value of
        None \<Rightarrow> Inl InvalidText
      | Some bytes \<Rightarrow>
          if b64_encode k bytes \<noteq> value then Inl InvalidText
          else if length bytes \<noteq> 32 then Inl InvalidText
          else Inr (Sha256Digest bytes))"

definition sha256_digest_string :: "byte_codec \<Rightarrow> sha256_digest \<Rightarrow> string" where
  "sha256_digest_string k d = b64_encode k (digest_bytes d)"

section \<open>Bounded integers\<close>

text \<open>
  \<^verbatim>\<open>BoundedInteger<MIN, MAX>\<close>: the const generics are arguments of the constructor. Its
  instances are the aliases of the source.
\<close>

datatype bounded_integer = BoundedInteger (bounded_get: u64)

definition bounded_integer_new :: "nat \<Rightarrow> nat \<Rightarrow> u64 \<Rightarrow> contract_error + bounded_integer" where
  "bounded_integer_new lo hi value =
     (if \<not> (lo \<le> unat value \<and> unat value \<le> hi) then Inl IntegerRange
      else Inr (BoundedInteger value))"

abbreviation browser_uint53_new :: "u64 \<Rightarrow> contract_error + bounded_integer" where
  "browser_uint53_new \<equiv> bounded_integer_new 0 MAX_SAFE_INTEGER"

abbreviation byte_offset_new :: "u64 \<Rightarrow> contract_error + bounded_integer" where
  "byte_offset_new \<equiv> bounded_integer_new 0 MAX_DATABASE_INTEGER"

abbreviation protocol_version_new :: "u64 \<Rightarrow> contract_error + bounded_integer" where
  "protocol_version_new \<equiv> bounded_integer_new 1 1"

abbreviation attempt_number_new :: "u64 \<Rightarrow> contract_error + bounded_integer" where
  "attempt_number_new \<equiv> bounded_integer_new 1 10"

interpretation bounded_integer: validated_newtype "bounded_integer_new lo hi" bounded_get
  "\<lambda>v. lo \<le> unat v \<and> unat v \<le> hi" for lo hi
  by unfold_locales (auto simp: bounded_integer_new_def split: if_splits)

section \<open>Timestamps\<close>

text \<open>
  A wire timestamp is a UTC instant of millisecond precision, kept as its milliseconds. The
  calendar is \<^verbatim>\<open>chrono\<close>'s: \<open>year_of\<close> is
  \<^verbatim>\<open>from_timestamp_millis\<close> followed by \<^verbatim>\<open>year()\<close>, nothing where the former
  has no value.
\<close>

datatype wire_timestamp = WireTimestamp (ts_millis: i64)

instantiation wire_timestamp :: linorder
begin

definition less_eq_wire_timestamp :: "wire_timestamp \<Rightarrow> wire_timestamp \<Rightarrow> bool" where
  "less_eq_wire_timestamp a b \<longleftrightarrow> ts_millis a \<le> ts_millis b"

definition less_wire_timestamp :: "wire_timestamp \<Rightarrow> wire_timestamp \<Rightarrow> bool" where
  "less_wire_timestamp a b \<longleftrightarrow> ts_millis a < ts_millis b"

instance
  by intro_classes
    (auto simp: less_eq_wire_timestamp_def less_wire_timestamp_def wire_timestamp.expand)

end

definition wire_timestamp_from_millis ::
  "(i64 \<Rightarrow> int option) \<Rightarrow> i64 \<Rightarrow> contract_error + wire_timestamp" where
  "wire_timestamp_from_millis year_of value =
     (case year_of value of
        Some y \<Rightarrow> if 0 \<le> y \<and> y \<le> 9999 then Inr (WireTimestamp value) else Inl InvalidTimestamp
      | None \<Rightarrow> Inl InvalidTimestamp)"

text \<open>What \<^verbatim>\<open>DateTime::parse_from_rfc3339\<close> returns, as far as the code reads it.\<close>

record parsed_instant =
  pi_offset_seconds :: int
  pi_year :: int
  pi_subsec_nanos :: nat
  pi_millis :: i64

definition ends_with :: "string \<Rightarrow> string \<Rightarrow> bool" where
  "ends_with s t \<longleftrightarrow> length t \<le> length s \<and> drop (length s - length t) s = t"

definition wire_timestamp_try_from ::
  "(string \<Rightarrow> parsed_instant option) \<Rightarrow> string \<Rightarrow> contract_error + wire_timestamp" where
  "wire_timestamp_try_from parse_rfc3339 value =
     (if length value > 32 \<or> CHR ''T'' \<notin> set value \<or>
         \<not> (ends_with value ''Z'' \<or> ends_with value ''+00:00'' \<or> ends_with value ''-00:00'')
      then Inl InvalidTimestamp
      else case parse_rfc3339 value of
        None \<Rightarrow> Inl InvalidTimestamp
      | Some parsed \<Rightarrow>
          if pi_offset_seconds parsed \<noteq> 0 \<or>
             \<not> (0 \<le> pi_year parsed \<and> pi_year parsed \<le> 9999) \<or>
             pi_subsec_nanos parsed \<ge> 1000000000 \<or>
             pi_subsec_nanos parsed mod 1000000 \<noteq> 0
          then Inl InvalidTimestamp
          else Inr (WireTimestamp (pi_millis parsed)))"

section \<open>Bounded text\<close>

datatype log_text = LogText (log_str: string)

definition log_text_try_from :: "string \<Rightarrow> contract_error + log_text" where
  "log_text_try_from value =
     (if length value > MAX_CHUNK_BYTES then Inl PayloadTooLarge else Inr (LogText value))"

datatype sandbox_argument = SandboxArgument (argument_str: string)

definition sandbox_argument_try_from :: "string \<Rightarrow> contract_error + sandbox_argument" where
  "sandbox_argument_try_from value =
     (if length value > 16384 \<or> CHR 0x00 \<in> set value then Inl InvalidText
      else Inr (SandboxArgument value))"

datatype sandbox_program = SandboxProgram (program_str: string)

definition sandbox_program_try_from :: "string \<Rightarrow> contract_error + sandbox_program" where
  "sandbox_program_try_from value =
     (if value = [] \<or> length value > 1024 \<or> CHR 0x00 \<in> set value then Inl InvalidText
      else Inr (SandboxProgram value))"

datatype image_reference = ImageReference (image_str: string)

definition image_reference_try_from :: "string \<Rightarrow> contract_error + image_reference" where
  "image_reference_try_from value =
     (if value = [] \<or> chars_count value > 300 \<or> has_control value then Inl InvalidText
      else Inr (ImageReference value))"

datatype idempotency_key = IdempotencyKey (key_str: string)

definition idempotency_key_try_from :: "string \<Rightarrow> contract_error + idempotency_key" where
  "idempotency_key_try_from value =
     (if value = [] \<or> length value > 128 \<or>
         \<not> (\<forall>c \<in> set value. 0x21 \<le> byte c \<and> byte c \<le> 0x7e)
      then Inl InvalidText
      else Inr (IdempotencyKey value))"

interpretation sandbox_argument: validated_newtype sandbox_argument_try_from argument_str
  "\<lambda>s. length s \<le> 16384 \<and> CHR 0x00 \<notin> set s"
  by unfold_locales (auto simp: sandbox_argument_try_from_def split: if_splits)

interpretation sandbox_program: validated_newtype sandbox_program_try_from program_str
  "\<lambda>s. s \<noteq> [] \<and> length s \<le> 1024 \<and> CHR 0x00 \<notin> set s"
  by unfold_locales (auto simp: sandbox_program_try_from_def split: if_splits)

interpretation image_reference: validated_newtype image_reference_try_from image_str
  "\<lambda>s. s \<noteq> [] \<and> chars_count s \<le> 300 \<and> \<not> has_control s"
  by unfold_locales (auto simp: image_reference_try_from_def split: if_splits)

interpretation idempotency_key: validated_newtype idempotency_key_try_from key_str
  "\<lambda>s. s \<noteq> [] \<and> length s \<le> 128 \<and> (\<forall>c \<in> set s. 0x21 \<le> byte c \<and> byte c \<le> 0x7e)"
  by unfold_locales (auto simp: idempotency_key_try_from_def split: if_splits)

section \<open>Sandbox paths\<close>

text \<open>\<^verbatim>\<open>str::split\<close> on one character: the parts between separators, empty ones kept.\<close>

fun split_on :: "char \<Rightarrow> string \<Rightarrow> string list" where
  "split_on x [] = [[]]"
| "split_on x (c # s) =
     (if c = x then [] # split_on x s
      else case split_on x s of p # ps \<Rightarrow> (c # p) # ps | [] \<Rightarrow> [[c]])"

datatype sandbox_path = SandboxPath (path_str: string)

definition sandbox_path_try_from :: "string \<Rightarrow> contract_error + sandbox_path" where
  "sandbox_path_try_from value =
     (if value = [] \<or> length value > 1024 \<or>
         has_control value \<or> CHR 0x5C \<in> set value \<or> CHR '':'' \<in> set value \<or>
         (\<exists>part \<in> set (split_on (CHR ''/'') value). part = [] \<or> part = ''.'' \<or> part = ''..'')
      then Inl UnsafePath
      else Inr (SandboxPath value))"

text \<open>
  Lexical resolution of a path against a directory, as a file system does it: an empty part or a
  dot stays, two dots go up, any other part goes down; a leading slash restarts from the root of
  the file system.
\<close>

fun enter :: "string list \<Rightarrow> string \<Rightarrow> string list" where
  "enter dir part =
     (if part = [] \<or> part = ''.'' then dir
      else if part = ''..'' then butlast dir
      else dir @ [part])"

definition resolve :: "string list \<Rightarrow> string \<Rightarrow> string list" where
  "resolve root path =
     (case split_on (CHR ''/'') path of
        [] # parts \<Rightarrow> foldl enter [] parts
      | parts \<Rightarrow> foldl enter root parts)"

lemma split_on_not_Nil [simp]: "split_on x s \<noteq> []"
  by (induction s) (auto split: list.splits)

lemma enter_safe: "part \<notin> {[], ''.'', ''..''} \<Longrightarrow> enter dir part = dir @ [part]"
  by simp

lemma foldl_enter_safe:
  "\<forall>part \<in> set parts. part \<notin> {[], ''.'', ''..''} \<Longrightarrow> foldl enter dir parts = dir @ parts"
  by (induction parts arbitrary: dir) auto

lemma split_on_join: "concat (map (\<lambda>p. x # p) (split_on x s)) = x # s"
  by (induction s) (auto split: list.splits)

section \<open>JSON bodies\<close>

text \<open>\<^verbatim>\<open>serde_json::from_slice\<close> at the type of the body is the parameter \<open>from_slice\<close>.\<close>

definition parse_json ::
  "('b list \<Rightarrow> 'a option) \<Rightarrow> 'b list \<Rightarrow> nat \<Rightarrow> contract_error + 'a" where
  "parse_json from_slice bytes limit =
     (if limit = 0 \<or> limit > MAX_JSON_BYTES \<or> length bytes > limit then Inl PayloadTooLarge
      else case from_slice bytes of None \<Rightarrow> Inl InvalidJson | Some x \<Rightarrow> Inr x)"

section \<open>Deployment limits\<close>

record limits_config =
  lc_json_bytes :: u64
  lc_event_batch_items :: u64
  lc_event_batch_bytes :: u64
  lc_chunk_bytes :: u64
  lc_poll_ms :: u64
  lc_pending_commands :: u64
  lc_page_size :: u64
  lc_command_attempts :: u64
  lc_log_spool_bytes :: u64
  lc_enrollment_ms :: u64
  lc_autoapproval_ms :: u64
  lc_preparation_ms :: u64
  lc_start_ms :: u64
  lc_authority_ms :: u64
  lc_heartbeat_ms :: u64
  lc_stale_ms :: u64
  lc_offline_ms :: u64

definition limits_config_default :: limits_config where
  "limits_config_default =
     \<lparr>lc_json_bytes = 1048576, lc_event_batch_items = 100, lc_event_batch_bytes = 262144,
      lc_chunk_bytes = 262144, lc_poll_ms = 25000, lc_pending_commands = 100,
      lc_page_size = 25, lc_command_attempts = 10, lc_log_spool_bytes = 268435456,
      lc_enrollment_ms = 600000, lc_autoapproval_ms = 600000, lc_preparation_ms = 1200000,
      lc_start_ms = 60000, lc_authority_ms = 90000, lc_heartbeat_ms = 15000,
      lc_stale_ms = 45000, lc_offline_ms = 90000\<rparr>"

datatype protocol_limits = ProtocolLimits (limits_values: limits_config)

definition limits_bounds :: "limits_config \<Rightarrow> (u64 \<times> u64 \<times> u64) list" where
  "limits_bounds c =
     [(lc_json_bytes c, 1, 2097152), (lc_event_batch_items c, 1, 100),
      (lc_event_batch_bytes c, 1, 262144), (lc_chunk_bytes c, 1, 262144),
      (lc_poll_ms c, 1, 25000), (lc_pending_commands c, 1, 1000), (lc_page_size c, 1, 100),
      (lc_command_attempts c, 1, 10), (lc_log_spool_bytes c, 1, 2147483648),
      (lc_enrollment_ms c, 60000, 3600000), (lc_autoapproval_ms c, 1, 3600000),
      (lc_preparation_ms c, 1, 3600000), (lc_start_ms c, 1, 60000),
      (lc_authority_ms c, 1, 90000), (lc_heartbeat_ms c, 1, 15000),
      (lc_stale_ms c, 1, 45000), (lc_offline_ms c, 1, 90000)]"

definition limits_consistent :: "limits_config \<Rightarrow> bool" where
  "limits_consistent c \<longleftrightarrow>
     (\<forall>(value, lo, hi) \<in> set (limits_bounds c). lo \<le> value \<and> value \<le> hi) \<and>
     \<not> (lc_heartbeat_ms c \<ge> lc_stale_ms c \<or> lc_stale_ms c \<ge> lc_offline_ms c \<or>
        lc_heartbeat_ms c \<ge> lc_authority_ms c \<or> lc_start_ms c > lc_authority_ms c)"

definition protocol_limits_try_from :: "limits_config \<Rightarrow> contract_error + protocol_limits" where
  "protocol_limits_try_from config =
     (if \<not> limits_consistent config then Inl IntegerRange else Inr (ProtocolLimits config))"

interpretation protocol_limits: validated_newtype protocol_limits_try_from limits_values
  limits_consistent
  by unfold_locales (auto simp: protocol_limits_try_from_def split: if_splits)

section \<open>Properties\<close>

text \<open>
  A path the sandbox protocol accepts stays strictly below the directory it is resolved
  against, whatever that directory is: it names exactly its own components under that directory.
\<close>

theorem sandbox_path_stays_below_root:
  assumes "sandbox_path_try_from s = Inr p"
  shows "resolve root (path_str p) = root @ split_on (CHR ''/'') s \<and>
         split_on (CHR ''/'') s \<noteq> [] \<and> path_str p = s"
proof -
  from assms have p: "p = SandboxPath s"
    and safe: "\<forall>part \<in> set (split_on (CHR ''/'') s). part \<notin> {[], ''.'', ''..''}"
    by (auto simp: sandbox_path_try_from_def split: if_splits)
  obtain q qs where parts: "split_on (CHR ''/'') s = q # qs"
    by (cases "split_on (CHR ''/'') s") simp_all
  with safe have "q \<noteq> []" by simp
  then show ?thesis
    using p parts foldl_enter_safe [OF safe, of root]
    by (cases q) (simp_all add: resolve_def)
qed

theorem sandbox_path_stays_below_root_witness:
  "sandbox_path_try_from ''work/result.txt'' = Inr (SandboxPath ''work/result.txt'') \<and>
   resolve [''sandbox''] ''work/result.txt'' = [''sandbox'', ''work'', ''result.txt'']"
proof -
  have run: "sandbox_path_try_from ''work/result.txt'' = Inr (SandboxPath ''work/result.txt'')"
    by (simp add: sandbox_path_try_from_def is_ascii_control_def byte_def)
  from sandbox_path_stays_below_root [OF run, of "[''sandbox'']"] run show ?thesis by simp
qed

text \<open>
  A digest survives the wire: the text form of the digest of any bytes parses back to that
  digest, and every text that parses is the text form of the digest it parses to.
\<close>

theorem digest_wire_round_trip:
  assumes "byte_codec_laws k"
  shows "sha256_digest_try_from k (sha256_digest_string k (sha256_digest_of k bs)) =
           Inr (sha256_digest_of k bs) \<and>
         (sha256_digest_try_from k s = Inr d \<longleftrightarrow>
           s = sha256_digest_string k d \<and> length (digest_bytes d) = 32)"
proof -
  have dec: "b64_decode k (b64_encode k b) = Some b"
    and len: "length (b64_encode k b) = (4 * length b + 2) div 3"
    and sha: "length (sha256 k b) = 32" for b
    using assms by (simp_all add: byte_codec_laws_def)
  have "sha256_digest_try_from k (b64_encode k b) = Inr (Sha256Digest b)" if "length b = 32" for b
    using that by (simp add: sha256_digest_try_from_def dec len)
  moreover have "s = b64_encode k (digest_bytes d) \<and> length (digest_bytes d) = 32"
    if "sha256_digest_try_from k s = Inr d"
    using that by (auto simp: sha256_digest_try_from_def split: if_splits option.splits)
  ultimately show ?thesis
    by (cases d) (auto simp: sha256_digest_of_def sha256_digest_string_def sha)
qed

text \<open>A codec with these laws, for the examples: bytes as characters, padded to the length.\<close>

definition sample_codec :: byte_codec where
  "sample_codec =
     \<lparr>b64_encode = (\<lambda>bs. map (\<lambda>b. char_of (unat b)) bs @
        replicate ((4 * length bs + 2) div 3 - length bs) (CHR ''A'')),
      b64_decode = (\<lambda>s. Some (map (\<lambda>c. of_nat (byte c)) (take (3 * length s div 4) s))),
      sha256 = (\<lambda>bs. replicate 31 0 @ [of_nat (length bs)])\<rparr>"

lemma byte_char_of_u8: "of_nat (byte (char_of (unat b))) = (b :: u8)"
proof -
  have "unat b < 2 ^ 8" using unsigned_less [of b] by simp
  then show ?thesis by (simp add: byte_def take_bit_nat_eq_self)
qed

lemma sample_codec_laws: "byte_codec_laws sample_codec"
proof -
  have len: "n + ((4 * n + 2) div 3 - n) = (4 * n + 2) div 3"
    and inv: "3 * ((4 * n + 2) div 3) div 4 = n" for n :: nat
    by presburger+
  show ?thesis
    by (simp add: byte_codec_laws_def sample_codec_def len inv byte_char_of_u8 map_idI comp_def)
qed

theorem digest_wire_round_trip_witness:
  "byte_codec_laws sample_codec \<and>
   sha256_digest_try_from sample_codec
     (sha256_digest_string sample_codec (sha256_digest_of sample_codec [1, 2])) =
   Inr (sha256_digest_of sample_codec [1, 2])"
  using digest_wire_round_trip [OF sample_codec_laws] sample_codec_laws by blast

text \<open>
  A configuration that passes validation orders its thresholds: a heartbeat comes before a
  host is stale, stale before offline, a heartbeat and a start fit the authority lease; the
  defaults pass.
\<close>

theorem validated_limits_are_ordered:
  "(protocol_limits_try_from c = Inr l \<longrightarrow>
      limits_values l = c \<and>
      0 < unat (lc_heartbeat_ms c) \<and>
      unat (lc_heartbeat_ms c) < unat (lc_stale_ms c) \<and>
      unat (lc_stale_ms c) < unat (lc_offline_ms c) \<and>
      unat (lc_heartbeat_ms c) < unat (lc_authority_ms c) \<and>
      unat (lc_start_ms c) \<le> unat (lc_authority_ms c) \<and>
      unat (lc_authority_ms c) \<le> 90000 \<and> unat (lc_command_attempts c) \<le> 10) \<and>
   is_ok (protocol_limits_try_from limits_config_default)"
proof
  show "is_ok (protocol_limits_try_from limits_config_default)"
    by (simp add: limits_consistent_def limits_bounds_def limits_config_default_def)
  show "protocol_limits_try_from c = Inr l \<longrightarrow>
      limits_values l = c \<and> 0 < unat (lc_heartbeat_ms c) \<and>
      unat (lc_heartbeat_ms c) < unat (lc_stale_ms c) \<and>
      unat (lc_stale_ms c) < unat (lc_offline_ms c) \<and>
      unat (lc_heartbeat_ms c) < unat (lc_authority_ms c) \<and>
      unat (lc_start_ms c) \<le> unat (lc_authority_ms c) \<and>
      unat (lc_authority_ms c) \<le> 90000 \<and> unat (lc_command_attempts c) \<le> 10"
    by (auto simp: protocol_limits_try_from_def limits_consistent_def limits_bounds_def
        word_le_nat_alt word_less_nat_alt not_le split: if_splits)
qed

theorem validated_limits_are_ordered_witness:
  "protocol_limits_try_from limits_config_default = Inr (ProtocolLimits limits_config_default) \<and>
   unat (lc_stale_ms limits_config_default) < unat (lc_offline_ms limits_config_default)"
proof -
  have run: "protocol_limits_try_from limits_config_default =
      Inr (ProtocolLimits limits_config_default)"
    by (simp add: protocol_limits_try_from_def limits_consistent_def limits_bounds_def
        limits_config_default_def)
  with validated_limits_are_ordered [of limits_config_default] show ?thesis by blast
qed

end
