(* ===== verification/Chunks.thy ===== *)
theory Chunks
  imports Primitives
begin

text \<open>
  Transport chunks for workload logs and artifacts
  (\<^verbatim>\<open>crates/gridops-core/src/fleet/protocol/chunks.rs\<close>). A chunk is only ever built by the
  checked decoder, so every chunk satisfies \<open>chunk_wf\<close>, and encoding and decoding are
  inverse on such chunks.
\<close>

section \<open>Chunks and their wire form\<close>

datatype stream_reference = Stream_Log log_stream_id | Stream_Artifact artifact_id

record chunk_ownership =
  co_placement_id :: placement_id
  co_backend_id :: backend_id
  co_generation :: generation

record dropped_byte_gap =
  gap_from :: bounded_integer
  gap_to :: bounded_integer

record transfer_chunk =
  tc_stream :: stream_reference
  tc_owner :: chunk_ownership
  tc_offset :: bounded_integer
  tc_bytes :: "u8 list"
  tc_eof :: bool
  tc_gap :: "dropped_byte_gap option"

record raw_chunk =
  rc_stream :: stream_reference
  rc_owner :: chunk_ownership
  rc_offset :: bounded_integer
  rc_data_base64 :: string
  rc_decoded_length :: nat
  rc_sha256 :: string
  rc_eof :: bool
  rc_gap :: "dropped_byte_gap option"

datatype chunk_error =
  Chunk_TooLarge | Chunk_InvalidBytes | Chunk_OffsetOverflow | Chunk_InvalidGap | Chunk_Empty

fun is_log_stream :: "stream_reference \<Rightarrow> bool" where
  "is_log_stream (Stream_Log _) = True"
| "is_log_stream (Stream_Artifact _) = False"

definition div_ceil :: "nat \<Rightarrow> nat \<Rightarrow> nat" where
  "div_ceil a b = (a + b - 1) div b"

definition gap_check :: "raw_chunk \<Rightarrow> chunk_error + unit" where
  "gap_check raw =
     (case rc_gap raw of
        None \<Rightarrow> Inr ()
      | Some gap \<Rightarrow>
          ensure (\<not> (\<not> is_log_stream (rc_stream raw) \<or>
                    bounded_get (gap_from gap) \<ge> bounded_get (gap_to gap) \<or>
                    gap_to gap \<noteq> rc_offset raw)) Chunk_InvalidGap)"

definition transfer_chunk_try_from ::
  "byte_codec \<Rightarrow> raw_chunk \<Rightarrow> chunk_error + transfer_chunk" where
  "transfer_chunk_try_from k raw =
     rbind (ensure (\<not> (rc_decoded_length raw > MAX_CHUNK_BYTES \<or>
                      length (rc_data_base64 raw) > div_ceil MAX_CHUNK_BYTES 3 * 4))
              Chunk_TooLarge) (\<lambda>_.
     rbind (ok_or (b64_decode k (rc_data_base64 raw)) Chunk_InvalidBytes) (\<lambda>bytes.
     rbind (ensure (\<not> (length bytes \<noteq> rc_decoded_length raw \<or>
                      length bytes > MAX_CHUNK_BYTES \<or>
                      b64_encode k bytes \<noteq> rc_data_base64 raw \<or>
                      rc_sha256 raw \<noteq> b64_encode k (sha256 k bytes)))
              Chunk_InvalidBytes) (\<lambda>_.
     rbind (ok_or (word_try_from (int (length bytes))) Chunk_TooLarge) (\<lambda>len.
     rbind (ok_or (checked_add (bounded_get (rc_offset raw)) len) Chunk_OffsetOverflow)
       (\<lambda>stop.
     rbind (map_err (\<lambda>_. Chunk_OffsetOverflow) (byte_offset_new stop)) (\<lambda>_.
     rbind (gap_check raw) (\<lambda>_.
     rbind (ensure (\<not> (bytes = [] \<and> \<not> rc_eof raw \<and> rc_gap raw = None)) Chunk_Empty) (\<lambda>_.
     Inr \<lparr>tc_stream = rc_stream raw, tc_owner = rc_owner raw, tc_offset = rc_offset raw,
          tc_bytes = bytes, tc_eof = rc_eof raw, tc_gap = rc_gap raw\<rparr>))))))))"

definition raw_chunk_from :: "byte_codec \<Rightarrow> transfer_chunk \<Rightarrow> raw_chunk" where
  "raw_chunk_from k chunk =
     \<lparr>rc_stream = tc_stream chunk, rc_owner = tc_owner chunk, rc_offset = tc_offset chunk,
      rc_data_base64 = b64_encode k (tc_bytes chunk),
      rc_decoded_length = length (tc_bytes chunk),
      rc_sha256 = b64_encode k (sha256 k (tc_bytes chunk)),
      rc_eof = tc_eof chunk, rc_gap = tc_gap chunk\<rparr>"

definition chunk_from_bytes ::
  "byte_codec \<Rightarrow> stream_reference \<Rightarrow> chunk_ownership \<Rightarrow> bounded_integer \<Rightarrow> u8 list \<Rightarrow> bool \<Rightarrow>
   dropped_byte_gap option \<Rightarrow> chunk_error + transfer_chunk" where
  "chunk_from_bytes k stream owner offset bytes eof gap =
     (if length bytes > MAX_CHUNK_BYTES then Inl Chunk_TooLarge
      else transfer_chunk_try_from k
        \<lparr>rc_stream = stream, rc_owner = owner, rc_offset = offset,
         rc_data_base64 = b64_encode k bytes, rc_decoded_length = length bytes,
         rc_sha256 = b64_encode k (sha256 k bytes), rc_eof = eof, rc_gap = gap\<rparr>)"

section \<open>The invariant of a chunk\<close>

definition chunk_wf :: "transfer_chunk \<Rightarrow> bool" where
  "chunk_wf c \<longleftrightarrow>
     length (tc_bytes c) \<le> 262144 \<and>
     unat (bounded_get (tc_offset c)) + length (tc_bytes c) \<le> 9223372036854775807 \<and>
     (\<forall>g. tc_gap c = Some g \<longrightarrow>
        is_log_stream (tc_stream c) \<and> gap_to g = tc_offset c \<and>
        unat (bounded_get (gap_from g)) < unat (bounded_get (gap_to g))) \<and>
     (tc_bytes c \<noteq> [] \<or> tc_eof c \<or> tc_gap c \<noteq> None)"

lemma chunk_limits [simp]:
  "MAX_CHUNK_BYTES = 262144"
  "div_ceil 262144 3 * 4 = 349528"
  by (simp_all add: MAX_CHUNK_BYTES_def div_ceil_def)

lemma gap_check_eq_Inr:
  "gap_check raw = Inr u \<longleftrightarrow>
     (\<forall>g. rc_gap raw = Some g \<longrightarrow>
        is_log_stream (rc_stream raw) \<and> gap_to g = rc_offset raw \<and>
        unat (bounded_get (gap_from g)) < unat (bounded_get (gap_to g)))"
  by (auto simp: gap_check_def result_splits word_le_nat_alt not_le split: option.splits)

lemma offset_check_eq_Inr:
  "(\<exists>stop. checked_add a (b :: u64) = Some stop \<and> (\<exists>v. byte_offset_new stop = Inr v)) \<longleftrightarrow>
     unat a + unat b \<le> 9223372036854775807"
proof
  assume "unat a + unat b \<le> 9223372036854775807"
  then have "unat (a + b) = unat a + unat b" by (simp add: unat_word_ariths)
  with \<open>unat a + unat b \<le> _\<close>
  show "\<exists>stop. checked_add a b = Some stop \<and> (\<exists>v. byte_offset_new stop = Inr v)"
    by (intro exI [of _ "a + b"])
      (simp add: rust_arith bounded_integer_new_def MAX_DATABASE_INTEGER_def)
qed (auto simp: rust_arith bounded_integer_new_def MAX_DATABASE_INTEGER_def split: if_splits)

lemma word_of_length:
  assumes "n \<le> 262144"
  shows "unat (word_of_nat n :: u64) = n"
  using assms by (simp add: unsigned_of_nat take_bit_nat_eq_self)

lemma transfer_chunk_try_from_eq_Inr:
  "transfer_chunk_try_from k raw = Inr c \<longleftrightarrow>
     rc_decoded_length raw = length (tc_bytes c) \<and>
     length (rc_data_base64 raw) \<le> 349528 \<and>
     b64_decode k (rc_data_base64 raw) = Some (tc_bytes c) \<and> raw = raw_chunk_from k c \<and>
     chunk_wf c"
proof
  assume "transfer_chunk_try_from k raw = Inr c"
  then show "rc_decoded_length raw = length (tc_bytes c) \<and>
     length (rc_data_base64 raw) \<le> 349528 \<and>
     b64_decode k (rc_data_base64 raw) = Some (tc_bytes c) \<and> raw = raw_chunk_from k c \<and>
     chunk_wf c"
    by (cases raw)
      (auto simp: transfer_chunk_try_from_def result_splits gap_check_eq_Inr raw_chunk_from_def
        chunk_wf_def rust_arith bounded_integer_new_def MAX_DATABASE_INTEGER_def
        split: if_splits)
next
  assume *: "rc_decoded_length raw = length (tc_bytes c) \<and>
     length (rc_data_base64 raw) \<le> 349528 \<and>
     b64_decode k (rc_data_base64 raw) = Some (tc_bytes c) \<and> raw = raw_chunk_from k c \<and>
     chunk_wf c"
  let ?len = "word_of_nat (length (tc_bytes c)) :: u64"
  from * have len: "unat ?len = length (tc_bytes c)"
    by (simp add: word_of_length chunk_wf_def)
  then have conv: "word_try_from (int (length (tc_bytes c))) = Some ?len"
    by (simp add: rust_arith)
  have "unat (bounded_get (tc_offset c)) + unat ?len \<le> 9223372036854775807"
    using * len by (simp add: chunk_wf_def)
  then obtain stop v where "checked_add (bounded_get (tc_offset c)) ?len = Some stop"
    and "byte_offset_new stop = Inr v"
    using offset_check_eq_Inr by blast
  with * conv show "transfer_chunk_try_from k raw = Inr c"
    by (auto simp: transfer_chunk_try_from_def raw_chunk_from_def result_splits
        gap_check_eq_Inr chunk_wf_def)
qed

section \<open>Properties\<close>

text \<open>
  C40. Chunks survive the wire: for a codec with the laws of base64 and SHA-256, decoding accepts
  exactly the encodings of well-formed chunks, and decoding the encoding of a well-formed chunk
  gives the chunk back. Well-formed means at most 256 KiB, an end offset within the signed 64-bit
  range, a gap only on a log stream and ending where the chunk starts, and no empty chunk without
  an end-of-file mark or a gap.
\<close>

theorem chunk_wire_round_trip:
  assumes "byte_codec_laws k"
  shows "transfer_chunk_try_from k raw = Inr c \<longleftrightarrow> raw = raw_chunk_from k c \<and> chunk_wf c"
proof -
  have "b64_decode k (b64_encode k bs) = Some bs"
    and "length (b64_encode k bs) = (4 * length bs + 2) div 3" for bs
    using assms by (simp_all add: byte_codec_laws_def)
  then show ?thesis
    by (auto simp: transfer_chunk_try_from_eq_Inr raw_chunk_from_def chunk_wf_def)
qed

theorem chunk_wire_round_trip_witness:
  "let c = \<lparr>tc_stream = Stream_Log (LogStreamId 1),
            tc_owner = \<lparr>co_placement_id = PlacementId 2, co_backend_id = BackendId 3,
                        co_generation = Generation 1\<rparr>,
            tc_offset = BoundedInteger 128, tc_bytes = [7, 8], tc_eof = False,
            tc_gap = Some \<lparr>gap_from = BoundedInteger 0, gap_to = BoundedInteger 128\<rparr>\<rparr>
   in chunk_wf c \<and> transfer_chunk_try_from sample_codec (raw_chunk_from sample_codec c) = Inr c"
  using chunk_wire_round_trip [OF sample_codec_laws]
  by (simp add: Let_def chunk_wf_def)

text \<open>
  A chunk built from bytes at an offset is accepted exactly when it is well-formed, carries
  those bytes unchanged, and is the chunk the receiver decodes from its wire form.
\<close>

theorem chunk_from_bytes_delivers:
  assumes "byte_codec_laws k"
  shows "chunk_from_bytes k s ow off bs eof gap = Inr c \<longleftrightarrow>
     c = \<lparr>tc_stream = s, tc_owner = ow, tc_offset = off, tc_bytes = bs, tc_eof = eof,
          tc_gap = gap\<rparr> \<and>
     chunk_wf c \<and> transfer_chunk_try_from k (raw_chunk_from k c) = Inr c"
proof -
  have "b64_decode k (b64_encode k bs) = Some bs"
    and "length (b64_encode k bs) = (4 * length bs + 2) div 3" for bs
    using assms by (simp_all add: byte_codec_laws_def)
  then show ?thesis
    by (cases c) (auto simp: chunk_from_bytes_def transfer_chunk_try_from_eq_Inr
        raw_chunk_from_def chunk_wf_def)
qed

theorem chunk_from_bytes_delivers_witness:
  "let own = \<lparr>co_placement_id = PlacementId 2, co_backend_id = BackendId 3,
              co_generation = Generation 1\<rparr>;
       c = \<lparr>tc_stream = Stream_Artifact (ArtifactId 4), tc_owner = own,
            tc_offset = BoundedInteger 9, tc_bytes = [1, 2, 3], tc_eof = False, tc_gap = None\<rparr>
   in chunk_from_bytes sample_codec (Stream_Artifact (ArtifactId 4)) own (BoundedInteger 9)
        [1, 2, 3] False None = Inr c"
  unfolding Let_def chunk_from_bytes_delivers [OF sample_codec_laws]
  by (simp add: chunk_wf_def transfer_chunk_try_from_eq_Inr raw_chunk_from_def
      sample_codec_laws [unfolded byte_codec_laws_def])

end
