(* ===== verification/Agent_Command.thy ===== *)
theory Agent_Command
  imports Domain Resources Chunks
begin

text \<open>
  Immutable agent command envelopes
  (\<^verbatim>\<open>crates/gridops-core/src/fleet/protocol/agent.rs\<close>): the operations a host can be asked
  for, the shape checks that bind an operation to its scope and deadline, the seal, and the two
  validations a host makes before it acts. JSON serialisation is \<^verbatim>\<open>serde_json\<close>'s and
  the argument \<open>to_vec\<close>.
\<close>

section \<open>Operations\<close>

datatype runner_mode = Ephemeral | Persistent

datatype prepared_workload = Prepared_CiRunner | Prepared_FixSandbox

datatype command_scope =
    Scope_Host
  | Scope_Placement (scope_placement_id: placement_id) (scope_backend_id: backend_id)
      (scope_generation: generation)

record execution_configuration =
  ec_network :: "upstream_text option"
  ec_session_id :: "session_id option"
  ec_requires_interactive :: bool
  ec_requires_docker_socket :: bool

record prepare_environment =
  pe_execution_profile_id :: profile_id
  pe_profile_revision :: revision
  pe_workload :: prepared_workload
  pe_target :: ci_target
  pe_runtime_kind :: runtime_kind
  pe_execution_os :: execution_os
  pe_architecture :: architecture
  pe_mode :: runner_mode
  pe_image :: image_reference
  pe_labels :: "upstream_text list"
  pe_configuration :: execution_configuration
  pe_resource_request :: resource_request
  pe_allocation_ids :: "allocation_id list"

datatype local_resource_identity =
    Local_Docker (object_id: upstream_text)
  | Local_TartVm (vm_name: upstream_text)
  | Local_NativeProcess (boot_id: upstream_text) (process_id: bounded_integer)
      (start_marker: upstream_text)

record start_runner =
  sr_prepared_environment_id :: prepared_environment_id
  sr_execution_profile_id :: profile_id
  sr_profile_revision :: revision
  sr_bootstrap_reference :: bootstrap_reference
  sr_bootstrap_expires_at :: wire_timestamp
  sr_resource_request :: resource_request
  sr_allocation_ids :: "allocation_id list"

datatype stop_mode = IdleOnly | CancelBusy

datatype sandbox_file_action =
    File_Read sandbox_path bounded_integer bounded_integer
  | File_Write sandbox_path artifact_id bounded_integer sha256_digest

datatype sandbox_artifact_action =
    Artifact_Publish sandbox_path artifact_id
  | Artifact_Fetch artifact_id bounded_integer bounded_integer

text \<open>
  The fields of the two sandbox actions are, in order: path, offset and byte limit of a read;
  path, artifact, expected length and digest of a write; path and artifact of a publication;
  artifact, offset and byte limit of a fetch.
\<close>

datatype agent_operation =
    PrepareEnvironment prepare_environment
  | StartRunner start_runner
  | InspectHost
  | DrainHost
  | Inspect local_resource_identity
  | Drain local_resource_identity
  | Stop local_resource_identity stop_mode
  | Cleanup local_resource_identity
  | UpgradeAgent release_manifest_id upstream_text upstream_text operation_id
  | Op_ExecuteSandbox local_resource_identity sandbox_program "sandbox_argument list"
      "sandbox_path option" bounded_integer bounded_integer
  | SandboxFile local_resource_identity sandbox_file_action
  | SandboxArtifact local_resource_identity sandbox_artifact_action

text \<open>
  Upgrades carry the manifest, the expected and the current version and the drain operation;
  a sandbox execution its resource, program, arguments, working directory, timeout and output
  limit.
\<close>

fun database_kind :: "agent_operation \<Rightarrow> string" where
  "database_kind (PrepareEnvironment _) = ''prepare_environment''"
| "database_kind (StartRunner _) = ''start_runner''"
| "database_kind InspectHost = ''inspect''"
| "database_kind (Inspect _) = ''inspect''"
| "database_kind DrainHost = ''drain''"
| "database_kind (Drain _) = ''drain''"
| "database_kind (Stop _ _) = ''stop''"
| "database_kind (Cleanup _) = ''cleanup''"
| "database_kind (UpgradeAgent _ _ _ _) = ''upgrade_agent''"
| "database_kind (Op_ExecuteSandbox _ _ _ _ _ _) = ''execute_sandbox''"
| "database_kind (SandboxFile _ _) = ''sandbox_file''"
| "database_kind (SandboxArtifact _ _) = ''sandbox_artifact''"

datatype command_error =
    Command_Authority
  | Command_Scope
  | Command_Configuration
  | Command_Deadline
  | Command_Hash
  | Command_Serialization

section \<open>Shape checks\<close>

definition check_allocations :: "allocation_id list \<Rightarrow> command_error + unit" where
  "check_allocations ids =
     (if ids = [] \<or> length ids > MAX_RESOURCE_DOMAIN_DEPTH \<or> length (remdups ids) \<noteq> length ids
      then Inl Command_Configuration else Inr ())"

fun is_host_operation :: "agent_operation \<Rightarrow> bool" where
  "is_host_operation InspectHost = True"
| "is_host_operation DrainHost = True"
| "is_host_operation (UpgradeAgent _ _ _ _) = True"
| "is_host_operation _ = False"

fun is_docker_identity :: "local_resource_identity \<Rightarrow> bool" where
  "is_docker_identity (Local_Docker _) = True"
| "is_docker_identity _ = False"

fun is_github_repository :: "ci_target \<Rightarrow> bool" where
  "is_github_repository (GithubRepository _ _) = True"
| "is_github_repository _ = False"

definition prepare_misconfigured :: "prepare_environment \<Rightarrow> revision \<Rightarrow> bool" where
  "prepare_misconfigured p expected \<longleftrightarrow>
     pe_profile_revision p \<noteq> expected \<or>
     length (pe_labels p) > 100 \<or>
     ec_requires_interactive (pe_configuration p) \<noteq>
       (ec_session_id (pe_configuration p) \<noteq> None) \<or>
     (pe_workload p = Prepared_FixSandbox \<and>
       (pe_runtime_kind p \<noteq> Docker \<or> pe_execution_os p \<noteq> Linux \<or>
        \<not> is_github_repository (pe_target p))) \<or>
     (pe_runtime_kind p = Docker \<and> pe_execution_os p \<noteq> Linux) \<or>
     (pe_runtime_kind p = TartVm \<and>
       (pe_execution_os p \<noteq> Macos \<or> pe_architecture p \<noteq> Arm64)) \<or>
     (is_bitbucket (pe_target p) \<and> pe_mode p \<noteq> Persistent) \<or>
     (is_github (pe_target p) \<and> pe_runtime_kind p = TartVm \<and> pe_mode p \<noteq> Ephemeral) \<or>
     (is_bitbucket (pe_target p) \<and> pe_execution_os p = Windows \<and> pe_architecture p = Arm64)"

definition operation_check ::
  "agent_operation \<Rightarrow> command_scope \<Rightarrow> revision \<Rightarrow> command_error + unit" where
  "operation_check oper scope expected =
     rbind (ensure (is_host_operation oper = (scope = Scope_Host)) Command_Scope) (\<lambda>_.
     case oper of
       PrepareEnvironment p \<Rightarrow>
         rbind (check_allocations (pe_allocation_ids p)) (\<lambda>_.
         ensure (\<not> prepare_misconfigured p expected) Command_Configuration)
     | StartRunner s \<Rightarrow>
         rbind (check_allocations (sr_allocation_ids s)) (\<lambda>_.
         ensure (\<not> sr_profile_revision s \<noteq> expected) Command_Configuration)
     | Op_ExecuteSandbox res prog argv wd tmo lim \<Rightarrow>
         ensure (\<not> (\<not> is_docker_identity res \<or> length argv > 128 \<or>
                   (\<Sum>a\<leftarrow>argv. length (argument_str a)) > 65536)) Command_Configuration
     | SandboxFile res act \<Rightarrow> ensure (is_docker_identity res) Command_Configuration
     | SandboxArtifact res act \<Rightarrow> ensure (is_docker_identity res) Command_Configuration
     | _ \<Rightarrow> Inr ())"

section \<open>Envelopes\<close>

record agent_command_envelope =
  env_protocol_version :: bounded_integer
  env_command_id :: command_id
  env_operation_id :: operation_id
  env_idempotency_key :: idempotency_key
  env_host_id :: host_id
  env_host_epoch :: host_epoch
  env_control_plane_incarnation :: control_plane_incarnation
  env_authority_session_id :: authority_session_id
  env_scope :: command_scope
  env_expected_revision :: revision
  env_issued_at :: wire_timestamp
  env_deadline_at :: wire_timestamp
  env_request_hash :: string
  env_operation :: agent_operation

record expected_agent_session =
  eas_host_id :: host_id
  eas_host_epoch :: host_epoch
  eas_control_plane_incarnation :: control_plane_incarnation
  eas_authority_session_id :: authority_session_id
  eas_credential_generation :: generation
  eas_authority_expires_at :: wire_timestamp

definition COMMAND_CLOCK_SKEW_MILLIS :: i64 where
  "COMMAND_CLOCK_SKEW_MILLIS = 5000"

definition canonical_hash ::
  "byte_codec \<Rightarrow> (agent_command_envelope \<Rightarrow> u8 list option) \<Rightarrow> agent_command_envelope \<Rightarrow>
   command_error + string" where
  "canonical_hash k to_vec e =
     rbind (ok_or (to_vec (e\<lparr>env_request_hash := []\<rparr>)) Command_Serialization) (\<lambda>bytes.
     Inr (b64_encode k (sha256 k bytes)))"

fun is_start_runner :: "agent_operation \<Rightarrow> bool" where
  "is_start_runner (StartRunner _) = True"
| "is_start_runner _ = False"

definition duration_cap :: "agent_operation \<Rightarrow> i64" where
  "duration_cap oper = (if is_start_runner oper then 60000 else 3600000)"

definition check_shape :: "agent_command_envelope \<Rightarrow> command_error + unit" where
  "check_shape e =
     rbind (operation_check (env_operation e) (env_scope e) (env_expected_revision e)) (\<lambda>_.
     rbind (ok_or (checked_sub_i64 (ts_millis (env_deadline_at e)) (ts_millis (env_issued_at e)))
              Command_Deadline) (\<lambda>duration.
     rbind (ensure (\<not> (duration \<le> 0 \<or> duration > duration_cap (env_operation e)))
              Command_Deadline) (\<lambda>_.
     case env_operation e of
       StartRunner s \<Rightarrow>
         ensure (\<not> env_deadline_at e > sr_bootstrap_expires_at s) Command_Deadline
     | _ \<Rightarrow> Inr ())))"

definition seal_hash ::
  "byte_codec \<Rightarrow> (agent_command_envelope \<Rightarrow> u8 list option) \<Rightarrow> agent_command_envelope \<Rightarrow>
   command_error + agent_command_envelope" where
  "seal_hash k to_vec e =
     rbind (check_shape e) (\<lambda>_.
     rbind (canonical_hash k to_vec e) (\<lambda>h.
     Inr (e\<lparr>env_request_hash := h\<rparr>)))"

definition validate_binding ::
  "byte_codec \<Rightarrow> (agent_command_envelope \<Rightarrow> u8 list option) \<Rightarrow> agent_command_envelope \<Rightarrow>
   expected_agent_session \<Rightarrow> command_error + unit" where
  "validate_binding k to_vec e session =
     rbind (check_shape e) (\<lambda>_.
     rbind (ensure (\<not> (env_host_id e \<noteq> eas_host_id session \<or>
                      env_host_epoch e \<noteq> eas_host_epoch session \<or>
                      env_control_plane_incarnation e \<noteq> eas_control_plane_incarnation session \<or>
                      env_authority_session_id e \<noteq> eas_authority_session_id session))
              Command_Authority) (\<lambda>_.
     rbind (canonical_hash k to_vec e) (\<lambda>h.
     ensure (\<not> env_request_hash e \<noteq> h) Command_Hash)))"

text \<open>The validated command is a reference to the envelope it was made from.\<close>

definition validate_against ::
  "byte_codec \<Rightarrow> (agent_command_envelope \<Rightarrow> u8 list option) \<Rightarrow> agent_command_envelope \<Rightarrow>
   expected_agent_session \<Rightarrow> wire_timestamp \<Rightarrow> command_error + agent_command_envelope" where
  "validate_against k to_vec e session now =
     rbind (validate_binding k to_vec e session) (\<lambda>_.
     rbind (ensure (\<not> (now < env_issued_at e \<or> now \<ge> env_deadline_at e \<or>
                      now \<ge> eas_authority_expires_at session)) Command_Deadline) (\<lambda>_.
     rbind (ensure (\<not> (is_start_runner (env_operation e) \<and>
                      env_deadline_at e > eas_authority_expires_at session))
              Command_Deadline) (\<lambda>_.
     Inr e)))"

section \<open>Lemmas\<close>

definition session_binds :: "agent_command_envelope \<Rightarrow> expected_agent_session \<Rightarrow> bool" where
  "session_binds e s \<longleftrightarrow>
     env_host_id e = eas_host_id s \<and> env_host_epoch e = eas_host_epoch s \<and>
     env_control_plane_incarnation e = eas_control_plane_incarnation s \<and>
     env_authority_session_id e = eas_authority_session_id s"

lemma check_allocations_eq_Inr [result_splits]:
  "check_allocations ids = Inr u \<longleftrightarrow> ids \<noteq> [] \<and> length ids \<le> 64 \<and> distinct ids"
  by (auto simp: check_allocations_def MAX_RESOURCE_DOMAIN_DEPTH_def length_remdups_card_conv
      card_distinct distinct_card)

text \<open>The seal is not part of what is checked or hashed.\<close>

lemma check_shape_hash [simp]: "check_shape (e\<lparr>env_request_hash := h\<rparr>) = check_shape e"
  by (simp add: check_shape_def cong: agent_operation.case_cong)

lemma canonical_hash_hash [simp]:
  "canonical_hash k to_vec (e\<lparr>env_request_hash := h\<rparr>) = canonical_hash k to_vec e"
  by (simp add: canonical_hash_def)

lemma seal_hash_eq_Inr:
  "seal_hash k to_vec e = Inr s \<longleftrightarrow>
     check_shape e = Inr () \<and>
     (\<exists>h. canonical_hash k to_vec e = Inr h \<and> s = e\<lparr>env_request_hash := h\<rparr>)"
  by (auto simp: seal_hash_def result_splits)

lemma validate_binding_eq_Inr:
  "validate_binding k to_vec e s = Inr () \<longleftrightarrow>
     check_shape e = Inr () \<and> session_binds e s \<and>
     canonical_hash k to_vec e = Inr (env_request_hash e)"
  by (auto simp: validate_binding_def result_splits session_binds_def)

lemma validate_against_eq_Inr:
  "validate_against k to_vec e s now = Inr v \<longleftrightarrow>
     v = e \<and> validate_binding k to_vec e s = Inr () \<and>
     env_issued_at e \<le> now \<and> now < env_deadline_at e \<and> now < eas_authority_expires_at s \<and>
     (is_start_runner (env_operation e) \<longrightarrow> env_deadline_at e \<le> eas_authority_expires_at s)"
  by (auto simp: validate_against_def result_splits)

lemma check_shape_duration:
  assumes "check_shape e = Inr ()"
  shows "0 < ts_millis (env_deadline_at e) - ts_millis (env_issued_at e)"
    and "ts_millis (env_deadline_at e) - ts_millis (env_issued_at e) \<le>
      duration_cap (env_operation e)"
  using assms by (auto simp: check_shape_def result_splits rust_arith)

lemma check_shape_start:
  assumes "check_shape e = Inr ()" and "env_operation e = StartRunner sr"
  shows "env_deadline_at e \<le> sr_bootstrap_expires_at sr \<and>
    sr_profile_revision sr = env_expected_revision e \<and> env_scope e \<noteq> Scope_Host \<and>
    sr_allocation_ids sr \<noteq> [] \<and> length (sr_allocation_ids sr) \<le> 64 \<and>
    distinct (sr_allocation_ids sr)"
  using assms by (auto simp: check_shape_def operation_check_def result_splits)

section \<open>Properties\<close>

text \<open>
  C4. Sealing a well-shaped command binds it: the sealed command is accepted exactly by the
  session it names (host, epoch, control-plane incarnation and authority session), from its issue
  time until its deadline and the end of the authority lease, a start only when its deadline lies
  within the lease; sealing it again changes nothing.
\<close>

theorem sealed_command_accepted_exactly_by_its_session:
  assumes "seal_hash k to_vec e = Inr s"
  shows "(validate_against k to_vec s session now = Inr s \<longleftrightarrow>
            session_binds e session \<and> env_issued_at e \<le> now \<and> now < env_deadline_at e \<and>
            now < eas_authority_expires_at session \<and>
            (is_start_runner (env_operation e) \<longrightarrow>
               env_deadline_at e \<le> eas_authority_expires_at session)) \<and>
         seal_hash k to_vec s = Inr s"
  using assms
  by (auto simp: seal_hash_eq_Inr validate_against_eq_Inr validate_binding_eq_Inr
      session_binds_def)

text \<open>A cleanup command for the examples.\<close>

definition sample_envelope :: agent_command_envelope where
  "sample_envelope =
     \<lparr>env_protocol_version = BoundedInteger 1, env_command_id = CommandId 1,
      env_operation_id = OperationId 2, env_idempotency_key = IdempotencyKey ''cleanup:1'',
      env_host_id = HostId 3, env_host_epoch = HostEpoch 1,
      env_control_plane_incarnation = ControlPlaneIncarnation 4,
      env_authority_session_id = AuthoritySessionId 5,
      env_scope = Scope_Placement (PlacementId 6) (BackendId 7) (Generation 1),
      env_expected_revision = Revision 1, env_issued_at = WireTimestamp 1000,
      env_deadline_at = WireTimestamp 61000, env_request_hash = [],
      env_operation = Cleanup (Local_Docker (UpstreamText ''c0ffee''))\<rparr>"

definition sample_session :: expected_agent_session where
  "sample_session =
     \<lparr>eas_host_id = HostId 3, eas_host_epoch = HostEpoch 1,
      eas_control_plane_incarnation = ControlPlaneIncarnation 4,
      eas_authority_session_id = AuthoritySessionId 5, eas_credential_generation = Generation 1,
      eas_authority_expires_at = WireTimestamp 90000\<rparr>"

definition sample_sealed :: agent_command_envelope where
  "sample_sealed = sample_envelope\<lparr>env_request_hash := b64_encode sample_codec
     (sha256 sample_codec [])\<rparr>"

lemma seal_sample: "seal_hash sample_codec (\<lambda>_. Some []) sample_envelope = Inr sample_sealed"
  by (simp add: seal_hash_def sample_envelope_def sample_sealed_def check_shape_def
      operation_check_def checked_sub_i64_def in_i64_def duration_cap_def canonical_hash_def)

theorem sealed_command_accepted_exactly_by_its_session_witness:
  "seal_hash sample_codec (\<lambda>_. Some []) sample_envelope = Inr sample_sealed \<and>
   validate_against sample_codec (\<lambda>_. Some []) sample_sealed sample_session (WireTimestamp 2000) =
     Inr sample_sealed"
  using sealed_command_accepted_exactly_by_its_session [OF seal_sample, of sample_session
      "WireTimestamp 2000"] seal_sample
  by (simp add: sample_envelope_def sample_session_def session_binds_def
      less_eq_wire_timestamp_def less_wire_timestamp_def)



text \<open>
  A start command that a host accepts at some instant carries a non-empty, duplicate-free
  list of at most 64 allocations, ends within the lease and within the lifetime of its bootstrap
  material, and runs for at most 60 seconds after it was issued.
\<close>

theorem accepted_start_is_bounded:
  assumes "validate_against k to_vec e session now = Inr v"
    and "env_operation e = StartRunner sr"
  shows "env_deadline_at e \<le> eas_authority_expires_at session \<and>
         env_deadline_at e \<le> sr_bootstrap_expires_at sr \<and>
         ts_millis now < ts_millis (env_issued_at e) + 60000 \<and>
         sr_allocation_ids sr \<noteq> [] \<and> length (sr_allocation_ids sr) \<le> 64 \<and>
         distinct (sr_allocation_ids sr)"
proof -
  from assms(1) have shape: "check_shape e = Inr ()"
    and now: "ts_millis now < ts_millis (env_deadline_at e)"
    and lease: "is_start_runner (env_operation e) \<longrightarrow>
      env_deadline_at e \<le> eas_authority_expires_at session"
    by (auto simp: validate_against_eq_Inr validate_binding_eq_Inr less_wire_timestamp_def)
  from check_shape_duration(2) [OF shape] assms(2)
  have "ts_millis (env_deadline_at e) - ts_millis (env_issued_at e) \<le> 60000"
    by (simp add: duration_cap_def)
  with check_shape_start [OF shape assms(2)] now lease assms(2) show ?thesis by simp
qed

text \<open>A start command for the examples.\<close>

definition sample_start :: start_runner where
  "sample_start =
     \<lparr>sr_prepared_environment_id = PreparedEnvironmentId 8, sr_execution_profile_id = ProfileId 9,
      sr_profile_revision = Revision 1, sr_bootstrap_reference = BootstrapReference 10,
      sr_bootstrap_expires_at = WireTimestamp 70000,
      sr_resource_request = \<lparr>rr_cpu_millis = 2000, rr_memory_mib = 4096, rr_disk_bytes = 0\<rparr>,
      sr_allocation_ids = [AllocationId 11, AllocationId 12]\<rparr>"

definition sample_start_envelope :: agent_command_envelope where
  "sample_start_envelope = sample_sealed\<lparr>env_operation := StartRunner sample_start\<rparr>"

theorem accepted_start_is_bounded_witness:
  "validate_against sample_codec (\<lambda>_. Some []) sample_start_envelope sample_session
     (WireTimestamp 2000) = Inr sample_start_envelope \<and>
   distinct (sr_allocation_ids sample_start)"
proof -
  have op: "env_operation sample_start_envelope = StartRunner sample_start"
    by (simp add: sample_start_envelope_def)
  have "validate_against sample_codec (\<lambda>_. Some []) sample_start_envelope sample_session
     (WireTimestamp 2000) = Inr sample_start_envelope"
    by (simp add: validate_against_def validate_binding_def check_shape_def operation_check_def
        sample_start_envelope_def sample_sealed_def sample_envelope_def sample_start_def
        sample_session_def checked_sub_i64_def in_i64_def duration_cap_def canonical_hash_def
        check_allocations_def MAX_RESOURCE_DOMAIN_DEPTH_def less_eq_wire_timestamp_def
        less_wire_timestamp_def)
  with accepted_start_is_bounded [OF this op] show ?thesis by simp
qed

end
