(* ===== verification/Outcomes.thy ===== *)
theory Outcomes
  imports Agent_Command
begin

text \<open>
  Command results (\<^verbatim>\<open>crates/gridops-core/src/fleet/protocol/outcomes.rs\<close>) and the apply
  boundary: a result is only applied to the command it names, with the hash of that command and
  evidence of the kind and the resource the command asked for.
\<close>

section \<open>Codes, claims and evidence\<close>

datatype diagnostic_code =
    Diag_Authority
  | Diag_Configuration
  | Diag_Deadline
  | Diag_Dependency
  | Diag_ImageUnavailable
  | Diag_Permission
  | Diag_ResourceUnavailable
  | Diag_Runtime
  | Diag_Stale
  | Diag_Unknown

datatype failure_code =
    Fail_Cancelled
  | Fail_Configuration
  | Fail_Dependency
  | Fail_Deadline
  | Fail_Permission
  | Fail_ResourceUnavailable
  | Fail_Runtime
  | Fail_Unsupported

datatype uncertain_code = AuthorityLost | DeliveryUnknown | LocalStateUnknown | Timeout

record diagnostic_reference =
  dg_id :: diagnostic_id
  dg_code :: diagnostic_code

record local_absence_claim =
  lac_resource :: local_resource_identity
  lac_observed_at :: wire_timestamp
  lac_evidence :: diagnostic_reference

record delayed_start_exclusion_claim =
  dsc_resource :: local_resource_identity
  dsc_excluded_at :: wire_timestamp
  dsc_evidence :: diagnostic_reference

datatype sandbox_exit_status =
  Exited bounded_integer | Signaled bounded_integer | TimedOut

record log_stream_reference =
  lsr_stream_id :: log_stream_id
  lsr_bytes :: bounded_integer

record artifact_receipt =
  ar_artifact_id :: artifact_id
  ar_size_bytes :: bounded_integer
  ar_digest :: sha256_digest

datatype sandbox_file_result =
    FileResult_Read "transfer_chunk option" bounded_integer sha256_digest
  | FileResult_Written artifact_receipt

datatype sandbox_artifact_result =
    ArtifactResult_Published artifact_receipt
  | ArtifactResult_Fetched transfer_chunk bounded_integer sha256_digest

text \<open>
  The chunk of a read or fetch comes with its size and digest. The success evidence carries the
  fields of the source in their order.
\<close>

datatype success_evidence =
    Ev_PreparedEnvironment prepared_environment_id
  | Ev_RunnerStarted prepared_environment_id profile_id revision local_resource_identity
  | Ev_Inspected "local_resource_identity option"
  | Ev_Drained "local_resource_identity option"
  | Ev_Stopped local_resource_identity
  | Ev_Cleaned local_resource_identity local_absence_claim delayed_start_exclusion_claim
  | Ev_AgentUpgraded release_manifest_id upstream_text
  | Ev_SandboxExecuted local_resource_identity sandbox_exit_status
      "log_stream_reference option" "log_stream_reference option"
  | Ev_SandboxFileApplied local_resource_identity sandbox_file_action sandbox_file_result
  | Ev_SandboxArtifactApplied local_resource_identity sandbox_artifact_action
      sandbox_artifact_result

datatype command_outcome =
    Outcome_Accepted bounded_integer
  | Outcome_Running bounded_integer
  | Outcome_Succeeded success_evidence
  | Outcome_Failed failure_code bool "diagnostic_reference option"
  | Outcome_Uncertain uncertain_code "diagnostic_reference option"

record agent_command_result =
  res_result_id :: result_id
  res_command_id :: command_id
  res_operation_id :: operation_id
  res_host_id :: host_id
  res_host_epoch :: host_epoch
  res_control_plane_incarnation :: control_plane_incarnation
  res_authority_session_id :: authority_session_id
  res_scope :: command_scope
  res_generation :: "generation option"
  res_request_hash :: sha256_digest
  res_observed_at :: wire_timestamp
  res_outcome :: command_outcome

datatype outcome_error =
  Outcome_Correlation | Outcome_Scope | Outcome_Evidence | Outcome_Hash

section \<open>Correlation\<close>

fun scope_generation_matches :: "command_scope \<Rightarrow> generation option \<Rightarrow> bool" where
  "scope_generation_matches Scope_Host None = True"
| "scope_generation_matches (Scope_Placement _ _ expected) (Some actual) = (expected = actual)"
| "scope_generation_matches _ _ = False"

text \<open>
  The part a read and a fetch share: the chunk starts at the offset asked for, its size and
  digest are those of its bytes and within the limit, and it belongs to the placement of the
  command.
\<close>

definition chunk_matches ::
  "byte_codec \<Rightarrow> transfer_chunk \<Rightarrow> bounded_integer \<Rightarrow> sha256_digest \<Rightarrow> bounded_integer \<Rightarrow>
   bounded_integer \<Rightarrow> command_scope \<Rightarrow> bool" where
  "chunk_matches k chunk size_bytes digest offset max_bytes scope =
     (case scope of
        Scope_Host \<Rightarrow> False
      | Scope_Placement placement_id backend_id gen \<Rightarrow>
          tc_offset chunk = offset \<and>
          unat (bounded_get size_bytes) = length (tc_bytes chunk) \<and>
          bounded_get size_bytes \<le> bounded_get max_bytes \<and>
          digest = sha256_digest_of k (tc_bytes chunk) \<and>
          co_placement_id (tc_owner chunk) = placement_id \<and>
          co_backend_id (tc_owner chunk) = backend_id \<and>
          co_generation (tc_owner chunk) = gen)"

fun file_result_matches ::
  "byte_codec \<Rightarrow> sandbox_file_action \<Rightarrow> sandbox_file_result \<Rightarrow> command_scope \<Rightarrow> bool" where
  "file_result_matches k (File_Read path offset max_bytes)
     (FileResult_Read (Some chunk) size_bytes digest) scope =
     chunk_matches k chunk size_bytes digest offset max_bytes scope"
| "file_result_matches k (File_Read path offset max_bytes)
     (FileResult_Read None size_bytes digest) scope =
     (bounded_get size_bytes = 0 \<and> digest = sha256_digest_of k [])"
| "file_result_matches k (File_Write path artifact expected_length sha)
     (FileResult_Written receipt) scope =
     (ar_artifact_id receipt = artifact \<and> ar_size_bytes receipt = expected_length \<and>
      ar_digest receipt = sha)"
| "file_result_matches k _ _ scope = False"

fun artifact_result_matches ::
  "byte_codec \<Rightarrow> sandbox_artifact_action \<Rightarrow> sandbox_artifact_result \<Rightarrow> command_scope \<Rightarrow> bool"
  where
  "artifact_result_matches k (Artifact_Publish path artifact)
     (ArtifactResult_Published receipt) scope = (artifact = ar_artifact_id receipt)"
| "artifact_result_matches k (Artifact_Fetch artifact offset max_bytes)
     (ArtifactResult_Fetched chunk size_bytes digest) scope =
     (tc_stream chunk = Stream_Artifact artifact \<and>
      chunk_matches k chunk size_bytes digest offset max_bytes scope)"
| "artifact_result_matches k _ _ scope = False"

definition operation_evidence_matches ::
  "byte_codec \<Rightarrow> command_scope \<Rightarrow> agent_operation \<Rightarrow> success_evidence \<Rightarrow> bool" where
  "operation_evidence_matches k sc oper evidence =
     (case oper of
        PrepareEnvironment _ \<Rightarrow>
          (case evidence of Ev_PreparedEnvironment _ \<Rightarrow> True | _ \<Rightarrow> False)
      | StartRunner s \<Rightarrow>
          (case evidence of
             Ev_RunnerStarted env prof rvn _ \<Rightarrow>
               sr_prepared_environment_id s = env \<and> sr_execution_profile_id s = prof \<and>
               sr_profile_revision s = rvn
           | _ \<Rightarrow> False)
      | InspectHost \<Rightarrow> (case evidence of Ev_Inspected _ \<Rightarrow> True | _ \<Rightarrow> False)
      | Inspect expected \<Rightarrow>
          (case evidence of Ev_Inspected ident \<Rightarrow> ident = Some expected | _ \<Rightarrow> False)
      | DrainHost \<Rightarrow> (case evidence of Ev_Drained ident \<Rightarrow> ident = None | _ \<Rightarrow> False)
      | Drain expected \<Rightarrow>
          (case evidence of Ev_Drained ident \<Rightarrow> ident = Some expected | _ \<Rightarrow> False)
      | Stop expected _ \<Rightarrow>
          (case evidence of Ev_Stopped ident \<Rightarrow> expected = ident | _ \<Rightarrow> False)
      | Cleanup expected \<Rightarrow>
          (case evidence of
             Ev_Cleaned ident absence excluded \<Rightarrow>
               expected = ident \<and> lac_resource absence = ident \<and> dsc_resource excluded = ident
           | _ \<Rightarrow> False)
      | UpgradeAgent manifest expected_version _ _ \<Rightarrow>
          (case evidence of
             Ev_AgentUpgraded actual_manifest version \<Rightarrow>
               manifest = actual_manifest \<and> expected_version = version
           | _ \<Rightarrow> False)
      | Op_ExecuteSandbox expected _ _ _ _ _ \<Rightarrow>
          (case evidence of Ev_SandboxExecuted ident _ _ _ \<Rightarrow> expected = ident | _ \<Rightarrow> False)
      | SandboxFile expected act \<Rightarrow>
          (case evidence of
             Ev_SandboxFileApplied ident actual_act res \<Rightarrow>
               expected = ident \<and> act = actual_act \<and> file_result_matches k act res sc
           | _ \<Rightarrow> False)
      | SandboxArtifact expected act \<Rightarrow>
          (case evidence of
             Ev_SandboxArtifactApplied ident actual_act res \<Rightarrow>
               expected = ident \<and> act = actual_act \<and> artifact_result_matches k act res sc
           | _ \<Rightarrow> False))"

definition evidence_matches ::
  "byte_codec \<Rightarrow> agent_command_envelope \<Rightarrow> success_evidence \<Rightarrow> bool" where
  "evidence_matches k command evidence =
     operation_evidence_matches k (env_scope command) (env_operation command) evidence"

definition result_validate_against ::
  "byte_codec \<Rightarrow> agent_command_result \<Rightarrow> agent_command_envelope \<Rightarrow>
   outcome_error + agent_command_result" where
  "result_validate_against k r command =
     rbind (ensure (\<not> (res_command_id r \<noteq> env_command_id command \<or>
                      res_operation_id r \<noteq> env_operation_id command \<or>
                      res_host_id r \<noteq> env_host_id command \<or>
                      res_host_epoch r \<noteq> env_host_epoch command \<or>
                      res_control_plane_incarnation r \<noteq> env_control_plane_incarnation command \<or>
                      res_authority_session_id r \<noteq> env_authority_session_id command \<or>
                      res_scope r \<noteq> env_scope command)) Outcome_Correlation) (\<lambda>_.
     rbind (ensure (\<not> sha256_digest_string k (res_request_hash r) \<noteq> env_request_hash command)
              Outcome_Hash) (\<lambda>_.
     rbind (ensure (scope_generation_matches (res_scope r) (res_generation r)) Outcome_Scope)
       (\<lambda>_.
     case res_outcome r of
       Outcome_Succeeded evidence \<Rightarrow>
         (if \<not> evidence_matches k command evidence then Inl Outcome_Evidence else Inr r)
     | _ \<Rightarrow> Inr r)))"

section \<open>Lemmas\<close>

definition result_correlates :: "agent_command_result \<Rightarrow> agent_command_envelope \<Rightarrow> bool" where
  "result_correlates r c \<longleftrightarrow>
     res_command_id r = env_command_id c \<and> res_operation_id r = env_operation_id c \<and>
     res_host_id r = env_host_id c \<and> res_host_epoch r = env_host_epoch c \<and>
     res_control_plane_incarnation r = env_control_plane_incarnation c \<and>
     res_authority_session_id r = env_authority_session_id c \<and> res_scope r = env_scope c"

lemma result_validate_against_eq_Inr:
  "result_validate_against k r c = Inr v \<longleftrightarrow>
     v = r \<and> result_correlates r c \<and>
     sha256_digest_string k (res_request_hash r) = env_request_hash c \<and>
     scope_generation_matches (res_scope r) (res_generation r) \<and>
     (\<forall>ev. res_outcome r = Outcome_Succeeded ev \<longrightarrow> evidence_matches k c ev)"
  by (auto simp: result_validate_against_def result_correlates_def result_splits
      split: command_outcome.splits if_splits)

lemma scope_generation_matches_iff:
  "scope_generation_matches sc g \<longleftrightarrow>
     (case sc of Scope_Host \<Rightarrow> g = None | Scope_Placement _ _ e \<Rightarrow> g = Some e)"
  by (cases sc; cases g) auto

fun evidence_kind :: "success_evidence \<Rightarrow> string" where
  "evidence_kind (Ev_PreparedEnvironment _) = ''prepare_environment''"
| "evidence_kind (Ev_RunnerStarted _ _ _ _) = ''start_runner''"
| "evidence_kind (Ev_Inspected _) = ''inspect''"
| "evidence_kind (Ev_Drained _) = ''drain''"
| "evidence_kind (Ev_Stopped _) = ''stop''"
| "evidence_kind (Ev_Cleaned _ _ _) = ''cleanup''"
| "evidence_kind (Ev_AgentUpgraded _ _) = ''upgrade_agent''"
| "evidence_kind (Ev_SandboxExecuted _ _ _ _) = ''execute_sandbox''"
| "evidence_kind (Ev_SandboxFileApplied _ _ _) = ''sandbox_file''"
| "evidence_kind (Ev_SandboxArtifactApplied _ _ _) = ''sandbox_artifact''"

lemma evidence_matches_kind:
  "operation_evidence_matches k sc oper ev \<Longrightarrow> database_kind oper = evidence_kind ev"
  by (cases oper; cases ev) (simp_all add: operation_evidence_matches_def)

text \<open>The whole content of a cleanup result that passes validation.\<close>

lemma cleanup_evidence:
  assumes "operation_evidence_matches k sc (Cleanup x) ev"
  obtains la ds where "ev = Ev_Cleaned x la ds" and "lac_resource la = x" and "dsc_resource ds = x"
  using assms by (cases ev) (auto simp: operation_evidence_matches_def)

section \<open>Properties\<close>


text \<open>A successful cleanup result for the examples.\<close>

definition sample_cleanup_evidence :: success_evidence where
  "sample_cleanup_evidence =
     (let r = Local_Docker (UpstreamText ''c0ffee'');
          d = \<lparr>dg_id = DiagnosticId 13, dg_code = Diag_Runtime\<rparr>
      in Ev_Cleaned r
           \<lparr>lac_resource = r, lac_observed_at = WireTimestamp 3000, lac_evidence = d\<rparr>
           \<lparr>dsc_resource = r, dsc_excluded_at = WireTimestamp 3000, dsc_evidence = d\<rparr>)"

definition sample_result :: agent_command_result where
  "sample_result =
     \<lparr>res_result_id = ResultId 14, res_command_id = CommandId 1, res_operation_id = OperationId 2,
      res_host_id = HostId 3, res_host_epoch = HostEpoch 1,
      res_control_plane_incarnation = ControlPlaneIncarnation 4,
      res_authority_session_id = AuthoritySessionId 5,
      res_scope = Scope_Placement (PlacementId 6) (BackendId 7) (Generation 1),
      res_generation = Some (Generation 1),
      res_request_hash = Sha256Digest (sha256 sample_codec []),
      res_observed_at = WireTimestamp 3000,
      res_outcome = Outcome_Succeeded sample_cleanup_evidence\<rparr>"

lemma sample_result_valid:
  "result_validate_against sample_codec sample_result sample_sealed = Inr sample_result"
  by (simp add: result_validate_against_eq_Inr result_correlates_def sample_result_def
      sample_sealed_def sample_envelope_def sha256_digest_string_def evidence_matches_def
      operation_evidence_matches_def sample_cleanup_evidence_def Let_def)




text \<open>
  Sandbox reads and fetches are content-checked: a matching result never carries more bytes
  than were asked for, starts at the offset asked for, carries the digest of exactly its bytes and
  belongs to the placement, backend and generation of the command.
\<close>

theorem sandbox_transfer_is_content_checked:
  assumes "(act = File_Read path offset limit \<and>
            file_result_matches k act (FileResult_Read (Some chunk) sz digest) sc) \<or>
           (\<exists>a. fetch = Artifact_Fetch a offset limit \<and>
            artifact_result_matches k fetch (ArtifactResult_Fetched chunk sz digest) sc)"
  shows "tc_offset chunk = offset \<and> length (tc_bytes chunk) \<le> unat (bounded_get limit) \<and>
         digest = Sha256Digest (sha256 k (tc_bytes chunk)) \<and>
         sc = Scope_Placement (co_placement_id (tc_owner chunk)) (co_backend_id (tc_owner chunk))
                (co_generation (tc_owner chunk))"
  using assms
  by (auto simp: chunk_matches_def sha256_digest_of_def word_le_nat_alt
      split: command_scope.splits)

theorem sandbox_transfer_is_content_checked_witness:
  "let c = \<lparr>tc_stream = Stream_Artifact (ArtifactId 4),
            tc_owner = \<lparr>co_placement_id = PlacementId 6, co_backend_id = BackendId 7,
                        co_generation = Generation 1\<rparr>,
            tc_offset = BoundedInteger 5, tc_bytes = [1, 2], tc_eof = True, tc_gap = None\<rparr>
   in length (tc_bytes c) \<le> unat (bounded_get (BoundedInteger 10))"
  using sandbox_transfer_is_content_checked [of "File_Read (SandboxPath ''f'') (BoundedInteger 5)
      (BoundedInteger 10)" "SandboxPath ''f''" "BoundedInteger 5" "BoundedInteger 10" sample_codec
      "\<lparr>tc_stream = Stream_Artifact (ArtifactId 4),
        tc_owner = \<lparr>co_placement_id = PlacementId 6, co_backend_id = BackendId 7,
                    co_generation = Generation 1\<rparr>,
        tc_offset = BoundedInteger 5, tc_bytes = [1, 2], tc_eof = True, tc_gap = None\<rparr>"
      "BoundedInteger 2" "sha256_digest_of sample_codec [1, 2]"
      "Scope_Placement (PlacementId 6) (BackendId 7) (Generation 1)"]
  by (simp add: Let_def chunk_matches_def)

end
