(* ===== verification/Capabilities.thy ===== *)
theory Capabilities
  imports Agent_Command
begin

text \<open>
  Observed backend capabilities and the pure compatibility check of admission
  (\<^verbatim>\<open>crates/gridops-core/src/fleet/capabilities.rs\<close>). A report never raises trust:
  \<open>evaluate\<close> accepts only what the report, the current authority session and the static
  ceilings of runtimes and providers all allow.
\<close>

section \<open>Reports and requirements\<close>

datatype target_kind =
    Kind_GithubRepository
  | Kind_GithubOrganization
  | Kind_BitbucketWorkspace
  | Kind_BitbucketRepository

fun target_kind_from :: "ci_target \<Rightarrow> target_kind" where
  "target_kind_from (GithubRepository _ _) = Kind_GithubRepository"
| "target_kind_from (GithubOrganization _ _) = Kind_GithubOrganization"
| "target_kind_from (BitbucketWorkspace _ _) = Kind_BitbucketWorkspace"
| "target_kind_from (BitbucketRepository _ _ _) = Kind_BitbucketRepository"

definition kind_is_bitbucket :: "target_kind \<Rightarrow> bool" where
  "kind_is_bitbucket t \<longleftrightarrow> t \<in> {Kind_BitbucketWorkspace, Kind_BitbucketRepository}"

record supported_runner =
  sup_target_kind :: target_kind
  sup_mode :: runner_mode

datatype environment_readiness = Env_Ready | Env_Preparable | Env_Unavailable | Env_Unknown

record environment_capability =
  evc_reference :: image_reference
  evc_readiness :: environment_readiness
  evc_version :: "upstream_text option"

datatype cpu_memory_enforcement = Reservation | HardLimit | CpuMemory_Unsupported

datatype disk_enforcement = Estimate | Quota | Disk_Unsupported

record resource_enforcement =
  re_cpu :: cpu_memory_enforcement
  re_memory :: cpu_memory_enforcement
  re_disk :: disk_enforcement

datatype interactive_capability = Interactive_Unsupported | RequiresAuthorizedHelper

datatype docker_socket_capability = DockerSocket_Unsupported | RequiresExplicitGrant

record capability_report =
  cr_schema_version :: bounded_integer
  cr_runtime_kind :: runtime_kind
  cr_execution_os :: execution_os
  cr_architecture :: architecture
  cr_supported_runners :: "supported_runner list"
  cr_environments :: "environment_capability list"
  cr_any_image :: bool
  cr_resources :: resource_enforcement
  cr_interactive :: interactive_capability
  cr_docker_socket :: docker_socket_capability

datatype backend_capabilities = BackendCapabilities (cap_report: capability_report)

definition backend_capabilities_try_from ::
  "capability_report \<Rightarrow> contract_error + backend_capabilities" where
  "backend_capabilities_try_from report =
     (if length (cr_supported_runners report) > 32 \<or> length (cr_environments report) > 128
      then Inl PayloadTooLarge
      else if length (remdups (cr_supported_runners report)) \<noteq>
                length (cr_supported_runners report) \<or>
              length (remdups (map (\<lambda>e. image_str (evc_reference e)) (cr_environments report))) \<noteq>
                length (cr_environments report)
      then Inl InvalidText
      else Inr (BackendCapabilities report))"

definition report_valid :: "capability_report \<Rightarrow> bool" where
  "report_valid r \<longleftrightarrow>
     length (cr_supported_runners r) \<le> 32 \<and> length (cr_environments r) \<le> 128 \<and>
     distinct (cr_supported_runners r) \<and>
     distinct (map (\<lambda>e. image_str (evc_reference e)) (cr_environments r))"

lemma length_remdups_eq: "length (remdups xs) = length xs \<longleftrightarrow> distinct xs"
  by (metis distinct_card distinct_remdups length_remdups_card_conv card_distinct)

interpretation capabilities_newtype:
  validated_newtype backend_capabilities_try_from cap_report report_valid
  by unfold_locales
    (auto simp: backend_capabilities_try_from_def report_valid_def length_remdups_eq
      length_remdups_eq [of "map _ _", unfolded length_map] split: if_splits)

record execution_requirement =
  er_runtime_kind :: runtime_kind
  er_execution_os :: execution_os
  er_architecture :: architecture
  er_runner :: supported_runner
  er_environment :: image_reference
  er_resources :: resource_request
  er_requires_interactive :: bool
  er_requires_docker_socket :: bool

record backend_identity =
  bi_host_id :: host_id
  bi_backend_id :: backend_id
  bi_runtime_kind :: runtime_kind
  bi_execution_os :: execution_os
  bi_architecture :: architecture

record current_probe =
  cpb_host_id :: host_id
  cpb_backend_id :: backend_id
  cpb_received_at :: wire_timestamp
  cpb_host_epoch :: host_epoch
  cpb_authority_session_id :: authority_session_id
  cpb_boot_id :: upstream_text
  cpb_control_plane_incarnation :: control_plane_incarnation

record current_authority =
  cau_host_id :: host_id
  cau_host_epoch :: host_epoch
  cau_authority_session_id :: authority_session_id
  cau_boot_id :: upstream_text
  cau_control_plane_incarnation :: control_plane_incarnation

datatype capability_rejection =
    IdentityMismatch
  | AuthorityMismatch
  | StaleProbe
  | IncompatibleRuntime
  | IncompatibleOs
  | IncompatibleArchitecture
  | UnsupportedMode
  | ImageUnavailable
  | ResourceUnsupported
  | InteractiveUnsupported
  | DockerSocketUnsupported

fun rejection_reason_code :: "capability_rejection \<Rightarrow> string" where
  "rejection_reason_code IdentityMismatch = ''capability_unverified''"
| "rejection_reason_code AuthorityMismatch = ''stale_inventory''"
| "rejection_reason_code StaleProbe = ''stale_health''"
| "rejection_reason_code IncompatibleRuntime = ''incompatible_runtime''"
| "rejection_reason_code IncompatibleOs = ''incompatible_os''"
| "rejection_reason_code IncompatibleArchitecture = ''incompatible_architecture''"
| "rejection_reason_code UnsupportedMode = ''unsupported_mode''"
| "rejection_reason_code ImageUnavailable = ''image_unavailable''"
| "rejection_reason_code ResourceUnsupported = ''resource_unsupported''"
| "rejection_reason_code InteractiveUnsupported = ''session_unavailable''"
| "rejection_reason_code DockerSocketUnsupported = ''capability_unverified''"

section \<open>Compatibility\<close>

definition static_compatibility :: "execution_requirement \<Rightarrow> capability_rejection + unit" where
  "static_compatibility q =
     rbind (ensure (\<not> (er_runtime_kind q = Docker \<and> er_execution_os q \<noteq> Linux))
              IncompatibleOs) (\<lambda>_.
     rbind (if er_runtime_kind q = TartVm then
              rbind (ensure (\<not> er_execution_os q \<noteq> Macos) IncompatibleOs) (\<lambda>_.
              rbind (ensure (\<not> er_architecture q \<noteq> Arm64) IncompatibleArchitecture) (\<lambda>_.
              ensure (\<not> (\<not> kind_is_bitbucket (sup_target_kind (er_runner q)) \<and>
                        sup_mode (er_runner q) \<noteq> Ephemeral)) UnsupportedMode))
            else Inr ()) (\<lambda>_.
     if kind_is_bitbucket (sup_target_kind (er_runner q)) then
       rbind (ensure (\<not> sup_mode (er_runner q) \<noteq> Persistent) UnsupportedMode) (\<lambda>_.
       ensure (\<not> (er_execution_os q = Windows \<and>
                 (er_architecture q \<noteq> X64 \<or> er_runtime_kind q \<noteq> NativeProcess)))
         IncompatibleArchitecture)
     else Inr ()))"

definition environment_lookup ::
  "capability_report \<Rightarrow> image_reference \<Rightarrow> capability_rejection + environment_readiness" where
  "environment_lookup report img =
     (case find (\<lambda>e. evc_reference e = img \<and>
                      (evc_readiness e = Env_Ready \<or> evc_readiness e = Env_Preparable))
             (cr_environments report) of
        Some e \<Rightarrow> Inr (evc_readiness e)
      | None \<Rightarrow> if cr_any_image report then Inr Env_Preparable else Inl ImageUnavailable)"

text \<open>The value of a successful evaluation is the readiness it carries.\<close>

definition evaluate ::
  "backend_capabilities \<Rightarrow> backend_identity \<Rightarrow> execution_requirement \<Rightarrow>
   current_probe option \<Rightarrow> current_authority \<Rightarrow> wire_timestamp \<Rightarrow>
   capability_rejection + environment_readiness" where
  "evaluate caps identity q probe authority now =
     (let report = cap_report caps in
      rbind (ensure (cr_runtime_kind report = bi_runtime_kind identity \<and>
                     cr_execution_os report = bi_execution_os identity \<and>
                     cr_architecture report = bi_architecture identity) IdentityMismatch) (\<lambda>_.
      rbind (ok_or probe StaleProbe) (\<lambda>p.
      rbind (ensure (\<not> (cpb_host_id p \<noteq> bi_host_id identity \<or>
                       cpb_backend_id p \<noteq> bi_backend_id identity \<or>
                       cau_host_id authority \<noteq> bi_host_id identity \<or>
                       cpb_host_epoch p \<noteq> cau_host_epoch authority \<or>
                       cpb_authority_session_id p \<noteq> cau_authority_session_id authority \<or>
                       cpb_boot_id p \<noteq> cau_boot_id authority \<or>
                       cpb_control_plane_incarnation p \<noteq>
                         cau_control_plane_incarnation authority)) AuthorityMismatch) (\<lambda>_.
      rbind (ok_or (checked_sub_i64 (ts_millis now) (ts_millis (cpb_received_at p))) StaleProbe)
        (\<lambda>age.
      rbind (ensure (0 \<le> age \<and> age < 45000) StaleProbe) (\<lambda>_.
      rbind (ensure (\<not> cr_runtime_kind report \<noteq> er_runtime_kind q) IncompatibleRuntime) (\<lambda>_.
      rbind (ensure (\<not> cr_execution_os report \<noteq> er_execution_os q) IncompatibleOs) (\<lambda>_.
      rbind (ensure (\<not> cr_architecture report \<noteq> er_architecture q)
               IncompatibleArchitecture) (\<lambda>_.
      rbind (static_compatibility q) (\<lambda>_.
      rbind (ensure (er_runner q \<in> set (cr_supported_runners report)) UnsupportedMode) (\<lambda>_.
      rbind (environment_lookup report (er_environment q)) (\<lambda>readiness.
      rbind (ensure (\<not> ((rr_cpu_millis (er_resources q) > 0 \<and>
                         re_cpu (cr_resources report) = CpuMemory_Unsupported) \<or>
                        (rr_memory_mib (er_resources q) > 0 \<and>
                         re_memory (cr_resources report) = CpuMemory_Unsupported) \<or>
                        (rr_disk_bytes (er_resources q) > 0 \<and>
                         re_disk (cr_resources report) = Disk_Unsupported)))
               ResourceUnsupported) (\<lambda>_.
      rbind (ensure (\<not> (er_requires_interactive q \<and>
                       cr_interactive report \<noteq> RequiresAuthorizedHelper))
               InteractiveUnsupported) (\<lambda>_.
      rbind (ensure (\<not> (er_requires_docker_socket q \<and>
                       cr_docker_socket report \<noteq> RequiresExplicitGrant))
               DockerSocketUnsupported) (\<lambda>_.
      Inr readiness)))))))))))))))"

section \<open>Lemmas\<close>

lemma static_compatibility_eq_Inr:
  "static_compatibility q = Inr u \<longleftrightarrow>
     (er_runtime_kind q = Docker \<longrightarrow> er_execution_os q = Linux) \<and>
     (er_runtime_kind q = TartVm \<longrightarrow>
        er_execution_os q = Macos \<and> er_architecture q = Arm64 \<and>
        (kind_is_bitbucket (sup_target_kind (er_runner q)) \<or>
         sup_mode (er_runner q) = Ephemeral)) \<and>
     (kind_is_bitbucket (sup_target_kind (er_runner q)) \<longrightarrow>
        sup_mode (er_runner q) = Persistent \<and>
        (er_execution_os q = Windows \<longrightarrow>
           er_architecture q = X64 \<and> er_runtime_kind q = NativeProcess))"
  by (auto simp: static_compatibility_def result_splits split: if_splits)

definition probe_current ::
  "backend_identity \<Rightarrow> current_probe \<Rightarrow> current_authority \<Rightarrow> wire_timestamp \<Rightarrow> bool" where
  "probe_current i p a now \<longleftrightarrow>
     cpb_host_id p = bi_host_id i \<and> cpb_backend_id p = bi_backend_id i \<and>
     cau_host_id a = bi_host_id i \<and> cpb_host_epoch p = cau_host_epoch a \<and>
     cpb_authority_session_id p = cau_authority_session_id a \<and>
     cpb_boot_id p = cau_boot_id a \<and>
     cpb_control_plane_incarnation p = cau_control_plane_incarnation a \<and>
     cpb_received_at p \<le> now \<and> ts_millis now < ts_millis (cpb_received_at p) + 45000"

lemma environment_lookup_eq_Inr:
  "environment_lookup r img = Inr readiness \<Longrightarrow>
     readiness \<in> {Env_Ready, Env_Preparable} \<and>
     (cr_any_image r \<or> (\<exists>e \<in> set (cr_environments r). evc_reference e = img))"
  by (auto simp: environment_lookup_def split: option.splits if_splits dest: find_SomeD)

lemma kind_is_bitbucket_from [simp]:
  "kind_is_bitbucket (target_kind_from t) \<longleftrightarrow> is_bitbucket t"
  by (cases t) (simp_all add: kind_is_bitbucket_def is_bitbucket_def)

lemma evaluate_eq_InrD:
  assumes "evaluate caps i q probe a now = Inr readiness"
  obtains p where "probe = Some p" and "probe_current i p a now"
    and "static_compatibility q = Inr ()" and "er_runner q \<in> set (cr_supported_runners (cap_report caps))"
    and "environment_lookup (cap_report caps) (er_environment q) = Inr readiness"
    and "cr_runtime_kind (cap_report caps) = bi_runtime_kind i"
    and "er_runtime_kind q = bi_runtime_kind i" and "er_execution_os q = bi_execution_os i"
    and "er_architecture q = bi_architecture i"
  using assms
  by (auto simp: evaluate_def Let_def result_splits rust_arith probe_current_def
      less_eq_wire_timestamp_def)

section \<open>Properties\<close>

text \<open>
  C39. A backend is found compatible only on current evidence: there is a probe of this very
  backend, received less than 45 seconds ago and not in the future, in the host's current epoch,
  authority session, boot and control-plane incarnation, and the report describes the platform
  that was asked for and lists the target kind and runner mode.
\<close>

theorem compatible_only_on_current_probe:
  assumes "evaluate caps i q probe a now = Inr readiness"
  shows "\<exists>p. probe = Some p \<and> probe_current i p a now \<and>
             er_runner q \<in> set (cr_supported_runners (cap_report caps)) \<and>
             er_runtime_kind q = bi_runtime_kind i \<and> er_execution_os q = bi_execution_os i \<and>
             er_architecture q = bi_architecture i \<and> readiness \<in> {Env_Ready, Env_Preparable}"
  using assms by (rule evaluate_eq_InrD) (blast dest: environment_lookup_eq_Inr)

text \<open>
  What the static ceilings admit, the command check accepts: the prepare command for a
  requirement that passes \<open>static_compatibility\<close> is never refused for its platform. A
  prepare with that platform, mode and target, the expected revision, at most 100 labels, a
  session exactly when it is interactive, and a fix sandbox only on Linux Docker for a GitHub
  repository, is configured correctly.
\<close>

theorem static_ceilings_agree_with_command_check:
  assumes "static_compatibility q = Inr ()"
    and "er_runtime_kind q = pe_runtime_kind p" and "er_execution_os q = pe_execution_os p"
    and "er_architecture q = pe_architecture p" and "sup_mode (er_runner q) = pe_mode p"
    and "sup_target_kind (er_runner q) = target_kind_from (pe_target p)"
  shows "prepare_misconfigured p r \<longleftrightarrow>
     pe_profile_revision p \<noteq> r \<or> length (pe_labels p) > 100 \<or>
     ec_requires_interactive (pe_configuration p) \<noteq>
       (ec_session_id (pe_configuration p) \<noteq> None) \<or>
     (pe_workload p = Prepared_FixSandbox \<and>
       (pe_runtime_kind p \<noteq> Docker \<or> pe_execution_os p \<noteq> Linux \<or>
        \<not> is_github_repository (pe_target p)))"
  using assms
  by (auto simp: static_compatibility_eq_Inr prepare_misconfigured_def is_bitbucket_def)

text \<open>A GitHub runner in a Linux container, for the examples.\<close>

definition sample_requirement :: execution_requirement where
  "sample_requirement =
     \<lparr>er_runtime_kind = Docker, er_execution_os = Linux, er_architecture = X64,
      er_runner = \<lparr>sup_target_kind = Kind_GithubRepository, sup_mode = Ephemeral\<rparr>,
      er_environment = ImageReference ''ubuntu'',
      er_resources = \<lparr>rr_cpu_millis = 2000, rr_memory_mib = 4096, rr_disk_bytes = 0\<rparr>,
      er_requires_interactive = False, er_requires_docker_socket = False\<rparr>"

definition sample_prepare :: prepare_environment where
  "sample_prepare =
     \<lparr>pe_execution_profile_id = ProfileId 9, pe_profile_revision = Revision 1,
      pe_workload = Prepared_CiRunner,
      pe_target = GithubRepository (ExternalId 1) (ExternalId 2), pe_runtime_kind = Docker,
      pe_execution_os = Linux, pe_architecture = X64, pe_mode = Ephemeral,
      pe_image = ImageReference ''ubuntu'', pe_labels = [UpstreamText ''linux''],
      pe_configuration = \<lparr>ec_network = None, ec_session_id = None,
        ec_requires_interactive = False, ec_requires_docker_socket = False\<rparr>,
      pe_resource_request = \<lparr>rr_cpu_millis = 2000, rr_memory_mib = 4096, rr_disk_bytes = 0\<rparr>,
      pe_allocation_ids = [AllocationId 11]\<rparr>"

theorem static_ceilings_agree_with_command_check_witness:
  "static_compatibility sample_requirement = Inr () \<and>
   \<not> prepare_misconfigured sample_prepare (Revision 1)"
proof -
  have ok: "static_compatibility sample_requirement = Inr ()"
    by (simp add: static_compatibility_eq_Inr sample_requirement_def kind_is_bitbucket_def)
  with static_ceilings_agree_with_command_check [OF ok, of sample_prepare "Revision 1"]
  show ?thesis by (simp add: sample_requirement_def sample_prepare_def)
qed

definition sample_capabilities :: backend_capabilities where
  "sample_capabilities = BackendCapabilities
     \<lparr>cr_schema_version = BoundedInteger 1, cr_runtime_kind = Docker, cr_execution_os = Linux,
      cr_architecture = X64,
      cr_supported_runners = [\<lparr>sup_target_kind = Kind_GithubRepository, sup_mode = Ephemeral\<rparr>],
      cr_environments = [], cr_any_image = True,
      cr_resources = \<lparr>re_cpu = HardLimit, re_memory = HardLimit, re_disk = Estimate\<rparr>,
      cr_interactive = Interactive_Unsupported, cr_docker_socket = DockerSocket_Unsupported\<rparr>"

theorem compatible_only_on_current_probe_witness:
  "\<exists>p. evaluate sample_capabilities
     \<lparr>bi_host_id = HostId 3, bi_backend_id = BackendId 7, bi_runtime_kind = Docker,
      bi_execution_os = Linux, bi_architecture = X64\<rparr> sample_requirement (Some p)
     \<lparr>cau_host_id = HostId 3, cau_host_epoch = HostEpoch 1,
      cau_authority_session_id = AuthoritySessionId 5, cau_boot_id = UpstreamText ''b'',
      cau_control_plane_incarnation = ControlPlaneIncarnation 4\<rparr> (WireTimestamp 20000) =
     Inr Env_Preparable \<and> cpb_received_at p \<le> WireTimestamp 20000"
proof -
  let ?i = "\<lparr>bi_host_id = HostId 3, bi_backend_id = BackendId 7, bi_runtime_kind = Docker,
      bi_execution_os = Linux, bi_architecture = X64\<rparr>"
  let ?a = "\<lparr>cau_host_id = HostId 3, cau_host_epoch = HostEpoch 1,
      cau_authority_session_id = AuthoritySessionId 5, cau_boot_id = UpstreamText ''b'',
      cau_control_plane_incarnation = ControlPlaneIncarnation 4\<rparr>"
  let ?p = "\<lparr>cpb_host_id = HostId 3, cpb_backend_id = BackendId 7,
      cpb_received_at = WireTimestamp 10000, cpb_host_epoch = HostEpoch 1,
      cpb_authority_session_id = AuthoritySessionId 5, cpb_boot_id = UpstreamText ''b'',
      cpb_control_plane_incarnation = ControlPlaneIncarnation 4\<rparr>"
  have run: "evaluate sample_capabilities ?i sample_requirement (Some ?p) ?a
      (WireTimestamp 20000) = Inr Env_Preparable"
    by (simp add: evaluate_def sample_capabilities_def sample_requirement_def
        static_compatibility_def kind_is_bitbucket_def environment_lookup_def
        checked_sub_i64_def in_i64_def)
  from compatible_only_on_current_probe [OF run] run show ?thesis
    by (intro exI [of _ ?p]) (simp add: probe_current_def)
qed

end
