(* ===== verification/Lifecycle.thy ===== *)
theory Lifecycle
  imports Ids
begin

text \<open>
  The independent lifecycle axes of \<^verbatim>\<open>crates/gridops-core/src/fleet/domain.rs\<close>: host
  enrolment, operator intent and freshness, backend readiness, placements and allocations, with
  the proofs an allocation needs to be released and the ownership of a placement.
  Each axis satisfies one contract, stated once as a locale: a transition succeeds exactly along
  the legal relation, staying put is legal, and a state with no other legal successor is never
  left.
\<close>

section \<open>The axes\<close>

datatype lifecycle_axis =
    Axis_Enrollment
  | Axis_HostIntent
  | Axis_Freshness
  | Axis_BackendReadiness
  | Axis_Placement
  | Axis_Allocation

text \<open>The error carries the axis and the debug names of the two states.\<close>

datatype transition_error = LifecycleTransitionError lifecycle_axis string string

datatype enrollment_state = Enrollment_Pending | Enrollment_Approved | Enrollment_Revoked

fun debug_enrollment :: "enrollment_state \<Rightarrow> string" where
  "debug_enrollment Enrollment_Pending = ''Pending''"
| "debug_enrollment Enrollment_Approved = ''Approved''"
| "debug_enrollment Enrollment_Revoked = ''Revoked''"

datatype host_intent =
  Intent_Active | Intent_Paused | Intent_Draining | Intent_Maintenance | Intent_Retired

fun debug_intent :: "host_intent \<Rightarrow> string" where
  "debug_intent Intent_Active = ''Active''"
| "debug_intent Intent_Paused = ''Paused''"
| "debug_intent Intent_Draining = ''Draining''"
| "debug_intent Intent_Maintenance = ''Maintenance''"
| "debug_intent Intent_Retired = ''Retired''"

datatype freshness = Fresh | Stale | Offline | Freshness_Unknown

fun debug_freshness :: "freshness \<Rightarrow> string" where
  "debug_freshness Fresh = ''Fresh''"
| "debug_freshness Stale = ''Stale''"
| "debug_freshness Offline = ''Offline''"
| "debug_freshness Freshness_Unknown = ''Unknown''"

datatype integrity_state = Unverified | Verified | Quarantined

datatype pressure_state = Pressure_Normal | Pressured | Pressure_Unknown

datatype backend_readiness =
    Backend_Ready
  | Backend_Reconciling
  | Backend_Unavailable
  | Backend_Unsupported
  | Backend_Unknown

fun debug_readiness :: "backend_readiness \<Rightarrow> string" where
  "debug_readiness Backend_Ready = ''Ready''"
| "debug_readiness Backend_Reconciling = ''Reconciling''"
| "debug_readiness Backend_Unavailable = ''Unavailable''"
| "debug_readiness Backend_Unsupported = ''Unsupported''"
| "debug_readiness Backend_Unknown = ''Unknown''"

section \<open>Hosts\<close>

record host_lifecycle =
  hl_enrollment :: enrollment_state
  hl_intent :: host_intent
  hl_freshness :: freshness

datatype lifecycle_validation_error = LifecycleValidationError

text \<open>Deserialisation of a stored lifecycle.\<close>

definition host_lifecycle_try_from ::
  "host_lifecycle \<Rightarrow> lifecycle_validation_error + host_lifecycle" where
  "host_lifecycle_try_from value =
     (if hl_intent value = Intent_Active \<and> hl_enrollment value \<noteq> Enrollment_Approved
      then Inl LifecycleValidationError
      else Inr \<lparr>hl_enrollment = hl_enrollment value, hl_intent = hl_intent value,
                hl_freshness = hl_freshness value\<rparr>)"

definition host_lifecycle_pending :: host_lifecycle where
  "host_lifecycle_pending =
     \<lparr>hl_enrollment = Enrollment_Pending, hl_intent = Intent_Paused,
      hl_freshness = Freshness_Unknown\<rparr>"

fun enrollment_legal :: "enrollment_state \<Rightarrow> enrollment_state \<Rightarrow> bool" where
  "enrollment_legal Enrollment_Pending next =
     (next \<in> {Enrollment_Pending, Enrollment_Approved, Enrollment_Revoked})"
| "enrollment_legal Enrollment_Approved next =
     (next \<in> {Enrollment_Approved, Enrollment_Revoked})"
| "enrollment_legal Enrollment_Revoked next =
     (next \<in> {Enrollment_Revoked, Enrollment_Pending})"

definition transition_enrollment ::
  "host_lifecycle \<Rightarrow> enrollment_state \<Rightarrow> transition_error + host_lifecycle" where
  "transition_enrollment h next =
     (let err = LifecycleTransitionError Axis_Enrollment
                  (debug_enrollment (hl_enrollment h)) (debug_enrollment next)
      in if \<not> enrollment_legal (hl_enrollment h) next then Inl err
         else if next = Enrollment_Revoked \<and> hl_intent h = Intent_Active then Inl err
         else Inr (h\<lparr>hl_enrollment := next\<rparr>))"

fun intent_legal :: "host_intent \<Rightarrow> host_intent \<Rightarrow> bool" where
  "intent_legal Intent_Active next =
     (next \<in> {Intent_Active, Intent_Paused, Intent_Draining, Intent_Maintenance,
               Intent_Retired})"
| "intent_legal Intent_Paused next =
     (next \<in> {Intent_Paused, Intent_Active, Intent_Draining, Intent_Maintenance,
               Intent_Retired})"
| "intent_legal Intent_Draining next =
     (next \<in> {Intent_Draining, Intent_Active, Intent_Paused, Intent_Maintenance,
               Intent_Retired})"
| "intent_legal Intent_Maintenance next =
     (next \<in> {Intent_Maintenance, Intent_Active, Intent_Paused, Intent_Draining,
               Intent_Retired})"
| "intent_legal Intent_Retired next = (next = Intent_Retired)"

definition transition_intent ::
  "host_lifecycle \<Rightarrow> host_intent \<Rightarrow> transition_error + host_lifecycle" where
  "transition_intent h next =
     (let err = LifecycleTransitionError Axis_HostIntent
                  (debug_intent (hl_intent h)) (debug_intent next)
      in if next = Intent_Active \<and> hl_enrollment h \<noteq> Enrollment_Approved then Inl err
         else if \<not> intent_legal (hl_intent h) next then Inl err
         else Inr (h\<lparr>hl_intent := next\<rparr>))"

fun freshness_legal :: "freshness \<Rightarrow> freshness \<Rightarrow> bool" where
  "freshness_legal Freshness_Unknown next = (next \<in> {Freshness_Unknown, Fresh, Stale, Offline})"
| "freshness_legal Fresh next = (next \<in> {Fresh, Stale, Offline})"
| "freshness_legal Stale next = (next \<in> {Stale, Fresh, Offline})"
| "freshness_legal Offline next = (next \<in> {Offline, Fresh, Freshness_Unknown})"

definition transition_freshness ::
  "host_lifecycle \<Rightarrow> freshness \<Rightarrow> transition_error + host_lifecycle" where
  "transition_freshness h next =
     (if \<not> freshness_legal (hl_freshness h) next
      then Inl (LifecycleTransitionError Axis_Freshness
                  (debug_freshness (hl_freshness h)) (debug_freshness next))
      else Inr (h\<lparr>hl_freshness := next\<rparr>))"

section \<open>Backends, placements and allocations\<close>

fun readiness_legal :: "backend_readiness \<Rightarrow> backend_readiness \<Rightarrow> bool" where
  "readiness_legal Backend_Ready next =
     (next \<in> {Backend_Ready, Backend_Reconciling, Backend_Unavailable, Backend_Unknown})"
| "readiness_legal Backend_Reconciling next =
     (next \<in> {Backend_Reconciling, Backend_Ready, Backend_Unavailable, Backend_Unsupported,
               Backend_Unknown})"
| "readiness_legal Backend_Unavailable next =
     (next \<in> {Backend_Unavailable, Backend_Ready, Backend_Reconciling, Backend_Unknown})"
| "readiness_legal Backend_Unsupported next =
     (next \<in> {Backend_Unsupported, Backend_Reconciling, Backend_Unknown})"
| "readiness_legal Backend_Unknown next =
     (next \<in> {Backend_Unknown, Backend_Reconciling, Backend_Ready, Backend_Unavailable,
               Backend_Unsupported})"

definition readiness_transition ::
  "backend_readiness \<Rightarrow> backend_readiness \<Rightarrow> transition_error + backend_readiness" where
  "readiness_transition s next =
     (if readiness_legal s next then Inr next
      else Inl (LifecycleTransitionError Axis_BackendReadiness
                  (debug_readiness s) (debug_readiness next)))"

datatype placement_state =
    Placement_Reserved
  | Placement_Preparing
  | Placement_Registering
  | Placement_Starting
  | Placement_Running
  | Placement_Draining
  | Placement_Stopping
  | Placement_Stopped
  | Placement_Cleaned
  | Placement_RetryableFailure
  | Placement_TerminalFailure
  | Placement_Uncertain

fun debug_placement :: "placement_state \<Rightarrow> string" where
  "debug_placement Placement_Reserved = ''Reserved''"
| "debug_placement Placement_Preparing = ''Preparing''"
| "debug_placement Placement_Registering = ''Registering''"
| "debug_placement Placement_Starting = ''Starting''"
| "debug_placement Placement_Running = ''Running''"
| "debug_placement Placement_Draining = ''Draining''"
| "debug_placement Placement_Stopping = ''Stopping''"
| "debug_placement Placement_Stopped = ''Stopped''"
| "debug_placement Placement_Cleaned = ''Cleaned''"
| "debug_placement Placement_RetryableFailure = ''RetryableFailure''"
| "debug_placement Placement_TerminalFailure = ''TerminalFailure''"
| "debug_placement Placement_Uncertain = ''Uncertain''"

fun placement_legal :: "placement_state \<Rightarrow> placement_state \<Rightarrow> bool" where
  "placement_legal Placement_Reserved next =
     (next \<in> {Placement_Reserved, Placement_Preparing, Placement_RetryableFailure,
               Placement_Uncertain})"
| "placement_legal Placement_Preparing next =
     (next \<in> {Placement_Preparing, Placement_Registering, Placement_RetryableFailure,
               Placement_TerminalFailure, Placement_Uncertain})"
| "placement_legal Placement_Registering next =
     (next \<in> {Placement_Registering, Placement_Starting, Placement_RetryableFailure,
               Placement_TerminalFailure, Placement_Uncertain})"
| "placement_legal Placement_Starting next =
     (next \<in> {Placement_Starting, Placement_Running, Placement_RetryableFailure,
               Placement_TerminalFailure, Placement_Uncertain})"
| "placement_legal Placement_Running next =
     (next \<in> {Placement_Running, Placement_Draining, Placement_Stopping, Placement_Uncertain})"
| "placement_legal Placement_Draining next =
     (next \<in> {Placement_Draining, Placement_Stopping, Placement_Stopped, Placement_Uncertain})"
| "placement_legal Placement_Stopping next =
     (next \<in> {Placement_Stopping, Placement_Stopped, Placement_Cleaned,
               Placement_RetryableFailure, Placement_Uncertain})"
| "placement_legal Placement_Stopped next =
     (next \<in> {Placement_Stopped, Placement_Cleaned, Placement_Uncertain})"
| "placement_legal Placement_Cleaned next = (next = Placement_Cleaned)"
| "placement_legal Placement_RetryableFailure next =
     (next \<in> {Placement_RetryableFailure, Placement_Reserved, Placement_TerminalFailure,
               Placement_Uncertain})"
| "placement_legal Placement_TerminalFailure next =
     (next \<in> {Placement_TerminalFailure, Placement_Cleaned})"
| "placement_legal Placement_Uncertain next =
     (next \<in> {Placement_Uncertain, Placement_RetryableFailure, Placement_TerminalFailure,
               Placement_Running, Placement_Stopped, Placement_Cleaned})"

definition placement_transition ::
  "placement_state \<Rightarrow> placement_state \<Rightarrow> transition_error + placement_state" where
  "placement_transition s next =
     (if placement_legal s next then Inr next
      else Inl (LifecycleTransitionError Axis_Placement
                  (debug_placement s) (debug_placement next)))"

datatype allocation_state =
    Allocation_Reserved
  | Allocation_Committed
  | Allocation_Releasing
  | Allocation_Uncertain
  | Allocation_Released

fun debug_allocation :: "allocation_state \<Rightarrow> string" where
  "debug_allocation Allocation_Reserved = ''Reserved''"
| "debug_allocation Allocation_Committed = ''Committed''"
| "debug_allocation Allocation_Releasing = ''Releasing''"
| "debug_allocation Allocation_Uncertain = ''Uncertain''"
| "debug_allocation Allocation_Released = ''Released''"

fun allocation_legal :: "allocation_state \<Rightarrow> allocation_state \<Rightarrow> bool" where
  "allocation_legal Allocation_Reserved next =
     (next \<in> {Allocation_Reserved, Allocation_Committed, Allocation_Uncertain})"
| "allocation_legal Allocation_Committed next =
     (next \<in> {Allocation_Committed, Allocation_Releasing, Allocation_Uncertain})"
| "allocation_legal Allocation_Releasing next =
     (next \<in> {Allocation_Releasing, Allocation_Uncertain})"
| "allocation_legal Allocation_Uncertain next =
     (next \<in> {Allocation_Uncertain, Allocation_Releasing})"
| "allocation_legal Allocation_Released next = (next = Allocation_Released)"

definition allocation_transition ::
  "allocation_state \<Rightarrow> allocation_state \<Rightarrow> transition_error + allocation_state" where
  "allocation_transition s next =
     (if allocation_legal s next then Inr next
      else Inl (LifecycleTransitionError Axis_Allocation
                  (debug_allocation s) (debug_allocation next)))"

record proven_local_absence =
  pla_placement_id :: placement_id
  pla_observed_generation :: generation
  pla_observed_epoch :: host_epoch

record delayed_start_exclusion =
  dse_placement_id :: placement_id
  dse_generation :: generation
  dse_host_epoch :: host_epoch

datatype allocation_release_error = AllocationReleaseError

definition allocation_release ::
  "allocation_state \<Rightarrow> placement_id \<Rightarrow> generation \<Rightarrow> host_epoch \<Rightarrow>
   proven_local_absence \<Rightarrow> delayed_start_exclusion \<Rightarrow>
   allocation_release_error + allocation_state" where
  "allocation_release s expected_placement_id expected_generation expected_epoch
     local_absence delayed_start =
     (if pla_placement_id local_absence \<noteq> expected_placement_id \<or>
         dse_placement_id delayed_start \<noteq> expected_placement_id \<or>
         pla_observed_generation local_absence \<noteq> expected_generation \<or>
         dse_generation delayed_start \<noteq> expected_generation \<or>
         pla_observed_epoch local_absence \<noteq> expected_epoch \<or>
         dse_host_epoch delayed_start \<noteq> expected_epoch
      then Inl AllocationReleaseError
      else case s of
        Allocation_Released \<Rightarrow> Inl AllocationReleaseError
      | _ \<Rightarrow> Inr Allocation_Released)"

datatype provider_cleanup_state =
  Cleanup_NotRegistered | Cleanup_Pending | Cleanup_Uncertain | Cleanup_Removed

section \<open>Placement ownership\<close>

record placement_ownership =
  po_host_id :: host_id
  po_backend_id :: backend_id
  po_original_epoch :: host_epoch
  po_generation :: generation

definition ownership_recovered ::
  "placement_ownership \<Rightarrow> host_epoch \<Rightarrow> generation \<Rightarrow> placement_ownership" where
  "ownership_recovered po new_epoch new_generation =
     \<lparr>po_host_id = po_host_id po, po_backend_id = po_backend_id po,
      po_original_epoch = new_epoch, po_generation = new_generation\<rparr>"

section \<open>The contract of an axis\<close>

text \<open>Making a list of requests one after another, stopping at the first refusal.\<close>

fun run_transitions :: "('s \<Rightarrow> 'r \<Rightarrow> 'e + 's) \<Rightarrow> 's \<Rightarrow> 'r list \<Rightarrow> 'e + 's" where
  "run_transitions step s [] = Inr s"
| "run_transitions step s (n # ns) = rbind (step s n) (\<lambda>s'. run_transitions step s' ns)"

locale transition_axis =
  fixes legal :: "'s \<Rightarrow> 's \<Rightarrow> bool"
    and move :: "'s \<Rightarrow> 's \<Rightarrow> 'e + 's"
  assumes move_Inr: "move s n = Inr t \<longleftrightarrow> legal s n \<and> t = n"
    and legal_refl: "legal s s"
begin

lemma run_ends_in_request:
  "run_transitions move s ns = Inr t \<Longrightarrow> t = last (s # ns)"
  by (induction ns arbitrary: s) (auto simp: result_splits move_Inr)

lemma run_preserves:
  assumes "\<And>x n. P x \<Longrightarrow> legal x n \<Longrightarrow> P n"
  shows "P s \<Longrightarrow> run_transitions move s ns = Inr t \<Longrightarrow> P t"
  using assms by (induction ns arbitrary: s) (auto simp: result_splits move_Inr)

lemma terminal_never_left:
  assumes "\<And>n. legal s n \<Longrightarrow> n = s" and "run_transitions move s ns = Inr t"
  shows "t = s"
  using run_preserves [of "\<lambda>x. x = s", OF _ refl assms(2)] assms(1) by blast

lemma reachable_iff: "(\<exists>ns. run_transitions move s ns = Inr t) \<longleftrightarrow> legal\<^sup>*\<^sup>* s t"
proof
  assume "\<exists>ns. run_transitions move s ns = Inr t"
  then obtain ns where "run_transitions move s ns = Inr t" ..
  then show "legal\<^sup>*\<^sup>* s t"
    by (induction ns arbitrary: s)
      (auto simp: result_splits move_Inr intro: converse_rtranclp_into_rtranclp)
next
  assume "legal\<^sup>*\<^sup>* s t"
  then show "\<exists>ns. run_transitions move s ns = Inr t"
  proof (induction rule: converse_rtranclp_induct)
    case base
    show ?case by (rule exI [of _ "[]"]) simp
  next
    case (step s n)
    then obtain ns where "run_transitions move n ns = Inr t" by blast
    with step.hyps(1) have "run_transitions move s (n # ns) = Inr t"
      using move_Inr [of s n n] by simp
    then show ?case ..
  qed
qed

end

interpretation readiness: transition_axis readiness_legal readiness_transition
proof unfold_locales
  show "readiness_legal s s" for s by (cases s) simp_all
qed (auto simp: readiness_transition_def)

interpretation placement: transition_axis placement_legal placement_transition
proof unfold_locales
  show "placement_legal s s" for s by (cases s) simp_all
qed (auto simp: placement_transition_def)

interpretation allocation: transition_axis allocation_legal allocation_transition
proof unfold_locales
  show "allocation_legal s s" for s by (cases s) simp_all
qed (auto simp: allocation_transition_def)

section \<open>Hosts: the invariant and the reachable lifecycles\<close>

definition host_lifecycle_wf :: "host_lifecycle \<Rightarrow> bool" where
  "host_lifecycle_wf h \<longleftrightarrow>
     (hl_intent h = Intent_Active \<longrightarrow> hl_enrollment h = Enrollment_Approved)"

datatype host_request =
    Request_Enrollment enrollment_state
  | Request_Intent host_intent
  | Request_Freshness freshness

fun host_transition :: "host_lifecycle \<Rightarrow> host_request \<Rightarrow> transition_error + host_lifecycle" where
  "host_transition h (Request_Enrollment e) = transition_enrollment h e"
| "host_transition h (Request_Intent i) = transition_intent h i"
| "host_transition h (Request_Freshness f) = transition_freshness h f"

text \<open>A lifecycle is reached from a fresh enrolment by requests that were accepted.\<close>

inductive host_reachable :: "host_lifecycle \<Rightarrow> bool" where
  pending: "host_reachable host_lifecycle_pending"
| request: "host_reachable h \<Longrightarrow> host_transition h r = Inr h' \<Longrightarrow> host_reachable h'"

inductive_cases host_reachableE: "host_reachable h"

lemmas host_transition_defs =
  transition_enrollment_def transition_intent_def transition_freshness_def Let_def

lemma host_transition_wf:
  "host_lifecycle_wf h \<Longrightarrow> host_transition h r = Inr h' \<Longrightarrow> host_lifecycle_wf h'"
  by (cases r) (auto simp: host_lifecycle_wf_def host_transition_defs split: if_splits
      elim: enrollment_legal.elims)

lemma host_reachable_wf: "host_reachable h \<Longrightarrow> host_lifecycle_wf h"
proof (induction rule: host_reachable.induct)
  case pending
  show ?case by (simp add: host_lifecycle_wf_def host_lifecycle_pending_def)
next
  case (request h r h')
  then show ?case by (blast intro: host_transition_wf)
qed

lemma host_lifecycle_try_from_wf: "host_lifecycle_wf h \<longleftrightarrow> host_lifecycle_try_from h = Inr h"
  by (auto simp: host_lifecycle_try_from_def host_lifecycle_wf_def)

lemma retired_stays:
  "hl_intent h = Intent_Retired \<Longrightarrow> host_transition h r = Inr h' \<Longrightarrow> hl_intent h' = Intent_Retired"
  by (cases r) (auto simp: host_transition_defs split: if_splits)

text \<open>One axis is written by each request: the others are framed.\<close>

lemma host_transition_frame:
  assumes "host_transition h r = Inr h'"
  shows "hl_enrollment h' = (case r of Request_Enrollment e \<Rightarrow> e | _ \<Rightarrow> hl_enrollment h)"
    and "hl_intent h' = (case r of Request_Intent i \<Rightarrow> i | _ \<Rightarrow> hl_intent h)"
    and "hl_freshness h' = (case r of Request_Freshness f \<Rightarrow> f | _ \<Rightarrow> hl_freshness h)"
  using assms by (cases r; auto simp: host_transition_defs split: if_splits)+

section \<open>Allocations: capacity is released only with proof\<close>

lemma allocation_legal_not_released:
  "allocation_legal s n \<Longrightarrow> s \<noteq> Allocation_Released \<Longrightarrow> n \<noteq> Allocation_Released"
  by (cases s) auto

lemma allocation_release_eq_Inr:
  "allocation_release s p g e la ds = Inr t \<longleftrightarrow>
     s \<noteq> Allocation_Released \<and> t = Allocation_Released \<and>
     pla_placement_id la = p \<and> dse_placement_id ds = p \<and>
     pla_observed_generation la = g \<and> dse_generation ds = g \<and>
     pla_observed_epoch la = e \<and> dse_host_epoch ds = e"
  by (cases s) (auto simp: allocation_release_def)

lemma placement_legal_ordered:
  "placement_legal s n \<Longrightarrow> s \<in> {Placement_TerminalFailure, Placement_Cleaned} \<Longrightarrow>
   n \<in> {Placement_TerminalFailure, Placement_Cleaned}"
  by (cases s) auto

section \<open>Properties\<close>

text \<open>
  C36. Whatever sequence of enrolment, intent and freshness requests a host went through since it
  was enrolled, it is active only while it is approved, and its stored lifecycle passes the
  validation that reads it back.
\<close>

theorem host_active_only_while_approved:
  assumes "host_reachable h"
  shows "(hl_intent h = Intent_Active \<longrightarrow> hl_enrollment h = Enrollment_Approved) \<and>
         host_lifecycle_try_from h = Inr h"
  using host_reachable_wf [OF assms] host_lifecycle_try_from_wf [of h]
  by (simp add: host_lifecycle_wf_def)

theorem host_active_only_while_approved_witness:
  "let h = \<lparr>hl_enrollment = Enrollment_Approved, hl_intent = Intent_Active, hl_freshness = Fresh\<rparr>
   in host_reachable h \<and> host_lifecycle_try_from h = Inr h"
proof -
  let ?a = "\<lparr>hl_enrollment = Enrollment_Approved, hl_intent = Intent_Paused,
             hl_freshness = Freshness_Unknown\<rparr>"
  let ?b = "\<lparr>hl_enrollment = Enrollment_Approved, hl_intent = Intent_Active,
             hl_freshness = Freshness_Unknown\<rparr>"
  let ?h = "\<lparr>hl_enrollment = Enrollment_Approved, hl_intent = Intent_Active,
             hl_freshness = Fresh\<rparr>"
  have "host_reachable ?a"
    by (rule host_reachable.request [OF pending, of "Request_Enrollment Enrollment_Approved"])
      (simp add: host_transition_defs host_lifecycle_pending_def)
  then have "host_reachable ?b"
    by (rule host_reachable.request [of _ "Request_Intent Intent_Active"])
      (simp add: host_transition_defs)
  then have "host_reachable ?h"
    by (rule host_reachable.request [of _ "Request_Freshness Fresh"])
      (simp add: host_transition_defs)
  with host_active_only_while_approved [OF this] show ?thesis by (simp add: Let_def)
qed

text \<open>
  A retired host stays retired through every sequence of accepted requests: no request
  brings it back.
\<close>

theorem retired_host_never_returns:
  assumes "hl_intent h = Intent_Retired" and "run_transitions host_transition h rs = Inr h'"
  shows "hl_intent h' = Intent_Retired"
  using assms(2,1)
  by (induction rs arbitrary: h) (auto simp: result_splits dest: retired_stays)

theorem retired_host_never_returns_witness:
  "let h = host_lifecycle_pending\<lparr>hl_intent := Intent_Retired\<rparr>;
       h' = h\<lparr>hl_enrollment := Enrollment_Approved\<rparr>
   in run_transitions host_transition h [Request_Enrollment Enrollment_Approved] = Inr h' \<and>
      hl_intent h' = Intent_Retired \<and>
      host_transition h' (Request_Intent Intent_Active) =
        Inl (LifecycleTransitionError Axis_HostIntent ''Retired'' ''Active'')"
  using retired_host_never_returns [of "host_lifecycle_pending\<lparr>hl_intent := Intent_Retired\<rparr>"
      "[Request_Enrollment Enrollment_Approved]"
      "host_lifecycle_pending\<lparr>hl_intent := Intent_Retired, hl_enrollment := Enrollment_Approved\<rparr>"]
  by (simp add: Let_def host_transition_defs host_lifecycle_pending_def)

text \<open>
  Capacity is freed only with proof: no sequence of ordinary allocation transitions that
  starts from a charged state reaches \<open>Released\<close>, and the release operation reaches it
  exactly when the absence observation and the exclusion of a delayed start both name this
  placement, generation and host epoch and the allocation is not already released.
\<close>

theorem allocation_released_only_with_proof:
  "(run_transitions allocation_transition s ns = Inr Allocation_Released \<longleftrightarrow>
      s = Allocation_Released \<and> set ns \<subseteq> {Allocation_Released}) \<and>
   (allocation_release s p g e la ds = Inr Allocation_Released \<longleftrightarrow>
      s \<noteq> Allocation_Released \<and>
      la = \<lparr>pla_placement_id = p, pla_observed_generation = g, pla_observed_epoch = e\<rparr> \<and>
      ds = \<lparr>dse_placement_id = p, dse_generation = g, dse_host_epoch = e\<rparr>)"
proof
  show "run_transitions allocation_transition s ns = Inr Allocation_Released \<longleftrightarrow>
      s = Allocation_Released \<and> set ns \<subseteq> {Allocation_Released}"
  proof (induction ns arbitrary: s)
    case (Cons n ns)
    show ?case
      using allocation_legal_not_released [of s n]
      by (cases "s = Allocation_Released")
        (auto simp: result_splits allocation.move_Inr Cons.IH)
  qed simp
qed (cases la; cases ds; auto simp: allocation_release_eq_Inr)

text \<open>
  The states a placement can be moved to are exactly those the table of legal steps
  connects, and the two failure and clean-up states are terminal: from \<open>Cleaned\<close> nothing
  else is reached, from \<open>TerminalFailure\<close> only \<open>Cleaned\<close>.
\<close>

theorem placement_reachability:
  "((\<exists>ns. run_transitions placement_transition s ns = Inr t) \<longleftrightarrow> placement_legal\<^sup>*\<^sup>* s t) \<and>
   (run_transitions placement_transition Placement_Cleaned ns = Inr t \<longrightarrow> t = Placement_Cleaned) \<and>
   (run_transitions placement_transition Placement_TerminalFailure ns = Inr t \<longrightarrow>
      t \<in> {Placement_TerminalFailure, Placement_Cleaned})"
  using placement.reachable_iff placement.terminal_never_left [of Placement_Cleaned ns t]
    placement.run_preserves [of "\<lambda>x. x \<in> {Placement_TerminalFailure, Placement_Cleaned}",
      OF placement_legal_ordered]
  by fastforce

theorem placement_reachability_witness:
  "run_transitions placement_transition Placement_TerminalFailure
     [Placement_TerminalFailure, Placement_Cleaned] = Inr Placement_Cleaned \<and>
   Placement_Cleaned \<in> {Placement_TerminalFailure, Placement_Cleaned} \<and>
   placement_legal\<^sup>*\<^sup>* Placement_TerminalFailure Placement_Cleaned"
proof -
  have run: "run_transitions placement_transition Placement_TerminalFailure
      [Placement_TerminalFailure, Placement_Cleaned] = Inr Placement_Cleaned"
    by (simp add: placement_transition_def)
  with placement_reachability [of Placement_TerminalFailure Placement_Cleaned
      "[Placement_TerminalFailure, Placement_Cleaned]"]
  show ?thesis by blast
qed

end
