(* ===== verification/Authorization.thy ===== *)
theory Authorization
  imports Domain
begin

text \<open>
  Scoped grants and the proofs minted from them
  (\<^verbatim>\<open>crates/gridops-core/src/fleet/authorization.rs\<close>). A grant snapshot authorises one
  host, one target and a set of capabilities until it expires or is revoked; a proof is checked
  again against the current snapshot inside the admission transaction. The locale
  \<open>proof_minting\<close> states what every minting operation promises about its proofs and is
  interpreted on each of the five operations of the source.
\<close>

section \<open>Principals, capabilities and grants\<close>

datatype principal = AuthenticatedUser (user_id: string) | Reconciler | Autoscaler | FixAgent

datatype capability =
    ReadHost
  | ReadWorkload
  | EnrollHost
  | Schedule
  | DrainHost
  | MaintainHost
  | RetireHost
  | RevokeHost
  | NativeExecution
  | InteractiveSession
  | DockerSocket
  | ExecuteSandbox

record session_grant_snapshot =
  sg_session_id :: session_id
  sg_host_id :: host_id
  sg_target :: ci_target
  sg_revision :: revision
  sg_target_grant_revision :: revision
  sg_ready :: bool
  sg_authorized :: bool

definition session_is_ready :: "session_grant_snapshot \<Rightarrow> bool" where
  "session_is_ready s \<longleftrightarrow> sg_ready s \<and> sg_authorized s"

record grant_snapshot =
  gs_principal :: principal
  gs_host_id :: host_id
  gs_target :: "ci_target option"
  gs_capabilities :: "capability set"
  gs_revision :: revision
  gs_expires_at_millis :: i64
  gs_revoked :: bool
  gs_session :: "session_grant_snapshot option"

definition grant_trusted_with_session ::
  "principal \<Rightarrow> host_id \<Rightarrow> ci_target option \<Rightarrow> capability list \<Rightarrow> revision \<Rightarrow> i64 \<Rightarrow> bool \<Rightarrow>
   session_grant_snapshot option \<Rightarrow> grant_snapshot" where
  "grant_trusted_with_session p h t cs r e rv s =
     \<lparr>gs_principal = p, gs_host_id = h, gs_target = t, gs_capabilities = set cs,
      gs_revision = r, gs_expires_at_millis = e, gs_revoked = rv, gs_session = s\<rparr>"

definition grant_trusted ::
  "principal \<Rightarrow> host_id \<Rightarrow> ci_target option \<Rightarrow> capability list \<Rightarrow> revision \<Rightarrow> i64 \<Rightarrow> bool \<Rightarrow>
   grant_snapshot" where
  "grant_trusted p h t cs r e rv = grant_trusted_with_session p h t cs r e rv None"

datatype authorization_error =
    Auth_Revoked
  | Auth_Expired
  | Auth_WrongHost
  | Auth_TargetMismatch
  | Auth_MissingCapability
  | Auth_StaleProof
  | Auth_SessionUnavailable
  | Auth_SessionMismatch
  | Auth_UnsupportedSandbox

record authorization_proof =
  ap_principal :: principal
  ap_host_id :: host_id
  ap_target :: "ci_target option"
  ap_capability :: capability
  ap_revision :: revision
  ap_expires_at_millis :: i64
  ap_session :: "session_grant_snapshot option"

definition is_expired_at :: "authorization_proof \<Rightarrow> i64 \<Rightarrow> bool" where
  "is_expired_at p now_millis \<longleftrightarrow> now_millis \<ge> ap_expires_at_millis p"

datatype native_execution_proof = NativeExecutionProof (native_authorization: authorization_proof)

datatype docker_socket_proof = DockerSocketProof (docker_authorization: authorization_proof)

record interactive_session_proof =
  isp_proof :: authorization_proof
  isp_session_id :: session_id

record owned_fix_placement =
  ofp_host_id :: host_id
  ofp_workload_id :: workload_id
  ofp_placement_id :: placement_id
  ofp_generation :: generation
  ofp_host_epoch :: host_epoch
  ofp_target :: ci_target
  ofp_runtime :: runtime_kind
  ofp_execution_os :: execution_os

record execute_sandbox_proof =
  esp_proof :: authorization_proof
  esp_placement :: owned_fix_placement

section \<open>Checks\<close>

definition grant_validate ::
  "grant_snapshot \<Rightarrow> host_id \<Rightarrow> ci_target option \<Rightarrow> capability \<Rightarrow> i64 \<Rightarrow>
   authorization_error + unit" where
  "grant_validate g host target cap now_millis =
     rbind (ensure (\<not> gs_revoked g) Auth_Revoked) (\<lambda>_.
     rbind (ensure (\<not> now_millis \<ge> gs_expires_at_millis g) Auth_Expired) (\<lambda>_.
     rbind (ensure (gs_host_id g = host) Auth_WrongHost) (\<lambda>_.
     rbind (ensure (gs_target g = target) Auth_TargetMismatch) (\<lambda>_.
     ensure (cap \<in> gs_capabilities g) Auth_MissingCapability))))"

definition authorize ::
  "grant_snapshot \<Rightarrow> host_id \<Rightarrow> ci_target option \<Rightarrow> capability \<Rightarrow> i64 \<Rightarrow>
   authorization_error + authorization_proof" where
  "authorize g host target cap now_millis =
     rbind (grant_validate g host target cap now_millis) (\<lambda>_.
     Inr \<lparr>ap_principal = gs_principal g, ap_host_id = host, ap_target = target,
          ap_capability = cap, ap_revision = gs_revision g,
          ap_expires_at_millis = gs_expires_at_millis g, ap_session = None\<rparr>)"

definition authorize_native ::
  "grant_snapshot \<Rightarrow> host_id \<Rightarrow> ci_target \<Rightarrow> i64 \<Rightarrow> authorization_error + native_execution_proof"
  where
  "authorize_native g host target now_millis =
     rbind (authorize g host (Some target) NativeExecution now_millis) (\<lambda>p.
     Inr (NativeExecutionProof p))"

definition authorize_interactive ::
  "grant_snapshot \<Rightarrow> host_id \<Rightarrow> ci_target \<Rightarrow> session_grant_snapshot \<Rightarrow> i64 \<Rightarrow>
   authorization_error + interactive_session_proof" where
  "authorize_interactive g host target session now_millis =
     rbind (ensure (session_is_ready session) Auth_SessionUnavailable) (\<lambda>_.
     rbind (ensure (\<not> (gs_session g \<noteq> Some session \<or> sg_host_id session \<noteq> host \<or>
                       sg_target session \<noteq> target)) Auth_SessionMismatch) (\<lambda>_.
     rbind (authorize g host (Some target) InteractiveSession now_millis) (\<lambda>p.
     Inr \<lparr>isp_proof = p\<lparr>ap_session := Some session\<rparr>,
          isp_session_id = sg_session_id session\<rparr>)))"

definition authorize_docker_socket ::
  "grant_snapshot \<Rightarrow> host_id \<Rightarrow> ci_target \<Rightarrow> i64 \<Rightarrow> authorization_error + docker_socket_proof"
  where
  "authorize_docker_socket g host target now_millis =
     rbind (authorize g host (Some target) DockerSocket now_millis) (\<lambda>p.
     Inr (DockerSocketProof p))"

definition authorize_sandbox ::
  "grant_snapshot \<Rightarrow> owned_fix_placement \<Rightarrow> i64 \<Rightarrow> authorization_error + execute_sandbox_proof"
  where
  "authorize_sandbox g placement now_millis =
     (if ofp_runtime placement \<noteq> Docker \<or> ofp_execution_os placement \<noteq> Linux
      then Inl Auth_UnsupportedSandbox
      else if ofp_host_id placement \<noteq> gs_host_id g then Inl Auth_WrongHost
      else if gs_target g \<noteq> Some (ofp_target placement) then Inl Auth_TargetMismatch
      else rbind (authorize g (ofp_host_id placement) (Some (ofp_target placement))
                    ExecuteSandbox now_millis) (\<lambda>p.
           Inr \<lparr>esp_proof = p, esp_placement = placement\<rparr>))"

definition recheck ::
  "grant_snapshot \<Rightarrow> authorization_proof \<Rightarrow> i64 \<Rightarrow> authorization_error + unit" where
  "recheck g p now_millis =
     rbind (grant_validate g (ap_host_id p) (ap_target p) (ap_capability p) now_millis) (\<lambda>_.
     rbind (ensure (\<not> (ap_principal p \<noteq> gs_principal g \<or> ap_revision p \<noteq> gs_revision g \<or>
                       ap_expires_at_millis p \<noteq> gs_expires_at_millis g)) Auth_StaleProof) (\<lambda>_.
     case ap_session p of
       None \<Rightarrow> Inr ()
     | Some expected \<Rightarrow>
         (case gs_session g of
            None \<Rightarrow> Inl Auth_SessionMismatch
          | Some session \<Rightarrow>
              ensure (\<not> (\<not> session_is_ready session \<or> session \<noteq> expected \<or>
                        sg_host_id session \<noteq> ap_host_id p \<or>
                        Some (sg_target session) \<noteq> ap_target p)) Auth_SessionMismatch)))"

section \<open>What a check decides\<close>

definition grant_covers ::
  "grant_snapshot \<Rightarrow> host_id \<Rightarrow> ci_target option \<Rightarrow> capability \<Rightarrow> i64 \<Rightarrow> bool" where
  "grant_covers g host target cap now \<longleftrightarrow>
     \<not> gs_revoked g \<and> now < gs_expires_at_millis g \<and> gs_host_id g = host \<and>
     gs_target g = target \<and> cap \<in> gs_capabilities g"

lemma grant_validate_eq_Inr [result_splits]:
  "grant_validate g h t c now = Inr u \<longleftrightarrow> grant_covers g h t c now"
  by (auto simp: grant_validate_def grant_covers_def result_splits)

lemma authorize_eq_Inr [result_splits]:
  "authorize g h t c now = Inr p \<longleftrightarrow>
     grant_covers g h t c now \<and>
     p = \<lparr>ap_principal = gs_principal g, ap_host_id = h, ap_target = t, ap_capability = c,
          ap_revision = gs_revision g, ap_expires_at_millis = gs_expires_at_millis g,
          ap_session = None\<rparr>"
  by (auto simp: authorize_def result_splits)

text \<open>The session clause of a recheck: a session-bound proof needs the very same ready session.\<close>

definition session_matches :: "grant_snapshot \<Rightarrow> authorization_proof \<Rightarrow> bool" where
  "session_matches g p \<longleftrightarrow>
     (\<forall>s. ap_session p = Some s \<longrightarrow>
        gs_session g = Some s \<and> session_is_ready s \<and> sg_host_id s = ap_host_id p \<and>
        ap_target p = Some (sg_target s))"

lemma recheck_eq_Inr:
  "recheck g p now = Inr u \<longleftrightarrow>
     grant_covers g (ap_host_id p) (ap_target p) (ap_capability p) now \<and>
     ap_principal p = gs_principal g \<and> ap_revision p = gs_revision g \<and>
     ap_expires_at_millis p = gs_expires_at_millis g \<and> session_matches g p"
  by (auto simp: recheck_def result_splits session_matches_def split: option.splits)

section \<open>The contract of the minting operations\<close>

text \<open>
  \<open>mint g now\<close> is one authorisation call with its arguments fixed, \<open>auth\<close> the
  general proof inside the typed one. A minting operation promises that its proof passes a
  recheck against the same grant at the same instant.
\<close>

locale proof_minting =
  fixes mint :: "grant_snapshot \<Rightarrow> i64 \<Rightarrow> authorization_error + 'p"
    and auth :: "'p \<Rightarrow> authorization_proof"
  assumes mint_rechecks: "mint g now = Inr p \<Longrightarrow> recheck g (auth p) now = Inr ()"
begin

text \<open>A proof stays good for as long as its grant is unchanged and unexpired.\<close>

lemma rechecks_until_expiry:
  assumes "mint g now = Inr p"
  shows "recheck g (auth p) later = Inr () \<longleftrightarrow> \<not> is_expired_at (auth p) later"
  using mint_rechecks [OF assms]
  by (auto simp: recheck_eq_Inr grant_covers_def is_expired_at_def)

lemma rechecks_while_unexpired:
  assumes "mint g now = Inr p"
  shows "recheck g (auth p) later = Inr () \<longleftrightarrow> later < gs_expires_at_millis g"
  using mint_rechecks [OF assms]
  by (auto simp: recheck_eq_Inr grant_covers_def)

text \<open>A changed grant invalidates it: revoked, re-issued at another revision, or moved.\<close>

lemma recheck_fails_after_change:
  assumes "mint g now = Inr p"
    and "gs_revoked g' \<or> gs_revision g' \<noteq> gs_revision g \<or> gs_host_id g' \<noteq> gs_host_id g \<or>
         gs_target g' \<noteq> gs_target g \<or> gs_principal g' \<noteq> gs_principal g \<or>
         gs_expires_at_millis g' \<noteq> gs_expires_at_millis g \<or>
         ap_capability (auth p) \<notin> gs_capabilities g'"
  shows "\<not> is_ok (recheck g' (auth p) later)"
  using mint_rechecks [OF assms(1)] assms(2)
  by (auto simp: is_ok_iff recheck_eq_Inr grant_covers_def)

lemma mint_needs_live_grant:
  assumes "mint g now = Inr p"
  shows "\<not> gs_revoked g \<and> now < gs_expires_at_millis g \<and> ap_host_id (auth p) = gs_host_id g \<and>
         ap_target (auth p) = gs_target g \<and> ap_capability (auth p) \<in> gs_capabilities g"
  using mint_rechecks [OF assms] by (auto simp: recheck_eq_Inr grant_covers_def)

end

interpretation general: proof_minting "\<lambda>g now. authorize g host target cap now" "\<lambda>p. p"
  for host target cap
  by unfold_locales (auto simp: result_splits recheck_eq_Inr session_matches_def)

interpretation native: proof_minting "\<lambda>g now. authorize_native g host target now"
  native_authorization
  for host target
  by unfold_locales
    (auto simp: authorize_native_def result_splits recheck_eq_Inr session_matches_def)

interpretation interactive: proof_minting
  "\<lambda>g now. authorize_interactive g host target session now" isp_proof
  for host target session
  by unfold_locales
    (auto simp: authorize_interactive_def result_splits recheck_eq_Inr session_matches_def)

interpretation docker_socket: proof_minting "\<lambda>g now. authorize_docker_socket g host target now"
  docker_authorization
  for host target
  by unfold_locales
    (auto simp: authorize_docker_socket_def result_splits recheck_eq_Inr session_matches_def)

interpretation sandbox: proof_minting "\<lambda>g now. authorize_sandbox g placement now" esp_proof
  for placement
  by unfold_locales
    (auto simp: authorize_sandbox_def result_splits recheck_eq_Inr session_matches_def
      split: if_splits)

lemma authorize_interactive_eq_Inr:
  "is_ok (authorize_interactive g host target s now) \<longleftrightarrow>
     session_is_ready s \<and> gs_session g = Some s \<and> sg_host_id s = host \<and> sg_target s = target \<and>
     grant_covers g host (Some target) InteractiveSession now"
  by (auto simp: is_ok_iff authorize_interactive_def result_splits)

section \<open>Properties\<close>

text \<open>
  A proof minted by any of the five authorisation calls passes the recheck of the admission
  transaction against the unchanged grant at every instant before the grant expires and at none
  after.
\<close>

theorem minted_proofs_recheck_until_expiry:
  "(authorize g h t c now = Inr p1 \<longrightarrow>
      (recheck g p1 later = Inr () \<longleftrightarrow> later < gs_expires_at_millis g)) \<and>
   (authorize_native g h tg now = Inr p2 \<longrightarrow>
      (recheck g (native_authorization p2) later = Inr () \<longleftrightarrow> later < gs_expires_at_millis g)) \<and>
   (authorize_interactive g h tg s now = Inr p3 \<longrightarrow>
      (recheck g (isp_proof p3) later = Inr () \<longleftrightarrow> later < gs_expires_at_millis g)) \<and>
   (authorize_docker_socket g h tg now = Inr p4 \<longrightarrow>
      (recheck g (docker_authorization p4) later = Inr () \<longleftrightarrow>
         later < gs_expires_at_millis g)) \<and>
   (authorize_sandbox g pl now = Inr p5 \<longrightarrow>
      (recheck g (esp_proof p5) later = Inr () \<longleftrightarrow> later < gs_expires_at_millis g))"
  by (intro conjI impI)
    (erule general.rechecks_while_unexpired native.rechecks_while_unexpired
      interactive.rechecks_while_unexpired docker_socket.rechecks_while_unexpired
      sandbox.rechecks_while_unexpired)+

theorem minted_proofs_recheck_until_expiry_witness:
  "let g = grant_trusted Reconciler (HostId 7)
             (Some (GithubRepository (ExternalId 1) (ExternalId 2))) [NativeExecution]
             (Revision 3) 100 False;
       r = authorize_native g (HostId 7) (GithubRepository (ExternalId 1) (ExternalId 2)) 40
   in is_ok r \<and> recheck g (native_authorization (projr r)) 99 = Inr () \<and>
      recheck g (native_authorization (projr r)) 100 \<noteq> Inr ()"
proof -
  let ?t = "GithubRepository (ExternalId 1) (ExternalId 2)"
  let ?g = "grant_trusted Reconciler (HostId 7) (Some ?t) [NativeExecution] (Revision 3) 100 False"
  obtain p where p: "authorize_native ?g (HostId 7) ?t 40 = Inr p"
    by (simp add: authorize_native_def authorize_def grant_validate_def grant_trusted_def
        grant_trusted_with_session_def)
  have e: "gs_expires_at_millis ?g = 100"
    by (simp add: grant_trusted_def grant_trusted_with_session_def)
  have "recheck ?g (native_authorization p) later = Inr () \<longleftrightarrow> later < 100" for later
    using minted_proofs_recheck_until_expiry [THEN conjunct2, THEN conjunct1] p e by metis
  then show ?thesis using p by (simp add: Let_def)
qed

text \<open>
  C37. A change of the grant invalidates every proof minted from it: once the grant is revoked,
  re-issued at another revision, principal, host, target or expiry, or loses the capability of
  the proof, the recheck fails at every instant, for each of the five kinds of proof.
\<close>

theorem changed_grant_invalidates_proofs:
  assumes "authorize g h t c now = Inr p \<or>
           authorize_native g h tg now = Inr (NativeExecutionProof p) \<or>
           authorize_interactive g h tg s now = Inr \<lparr>isp_proof = p, isp_session_id = sid\<rparr> \<or>
           authorize_docker_socket g h tg now = Inr (DockerSocketProof p) \<or>
           authorize_sandbox g pl now = Inr \<lparr>esp_proof = p, esp_placement = pl\<rparr>"
    and "gs_revoked g' \<or> gs_revision g' \<noteq> gs_revision g \<or> gs_host_id g' \<noteq> gs_host_id g \<or>
         gs_target g' \<noteq> gs_target g \<or> gs_principal g' \<noteq> gs_principal g \<or>
         gs_expires_at_millis g' \<noteq> gs_expires_at_millis g \<or>
         ap_capability p \<notin> gs_capabilities g'"
  shows "\<not> is_ok (recheck g' p later)"
  using assms(1)
proof (elim disjE)
  assume "authorize g h t c now = Inr p"
  from general.recheck_fails_after_change [OF this] assms(2) show ?thesis by simp
next
  assume "authorize_native g h tg now = Inr (NativeExecutionProof p)"
  from native.recheck_fails_after_change [OF this] assms(2) show ?thesis by simp
next
  assume "authorize_interactive g h tg s now = Inr \<lparr>isp_proof = p, isp_session_id = sid\<rparr>"
  from interactive.recheck_fails_after_change [OF this] assms(2) show ?thesis by simp
next
  assume "authorize_docker_socket g h tg now = Inr (DockerSocketProof p)"
  from docker_socket.recheck_fails_after_change [OF this] assms(2) show ?thesis by simp
next
  assume "authorize_sandbox g pl now = Inr \<lparr>esp_proof = p, esp_placement = pl\<rparr>"
  from sandbox.recheck_fails_after_change [OF this] assms(2) show ?thesis by simp
qed

theorem changed_grant_invalidates_proofs_witness:
  "let g = grant_trusted Autoscaler (HostId 7) None [Schedule] (Revision 3) 100 False;
       g' = grant_trusted Autoscaler (HostId 7) None [Schedule] (Revision 4) 100 False;
       p = \<lparr>ap_principal = Autoscaler, ap_host_id = HostId 7, ap_target = None,
            ap_capability = Schedule, ap_revision = Revision 3, ap_expires_at_millis = 100,
            ap_session = None\<rparr>
   in authorize g (HostId 7) None Schedule 1 = Inr p \<and> \<not> is_ok (recheck g' p 2)"
proof -
  let ?g = "grant_trusted Autoscaler (HostId 7) None [Schedule] (Revision 3) 100 False"
  let ?g' = "grant_trusted Autoscaler (HostId 7) None [Schedule] (Revision 4) 100 False"
  let ?p = "\<lparr>ap_principal = Autoscaler, ap_host_id = HostId 7, ap_target = None,
            ap_capability = Schedule, ap_revision = Revision 3, ap_expires_at_millis = 100,
            ap_session = None\<rparr>"
  have p: "authorize ?g (HostId 7) None Schedule 1 = Inr ?p"
    by (simp add: authorize_def grant_validate_def grant_trusted_def
        grant_trusted_with_session_def)
  moreover have "\<not> is_ok (recheck ?g' ?p 2)"
    by (rule changed_grant_invalidates_proofs [OF disjI1, OF p])
      (simp add: grant_trusted_def grant_trusted_with_session_def)
  ultimately show ?thesis by (simp add: Let_def)
qed

text \<open>
  A sandbox proof is minted exactly for a Linux Docker placement that a live grant for its
  host and target with the sandbox capability covers, and it is bound to that placement.
\<close>

theorem sandbox_proof_exactly_for_owned_linux_docker:
  "authorize_sandbox g pl now = Inr p \<longleftrightarrow>
     ofp_runtime pl = Docker \<and> ofp_execution_os pl = Linux \<and> \<not> gs_revoked g \<and>
     now < gs_expires_at_millis g \<and> gs_host_id g = ofp_host_id pl \<and>
     gs_target g = Some (ofp_target pl) \<and> ExecuteSandbox \<in> gs_capabilities g \<and>
     p = \<lparr>esp_proof = \<lparr>ap_principal = gs_principal g, ap_host_id = ofp_host_id pl,
            ap_target = Some (ofp_target pl), ap_capability = ExecuteSandbox,
            ap_revision = gs_revision g, ap_expires_at_millis = gs_expires_at_millis g,
            ap_session = None\<rparr>,
          esp_placement = pl\<rparr>"
  by (auto simp: authorize_sandbox_def result_splits grant_covers_def)

end
