(* ===== verification/Store.thy ===== *)
theory Store
  imports Outcomes Capabilities Lifecycle Authorization
begin

text \<open>
  The fleet database: the tables of \<^verbatim>\<open>migrations/0022_fleet_foundation.sql\<close> and its
  successors that the fleet service reads and writes, one record type per table with the columns
  the code uses, under the column names. \<^verbatim>\<open>TEXT\<close> columns are strings,
  \<^verbatim>\<open>INTEGER\<close> columns are \<open>i64\<close>, flags with a 0/1 check are
  \<open>bool\<close>, nullable columns are options. A table is the list of its rows in insertion
  order. The last sections give the row loading of \<^verbatim>\<open>store.rs\<close> and the triggers that
  guard capacity: an allocation is released only with recorded absence evidence, and stays
  released.
\<close>

section \<open>Rows\<close>

record control_plane_row =
  cp_incarnation :: string
  cp_readiness :: string
  cp_protocol_min :: i64
  cp_protocol_max :: i64

record host_row =
  fh_id :: string
  fh_enrollment_state :: string
  fh_lifecycle_state :: string
  fh_integrity_state :: string
  fh_epoch :: i64
  fh_boot_id :: "string option"
  fh_agent_session_id :: "string option"
  fh_tags_json :: string
  fh_last_heartbeat_at :: "i64 option"
  fh_last_inventory_at :: "i64 option"
  fh_authority_expires_at :: "i64 option"
  fh_inventory_complete :: bool
  fh_pressure_state :: string
  fh_authority_incarnation :: "string option"
  fh_inventory_epoch :: "i64 option"
  fh_inventory_session_id :: "string option"
  fh_inventory_boot_id :: "string option"
  fh_name :: string
  fh_host_os :: string
  fh_architecture :: string
  fh_hardware_fingerprint :: "string option"
  fh_agent_version :: "string option"
  fh_revision :: i64
  fh_inventory_revision :: i64
  fh_inventory_digest :: "string option"
  fh_current_credential_generation :: "i64 option"
  fh_current_enrollment_id :: "string option"
  fh_current_enrollment_epoch :: "i64 option"
  fh_updated_at :: i64
  fh_retired_at :: "i64 option"

record domain_row =
  dr_id :: string
  dr_host_id :: string
  dr_parent_domain_id :: "string option"
  dr_name :: string
  dr_cpu_millis :: i64
  dr_memory_mib :: i64
  dr_disk_bytes :: i64
  dr_revision :: i64

record backend_row =
  hb_id :: string
  hb_host_id :: string
  hb_domain_id :: string
  hb_runtime_kind :: string
  hb_execution_os :: string
  hb_architecture :: string
  hb_readiness :: string
  hb_reason_code :: "string option"
  hb_enabled :: bool
  hb_capabilities_json :: string
  hb_last_probed_at :: "i64 option"
  hb_probe_epoch :: "i64 option"
  hb_probe_session_id :: "string option"
  hb_probe_boot_id :: "string option"
  hb_probe_incarnation :: "string option"

record ci_target_row =
  ct_id :: string
  ct_kind :: string
  ct_installation_id :: "i64 option"
  ct_repository_id :: "i64 option"
  ct_organization_id :: "i64 option"
  ct_bitbucket_connection_id :: "string option"
  ct_workspace_uuid :: "string option"
  ct_repository_uuid :: "string option"

record target_grant_row =
  tg_host_id :: string
  tg_target_id :: string
  tg_allow_schedule :: bool
  tg_allow_native :: bool
  tg_allow_interactive :: bool
  tg_allow_docker_socket :: bool
  tg_revision :: i64
  tg_revoked_at :: "i64 option"
  tg_granted_by :: "string option"

record user_grant_row =
  ug_host_id :: string
  ug_user_id :: string
  ug_permission :: string
  ug_revoked_at :: "i64 option"

record bitbucket_grant_row =
  bg_connection_id :: string
  bg_user_id :: string
  bg_permission :: string
  bg_revoked_at :: "i64 option"

record host_session_row =
  hs_id :: string
  hs_host_id :: string
  hs_helper_state :: string
  hs_authorized :: bool
  hs_max_jobs :: i64
  hs_last_seen_at :: "i64 option"

record session_target_row =
  st_session_id :: string
  st_target_id :: string
  st_revoked_at :: "i64 option"

record profile_row =
  pr_id :: string
  pr_pool_id :: string
  pr_revision :: i64
  pr_enabled :: bool
  pr_archived_at :: "i64 option"
  pr_runtime_kind :: string
  pr_execution_os :: string
  pr_architecture :: string
  pr_mode :: string
  pr_requires_interactive :: bool
  pr_requires_docker_socket :: bool
  pr_all_authorized_hosts :: bool
  pr_image :: string
  pr_labels_json :: string
  pr_config_json :: string
  pr_cpu_millis :: i64
  pr_memory_mib :: i64
  pr_disk_bytes :: i64

record profile_target_row =
  pt_profile_id :: string
  pt_target_id :: string
  pt_enabled :: bool
  pt_revoked_at :: "i64 option"

record host_selector_row =
  ph_profile_id :: string
  ph_kind :: string
  ph_host_id :: "string option"
  ph_tag_key :: "string option"
  ph_tag_value :: "string option"

record operation_row =
  op_id :: string
  op_kind :: string
  op_requested_by_user_id :: "string option"
  op_principal_kind :: string
  op_principal_scope :: string
  op_idempotency_key :: string
  op_request_hash :: string
  op_status :: string
  op_reason_code :: "string option"
  op_updated_at :: i64

record intent_row =
  wi_id :: string
  wi_workload_id :: string
  wi_generation :: i64
  wi_kind :: string
  wi_pool_id :: string
  wi_profile_id :: string
  wi_target_id :: string
  wi_agent_run_id :: "string option"
  wi_expected_profile_revision :: i64
  wi_status :: string
  wi_reason_code :: "string option"
  wi_created_at :: i64
  wi_updated_at :: i64

record placement_row =
  wp_id :: string
  wp_intent_id :: string
  wp_workload_id :: string
  wp_generation :: i64
  wp_host_id :: string
  wp_backend_id :: string
  wp_host_epoch :: i64
  wp_session_id :: "string option"
  wp_profile_revision :: i64
  wp_target_id :: string
  wp_cpu_millis :: i64
  wp_memory_mib :: i64
  wp_disk_bytes :: i64
  wp_state :: string
  wp_runner_id :: "string option"
  wp_agent_run_id :: "string option"
  wp_created_at :: i64
  wp_updated_at :: i64
  wp_local_absence_proven_at :: "i64 option"
  wp_delayed_starts_excluded_at :: "i64 option"

record allocation_row =
  ca_id :: string
  ca_placement_id :: string
  ca_host_id :: string
  ca_backend_id :: string
  ca_host_epoch :: i64
  ca_domain_id :: string
  ca_policy_revision :: i64
  ca_cpu_millis :: i64
  ca_memory_mib :: i64
  ca_disk_bytes :: i64
  ca_state :: string
  ca_updated_at :: i64
  ca_released_at :: "i64 option"

record command_row =
  hc_cursor :: nat
  hc_id :: string
  hc_operation_id :: string
  hc_placement_id :: "string option"
  hc_host_id :: string
  hc_backend_id :: "string option"
  hc_host_epoch :: i64
  hc_generation :: "i64 option"
  hc_kind :: string
  hc_state :: string
  hc_request_hash :: string
  hc_payload_json :: string
  hc_expected_revision :: i64
  hc_issued_at :: i64
  hc_deadline_at :: i64
  hc_attempt_count :: i64
  hc_idempotency_key :: string

record attempt_row =
  at_command_id :: string
  at_attempt :: i64
  at_state :: string
  at_recorded_at :: i64

record result_row =
  rr_id :: string
  rr_command_id :: string
  rr_result_hash :: string
  rr_disposition :: string
  rr_result_json :: string
  rr_received_at :: i64

record bootstrap_row =
  bm_reference :: string
  bm_placement_id :: string
  bm_host_id :: string
  bm_sealed :: "string option"
  bm_expires_at :: i64
  bm_claimed_at :: "i64 option"
  bm_erased_at :: "i64 option"

record credential_row =
  hk_id :: string
  hk_host_id :: string
  hk_host_epoch :: i64
  hk_generation :: i64
  hk_verifier :: string
  hk_created_at :: i64
  hk_overlap_expires_at :: "i64 option"
  hk_acknowledged_at :: "i64 option"
  hk_revoked_at :: "i64 option"

record enrollment_row =
  he_id :: string
  he_code_verifier :: string
  he_intended_host_id :: "string option"
  he_scope_json :: string
  he_issued_by :: string
  he_created_at :: i64
  he_expires_at :: i64
  he_consumed_at :: "i64 option"
  he_consumed_host_id :: "string option"
  he_revoked_at :: "i64 option"
  he_mode :: string
  he_expected_host_epoch :: "i64 option"
  he_expected_host_revision :: "i64 option"
  he_idempotency_key :: string
  he_request_hash :: string

record rotation_row =
  cr_id :: string
  cr_host_id :: string
  cr_old_credential_id :: string
  cr_old_generation :: i64
  cr_old_host_epoch :: i64
  cr_next_generation :: i64
  cr_idempotency_key :: string
  cr_requested_by :: string
  cr_request_method :: string
  cr_request_resource :: string
  cr_request_hash :: string
  cr_phase :: string
  cr_proposed_verifier :: "string option"
  cr_requested_at :: i64
  cr_expires_at :: i64
  cr_exchanged_at :: "i64 option"
  cr_overlap_expires_at :: "i64 option"
  cr_acknowledged_at :: "i64 option"
  cr_revoked_at :: "i64 option"

record observation_session_row =
  os_session_id :: string
  os_host_id :: string
  os_host_epoch :: i64
  os_boot_id :: string
  os_control_plane_incarnation :: string
  os_current_credential_id :: string
  os_current_credential_generation :: i64
  os_initial_request_id :: string
  os_initial_body_digest :: string
  os_state :: string
  os_created_at :: i64
  os_last_seen_at :: i64
  os_ended_at :: "i64 option"
  os_lease_expires_at :: i64
  os_current_inventory_sequence :: i64
  os_current_inventory_digest :: "string option"
  os_current_inventory_received_at :: "i64 option"
  os_handshake_received_at :: i64
  os_handshake_lease_expires_at :: i64
  os_handshake_state :: string

record inventory_snapshot_row =
  is_host_id :: string
  is_authority_session_id :: string
  is_host_epoch :: i64
  is_control_plane_incarnation :: string
  is_inventory_sequence :: i64
  is_digest :: string
  is_received_at :: i64
  is_inventory_revision :: "i64 option"

record observed_interactive_row =
  oi_host_id :: string
  oi_local_key :: string
  oi_observed_helper_state :: string

record pool_row =
  rp_id :: string
  rp_installation_id :: "i64 option"
  rp_repository_id :: "i64 option"
  rp_max_count :: i64
  rp_paused :: bool
  rp_state :: string

record runner_row =
  rn_id :: string
  rn_pool_id :: string
  rn_deleted_at :: "i64 option"

record agent_run_row =
  ag_id :: string
  ag_repository_id :: i64
  ag_status :: string
  ag_cancel_requested :: bool
  ag_requested_by :: "string option"

record installation_row =
  in_id :: i64
  in_account_id :: i64
  in_suspended_at :: "i64 option"

record user_installation_row =
  ui_user_id :: string
  ui_installation_id :: i64
  ui_permission :: string

record user_row =
  us_id :: string
  us_role :: string

record repository_row =
  rs_id :: i64
  rs_installation_id :: i64

record bitbucket_connection_row =
  bc_id :: string
  bc_workspace_uuid :: string

text \<open>A workflow job joined with the run it belongs to.\<close>

record workflow_job_row =
  wj_repository_id :: i64
  wj_run_status :: string
  wj_status :: string
  wj_created_at :: i64

text \<open>
  Link tables are lists of pairs: pools with installations, repositories and Bitbucket
  connections, pools with their prioritised repositories and with their priority window in
  minutes. Events are the hosts, where one is named, and the kinds recorded, in order.
\<close>

record fleet_db =
  control_plane :: "control_plane_row option"
  hosts :: "host_row list"
  domains :: "domain_row list"
  backends :: "backend_row list"
  targets :: "ci_target_row list"
  target_grants :: "target_grant_row list"
  user_grants :: "user_grant_row list"
  bitbucket_grants :: "bitbucket_grant_row list"
  host_sessions :: "host_session_row list"
  session_targets :: "session_target_row list"
  profiles :: "profile_row list"
  profile_targets :: "profile_target_row list"
  host_selectors :: "host_selector_row list"
  operations :: "operation_row list"
  intents :: "intent_row list"
  placements :: "placement_row list"
  allocations :: "allocation_row list"
  commands :: "command_row list"
  attempts :: "attempt_row list"
  results :: "result_row list"
  bootstrap :: "bootstrap_row list"
  credentials :: "credential_row list"
  enrollments :: "enrollment_row list"
  rotations :: "rotation_row list"
  observation_sessions :: "observation_session_row list"
  inventory_snapshots :: "inventory_snapshot_row list"
  observed_interactive :: "observed_interactive_row list"
  pools :: "pool_row list"
  runners :: "runner_row list"
  agent_runs :: "agent_run_row list"
  installations :: "installation_row list"
  user_installations :: "user_installation_row list"
  users :: "user_row list"
  repositories :: "repository_row list"
  bitbucket_connections :: "bitbucket_connection_row list"
  pool_installations :: "(string \<times> i64) list"
  pool_repositories :: "(string \<times> i64) list"
  pool_connections :: "(string \<times> string) list"
  priority_repositories :: "(string \<times> i64) list"
  pool_priorities :: "(string \<times> i64) list"
  workflow_jobs :: "workflow_job_row list"
  settings :: "(string \<times> string) list"
  events :: "(string option \<times> string) list"

section \<open>Errors\<close>

text \<open>
  The errors of the fleet service. \<open>Fleet_Panic\<close> is not a variant of the source: it
  stands for a panic, which \<^verbatim>\<open>Row::get\<close> raises on a \<^verbatim>\<open>NULL\<close> read into a
  type that is not optional.
\<close>

datatype fleet_error =
    Fleet_Database string
  | Fleet_InvalidIdentifier string
  | Fleet_InvalidRequest string
  | Fleet_Forbidden
  | Fleet_NotFound
  | Fleet_IdempotencyConflict
  | Fleet_StaleProfileRevision
  | Fleet_Invariant string
  | Fleet_Queued string
  | Fleet_Json
  | Fleet_Panic

section \<open>External code\<close>

text \<open>
  What the fleet code calls in third-party crates and in SQLite's JSON functions: UUID text, JSON
  text of envelopes, results, labels, profile configurations, capability reports and host tags,
  the calendar, and the byte codec. A parse returns nothing where the crate reports an error.
\<close>

record externals =
  x_codec :: byte_codec
  x_parse_uuid :: "string \<Rightarrow> uuid option"
  x_show_uuid :: "uuid \<Rightarrow> string"
  x_year_of :: "i64 \<Rightarrow> int option"
  x_envelope_to_vec :: "agent_command_envelope \<Rightarrow> u8 list option"
  x_envelope_to_string :: "agent_command_envelope \<Rightarrow> string option"
  x_envelope_from_str :: "string \<Rightarrow> agent_command_envelope option"
  x_payload_session :: "string \<Rightarrow> string option"
  x_result_to_string :: "agent_command_result \<Rightarrow> string option"
  x_result_from_str :: "string \<Rightarrow> agent_command_result option"
  x_labels :: "string \<Rightarrow> string list option"
  x_config_network :: "string \<Rightarrow> upstream_text option option"
  x_report_from_str :: "string \<Rightarrow> capability_report option"
  x_host_tags :: "string \<Rightarrow> (string \<Rightarrow> string option) option"
  x_str_bytes :: "string \<Rightarrow> u8 list"
  x_scope_to_string :: "ci_target_id list \<Rightarrow> string option"
  x_scope_from_str :: "string \<Rightarrow> ci_target_id list option"

text \<open>\<^verbatim>\<open>crypto::hash_token\<close>.\<close>

definition hash_token :: "externals \<Rightarrow> string \<Rightarrow> string" where
  "hash_token x value = b64_encode (x_codec x) (sha256 (x_codec x) (x_str_bytes x value))"

section \<open>Row loading\<close>

definition operation_by_key :: "fleet_db \<Rightarrow> string \<Rightarrow> string \<Rightarrow> operation_row option" where
  "operation_by_key db scope key =
     find (\<lambda>o'. op_principal_scope o' = scope \<and> op_idempotency_key o' = key) (operations db)"

definition operation_by_id :: "fleet_db \<Rightarrow> string \<Rightarrow> operation_row option" where
  "operation_by_id db i = find (\<lambda>o'. op_id o' = i) (operations db)"

definition intent_for_operation :: "fleet_db \<Rightarrow> string \<Rightarrow> intent_row option" where
  "intent_for_operation db operation_id = find (\<lambda>i. wi_id i = operation_id) (intents db)"

definition placement_by_id :: "fleet_db \<Rightarrow> string \<Rightarrow> placement_row option" where
  "placement_by_id db pid = find (\<lambda>p. wp_id p = pid) (placements db)"

section \<open>Constraints and triggers\<close>

text \<open>An insert with a unique key.\<close>

definition insert_unique :: "('r \<Rightarrow> 'k) \<Rightarrow> 'r \<Rightarrow> 'r list \<Rightarrow> fleet_error + 'r list" where
  "insert_unique key row table =
     (if key row \<in> key ` set table then Inl (Fleet_Database ''UNIQUE'')
      else Inr (table @ [row]))"

definition absence_proven :: "placement_row \<Rightarrow> bool" where
  "absence_proven p \<longleftrightarrow>
     wp_local_absence_proven_at p \<noteq> None \<and> wp_delayed_starts_excluded_at p \<noteq> None"

text \<open>
  \<^verbatim>\<open>capacity_allocations_release_requires_proof\<close>: setting an allocation to
  \<^verbatim>\<open>released\<close> aborts unless its placement carries both proofs.
\<close>

definition release_permitted :: "fleet_db \<Rightarrow> string \<Rightarrow> bool" where
  "release_permitted db pid \<longleftrightarrow> (\<exists>p \<in> set (placements db). wp_id p = pid \<and> absence_proven p)"

definition charged :: "allocation_row \<Rightarrow> bool" where
  "charged a \<longleftrightarrow> ca_state a \<noteq> ''released''"

text \<open>
  The statement every release shares:
  \<^verbatim>\<open>UPDATE capacity_allocations SET state='released',released_at=?,updated_at=?
  WHERE placement_id=? AND state!='released'\<close>, with its trigger. It also returns the number of
  rows it changed.
\<close>

definition release_allocations ::
  "fleet_db \<Rightarrow> string \<Rightarrow> i64 \<Rightarrow> fleet_error + (fleet_db \<times> nat)" where
  "release_allocations db pid now =
     (let sel = (\<lambda>a. ca_placement_id a = pid \<and> charged a)
      in if rows_where sel (allocations db) > 0 \<and> \<not> release_permitted db pid
         then Inl (Fleet_Database ''local absence and delayed start exclusion are required'')
         else Inr (db\<lparr>allocations := update_where sel
                (\<lambda>a. a\<lparr>ca_state := ''released'', ca_released_at := Some now,
                       ca_updated_at := now\<rparr>) (allocations db)\<rparr>,
              rows_where sel (allocations db)))"

text \<open>
  \<^verbatim>\<open>UPDATE workload_placements SET local_absence_proven_at=COALESCE(..,?),
  delayed_starts_excluded_at=COALESCE(..,?),updated_at=?\<close>: evidence already recorded is kept,
  so the trigger that preserves it cannot fire.
\<close>

definition record_absence :: "i64 \<Rightarrow> placement_row \<Rightarrow> placement_row" where
  "record_absence now p =
     p\<lparr>wp_local_absence_proven_at :=
         Some (case wp_local_absence_proven_at p of Some t \<Rightarrow> t | None \<Rightarrow> now),
       wp_delayed_starts_excluded_at :=
         Some (case wp_delayed_starts_excluded_at p of Some t \<Rightarrow> t | None \<Rightarrow> now),
       wp_updated_at := now\<rparr>"

definition set_placement_state :: "string \<Rightarrow> i64 \<Rightarrow> placement_row \<Rightarrow> placement_row" where
  "set_placement_state state now p = p\<lparr>wp_state := state, wp_updated_at := now\<rparr>"

section \<open>Lemmas\<close>

lemma insert_unique_eq_Inr [result_splits]:
  "insert_unique key row table = Inr t \<longleftrightarrow> key row \<notin> key ` set table \<and> t = table @ [row]"
  by (auto simp: insert_unique_def)

lemma absence_proven_record [simp]: "absence_proven (record_absence now p)"
  by (simp add: record_absence_def absence_proven_def)

lemma record_absence_frame [simp]:
  "wp_id (record_absence now p) = wp_id p"
  "wp_intent_id (record_absence now p) = wp_intent_id p"
  "wp_state (record_absence now p) = wp_state p"
  "wp_host_id (record_absence now p) = wp_host_id p"
  by (simp_all add: record_absence_def)

lemma set_placement_state_frame [simp]:
  "wp_id (set_placement_state s now p) = wp_id p"
  "wp_intent_id (set_placement_state s now p) = wp_intent_id p"
  "wp_state (set_placement_state s now p) = s"
  "wp_host_id (set_placement_state s now p) = wp_host_id p"
  "absence_proven (set_placement_state s now p) = absence_proven p"
  by (simp_all add: set_placement_state_def absence_proven_def)

lemma release_allocations_permitted:
  assumes "release_permitted db pid"
  shows "\<exists>n. release_allocations db pid now =
    Inr (db\<lparr>allocations := update_where (\<lambda>a. ca_placement_id a = pid \<and> charged a)
      (\<lambda>a. a\<lparr>ca_state := ''released'', ca_released_at := Some now, ca_updated_at := now\<rparr>)
      (allocations db)\<rparr>, n)"
  using assms by (simp add: release_allocations_def Let_def)

end
