(* ===== verification/Sample.thy ===== *)
theory Sample
  imports Store
begin

text \<open>
  A sample fleet for the examples of the later theories: one machine with a root and a child
  resource domain and a Docker backend, one pool with one profile for one GitHub repository, and
  no work yet. UUID text is unary, and every JSON document parses to a fixed value.
\<close>

definition unary :: "uuid \<Rightarrow> string" where
  "unary u = replicate (unat u) (CHR ''u'')"

definition sample_externals :: externals where
  "sample_externals =
     \<lparr>x_codec = sample_codec, x_parse_uuid = (\<lambda>s. Some (of_nat (length s))), x_show_uuid = unary,
      x_year_of = (\<lambda>_. Some 2026), x_envelope_to_vec = (\<lambda>_. Some []),
      x_envelope_to_string = (\<lambda>_. Some ''envelope''),
      x_envelope_from_str = (\<lambda>_. Some sample_sealed), x_payload_session = (\<lambda>_. Some (unary 7)),
      x_result_to_string = (\<lambda>_. Some ''result''), x_result_from_str = (\<lambda>_. Some sample_result),
      x_labels = (\<lambda>_. Some [''linux'']), x_config_network = (\<lambda>_. Some None),
      x_report_from_str = (\<lambda>_. Some (cap_report sample_capabilities)),
      x_host_tags = (\<lambda>_. Some (\<lambda>_. None)), x_str_bytes = (\<lambda>_. []),
      x_scope_to_string = (\<lambda>_. Some ''scope''), x_scope_from_str = (\<lambda>_. Some [CiTargetId 4])\<rparr>"

definition sample_host :: host_row where
  "sample_host =
     \<lparr>fh_id = unary 1, fh_enrollment_state = ''approved'', fh_lifecycle_state = ''active'',
      fh_integrity_state = ''verified'', fh_epoch = 1, fh_boot_id = Some ''boot'',
      fh_agent_session_id = Some (unary 7), fh_tags_json = ''{}'',
      fh_last_heartbeat_at = Some 90000, fh_last_inventory_at = Some 90000,
      fh_authority_expires_at = Some 150000, fh_inventory_complete = True,
      fh_pressure_state = ''normal'', fh_authority_incarnation = Some (unary 8),
      fh_inventory_epoch = Some 1, fh_inventory_session_id = Some (unary 7),
      fh_inventory_boot_id = Some ''boot'', fh_name = ''host'', fh_host_os = ''linux'',
      fh_architecture = ''x64'', fh_hardware_fingerprint = None, fh_agent_version = None,
      fh_revision = 1, fh_inventory_revision = 1, fh_inventory_digest = Some ''digest'',
      fh_current_credential_generation = Some 1, fh_current_enrollment_id = None,
      fh_current_enrollment_epoch = None, fh_updated_at = 1, fh_retired_at = None\<rparr>"

definition sample_backend :: backend_row where
  "sample_backend =
     \<lparr>hb_id = unary 2, hb_host_id = unary 1, hb_domain_id = ''child'',
      hb_runtime_kind = ''docker'', hb_execution_os = ''linux'', hb_architecture = ''x64'',
      hb_readiness = ''ready'', hb_reason_code = None, hb_enabled = True, hb_capabilities_json = ''{}'',
      hb_last_probed_at = Some 90000, hb_probe_epoch = Some 1,
      hb_probe_session_id = Some (unary 7), hb_probe_boot_id = Some ''boot'',
      hb_probe_incarnation = Some (unary 8)\<rparr>"

definition sample_profile :: profile_row where
  "sample_profile =
     \<lparr>pr_id = unary 3, pr_pool_id = ''pool'', pr_revision = 1, pr_enabled = True,
      pr_archived_at = None, pr_runtime_kind = ''docker'', pr_execution_os = ''linux'',
      pr_architecture = ''x64'', pr_mode = ''ephemeral'', pr_requires_interactive = False,
      pr_requires_docker_socket = False, pr_all_authorized_hosts = True, pr_image = ''ubuntu'',
      pr_labels_json = ''[]'', pr_config_json = ''{}'', pr_cpu_millis = 2000,
      pr_memory_mib = 4096, pr_disk_bytes = 0\<rparr>"

definition sample_db :: fleet_db where
  "sample_db =
     \<lparr>control_plane = Some \<lparr>cp_incarnation = unary 8, cp_readiness = ''active'',
        cp_protocol_min = 1, cp_protocol_max = 1\<rparr>,
      hosts = [sample_host],
      domains =
        [\<lparr>dr_id = ''root'', dr_host_id = unary 1, dr_parent_domain_id = None, dr_name = ''root'',
          dr_cpu_millis = 8000, dr_memory_mib = 16384, dr_disk_bytes = 1000, dr_revision = 1\<rparr>,
         \<lparr>dr_id = ''child'', dr_host_id = unary 1, dr_parent_domain_id = Some ''root'', dr_name = ''vm'',
          dr_cpu_millis = 4000, dr_memory_mib = 8192, dr_disk_bytes = 1000, dr_revision = 1\<rparr>],
      backends = [sample_backend],
      targets =
        [\<lparr>ct_id = unary 4, ct_kind = ''github_repository'', ct_installation_id = Some 1,
          ct_repository_id = Some 2, ct_organization_id = None,
          ct_bitbucket_connection_id = None, ct_workspace_uuid = None,
          ct_repository_uuid = None\<rparr>],
      target_grants =
        [\<lparr>tg_host_id = unary 1, tg_target_id = unary 4, tg_allow_schedule = True,
          tg_allow_native = False, tg_allow_interactive = False, tg_allow_docker_socket = False,
          tg_revision = 1, tg_revoked_at = None, tg_granted_by = None\<rparr>],
      user_grants = [], bitbucket_grants = [], host_sessions = [], session_targets = [],
      profiles = [sample_profile],
      profile_targets = [\<lparr>pt_profile_id = unary 3, pt_target_id = unary 4, pt_enabled = True,
                           pt_revoked_at = None\<rparr>],
      host_selectors = [], operations = [], intents = [], placements = [], allocations = [],
      commands = [], attempts = [], results = [], bootstrap = [], credentials = [],
      enrollments = [], rotations = [], observation_sessions = [], inventory_snapshots = [],
      observed_interactive = [],
      pools = [\<lparr>rp_id = ''pool'', rp_installation_id = Some 1, rp_repository_id = Some 2,
                 rp_max_count = 4, rp_paused = False, rp_state = ''ready''\<rparr>],
      runners = [], agent_runs = [],
      installations = [\<lparr>in_id = 1, in_account_id = 9, in_suspended_at = None\<rparr>],
      user_installations = [], users = [],
      repositories = [\<lparr>rs_id = 2, rs_installation_id = 1\<rparr>], bitbucket_connections = [],
      pool_installations = [(''pool'', 1)], pool_repositories = [], pool_connections = [],
      priority_repositories = [], pool_priorities = [], workflow_jobs = [], settings = [],
      events = []\<rparr>"

lemma unary_simps [simp]:
  "unary 1 = ''u''" "unary 2 = ''uu''" "unary 3 = ''uuu''" "unary 4 = ''uuuu''"
  "unary 5 = ''uuuuu''" "unary 6 = ''uuuuuu''" "unary 7 = ''uuuuuuu''" "unary 8 = ''uuuuuuuu''"
  "unary 9 = ''uuuuuuuuu''" "unary 10 = ''uuuuuuuuuu''" "unary 11 = ''uuuuuuuuuuu''"
  "unary 12 = ''uuuuuuuuuuuu''"
  by (simp_all add: unary_def) (simp_all add: eval_nat_numeral)

lemma sample_db_empty [simp]:
  "operations sample_db = []" "intents sample_db = []" "placements sample_db = []"
  "allocations sample_db = []" "commands sample_db = []" "runners sample_db = []"
  by (simp_all add: sample_db_def)

lemma sample_externals_simps [simp]:
  "x_show_uuid sample_externals = unary"
  "x_parse_uuid sample_externals s = Some (of_nat (length s))"
  "x_codec sample_externals = sample_codec"
  "x_year_of sample_externals t = Some 2026"
  "x_envelope_to_vec sample_externals e = Some []"
  "x_envelope_to_string sample_externals e = Some ''envelope''"
  "x_envelope_from_str sample_externals s = Some sample_sealed"
  "x_payload_session sample_externals s = Some ''uuuuuuu''"
  "x_result_to_string sample_externals r = Some ''result''"
  "x_labels sample_externals s = Some [''linux'']"
  "x_config_network sample_externals s = Some None"
  "x_report_from_str sample_externals s = Some (cap_report sample_capabilities)"
  by (simp_all add: sample_externals_def)

end
