(* ===== verification/Service.thy ===== *)
theory Service
  imports Sample
begin

text \<open>
  The fleet service (\<^verbatim>\<open>crates/gridops-core/src/fleet/service.rs\<close>): submission of
  workload intents, cancellation, operation reads, and the access checks they share with
  admission. A transaction is a function of the database; an error leaves the database as it was,
  so it carries no new one. Fresh UUIDs and the clock are arguments.
\<close>

section \<open>Requests\<close>

datatype workload_kind = CiRunner | FixSandbox

fun workload_kind_str :: "workload_kind \<Rightarrow> string" where
  "workload_kind_str CiRunner = ''ci_runner''"
| "workload_kind_str FixSandbox = ''fix_sandbox''"

record submit_intent =
  si_idempotency_key :: string
  si_pool_id :: string
  si_profile_id :: profile_id
  si_target_id :: ci_target_id
  si_workload_id :: workload_id
  si_generation :: generation
  si_kind :: workload_kind
  si_agent_run_id :: "string option"
  si_expected_profile_revision :: "u64 option"

datatype submission_state = Sub_Queued | Sub_Replay

record submission =
  sub_operation_id :: operation_id
  sub_workload_id :: workload_id
  sub_generation :: generation
  sub_state :: submission_state

record operation_status =
  os_operation_id :: operation_id
  os_principal_scope :: string
  os_status :: string
  os_reason_code :: "string option"
  os_workload_id :: "workload_id option"
  os_generation :: "generation option"

record principal_identity =
  pid_kind :: string
  pid_scope :: string
  pid_user_id :: "string option"

fun principal_identity_from :: "principal \<Rightarrow> fleet_error + principal_identity" where
  "principal_identity_from (AuthenticatedUser user) =
     (if user \<noteq> []
      then Inr \<lparr>pid_kind = ''user'', pid_scope = ''user:'' @ user, pid_user_id = Some user\<rparr>
      else Inl (Fleet_InvalidRequest ''user identity must not be empty''))"
| "principal_identity_from Reconciler =
     Inr \<lparr>pid_kind = ''reconciler'', pid_scope = ''controller:reconciler'', pid_user_id = None\<rparr>"
| "principal_identity_from Autoscaler =
     Inr \<lparr>pid_kind = ''autoscaler'', pid_scope = ''controller:autoscaler'', pid_user_id = None\<rparr>"
| "principal_identity_from FixAgent =
     Inr \<lparr>pid_kind = ''fix_agent'', pid_scope = ''controller:fix_agent'', pid_user_id = None\<rparr>"

definition is_controller :: "principal \<Rightarrow> bool" where
  "is_controller p \<longleftrightarrow> p \<in> {Reconciler, Autoscaler, FixAgent}"

definition validate_request :: "submit_intent \<Rightarrow> fleet_error + unit" where
  "validate_request r =
     rbind (map_err (\<lambda>_. Fleet_InvalidRequest ''invalid idempotency key'')
              (idempotency_key_try_from (si_idempotency_key r))) (\<lambda>_.
     rbind (ensure (si_pool_id r \<noteq> []) (Fleet_InvalidRequest ''pool ID must not be empty'')) (\<lambda>_.
     rbind (ensure (\<not> generation_get (si_generation r) \<noteq> 1)
              (Fleet_InvalidRequest ''only initial workload generation is supported'')) (\<lambda>_.
     rbind (ensure (\<not> si_expected_profile_revision r = Some 0)
              (Fleet_InvalidRequest ''profile revision must be positive'')) (\<lambda>_.
     case (si_kind r, si_agent_run_id r) of
       (CiRunner, None) \<Rightarrow> Inr ()
     | (CiRunner, Some _) \<Rightarrow>
         Inl (Fleet_InvalidRequest ''CI runner intent cannot carry an agent run'')
     | (FixSandbox, Some v) \<Rightarrow>
         if v \<noteq> [] then Inr ()
         else Inl (Fleet_InvalidRequest ''fix sandbox requires an agent run'')
     | (FixSandbox, None) \<Rightarrow>
         Inl (Fleet_InvalidRequest ''fix sandbox requires an agent run'')))))"

text \<open>The request as it is hashed; \<^verbatim>\<open>to_string\<close> of an id is \<open>x_show_uuid\<close>.\<close>

record canonical_request =
  cq_pool_id :: string
  cq_profile_id :: string
  cq_target_id :: string
  cq_workload_id :: string
  cq_generation :: u64
  cq_kind :: string
  cq_agent_run_id :: "string option"
  cq_expected_profile_revision :: "u64 option"

definition canonical_request_of :: "externals \<Rightarrow> submit_intent \<Rightarrow> canonical_request" where
  "canonical_request_of x r =
     \<lparr>cq_pool_id = si_pool_id r,
      cq_profile_id = x_show_uuid x (profile_uuid (si_profile_id r)),
      cq_target_id = x_show_uuid x (ci_target_uuid (si_target_id r)),
      cq_workload_id = x_show_uuid x (workload_uuid (si_workload_id r)),
      cq_generation = generation_get (si_generation r),
      cq_kind = workload_kind_str (si_kind r), cq_agent_run_id = si_agent_run_id r,
      cq_expected_profile_revision = si_expected_profile_revision r\<rparr>"

text \<open>
  \<^verbatim>\<open>request_hash\<close>: JSON, SHA-256 and hexadecimal formatting of the canonical request are
  the parameter \<open>hash_canonical\<close>, nothing where JSON encoding fails.
\<close>

definition request_hash ::
  "externals \<Rightarrow> (canonical_request \<Rightarrow> string option) \<Rightarrow> submit_intent \<Rightarrow> fleet_error + string"
  where
  "request_hash x hash_canonical r = ok_or (hash_canonical (canonical_request_of x r)) Fleet_Json"

section \<open>Access checks\<close>

fun principal_user :: "principal \<Rightarrow> string option" where
  "principal_user (AuthenticatedUser u) = Some u"
| "principal_user _ = None"

definition user_role :: "fleet_db \<Rightarrow> string \<Rightarrow> string option" where
  "user_role db user = map_option us_role (find (\<lambda>u. us_id u = user) (users db))"

definition ensure_pool_access ::
  "fleet_db \<Rightarrow> principal \<Rightarrow> string \<Rightarrow> fleet_error + unit" where
  "ensure_pool_access db p pool_id =
     (case principal_user p of
        None \<Rightarrow> Inr ()
      | Some user \<Rightarrow>
          rbind (ok_or (user_role db user) Fleet_Forbidden) (\<lambda>role.
          let inaccessible_installation =
                (\<exists>(pool, inst) \<in> set (pool_installations db). pool = pool_id \<and>
                   (\<exists>ins \<in> set (installations db). in_id ins = inst \<and>
                      (let uis = filter (\<lambda>ui. ui_user_id ui = user \<and> ui_installation_id ui = inst)
                                   (user_installations db)
                       in in_suspended_at ins \<noteq> None \<or> uis = [] \<or>
                          (\<exists>ui \<in> set uis. role \<noteq> ''admin'' \<and> ui_permission ui \<noteq> ''admin''))));
              installation_count =
                rows_where (\<lambda>(pool, inst). pool = pool_id) (pool_installations db);
              missing_connection =
                (\<exists>(pool, conn) \<in> set (pool_connections db). pool = pool_id \<and>
                   \<not> (\<exists>bug \<in> set (bitbucket_grants db).
                        bg_connection_id bug = conn \<and> bg_user_id bug = user \<and>
                        bg_revoked_at bug = None \<and>
                        (bg_permission bug = ''admin'' \<or> role = ''admin'')))
          in rbind (ensure (\<not> (installation_count = 0 \<or> inaccessible_installation))
                      Fleet_Forbidden) (\<lambda>_.
             ensure (\<not> missing_connection) Fleet_Forbidden)))"

definition starts_with :: "string \<Rightarrow> string \<Rightarrow> bool" where
  "starts_with s p \<longleftrightarrow> take (length p) s = p"

definition find_target :: "fleet_db \<Rightarrow> string \<Rightarrow> ci_target_row option" where
  "find_target db tid = find (\<lambda>t. ct_id t = tid) (targets db)"

definition ensure_target_access ::
  "fleet_db \<Rightarrow> principal \<Rightarrow> string \<Rightarrow> fleet_error + unit" where
  "ensure_target_access db p target_id =
     rbind (case principal_user p of
              Some user \<Rightarrow> ok_or (user_role db user) Fleet_Forbidden
            | None \<Rightarrow> Inr []) (\<lambda>role.
     rbind (ok_or (find_target db target_id) Fleet_NotFound) (\<lambda>row.
     rbind (if starts_with (ct_kind row) ''github_'' then
              rbind (ok_or (ct_installation_id row) Fleet_Panic) (\<lambda>inst.
              rbind (ensure (\<not> (\<exists>ins \<in> set (installations db).
                                 in_id ins = inst \<and> in_suspended_at ins \<noteq> None))
                       Fleet_Forbidden) (\<lambda>_.
              Inr (case principal_user p of
                     Some user \<Rightarrow>
                       \<exists>ui \<in> set (user_installations db).
                         ui_user_id ui = user \<and> ui_installation_id ui = inst \<and>
                         (ui_permission ui = ''admin'' \<or> role = ''admin'')
                   | None \<Rightarrow> True)))
            else
              rbind (ok_or (ct_bitbucket_connection_id row) Fleet_Panic) (\<lambda>conn.
              Inr (case principal_user p of
                     Some user \<Rightarrow>
                       \<exists>bug \<in> set (bitbucket_grants db).
                         bg_user_id bug = user \<and> bg_connection_id bug = conn \<and>
                         bg_revoked_at bug = None \<and>
                         (bg_permission bug = ''admin'' \<or> role = ''admin'')
                   | None \<Rightarrow> True))) (\<lambda>allowed.
     ensure allowed Fleet_Forbidden)))"

text \<open>SQLite's \<^verbatim>\<open>lower(trim(x,'{}'))\<close>.\<close>

definition trim_braces :: "string \<Rightarrow> string" where
  "trim_braces s =
     (let brace = (\<lambda>c. c = CHR ''{'' \<or> c = CHR ''}'')
      in rev (dropWhile brace (rev (dropWhile brace s))))"

definition ascii_lower :: "string \<Rightarrow> string" where
  "ascii_lower s = map (\<lambda>c. if 65 \<le> byte c \<and> byte c \<le> 90 then char_of (byte c + 32) else c) s"

definition github_repository_in_pool :: "fleet_db \<Rightarrow> string \<Rightarrow> ci_target_row \<Rightarrow> bool" where
  "github_repository_in_pool db pool_id t \<longleftrightarrow>
     (\<exists>r \<in> set (repositories db). ct_repository_id t = Some (rs_id r) \<and>
        ct_installation_id t = Some (rs_installation_id r) \<and>
        (\<exists>ins \<in> set (installations db). ct_installation_id t = Some (in_id ins)) \<and>
        (\<exists>p \<in> set (pools db). rp_id p = pool_id \<and>
           ((rp_repository_id p = Some (rs_id r) \<and> rp_installation_id p = ct_installation_id t) \<or>
            (pool_id, rs_id r) \<in> set (pool_repositories db))))"

definition github_organization_in_pool :: "fleet_db \<Rightarrow> string \<Rightarrow> ci_target_row \<Rightarrow> bool" where
  "github_organization_in_pool db pool_id t \<longleftrightarrow>
     (\<exists>ins \<in> set (installations db). ct_installation_id t = Some (in_id ins) \<and>
        ct_organization_id t = Some (in_account_id ins) \<and>
        (pool_id, in_id ins) \<in> set (pool_installations db))"

definition bitbucket_in_pool :: "fleet_db \<Rightarrow> string \<Rightarrow> ci_target_row \<Rightarrow> bool" where
  "bitbucket_in_pool db pool_id t \<longleftrightarrow>
     (\<exists>bc \<in> set (bitbucket_connections db). ct_bitbucket_connection_id t = Some (bc_id bc) \<and>
        (pool_id, bc_id bc) \<in> set (pool_connections db) \<and>
        (case ct_workspace_uuid t of
           None \<Rightarrow> False
         | Some w \<Rightarrow> ascii_lower (trim_braces (bc_workspace_uuid bc)) =
                       ascii_lower (trim_braces w)))"

definition ensure_target_identity_for_pool ::
  "fleet_db \<Rightarrow> string \<Rightarrow> string \<Rightarrow> fleet_error + unit" where
  "ensure_target_identity_for_pool db pool_id target_id =
     rbind (ok_or (find_target db target_id) Fleet_NotFound) (\<lambda>t.
     ensure (if ct_kind t = ''github_repository'' then github_repository_in_pool db pool_id t
             else if ct_kind t = ''github_organization'' then
               github_organization_in_pool db pool_id t
             else if ct_kind t = ''bitbucket_workspace'' \<or> ct_kind t = ''bitbucket_repository'' then
               bitbucket_in_pool db pool_id t
             else False) Fleet_Forbidden)"

definition find_profile :: "fleet_db \<Rightarrow> string \<Rightarrow> string \<Rightarrow> profile_row option" where
  "find_profile db profile_id pool_id =
     find (\<lambda>p. pr_id p = profile_id \<and> pr_pool_id p = pool_id) (profiles db)"

definition profile_linked :: "fleet_db \<Rightarrow> string \<Rightarrow> string \<Rightarrow> bool" where
  "profile_linked db profile_id target_id \<longleftrightarrow>
     rows_where (\<lambda>l. pt_profile_id l = profile_id \<and> pt_target_id l = target_id \<and> pt_enabled l \<and>
                      pt_revoked_at l = None) (profile_targets db) = 1"

text \<open>
  The policy of a fix run. The column \<^verbatim>\<open>requested_by\<close> is nullable, and
  \<^verbatim>\<open>row.get::<String, _>\<close> panics when it is \<^verbatim>\<open>NULL\<close>.
\<close>

definition ensure_fix_run_row_policy ::
  "fleet_db \<Rightarrow> string \<Rightarrow> string \<Rightarrow> principal \<Rightarrow> (string \<times> bool) option \<Rightarrow>
   fleet_error + unit" where
  "ensure_fix_run_row_policy db target_id agent_run_id p current =
     rbind (ok_or (find (\<lambda>r. ag_id r = agent_run_id) (agent_runs db)) Fleet_Forbidden) (\<lambda>ar.
     rbind (ok_or (find_target db target_id) Fleet_Forbidden) (\<lambda>t.
     rbind (ok_or (ag_requested_by ar) Fleet_Panic) (\<lambda>requested_by.
     rbind (ensure (\<not> Some (ag_repository_id ar) \<noteq> ct_repository_id t) Fleet_Forbidden) (\<lambda>_.
     rbind (case p of
              AuthenticatedUser user \<Rightarrow> ensure (\<not> requested_by \<noteq> user) Fleet_Forbidden
            | _ \<Rightarrow> Inr ()) (\<lambda>_.
     let has_current = (current \<noteq> None);
         current_id = (case current of Some (i, _) \<Rightarrow> i | None \<Rightarrow> []);
         admission = (case current of Some (_, a) \<Rightarrow> a | None \<Rightarrow> True)
     in if admission then
          rbind (ensure (\<not> (ag_status ar \<notin> {''queued'', ''running''} \<or> ag_cancel_requested ar))
                   Fleet_Forbidden) (\<lambda>_.
          rbind (ensure (\<not> (\<exists>i \<in> set (intents db).
                             wi_agent_run_id i = Some agent_run_id \<and>
                             wi_status i \<in> {''queued'', ''admitted''} \<and> wi_id i \<noteq> current_id))
                   Fleet_IdempotencyConflict) (\<lambda>_.
          ensure (\<not> (has_current \<and> current_id = []))
            (Fleet_Invariant ''fix intent lacks operation identity'')))
        else Inr ())))))"

definition ensure_fix_run_policy ::
  "fleet_db \<Rightarrow> intent_row \<Rightarrow> principal \<Rightarrow> bool \<Rightarrow> fleet_error + unit" where
  "ensure_fix_run_policy db intent p admission =
     rbind (ok_or (find_profile db (wi_profile_id intent) (wi_pool_id intent)) Fleet_NotFound)
       (\<lambda>pr.
     rbind (ok_or (find_target db (wi_target_id intent)) Fleet_NotFound) (\<lambda>t.
     rbind (ensure (\<not> (pr_runtime_kind pr \<noteq> ''docker'' \<or> pr_execution_os pr \<noteq> ''linux'' \<or>
                      ct_kind t \<noteq> ''github_repository'')) Fleet_Forbidden) (\<lambda>_.
     rbind (ok_or (wi_agent_run_id intent) Fleet_Forbidden) (\<lambda>run.
     ensure_fix_run_row_policy db (wi_target_id intent) run p (Some (wi_id intent, admission))))))"

definition ensure_current_intent_policy ::
  "fleet_db \<Rightarrow> intent_row \<Rightarrow> bool \<Rightarrow> principal \<Rightarrow> fleet_error + unit" where
  "ensure_current_intent_policy db intent admission p =
     rbind (ensure_target_identity_for_pool db (wi_pool_id intent) (wi_target_id intent)) (\<lambda>_.
     rbind (ok_or (find_profile db (wi_profile_id intent) (wi_pool_id intent)) Fleet_NotFound)
       (\<lambda>pr.
     rbind (ensure (pr_enabled pr) Fleet_Forbidden) (\<lambda>_.
     rbind (ensure (\<not> (admission \<and> pr_revision pr \<noteq> wi_expected_profile_revision intent))
              Fleet_StaleProfileRevision) (\<lambda>_.
     rbind (ensure (profile_linked db (wi_profile_id intent) (wi_target_id intent))
              Fleet_Forbidden) (\<lambda>_.
     if wi_kind intent = workload_kind_str FixSandbox
     then ensure_fix_run_policy db intent p admission else Inr ())))))"

definition ensure_operation_access ::
  "fleet_db \<Rightarrow> principal \<Rightarrow> intent_row \<Rightarrow> fleet_error + unit" where
  "ensure_operation_access db p intent =
     rbind (ensure_pool_access db p (wi_pool_id intent)) (\<lambda>_.
     rbind (ensure_target_access db p (wi_target_id intent)) (\<lambda>_.
     rbind (ensure_current_intent_policy db intent False p) (\<lambda>_.
     case find (\<lambda>pl. wp_intent_id pl = wi_id intent) (placements db) of
       None \<Rightarrow> Inr ()
     | Some pl \<Rightarrow>
         rbind (ensure (rows_where (\<lambda>g. tg_host_id g = wp_host_id pl \<and>
                          tg_target_id g = wi_target_id intent \<and> tg_allow_schedule g \<and>
                          tg_revoked_at g = None) (target_grants db) = 1) Fleet_Forbidden) (\<lambda>_.
         rbind (ensure_target_identity_for_pool db (wi_pool_id intent) (wi_target_id intent))
           (\<lambda>_.
         case p of
           AuthenticatedUser user \<Rightarrow>
             ensure (\<not> (rows_where (\<lambda>g. ug_host_id g = wp_host_id pl \<and> ug_user_id g = user \<and>
                            ug_permission g \<in> {''read'', ''operator'', ''admin''} \<and>
                            ug_revoked_at g = None) (user_grants db) \<noteq> 1 \<and>
                        user_role db user \<noteq> Some ''admin'')) Fleet_Forbidden
         | _ \<Rightarrow> Inr ())))))"

definition recheck_intent_authorization ::
  "fleet_db \<Rightarrow> principal \<Rightarrow> intent_row \<Rightarrow> fleet_error + unit" where
  "recheck_intent_authorization db controller intent =
     rbind (ensure (is_controller controller) Fleet_Forbidden) (\<lambda>_.
     rbind (ok_or (operation_by_id db (wi_id intent)) Fleet_NotFound) (\<lambda>row.
     rbind (if op_principal_kind row = ''user'' then
              rbind (ok_or (op_requested_by_user_id row) Fleet_Forbidden) (\<lambda>u.
              Inr (AuthenticatedUser u))
            else if op_principal_kind row = ''reconciler'' then Inr Reconciler
            else if op_principal_kind row = ''autoscaler'' then Inr Autoscaler
            else if op_principal_kind row = ''fix_agent'' then Inr FixAgent
            else Inl (Fleet_Invariant ''invalid operation principal'')) (\<lambda>p.
     rbind (ensure_operation_access db p intent) (\<lambda>_.
     ensure_current_intent_policy db intent True p))))"

section \<open>Submission\<close>

definition ensure_profile_and_target ::
  "externals \<Rightarrow> fleet_db \<Rightarrow> submit_intent \<Rightarrow> fleet_error + unit" where
  "ensure_profile_and_target x db r =
     (let prof = x_show_uuid x (profile_uuid (si_profile_id r));
          tgt = x_show_uuid x (ci_target_uuid (si_target_id r)) in
      rbind (ok_or (find_profile db prof (si_pool_id r)) Fleet_NotFound) (\<lambda>pr.
      rbind (ensure (pr_enabled pr) Fleet_Forbidden) (\<lambda>_.
      rbind (case si_expected_profile_revision r of
               Some expected \<Rightarrow>
                 ensure (\<not> (unat expected > 9223372036854775807 \<or>
                           int (unat expected) \<noteq> pr_revision pr)) Fleet_StaleProfileRevision
             | None \<Rightarrow> Inr ()) (\<lambda>_.
      ensure (profile_linked db prof tgt) Fleet_Forbidden))))"

definition ensure_workload_policy ::
  "externals \<Rightarrow> fleet_db \<Rightarrow> principal \<Rightarrow> submit_intent \<Rightarrow> fleet_error + unit" where
  "ensure_workload_policy x db p r =
     (if si_kind r \<noteq> FixSandbox then Inr ()
      else
        let tgt = x_show_uuid x (ci_target_uuid (si_target_id r)) in
        rbind (ok_or (find_profile db (x_show_uuid x (profile_uuid (si_profile_id r)))
                        (si_pool_id r)) Fleet_NotFound) (\<lambda>pr.
        rbind (ensure (\<not> (pr_runtime_kind pr \<noteq> ''docker'' \<or> pr_execution_os pr \<noteq> ''linux''))
                 Fleet_Forbidden) (\<lambda>_.
        rbind (ok_or (find_target db tgt) Fleet_NotFound) (\<lambda>t.
        rbind (ensure (\<not> ct_kind t \<noteq> ''github_repository'') Fleet_Forbidden) (\<lambda>_.
        rbind (ok_or (si_agent_run_id r) Fleet_Forbidden) (\<lambda>run.
        ensure_fix_run_row_policy db tgt run p None))))))"

definition i64_from_u64 :: "u64 \<Rightarrow> i64 option" where
  "i64_from_u64 v = (if v \<le> i64_max_u64 then Some (int (unat v)) else None)"

definition fleet_new_id :: "(uuid \<Rightarrow> 'id) \<Rightarrow> uuid \<Rightarrow> fleet_error + 'id" where
  "fleet_new_id C v =
     map_err (\<lambda>_. Fleet_InvalidIdentifier ''nil'') (fleet_uuid_try_new C v)"

definition fleet_parse_id ::
  "externals \<Rightarrow> (uuid \<Rightarrow> 'id) \<Rightarrow> string \<Rightarrow> fleet_error + 'id" where
  "fleet_parse_id x C value =
     (case x_parse_uuid x value of
        None \<Rightarrow> Inl (Fleet_InvalidIdentifier value)
      | Some u \<Rightarrow> map_err (\<lambda>_. Fleet_InvalidIdentifier value) (fleet_uuid_try_new C u))"

definition replay_submission ::
  "externals \<Rightarrow> fleet_db \<Rightarrow> principal \<Rightarrow> submit_intent \<Rightarrow> string \<Rightarrow> operation_row \<Rightarrow>
   fleet_error + (fleet_db \<times> submission)" where
  "replay_submission x db p r h existing =
     rbind (ensure (\<not> op_request_hash existing \<noteq> h) Fleet_IdempotencyConflict) (\<lambda>_.
     rbind (ok_or (intent_for_operation db (op_id existing)) Fleet_NotFound) (\<lambda>intent.
     rbind (ensure_operation_access db p intent) (\<lambda>_.
     rbind (fleet_parse_id x OperationId (op_id existing)) (\<lambda>operation_id.
     Inr (db, \<lparr>sub_operation_id = operation_id, sub_workload_id = si_workload_id r,
               sub_generation = si_generation r, sub_state = Sub_Replay\<rparr>)))))"

definition new_operation_row ::
  "externals \<Rightarrow> principal_identity \<Rightarrow> submit_intent \<Rightarrow> string \<Rightarrow> operation_id \<Rightarrow> i64 \<Rightarrow>
   operation_row" where
  "new_operation_row x identity r h oid now =
     \<lparr>op_id = x_show_uuid x (operation_uuid oid), op_kind = ''submit_workload'',
      op_requested_by_user_id = pid_user_id identity, op_principal_kind = pid_kind identity,
      op_principal_scope = pid_scope identity, op_idempotency_key = si_idempotency_key r,
      op_request_hash = h, op_status = ''queued'', op_reason_code = None,
      op_updated_at = now\<rparr>"

definition new_intent_row ::
  "externals \<Rightarrow> submit_intent \<Rightarrow> operation_id \<Rightarrow> i64 \<Rightarrow> profile_row \<Rightarrow> i64 \<Rightarrow> intent_row" where
  "new_intent_row x r oid gen pr now =
     \<lparr>wi_id = x_show_uuid x (operation_uuid oid),
      wi_workload_id = x_show_uuid x (workload_uuid (si_workload_id r)), wi_generation = gen,
      wi_kind = workload_kind_str (si_kind r), wi_pool_id = si_pool_id r,
      wi_profile_id = x_show_uuid x (profile_uuid (si_profile_id r)),
      wi_target_id = x_show_uuid x (ci_target_uuid (si_target_id r)),
      wi_agent_run_id = si_agent_run_id r, wi_expected_profile_revision = pr_revision pr,
      wi_status = ''queued'', wi_reason_code = None, wi_created_at = now, wi_updated_at = now\<rparr>"

definition queue_submission ::
  "externals \<Rightarrow> fleet_db \<Rightarrow> principal \<Rightarrow> principal_identity \<Rightarrow> submit_intent \<Rightarrow> string \<Rightarrow> uuid \<Rightarrow>
   i64 \<Rightarrow> fleet_error + (fleet_db \<times> submission)" where
  "queue_submission x db p identity r h fresh now =
     (let prof = x_show_uuid x (profile_uuid (si_profile_id r));
          tgt = x_show_uuid x (ci_target_uuid (si_target_id r));
          wid = x_show_uuid x (workload_uuid (si_workload_id r)) in
      rbind (ensure_profile_and_target x db r) (\<lambda>_.
      rbind (ensure_target_identity_for_pool db (si_pool_id r) tgt) (\<lambda>_.
      rbind (ensure_pool_access db p (si_pool_id r)) (\<lambda>_.
      rbind (ensure_target_access db p tgt) (\<lambda>_.
      rbind (ensure_workload_policy x db p r) (\<lambda>_.
      rbind (ok_or (i64_from_u64 (generation_get (si_generation r)))
               (Fleet_InvalidRequest ''generation exceeds SQLite integer'')) (\<lambda>gen.
      rbind (ensure (\<not> (\<exists>i \<in> set (intents db). wi_workload_id i = wid \<and> wi_generation i = gen))
               Fleet_IdempotencyConflict) (\<lambda>_.
      rbind (fleet_new_id OperationId fresh) (\<lambda>oid.
      rbind (insert_unique op_id (new_operation_row x identity r h oid now) (operations db))
        (\<lambda>ops.
      rbind (ok_or (find_profile db prof (si_pool_id r))
               (Fleet_Invariant ''profile disappeared during intent insert'')) (\<lambda>pr.
      rbind (insert_unique wi_id (new_intent_row x r oid gen pr now) (intents db)) (\<lambda>ints.
      Inr (db\<lparr>operations := ops, intents := ints\<rparr>,
           \<lparr>sub_operation_id = oid, sub_workload_id = si_workload_id r,
            sub_generation = si_generation r, sub_state = Sub_Queued\<rparr>)))))))))))))"

definition submit ::
  "externals \<Rightarrow> (canonical_request \<Rightarrow> string option) \<Rightarrow> fleet_db \<Rightarrow> principal \<Rightarrow> submit_intent \<Rightarrow>
   uuid \<Rightarrow> i64 \<Rightarrow> fleet_error + (fleet_db \<times> submission)" where
  "submit x hash_canonical db p r fresh now =
     rbind (validate_request r) (\<lambda>_.
     rbind (principal_identity_from p) (\<lambda>identity.
     rbind (request_hash x hash_canonical r) (\<lambda>h.
     case operation_by_key db (pid_scope identity) (si_idempotency_key r) of
       Some existing \<Rightarrow> replay_submission x db p r h existing
     | None \<Rightarrow> queue_submission x db p identity r h fresh now)))"

section \<open>Reads and cancellation\<close>

definition load_operation ::
  "externals \<Rightarrow> fleet_db \<Rightarrow> principal \<Rightarrow> operation_id \<Rightarrow> fleet_error + operation_status" where
  "load_operation x db p oid =
     rbind (ok_or (operation_by_id db (x_show_uuid x (operation_uuid oid))) Fleet_NotFound)
       (\<lambda>operation.
     rbind (ok_or (intent_for_operation db (op_id operation)) Fleet_NotFound) (\<lambda>intent.
     rbind (ensure_operation_access db p intent) (\<lambda>_.
     rbind (fleet_parse_id x WorkloadId (wi_workload_id intent)) (\<lambda>wid.
     rbind (ok_or (word_try_from (wi_generation intent))
              (Fleet_Invariant ''invalid stored workload generation'')) (\<lambda>g.
     rbind (map_err (\<lambda>_. Fleet_Invariant ''invalid stored workload generation'')
              (generation_new g)) (\<lambda>gen.
     Inr \<lparr>os_operation_id = oid, os_principal_scope = op_principal_scope operation,
          os_status = op_status operation, os_reason_code = op_reason_code operation,
          os_workload_id = Some wid, os_generation = Some gen\<rparr>))))))"

definition cancel_queued ::
  "fleet_db \<Rightarrow> string \<Rightarrow> string \<Rightarrow> i64 \<Rightarrow> fleet_db \<times> bool" where
  "cancel_queued db operation_id reason now =
     (let sel = (\<lambda>i. wi_id i = operation_id \<and> wi_status i = ''queued'' \<and>
                  \<not> (\<exists>p \<in> set (placements db). wp_intent_id p = wi_id i));
          changed = rows_where sel (intents db);
          db1 = db\<lparr>intents := update_where sel
                  (\<lambda>i. i\<lparr>wi_status := ''cancelled'', wi_reason_code := Some reason,
                         wi_updated_at := now\<rparr>) (intents db)\<rparr>;
          db2 = (if changed = 1
                 then db1\<lparr>operations := update_where
                        (\<lambda>o'. op_id o' = operation_id \<and> op_status o' = ''queued'')
                        (\<lambda>o'. o'\<lparr>op_status := ''cancelled'', op_updated_at := now\<rparr>)
                        (operations db)\<rparr>
                 else db1)
      in (db2, changed = 1))"

section \<open>Lemmas\<close>

text \<open>The access checks do not read the two tables a submission writes.\<close>

lemma access_frame [simp]:
  "ensure_pool_access (db\<lparr>operations := a, intents := b\<rparr>) = ensure_pool_access db"
  "ensure_target_access (db\<lparr>operations := a, intents := b\<rparr>) = ensure_target_access db"
  "ensure_target_identity_for_pool (db\<lparr>operations := a, intents := b\<rparr>) =
     ensure_target_identity_for_pool db"
  "find_profile (db\<lparr>operations := a, intents := b\<rparr>) = find_profile db"
  "find_target (db\<lparr>operations := a, intents := b\<rparr>) = find_target db"
  "profile_linked (db\<lparr>operations := a, intents := b\<rparr>) = profile_linked db"
  by (auto simp: fun_eq_iff ensure_pool_access_def ensure_target_access_def
      ensure_target_identity_for_pool_def github_repository_in_pool_def
      github_organization_in_pool_def bitbucket_in_pool_def find_profile_def find_target_def
      profile_linked_def user_role_def cong: option.case_cong if_cong)

lemma fix_row_policy_frame [simp]:
  "ensure_fix_run_row_policy (db\<lparr>operations := a, intents := b\<rparr>) t run p (Some (i, False)) =
     ensure_fix_run_row_policy db t run p (Some (i, False))"
  by (simp add: ensure_fix_run_row_policy_def Let_def)

lemma fix_row_policy_weaken:
  "ensure_fix_run_row_policy db t run p None = Inr () \<Longrightarrow>
   ensure_fix_run_row_policy db t run p (Some (i, False)) = Inr ()"
  by (auto simp: ensure_fix_run_row_policy_def Let_def result_splits)

lemma find_append_new:
  "find P xs = None \<Longrightarrow> P y \<Longrightarrow> find P (xs @ [y]) = Some y"
  by (induction xs) (auto split: if_splits)

lemma find_key_None: "k \<notin> key ` set xs \<Longrightarrow> find (\<lambda>y. key y = k) xs = None"
  by (auto simp: find_None_iff)

text \<open>What a new submission does to the database.\<close>

definition queued_db ::
  "externals \<Rightarrow> fleet_db \<Rightarrow> principal_identity \<Rightarrow> submit_intent \<Rightarrow> string \<Rightarrow> operation_id \<Rightarrow> i64 \<Rightarrow>
   profile_row \<Rightarrow> i64 \<Rightarrow> fleet_db" where
  "queued_db x db ident r h oid gen pr now =
     db\<lparr>operations := operations db @ [new_operation_row x ident r h oid now],
        intents := intents db @ [new_intent_row x r oid gen pr now]\<rparr>"

lemma queue_submission_eq_Inr:
  "queue_submission x db p ident r h fresh now = Inr (db', s) \<longleftrightarrow>
     (\<exists>gen pr.
        ensure_profile_and_target x db r = Inr () \<and>
        ensure_target_identity_for_pool db (si_pool_id r)
          (x_show_uuid x (ci_target_uuid (si_target_id r))) = Inr () \<and>
        ensure_pool_access db p (si_pool_id r) = Inr () \<and>
        ensure_target_access db p (x_show_uuid x (ci_target_uuid (si_target_id r))) = Inr () \<and>
        ensure_workload_policy x db p r = Inr () \<and>
        i64_from_u64 (generation_get (si_generation r)) = Some gen \<and>
        (\<forall>i \<in> set (intents db).
           \<not> (wi_workload_id i = x_show_uuid x (workload_uuid (si_workload_id r)) \<and>
              wi_generation i = gen)) \<and>
        fresh \<noteq> 0 \<and> x_show_uuid x fresh \<notin> op_id ` set (operations db) \<and>
        find_profile db (x_show_uuid x (profile_uuid (si_profile_id r))) (si_pool_id r) =
          Some pr \<and>
        x_show_uuid x fresh \<notin> wi_id ` set (intents db) \<and>
        db' = queued_db x db ident r h (OperationId fresh) gen pr now \<and>
        s = \<lparr>sub_operation_id = OperationId fresh, sub_workload_id = si_workload_id r,
             sub_generation = si_generation r, sub_state = Sub_Queued\<rparr>)"
proof -
  have oid: "fleet_new_id OperationId fresh = Inr oid \<longleftrightarrow> fresh \<noteq> 0 \<and> oid = OperationId fresh"
    for oid by (auto simp: fleet_new_id_def fleet_uuid_try_new_def)
  have ids: "op_id (new_operation_row x ident r h (OperationId fresh) now) = x_show_uuid x fresh"
    "wi_id (new_intent_row x r (OperationId fresh) gen pr now) = x_show_uuid x fresh" for gen pr
    by (simp_all add: new_operation_row_def new_intent_row_def)
  show ?thesis
    unfolding queue_submission_def Let_def
    by (auto simp: result_splits oid ids queued_db_def)
qed

lemma submit_queuedD:
  assumes "submit x hc db p r fresh now = Inr (db', s)" and "sub_state s = Sub_Queued"
  obtains ident h where "validate_request r = Inr ()" and "principal_identity_from p = Inr ident"
    and "request_hash x hc r = Inr h"
    and "operation_by_key db (pid_scope ident) (si_idempotency_key r) = None"
    and "queue_submission x db p ident r h fresh now = Inr (db', s)"
proof -
  from assms(1) obtain ident h where v: "validate_request r = Inr ()"
    and i: "principal_identity_from p = Inr ident" and h: "request_hash x hc r = Inr h"
    and rest: "(case operation_by_key db (pid_scope ident) (si_idempotency_key r) of
      Some existing \<Rightarrow> replay_submission x db p r h existing
    | None \<Rightarrow> queue_submission x db p ident r h fresh now) = Inr (db', s)"
    by (auto simp: submit_def result_splits)
  show thesis
  proof (cases "operation_by_key db (pid_scope ident) (si_idempotency_key r)")
    case None
    with that v i h rest show ?thesis by simp
  next
    case (Some existing)
    with rest assms(2) show ?thesis by (auto simp: replay_submission_def result_splits)
  qed
qed

text \<open>The new intent passes the access check of a replay.\<close>

lemma new_intent_access:
  assumes "queue_submission x db p ident r h fresh now = Inr (db', s)"
    and "\<forall>pl \<in> set (placements db). wp_intent_id pl \<noteq> x_show_uuid x fresh"
    and "i = new_intent_row x r (OperationId fresh) gen pr now"
  shows "ensure_operation_access db' p i = Inr ()"
proof -
  let ?tgt = "x_show_uuid x (ci_target_uuid (si_target_id r))"
  let ?prof = "x_show_uuid x (profile_uuid (si_profile_id r))"
  from assms(1) obtain gen' pr' where
    q: "ensure_profile_and_target x db r = Inr ()"
      "ensure_target_identity_for_pool db (si_pool_id r) ?tgt = Inr ()"
      "ensure_pool_access db p (si_pool_id r) = Inr ()"
      "ensure_target_access db p ?tgt = Inr ()" "ensure_workload_policy x db p r = Inr ()"
      "find_profile db ?prof (si_pool_id r) = Some pr'"
    and db': "db' = queued_db x db ident r h (OperationId fresh) gen' pr' now"
    unfolding queue_submission_eq_Inr by blast
  have none: "find (\<lambda>pl. wp_intent_id pl = x_show_uuid x fresh) (placements db) = None"
    using assms(2) by (auto simp: find_None_iff)
  have pol: "pr_enabled pr'" "profile_linked db ?prof ?tgt"
    using q(1,6) by (auto simp: ensure_profile_and_target_def Let_def result_splits)
  have fixrun: "ensure_fix_run_policy db' i p False = Inr ()" if "si_kind r = FixSandbox"
  proof -
    from q(5,6) that obtain t run where "find_target db ?tgt = Some t"
      and "ct_kind t = ''github_repository''" and "si_agent_run_id r = Some run"
      and "pr_runtime_kind pr' = ''docker''" and "pr_execution_os pr' = ''linux''"
      and row: "ensure_fix_run_row_policy db ?tgt run p None = Inr ()"
      by (auto simp: ensure_workload_policy_def Let_def result_splits)
    with q(6) fix_row_policy_weaken [OF row] show ?thesis
      by (simp add: ensure_fix_run_policy_def db' queued_db_def assms(3) new_intent_row_def)
  qed
  show ?thesis
    using q(2-4,6) pol none fixrun
    by (cases "si_kind r")
      (simp_all add: ensure_operation_access_def ensure_current_intent_policy_def db'
        queued_db_def assms(3) new_intent_row_def)
qed

definition submissions_unique :: "fleet_db \<Rightarrow> bool" where
  "submissions_unique db \<longleftrightarrow>
     distinct (map (\<lambda>o'. (op_principal_scope o', op_idempotency_key o')) (operations db)) \<and>
     distinct (map op_id (operations db)) \<and> distinct (map wi_id (intents db)) \<and>
     distinct (map (\<lambda>i. (wi_workload_id i, wi_generation i)) (intents db)) \<and>
     set (map wi_id (intents db)) \<subseteq> set (map op_id (operations db))"

section \<open>Properties\<close>

text \<open>
  C23. Submission is idempotent: repeating a submission that was queued, with the same principal
  and request, at any later time, is a replay that returns the operation of the first and changes
  nothing. The hypotheses are that a UUID parses back from its text and that the fresh UUID does
  not name an intent some placement already refers to.
\<close>

theorem submission_replay_is_idempotent:
  assumes "submit x hash_canonical db p r fresh now = Inr (db', s)"
    and "sub_state s = Sub_Queued"
    and "x_parse_uuid x (x_show_uuid x fresh) = Some fresh"
    and "\<forall>pl \<in> set (placements db). wp_intent_id pl \<noteq> x_show_uuid x fresh"
  shows "submit x hash_canonical db' p r fresh' later = Inr (db', s\<lparr>sub_state := Sub_Replay\<rparr>)"
proof -
  from assms(1,2) obtain ident h where v: "validate_request r = Inr ()"
    and i: "principal_identity_from p = Inr ident" and h: "request_hash x hash_canonical r = Inr h"
    and none: "operation_by_key db (pid_scope ident) (si_idempotency_key r) = None"
    and q: "queue_submission x db p ident r h fresh now = Inr (db', s)"
    by (rule submit_queuedD)
  from q obtain gen pr where fresh: "fresh \<noteq> 0" "x_show_uuid x fresh \<notin> wi_id ` set (intents db)"
    and db': "db' = queued_db x db ident r h (OperationId fresh) gen pr now"
    and s: "s = \<lparr>sub_operation_id = OperationId fresh, sub_workload_id = si_workload_id r,
             sub_generation = si_generation r, sub_state = Sub_Queued\<rparr>"
    unfolding queue_submission_eq_Inr by blast
  let ?op = "new_operation_row x ident r h (OperationId fresh) now"
  let ?i = "new_intent_row x r (OperationId fresh) gen pr now"
  have "operation_by_key db' (pid_scope ident) (si_idempotency_key r) = Some ?op"
    using none
    by (auto simp: operation_by_key_def db' queued_db_def new_operation_row_def
        intro!: find_append_new)
  moreover have "intent_for_operation db' (x_show_uuid x fresh) = Some ?i"
    using find_key_None [OF fresh(2)]
    by (auto simp: intent_for_operation_def db' queued_db_def new_intent_row_def
        intro!: find_append_new)
  moreover have "ensure_operation_access db' p ?i = Inr ()"
    by (rule new_intent_access [OF q assms(4) refl])
  ultimately show ?thesis
    using v i h assms(3) fresh(1)
    by (simp add: submit_def replay_submission_def new_operation_row_def s fleet_parse_id_def
        fleet_uuid_try_new_def)
qed

text \<open>A runner for the repository of the sample fleet, submitted by the reconciler.\<close>

definition sample_request :: submit_intent where
  "sample_request =
     \<lparr>si_idempotency_key = ''k'', si_pool_id = ''pool'', si_profile_id = ProfileId 3,
      si_target_id = CiTargetId 4, si_workload_id = WorkloadId 5, si_generation = Generation 1,
      si_kind = CiRunner, si_agent_run_id = None, si_expected_profile_revision = Some 1\<rparr>"

lemma sample_request_simps [simp]:
  "si_idempotency_key sample_request = ''k''" "si_pool_id sample_request = ''pool''"
  "si_profile_id sample_request = ProfileId 3" "si_target_id sample_request = CiTargetId 4"
  "si_workload_id sample_request = WorkloadId 5" "si_generation sample_request = Generation 1"
  "si_kind sample_request = CiRunner" "si_agent_run_id sample_request = None"
  "si_expected_profile_revision sample_request = Some 1"
  by (simp_all add: sample_request_def)

definition sample_queued_db :: fleet_db where
  "sample_queued_db = queued_db sample_externals sample_db
     \<lparr>pid_kind = ''reconciler'', pid_scope = ''controller:reconciler'', pid_user_id = None\<rparr>
     sample_request ''hash'' (OperationId 6) 1 sample_profile 100000"

definition sample_submission :: submission where
  "sample_submission =
     \<lparr>sub_operation_id = OperationId 6, sub_workload_id = WorkloadId 5,
      sub_generation = Generation 1, sub_state = Sub_Queued\<rparr>"

lemmas sample_defs = sample_db_def sample_host_def sample_backend_def sample_profile_def

lemma sample_submit:
  "submit sample_externals (\<lambda>_. Some ''hash'') sample_db Reconciler sample_request 6 100000 =
     Inr (sample_queued_db, sample_submission)"
proof -
  have "ensure_profile_and_target sample_externals sample_db sample_request = Inr ()"
    by (simp add: ensure_profile_and_target_def find_profile_def profile_linked_def
        rows_where_def sample_defs)
  moreover have "ensure_target_identity_for_pool sample_db ''pool'' ''uuuu'' = Inr ()"
    by (simp add: ensure_target_identity_for_pool_def find_target_def
        github_repository_in_pool_def sample_defs)
  moreover have "ensure_target_access sample_db Reconciler ''uuuu'' = Inr ()"
    by (simp add: ensure_target_access_def find_target_def starts_with_def sample_defs)
  moreover have "ensure_pool_access sample_db Reconciler ''pool'' = Inr ()"
    by (simp add: ensure_pool_access_def)
  moreover have "find_profile sample_db ''uuu'' ''pool'' = Some sample_profile"
    by (simp add: find_profile_def sample_defs)
  moreover have "ensure_workload_policy sample_externals sample_db Reconciler sample_request =
      Inr ()" by (simp add: ensure_workload_policy_def sample_request_def)
  ultimately have "queue_submission sample_externals sample_db Reconciler
      \<lparr>pid_kind = ''reconciler'', pid_scope = ''controller:reconciler'', pid_user_id = None\<rparr>
      sample_request ''hash'' 6 100000 = Inr (sample_queued_db, sample_submission)"
    unfolding queue_submission_eq_Inr
    by (intro exI [of _ 1] exI [of _ sample_profile])
      (simp add: i64_from_u64_def i64_max_u64_def sample_queued_db_def sample_submission_def)
  moreover have "validate_request sample_request = Inr ()"
    by (simp add: validate_request_def idempotency_key_try_from_def byte_def)
  moreover have "operation_by_key sample_db sc k = None" for sc k
    by (simp add: operation_by_key_def)
  ultimately show ?thesis by (simp add: submit_def request_hash_def)
qed

theorem submission_replay_is_idempotent_witness:
  "submit sample_externals (\<lambda>_. Some ''hash'') sample_queued_db Reconciler sample_request 9 100500 =
     Inr (sample_queued_db, sample_submission\<lparr>sub_state := Sub_Replay\<rparr>)"
  by (rule submission_replay_is_idempotent [OF sample_submit])
    (simp_all add: sample_submission_def)

text \<open>
  Submissions stay unique: submitting and cancelling keep every operation and intent id, every
  idempotency key within its principal scope and every workload generation unique, and keep an
  operation for every intent.
\<close>

theorem submissions_stay_unique:
  assumes "submissions_unique db"
  shows "(submit x hash_canonical db p r fresh now = Inr (db', s) \<longrightarrow> submissions_unique db') \<and>
         submissions_unique (fst (cancel_queued db oid reason now))"
proof
  show "submit x hash_canonical db p r fresh now = Inr (db', s) \<longrightarrow> submissions_unique db'"
  proof
    assume sub: "submit x hash_canonical db p r fresh now = Inr (db', s)"
    show "submissions_unique db'"
    proof (cases "sub_state s")
      case Sub_Queued
      with sub obtain ident h
        where none: "operation_by_key db (pid_scope ident) (si_idempotency_key r) = None"
        and q: "queue_submission x db p ident r h fresh now = Inr (db', s)"
        by (rule submit_queuedD)
      from none have "(pid_scope ident, si_idempotency_key r) \<notin>
          (\<lambda>o'. (op_principal_scope o', op_idempotency_key o')) ` set (operations db)"
        by (auto simp: operation_by_key_def find_None_iff)
      moreover from q obtain gen pr where "\<forall>i \<in> set (intents db).
          \<not> (wi_workload_id i = x_show_uuid x (workload_uuid (si_workload_id r)) \<and>
             wi_generation i = gen)"
        and fresh: "x_show_uuid x fresh \<notin> op_id ` set (operations db)"
          "x_show_uuid x fresh \<notin> wi_id ` set (intents db)"
        and db': "db' = queued_db x db ident r h (OperationId fresh) gen pr now"
        unfolding queue_submission_eq_Inr by blast
      then have "(x_show_uuid x (workload_uuid (si_workload_id r)), gen) \<notin>
          (\<lambda>i. (wi_workload_id i, wi_generation i)) ` set (intents db)" by fastforce
      ultimately show ?thesis
        using assms fresh
        by (simp add: db' submissions_unique_def queued_db_def new_operation_row_def
            new_intent_row_def subset_insertI2)
    next
      case Sub_Replay
      with sub have "db' = db"
        by (auto simp: submit_def replay_submission_def queue_submission_eq_Inr result_splits
            split: option.splits)
      with assms show ?thesis by simp
    qed
  qed
  show "submissions_unique (fst (cancel_queued db oid reason now))"
    using assms
    by (simp add: submissions_unique_def cancel_queued_def Let_def map_update_where
        image_set_update_where)
qed

text \<open>
  An agent run without a requester cannot be given a sandbox: for every principal, controllers
  included, the policy check of a fix run panics when the nullable column \<^verbatim>\<open>requested_by\<close>
  is \<^verbatim>\<open>NULL\<close>, which is what automatic runs and deleted users leave there.
\<close>

theorem fix_run_without_requester_panics:
  assumes "find (\<lambda>r. ag_id r = run) (agent_runs db) = Some ar" and "ag_requested_by ar = None"
    and "find_target db target = Some t"
  shows "ensure_fix_run_row_policy db target run p current = Inl Fleet_Panic"
  using assms by (simp add: ensure_fix_run_row_policy_def)

theorem submissions_stay_unique_witness:
  "submissions_unique sample_db \<and> submissions_unique sample_queued_db"
proof -
  have "submissions_unique sample_db" by (simp add: submissions_unique_def sample_db_def)
  with submissions_stay_unique [OF this] sample_submit show ?thesis by blast
qed

theorem fix_run_without_requester_panics_witness:
  "ensure_fix_run_row_policy
     (sample_db\<lparr>agent_runs := [\<lparr>ag_id = ''run'', ag_repository_id = 2, ag_status = ''queued'',
        ag_cancel_requested = False, ag_requested_by = None\<rparr>]\<rparr>)
     ''uuuu'' ''run'' FixAgent None = Inl Fleet_Panic"
  by (rule fix_run_without_requester_panics
      [where ar = "\<lparr>ag_id = ''run'', ag_repository_id = 2, ag_status = ''queued'',
        ag_cancel_requested = False, ag_requested_by = None\<rparr>" and
        t = "hd (targets sample_db)"])
    (simp_all add: find_target_def sample_db_def)

end
