(* ===== verification/Registry.thy ===== *)
theory Registry
  imports Service "HOL-Library.List_Lexorder" "HOL-Library.Char_ord"
begin

text \<open>
  The ground of the host registry (\<^verbatim>\<open>crates/gridops-core/src/fleet/registry/\<close>): one-time
  secrets and their verifiers (\<^verbatim>\<open>credentials.rs\<close>), the inputs of enrollment
  (\<^verbatim>\<open>enrollment.rs\<close>), and from \<^verbatim>\<open>mod.rs\<close> the errors, the authenticated host, the
  administrator checks and the closing of rotations. The audit table is not modelled; the event each
  audit entry comes with is. Fresh UUIDs and random bytes are arguments.
\<close>

section \<open>Secrets\<close>

definition SECRET_BYTES :: nat where "SECRET_BYTES = 32"

definition SECRET_TEXT_LENGTH :: nat where "SECRET_TEXT_LENGTH = 43"

datatype credential_error = InvalidEncoding

datatype one_time_secret = OneTimeSecret (expose: string)

datatype verifier = Verifier (verifier_str: string)

definition is_base64url :: "char \<Rightarrow> bool" where
  "is_base64url c \<longleftrightarrow>
     (48 \<le> byte c \<and> byte c \<le> 57) \<or> (65 \<le> byte c \<and> byte c \<le> 90) \<or>
     (97 \<le> byte c \<and> byte c \<le> 122) \<or> c = CHR ''_'' \<or> c = CHR ''-''"

definition validate_secret_text :: "byte_codec \<Rightarrow> string \<Rightarrow> credential_error + unit" where
  "validate_secret_text k value =
     (if length value \<noteq> SECRET_TEXT_LENGTH \<or> \<not> (\<forall>c \<in> set value. is_base64url c)
      then Inl InvalidEncoding
      else case b64_decode k value of
        None \<Rightarrow> Inl InvalidEncoding
      | Some decoded \<Rightarrow>
          if length decoded \<noteq> SECRET_BYTES then Inl InvalidEncoding
          else if b64_encode k decoded \<noteq> value then Inl InvalidEncoding
          else Inr ())"

definition secret_generate :: "byte_codec \<Rightarrow> u8 list \<Rightarrow> one_time_secret" where
  "secret_generate k bytes = OneTimeSecret (b64_encode k bytes)"

definition secret_parse :: "byte_codec \<Rightarrow> string \<Rightarrow> credential_error + one_time_secret" where
  "secret_parse k value = rbind (validate_secret_text k value) (\<lambda>_. Inr (OneTimeSecret value))"

definition verifier_from_secret :: "externals \<Rightarrow> string \<Rightarrow> verifier" where
  "verifier_from_secret x secret =
     Verifier (b64_encode (x_codec x) (sha256 (x_codec x) (x_str_bytes x secret)))"

definition secret_verifier :: "externals \<Rightarrow> one_time_secret \<Rightarrow> verifier" where
  "secret_verifier x s = verifier_from_secret x (expose s)"

definition matches_verifier :: "verifier \<Rightarrow> verifier \<Rightarrow> bool" where
  "matches_verifier a b \<longleftrightarrow> verifier_str a = verifier_str b"

section \<open>Enrollment inputs\<close>

datatype enrollment_input_error =
    InvalidHostName
  | ControlCharacter
  | InvalidFingerprint
  | FingerprintControlCharacter
  | InvalidTtl
  | ScopeTooLarge
  | DuplicateScopeTarget
  | InvalidCounter

definition DEFAULT_ENROLLMENT_TTL_MILLIS :: i64 where "DEFAULT_ENROLLMENT_TTL_MILLIS = 10 * 60 * 1000"

definition MAX_ENROLLMENT_TTL_MILLIS :: i64 where "MAX_ENROLLMENT_TTL_MILLIS = 60 * 60 * 1000"

definition ROTATION_OVERLAP_MILLIS :: i64 where "ROTATION_OVERLAP_MILLIS = 5 * 60 * 1000"

definition ROTATION_TTL_MILLIS :: i64 where "ROTATION_TTL_MILLIS = 15 * 60 * 1000"

definition MAX_ENROLLMENT_TARGETS :: nat where "MAX_ENROLLMENT_TARGETS = 64"

datatype enrollment_scope = EnrollmentScope (scope_target_ids: "ci_target_id list")

definition target_text :: "externals \<Rightarrow> ci_target_id \<Rightarrow> string" where
  "target_text x t = x_show_uuid x (ci_target_uuid t)"

definition scope_new ::
  "externals \<Rightarrow> ci_target_id list \<Rightarrow> enrollment_input_error + enrollment_scope" where
  "scope_new x ids =
     (if length ids > MAX_ENROLLMENT_TARGETS then Inl ScopeTooLarge
      else let deduped = remdups_adj (sort_key (target_text x) ids)
           in if length deduped \<noteq> length ids then Inl DuplicateScopeTarget
              else Inr (EnrollmentScope deduped))"

definition scope_deserialize :: "externals \<Rightarrow> string \<Rightarrow> enrollment_scope option" where
  "scope_deserialize x json =
     (case x_scope_from_str x json of
        None \<Rightarrow> None
      | Some ids \<Rightarrow> (case scope_new x ids of Inl _ \<Rightarrow> None | Inr s \<Rightarrow> Some s))"

record host_registration =
  hr_name :: string
  hr_host_os :: execution_os
  hr_architecture :: architecture
  hr_hardware_fingerprint :: "string option"

definition host_name_new :: "string \<Rightarrow> enrollment_input_error + string" where
  "host_name_new value =
     (if \<not> (1 \<le> chars_count value \<and> chars_count value \<le> 128) then Inl InvalidHostName
      else if has_control value then Inl ControlCharacter
      else Inr value)"

definition hardware_fingerprint_new :: "string \<Rightarrow> enrollment_input_error + string" where
  "hardware_fingerprint_new value =
     (if \<not> (1 \<le> chars_count value \<and> chars_count value \<le> 256) then Inl InvalidFingerprint
      else if has_control value then Inl FingerprintControlCharacter
      else Inr value)"

definition host_registration_new ::
  "string \<Rightarrow> execution_os \<Rightarrow> architecture \<Rightarrow> string option \<Rightarrow>
   enrollment_input_error + host_registration" where
  "host_registration_new name os arch fingerprint =
     rbind (host_name_new name) (\<lambda>n.
     rbind (case fingerprint of None \<Rightarrow> Inr None
            | Some f \<Rightarrow> rbind (hardware_fingerprint_new f) (\<lambda>v. Inr (Some v))) (\<lambda>fp.
     Inr \<lparr>hr_name = n, hr_host_os = os, hr_architecture = arch, hr_hardware_fingerprint = fp\<rparr>))"

record issue_enrollment_request =
  ie_idempotency_key :: string
  ie_scope :: enrollment_scope
  ie_intended_host_id :: "host_id option"
  ie_ttl_millis :: "i64 option"

definition issue_ttl_millis :: "issue_enrollment_request \<Rightarrow> enrollment_input_error + i64" where
  "issue_ttl_millis r =
     (let ttl = (case ie_ttl_millis r of Some t \<Rightarrow> t | None \<Rightarrow> DEFAULT_ENROLLMENT_TTL_MILLIS)
      in if \<not> (60000 \<le> ttl \<and> ttl \<le> MAX_ENROLLMENT_TTL_MILLIS) then Inl InvalidTtl else Inr ttl)"

record enrollment_metadata =
  em_id :: uuid
  em_expires_at :: i64
  em_consumed_at :: "i64 option"
  em_revoked_at :: "i64 option"
  em_consumed_host_id :: "host_id option"

record issued_enrollment =
  ise_id :: uuid
  ise_code :: one_time_secret
  ise_expires_at :: i64

datatype enrollment_issue = Issue_Created issued_enrollment | Issue_Replay enrollment_metadata

record enrollment_receipt =
  er_host_id :: host_id
  er_credential_id :: uuid
  er_credential_generation :: u64
  er_credential :: one_time_secret

record recover_host_request =
  rh_host_id :: host_id
  rh_expected_revision :: revision
  rh_idempotency_key :: string

record issued_recovery_enrollment =
  ire_id :: uuid
  ire_host_id :: host_id
  ire_code :: one_time_secret
  ire_expires_at :: i64

datatype recovery_issue =
    Recovery_Created issued_recovery_enrollment
  | Recovery_Replay enrollment_metadata

record approve_host_request =
  ap_host_id :: host_id
  ap_expected_revision :: revision
  ap_expected_inventory_revision :: u64
  ap_expected_inventory_digest :: string
  ap_scope :: enrollment_scope

fun require_user :: "principal \<Rightarrow> enrollment_input_error + string" where
  "require_user (AuthenticatedUser u) = Inr u"
| "require_user _ = Inl InvalidCounter"

section \<open>Errors and small conversions\<close>

datatype registry_error =
    Reg_Database string
  | Reg_Forbidden
  | Reg_NotFound
  | Reg_EnrollmentGone
  | Reg_EnrollmentScopeMismatch
  | Reg_StaleRevision
  | Reg_InvalidCredential
  | Reg_RotationConflict
  | Reg_IdempotencyConflict
  | Reg_RotationGone
  | Reg_StaleGeneration
  | Reg_InvalidRequest string
  | Reg_InvalidIdentifier "unit fleet_id_parse_error"
  | Reg_TargetScopeForbidden
  | Reg_Json
  | Reg_Storage
  | Reg_Credential credential_error
  | Reg_Input enrollment_input_error

fun registry_db_error :: "fleet_error \<Rightarrow> registry_error" where
  "registry_db_error (Fleet_Database m) = Reg_Database m"
| "registry_db_error _ = Reg_Database []"

text \<open>The error of a parse keeps the parse error; the source keeps its text.\<close>

definition registry_parse_id :: "externals \<Rightarrow> (uuid \<Rightarrow> 'id) \<Rightarrow> string \<Rightarrow> registry_error + 'id" where
  "registry_parse_id x C s =
     map_err Reg_InvalidIdentifier
       (fleet_uuid_from_str (\<lambda>s. ok_or (x_parse_uuid x s) ()) C s)"

definition parse_stored_uuid :: "externals \<Rightarrow> string \<Rightarrow> registry_error + uuid" where
  "parse_stored_uuid x s = ok_or (x_parse_uuid x s) (Reg_InvalidRequest ''stored UUID is malformed'')"

definition generation_from_i64 :: "i64 \<Rightarrow> registry_error + generation" where
  "generation_from_i64 v =
     rbind (ok_or (word_try_from v) (Reg_InvalidRequest ''stored generation is malformed'')) (\<lambda>w.
     map_err (\<lambda>_. Reg_InvalidRequest ''stored generation is malformed'') (generation_new w))"

definition validate_idempotency_key :: "string \<Rightarrow> registry_error + unit" where
  "validate_idempotency_key value =
     map_err (\<lambda>_. Reg_InvalidRequest ''idempotency key is malformed'')
       (rbind (idempotency_key_try_from value) (\<lambda>_. Inr ()))"

definition hex_digit :: "nat \<Rightarrow> char" where
  "hex_digit n = char_of (if n < 10 then 48 + n else 87 + n)"

definition hash_request :: "externals \<Rightarrow> string \<Rightarrow> string" where
  "hash_request x value =
     concat (map (\<lambda>b. [hex_digit (unat b div 16), hex_digit (unat b mod 16)])
       (sha256 (x_codec x) (x_str_bytes x value)))"

fun os_name :: "execution_os \<Rightarrow> string" where
  "os_name Linux = ''linux''"
| "os_name Macos = ''macos''"
| "os_name Windows = ''windows''"

fun architecture_name :: "architecture \<Rightarrow> string" where
  "architecture_name X64 = ''x64''"
| "architecture_name Arm64 = ''arm64''"

section \<open>Who may act\<close>

record authenticated_host =
  ah_host_id :: host_id
  ah_credential_id :: uuid
  ah_generation :: generation
  ah_epoch :: host_epoch

definition credential_live :: "credential_row \<Rightarrow> i64 \<Rightarrow> bool" where
  "credential_live c now \<longleftrightarrow>
     hk_revoked_at c = None \<and>
     (case hk_overlap_expires_at c of None \<Rightarrow> True | Some t \<Rightarrow> t > now)"

definition generation_i64 :: "generation \<Rightarrow> registry_error + i64" where
  "generation_i64 g =
     ok_or (i64_from_u64 (generation_get g)) (Reg_InvalidRequest ''generation exceeds SQLite integer'')"

definition ensure_authenticated_generation ::
  "externals \<Rightarrow> fleet_db \<Rightarrow> authenticated_host \<Rightarrow> i64 \<Rightarrow> registry_error + unit" where
  "ensure_authenticated_generation x db a now =
     rbind (generation_i64 (ah_generation a)) (\<lambda>gen.
     rbind (ok_or (i64_from_u64 (epoch_get (ah_epoch a)))
              (Reg_InvalidRequest ''epoch exceeds SQLite integer'')) (\<lambda>epoch.
     ensure (length [c. c \<leftarrow> credentials db, h \<leftarrow> hosts db,
        fh_id h = hk_host_id c \<and> hk_id c = x_show_uuid x (ah_credential_id a) \<and>
        hk_host_id c = x_show_uuid x (host_uuid (ah_host_id a)) \<and> hk_generation c = gen \<and>
        hk_host_epoch c = epoch \<and> fh_epoch h = epoch \<and> credential_live c now \<and>
        fh_enrollment_state h \<noteq> ''revoked'' \<and> fh_lifecycle_state h \<noteq> ''retired''] = 1)
       Reg_InvalidCredential))"

definition ensure_system_admin :: "fleet_db \<Rightarrow> string \<Rightarrow> registry_error + unit" where
  "ensure_system_admin db user =
     ensure (map_option us_role (find (\<lambda>u. us_id u = user) (users db)) = Some ''admin'') Reg_Forbidden"

definition target_administered :: "fleet_db \<Rightarrow> string \<Rightarrow> ci_target_row \<Rightarrow> bool" where
  "target_administered db user t =
     (case ct_installation_id t of
        Some inst \<Rightarrow>
          (ct_kind t = ''github_organization'' \<longrightarrow>
             ct_organization_id t =
               map_option in_account_id (find (\<lambda>i. in_id i = inst) (installations db))) \<and>
          (case ct_repository_id t of
             Some repo \<Rightarrow> (\<exists>r \<in> set (repositories db). rs_id r = repo \<and> rs_installation_id r = inst)
           | None \<Rightarrow> True) \<and>
          (\<exists>ui \<in> set (user_installations db). \<exists>i \<in> set (installations db).
             in_id i = ui_installation_id ui \<and> ui_user_id ui = user \<and> ui_installation_id ui = inst \<and>
             ui_permission ui = ''admin'' \<and> in_suspended_at i = None)
      | None \<Rightarrow>
          (case ct_bitbucket_connection_id t of
             Some conn \<Rightarrow>
               (case (ct_workspace_uuid t, find (\<lambda>c. bc_id c = conn) (bitbucket_connections db)) of
                  (Some w, Some c) \<Rightarrow>
                    ascii_lower (trim_braces w) = ascii_lower (trim_braces (bc_workspace_uuid c))
                | _ \<Rightarrow> False) \<and>
               (\<exists>g \<in> set (bitbucket_grants db). bg_user_id g = user \<and> bg_connection_id g = conn \<and>
                  bg_permission g = ''admin'' \<and> bg_revoked_at g = None)
           | None \<Rightarrow> False))"

definition ensure_target_admin ::
  "externals \<Rightarrow> fleet_db \<Rightarrow> string \<Rightarrow> ci_target_id \<Rightarrow> registry_error + unit" where
  "ensure_target_admin x db user target =
     rbind (ok_or (find (\<lambda>t. ct_id t = target_text x target) (targets db)) Reg_NotFound) (\<lambda>t.
     ensure (target_administered db user t) Reg_TargetScopeForbidden)"

definition ensure_scope_admin ::
  "externals \<Rightarrow> fleet_db \<Rightarrow> string \<Rightarrow> enrollment_scope \<Rightarrow> registry_error + unit" where
  "ensure_scope_admin x db user scope =
     rbind (ensure_system_admin db user) (\<lambda>_.
     rfold (\<lambda>_ t. ensure_target_admin x db user t) (scope_target_ids scope) ())"

definition scope_is_subset :: "enrollment_scope \<Rightarrow> enrollment_scope \<Rightarrow> bool" where
  "scope_is_subset requested issued \<longleftrightarrow>
     (\<forall>t \<in> set (scope_target_ids requested). \<exists>i \<in> set (scope_target_ids issued). i = t)"

section \<open>Writing hosts, credentials and events\<close>

definition audit_and_event :: "string option \<Rightarrow> string \<Rightarrow> fleet_db \<Rightarrow> fleet_db" where
  "audit_and_event host action db = db\<lparr>events := events db @ [(host, action)]\<rparr>"

text \<open>
  An update of a host with its trigger
  \<^verbatim>\<open>fleet_hosts_invalidate_inventory_on_authority_change\<close>: a new epoch, session, boot or
  incarnation clears the inventory evidence.
\<close>

definition invalidate_inventory :: "host_row \<Rightarrow> host_row \<Rightarrow> host_row" where
  "invalidate_inventory old new =
     (if fh_epoch new \<noteq> fh_epoch old \<or> fh_agent_session_id new \<noteq> fh_agent_session_id old \<or>
         fh_boot_id new \<noteq> fh_boot_id old \<or>
         fh_authority_incarnation new \<noteq> fh_authority_incarnation old
      then new\<lparr>fh_inventory_complete := False, fh_last_inventory_at := None,
               fh_inventory_epoch := None, fh_inventory_session_id := None,
               fh_inventory_boot_id := None\<rparr>
      else new)"

definition update_hosts :: "(host_row \<Rightarrow> bool) \<Rightarrow> (host_row \<Rightarrow> host_row) \<Rightarrow> fleet_db \<Rightarrow> fleet_db" where
  "update_hosts q f db =
     db\<lparr>hosts := update_where q (\<lambda>h. invalidate_inventory h (f h)) (hosts db)\<rparr>"

text \<open>The triggers on the format of stored verifiers.\<close>

definition verifier_format_ok :: "string \<Rightarrow> bool" where
  "verifier_format_ok v \<longleftrightarrow> length v = 43 \<and> (\<forall>c \<in> set v. is_base64url c)"

definition insert_credential :: "credential_row \<Rightarrow> fleet_db \<Rightarrow> registry_error + fleet_db" where
  "insert_credential row db =
     rbind (ensure (verifier_format_ok (hk_verifier row))
              (Reg_Database ''credential verifier must be sha256 base64url'')) (\<lambda>_.
     map_err registry_db_error
       (rbind (insert_unique hk_id row (credentials db)) (\<lambda>_.
        rbind (insert_unique hk_verifier row (credentials db)) (\<lambda>_.
        rbind (insert_unique (\<lambda>c. (hk_host_id c, hk_generation c)) row (credentials db)) (\<lambda>t.
        Inr (db\<lparr>credentials := t\<rparr>))))))"

definition revoke_credentials :: "(credential_row \<Rightarrow> bool) \<Rightarrow> i64 \<Rightarrow> fleet_db \<Rightarrow> fleet_db" where
  "revoke_credentials q now db =
     db\<lparr>credentials := update_where (\<lambda>c. q c \<and> hk_revoked_at c = None)
          (\<lambda>c. c\<lparr>hk_revoked_at := Some now\<rparr>) (credentials db)\<rparr>"

text \<open>\<^verbatim>\<open>MAX(..)\<close> of a column, 0 for no rows.\<close>

definition max_or_zero :: "i64 list \<Rightarrow> i64" where
  "max_or_zero vs = (if vs = [] then 0 else fold max (tl vs) (hd vs))"

text \<open>The next generation is beyond every generation issued to or reserved for the host.\<close>

definition next_generation :: "fleet_db \<Rightarrow> string \<Rightarrow> registry_error + i64" where
  "next_generation db host =
     ok_or (checked_add_i64
       (max (max_or_zero (map hk_generation (filter (\<lambda>c. hk_host_id c = host) (credentials db))))
            (max_or_zero (map cr_next_generation (filter (\<lambda>r. cr_host_id r = host) (rotations db)))))
       1) (Reg_InvalidRequest ''credential generation overflowed'')"

section \<open>Closing rotations\<close>

definition close_rotation ::
  "(rotation_row \<Rightarrow> bool) \<Rightarrow> string \<Rightarrow> string \<Rightarrow> i64 \<Rightarrow> fleet_db \<Rightarrow> string \<Rightarrow> fleet_db" where
  "close_rotation q host action now db rid =
     (let sel = (\<lambda>r. cr_id r = rid \<and> q r);
          db' = db\<lparr>rotations := update_where sel
                  (\<lambda>r. r\<lparr>cr_phase := ''revoked'', cr_revoked_at := Some now\<rparr>) (rotations db)\<rparr>
      in if rows_where sel (rotations db) = 1 then audit_and_event (Some host) action db' else db')"

definition rotation_open :: "rotation_row \<Rightarrow> bool" where
  "rotation_open r \<longleftrightarrow> cr_phase r \<in> {''requested'', ''exchanged''}"

definition rotation_expired :: "i64 \<Rightarrow> rotation_row \<Rightarrow> bool" where
  "rotation_expired now r \<longleftrightarrow> cr_phase r = ''requested'' \<and> cr_expires_at r \<le> now"

definition close_rotations ::
  "(rotation_row \<Rightarrow> bool) \<Rightarrow> string \<Rightarrow> string \<Rightarrow> i64 \<Rightarrow> fleet_db \<Rightarrow> fleet_db" where
  "close_rotations q host action now db =
     foldl (close_rotation q host action now) db
       (map cr_id (filter (\<lambda>r. cr_host_id r = host \<and> q r) (rotations db)))"

definition revoke_expired_rotations :: "string \<Rightarrow> i64 \<Rightarrow> fleet_db \<Rightarrow> fleet_db" where
  "revoke_expired_rotations host now db =
     close_rotations (rotation_expired now) host ''fleet.credential.rotation_expired'' now db"

definition revoke_open_rotations :: "string \<Rightarrow> i64 \<Rightarrow> string \<Rightarrow> fleet_db \<Rightarrow> fleet_db" where
  "revoke_open_rotations host now action db = close_rotations rotation_open host action now db"

end
