(* ===== verification/Journal.thy ===== *)
theory Journal
  imports Registry "HOL-Library.Product_Lexorder"
begin

text \<open>
  The durable journal of the host agent (\<^verbatim>\<open>crates/gridops-host-agent/src/journal.rs\<close>): the
  identity of the host, the secret of a pending rotation, every command received with its result,
  the environments the agent prepared, and what it delivered. Each operation is one statement or
  transaction of the journal's own SQLite file. JSON columns hold the text of \<^verbatim>\<open>serde_json\<close>, whose
  functions are parameters; the clock and the boot are arguments.
\<close>

section \<open>Tables\<close>

record identity_row =
  ir_host_id :: string
  ir_host_epoch :: i64
  ir_credential :: string
  ir_credential_generation :: i64

record pending_secret_row =
  ps_operation_id :: string
  ps_next_generation :: i64
  ps_next_secret :: string

record journal_command_row =
  jc_command_id :: string
  jc_request_hash :: string
  jc_envelope :: string
  jc_received_at :: i64
  jc_result :: "string option"
  jc_boot_id :: "string option"

record environment_row =
  en_id :: string
  en_placement_id :: string
  en_generation :: i64
  en_workload :: string
  en_runtime_kind :: string
  en_execution_os :: string
  en_docker_socket :: bool
  en_prepare :: string
  en_local_identity :: "string option"

record journal =
  jn_identity :: "identity_row option"
  jn_rotation :: "pending_secret_row option"
  jn_commands :: "journal_command_row list"
  jn_environments :: "environment_row list"
  jn_shipped_output :: "string list"
  jn_delivered_results :: "string list"

definition empty_journal :: journal where
  "empty_journal = \<lparr>jn_identity = None, jn_rotation = None, jn_commands = [], jn_environments = [],
     jn_shipped_output = [], jn_delivered_results = []\<rparr>"

text \<open>The JSON text of the columns of an environment.\<close>

record environment_codec =
  ec_workload_to :: "prepared_workload \<Rightarrow> string option"
  ec_workload_from :: "string \<Rightarrow> prepared_workload option"
  ec_runtime_to :: "runtime_kind \<Rightarrow> string option"
  ec_runtime_from :: "string \<Rightarrow> runtime_kind option"
  ec_os_to :: "execution_os \<Rightarrow> string option"
  ec_os_from :: "string \<Rightarrow> execution_os option"
  ec_prepare_to :: "prepare_environment \<Rightarrow> string option"
  ec_prepare_from :: "string \<Rightarrow> prepare_environment option"
  ec_identity_to :: "local_resource_identity \<Rightarrow> string option"
  ec_identity_from :: "string \<Rightarrow> local_resource_identity option"

section \<open>Values and errors\<close>

record identity =
  idn_host_id :: host_id
  idn_host_epoch :: host_epoch
  idn_credential :: string
  idn_credential_generation :: generation

datatype receipt = Receipt_New | Receipt_Interrupted | Receipt_Completed agent_command_result

record environment =
  ev_id :: prepared_environment_id
  ev_placement_id :: placement_id
  ev_generation :: generation
  ev_workload :: prepared_workload
  ev_runtime_kind :: runtime_kind
  ev_execution_os :: execution_os
  ev_docker_socket :: bool
  ev_prepare :: prepare_environment
  ev_local_identity :: "local_resource_identity option"

datatype journal_error = Journal_Conflict | Journal_Storage string

definition journal_id :: "externals \<Rightarrow> (uuid \<Rightarrow> 'id) \<Rightarrow> string \<Rightarrow> journal_error + 'id" where
  "journal_id x C s =
     rbind (ok_or (x_parse_uuid x s) (Journal_Storage ''uuid'')) (\<lambda>u.
     map_err (\<lambda>_. Journal_Storage ''nil uuid'') (fleet_uuid_try_new C u))"

definition journal_counter :: "(u64 \<Rightarrow> counter_error + 'c) \<Rightarrow> i64 \<Rightarrow> journal_error + 'c" where
  "journal_counter new v =
     rbind (ok_or (word_try_from v) (Journal_Storage ''counter'')) (\<lambda>w.
     map_err (\<lambda>_. Journal_Storage ''counter'') (new w))"

definition journal_i64 :: "u64 \<Rightarrow> journal_error + i64" where
  "journal_i64 v = ok_or (i64_from_u64 v) (Journal_Storage ''integer'')"

definition to_json :: "('a \<Rightarrow> string option) \<Rightarrow> 'a \<Rightarrow> journal_error + string" where
  "to_json ser v = ok_or (ser v) (Journal_Storage ''json'')"

definition from_json :: "(string \<Rightarrow> 'a option) \<Rightarrow> string \<Rightarrow> journal_error + 'a" where
  "from_json de s = ok_or (de s) (Journal_Storage ''json'')"

section \<open>Identity and rotation\<close>

definition journal_identity :: "externals \<Rightarrow> journal \<Rightarrow> journal_error + identity option" where
  "journal_identity x j =
     (case jn_identity j of
        None \<Rightarrow> Inr None
      | Some r \<Rightarrow>
          rbind (journal_id x HostId (ir_host_id r)) (\<lambda>h.
          rbind (journal_counter host_epoch_new (ir_host_epoch r)) (\<lambda>e.
          rbind (journal_counter generation_new (ir_credential_generation r)) (\<lambda>g.
          Inr (Some \<lparr>idn_host_id = h, idn_host_epoch = e, idn_credential = ir_credential r,
                     idn_credential_generation = g\<rparr>)))))"

definition store_identity :: "externals \<Rightarrow> identity \<Rightarrow> journal \<Rightarrow> journal_error + journal" where
  "store_identity x i j =
     rbind (journal_i64 (epoch_get (idn_host_epoch i))) (\<lambda>e.
     rbind (journal_i64 (generation_get (idn_credential_generation i))) (\<lambda>g.
     Inr (j\<lparr>jn_identity := Some \<lparr>ir_host_id = x_show_uuid x (host_uuid (idn_host_id i)),
          ir_host_epoch = e, ir_credential = idn_credential i, ir_credential_generation = g\<rparr>\<rparr>)))"

definition rotation_secret ::
  "externals \<Rightarrow> operation_id \<Rightarrow> generation \<Rightarrow> string \<Rightarrow> journal \<Rightarrow> journal_error + (string \<times> journal)"
  where
  "rotation_secret x op g fresh j =
     (let operation = x_show_uuid x (operation_uuid op);
          store = rbind (journal_i64 (generation_get g)) (\<lambda>gen.
            Inr (fresh, j\<lparr>jn_rotation := Some \<lparr>ps_operation_id = operation, ps_next_generation = gen,
                   ps_next_secret = fresh\<rparr>\<rparr>)) in
      case jn_rotation j of
        Some r \<Rightarrow> if ps_operation_id r = operation then Inr (ps_next_secret r, j) else store
      | None \<Rightarrow> store)"

definition finish_rotation :: "string \<Rightarrow> generation \<Rightarrow> journal \<Rightarrow> journal_error + journal" where
  "finish_rotation credential g j =
     rbind (journal_i64 (generation_get g)) (\<lambda>gen.
     Inr (j\<lparr>jn_identity := map_option (\<lambda>r. r\<lparr>ir_credential := credential,
              ir_credential_generation := gen\<rparr>) (jn_identity j),
            jn_rotation := None\<rparr>))"

section \<open>Commands\<close>

definition command_text :: "externals \<Rightarrow> command_id \<Rightarrow> string" where
  "command_text x c = x_show_uuid x (command_uuid c)"

definition receive ::
  "externals \<Rightarrow> agent_command_envelope \<Rightarrow> i64 \<Rightarrow> string \<Rightarrow> journal \<Rightarrow>
   journal_error + (receipt \<times> journal)" where
  "receive x e now boot j =
     (let cid = command_text x (env_command_id e) in
      rbind (to_json (x_envelope_to_string x) e) (\<lambda>json.
      case find (\<lambda>c. jc_command_id c = cid) (jn_commands j) of
        None \<Rightarrow> Inr (Receipt_New, j\<lparr>jn_commands := jn_commands j @
          [\<lparr>jc_command_id = cid, jc_request_hash = env_request_hash e, jc_envelope = json,
            jc_received_at = now, jc_result = None, jc_boot_id = Some boot\<rparr>]\<rparr>)
      | Some row \<Rightarrow>
          rbind (ensure (\<not> jc_request_hash row \<noteq> env_request_hash e) Journal_Conflict) (\<lambda>_.
          case jc_result row of
            Some json \<Rightarrow>
              rbind (from_json (x_result_from_str x) json) (\<lambda>r. Inr (Receipt_Completed r, j))
          | None \<Rightarrow> Inr (Receipt_Interrupted, j))))"

definition rebooted_since :: "externals \<Rightarrow> command_id \<Rightarrow> string \<Rightarrow> journal \<Rightarrow> bool" where
  "rebooted_since x c boot j =
     (case find (\<lambda>r. jc_command_id r = command_text x c) (jn_commands j) of
        None \<Rightarrow> False
      | Some r \<Rightarrow> (case jc_boot_id r of None \<Rightarrow> False | Some b \<Rightarrow> b \<noteq> boot))"

definition complete :: "externals \<Rightarrow> agent_command_result \<Rightarrow> journal \<Rightarrow> journal_error + journal" where
  "complete x r j =
     (let sel = (\<lambda>c. jc_command_id c = command_text x (res_command_id r) \<and> jc_result c = None) in
      rbind (to_json (x_result_to_string x) r) (\<lambda>json.
      rbind (ensure (rows_where sel (jn_commands j) = 1)
               (Journal_Storage ''command result was already recorded'')) (\<lambda>_.
      Inr (j\<lparr>jn_commands := update_where sel (\<lambda>c. c\<lparr>jc_result := Some json\<rparr>) (jn_commands j)\<rparr>))))"

definition undelivered_rows :: "i64 \<Rightarrow> journal \<Rightarrow> journal_command_row list" where
  "undelivered_rows since j =
     sort_key (\<lambda>c. (jc_received_at c, jc_command_id c))
       (filter (\<lambda>c. since \<le> jc_received_at c \<and> jc_command_id c \<notin> set (jn_delivered_results j))
          (jn_commands j))"

definition undelivered_entry ::
  "externals \<Rightarrow> journal_command_row \<Rightarrow>
   journal_error + (agent_command_envelope \<times> agent_command_result option)" where
  "undelivered_entry x c =
     rbind (from_json (x_envelope_from_str x) (jc_envelope c)) (\<lambda>e.
     rbind (case jc_result c of
              None \<Rightarrow> Inr None
            | Some s \<Rightarrow> rbind (from_json (x_result_from_str x) s) (\<lambda>r. Inr (Some r))) (\<lambda>r.
     Inr (e, r)))"

definition undelivered ::
  "externals \<Rightarrow> i64 \<Rightarrow> journal \<Rightarrow>
   journal_error + (agent_command_envelope \<times> agent_command_result option) list" where
  "undelivered x since j =
     rfold (\<lambda>acc c. rbind (undelivered_entry x c) (\<lambda>v. Inr (acc @ [v]))) (undelivered_rows since j) []"

definition delivered :: "externals \<Rightarrow> command_id \<Rightarrow> journal \<Rightarrow> journal" where
  "delivered x c j =
     (if command_text x c \<in> set (jn_delivered_results j) then j
      else j\<lparr>jn_delivered_results := jn_delivered_results j @ [command_text x c]\<rparr>)"

section \<open>Environments\<close>

definition environment_text :: "externals \<Rightarrow> prepared_environment_id \<Rightarrow> string" where
  "environment_text x i = x_show_uuid x (prepared_environment_uuid i)"

definition load_environment ::
  "externals \<Rightarrow> environment_codec \<Rightarrow> environment_row \<Rightarrow> journal_error + environment" where
  "load_environment x k r =
     rbind (journal_id x PreparedEnvironmentId (en_id r)) (\<lambda>i.
     rbind (journal_id x PlacementId (en_placement_id r)) (\<lambda>p.
     rbind (journal_counter generation_new (en_generation r)) (\<lambda>g.
     rbind (from_json (ec_workload_from k) (en_workload r)) (\<lambda>w.
     rbind (from_json (ec_runtime_from k) (en_runtime_kind r)) (\<lambda>rt.
     rbind (from_json (ec_os_from k) (en_execution_os r)) (\<lambda>os.
     rbind (from_json (ec_prepare_from k) (en_prepare r)) (\<lambda>pe.
     rbind (case en_local_identity r of
              None \<Rightarrow> Inr None
            | Some s \<Rightarrow> rbind (from_json (ec_identity_from k) s) (\<lambda>l. Inr (Some l))) (\<lambda>l.
     Inr \<lparr>ev_id = i, ev_placement_id = p, ev_generation = g, ev_workload = w, ev_runtime_kind = rt,
          ev_execution_os = os, ev_docker_socket = en_docker_socket r, ev_prepare = pe,
          ev_local_identity = l\<rparr>))))))))"

text \<open>The insert with the two unique keys of the table.\<close>

definition record_environment ::
  "externals \<Rightarrow> environment_codec \<Rightarrow> environment \<Rightarrow> journal \<Rightarrow> journal_error + journal" where
  "record_environment x k e j =
     rbind (journal_i64 (generation_get (ev_generation e))) (\<lambda>g.
     rbind (to_json (ec_workload_to k) (ev_workload e)) (\<lambda>w.
     rbind (to_json (ec_runtime_to k) (ev_runtime_kind e)) (\<lambda>rt.
     rbind (to_json (ec_os_to k) (ev_execution_os e)) (\<lambda>os.
     rbind (to_json (ec_prepare_to k) (ev_prepare e)) (\<lambda>pe.
     rbind (case ev_local_identity e of
              None \<Rightarrow> Inr None
            | Some l \<Rightarrow> rbind (to_json (ec_identity_to k) l) (\<lambda>s. Inr (Some s))) (\<lambda>l.
     let row = \<lparr>en_id = environment_text x (ev_id e),
                en_placement_id = x_show_uuid x (placement_uuid (ev_placement_id e)),
                en_generation = g, en_workload = w, en_runtime_kind = rt, en_execution_os = os,
                en_docker_socket = ev_docker_socket e, en_prepare = pe, en_local_identity = l\<rparr> in
     map_err (\<lambda>_. Journal_Storage ''UNIQUE'')
       (rbind (insert_unique en_id row (jn_environments j)) (\<lambda>_.
        rbind (insert_unique (\<lambda>r. (en_placement_id r, en_generation r)) row (jn_environments j)) (\<lambda>t.
        Inr (j\<lparr>jn_environments := t\<rparr>))))))))))"

definition bind_local_identity ::
  "externals \<Rightarrow> environment_codec \<Rightarrow> prepared_environment_id \<Rightarrow> local_resource_identity \<Rightarrow> journal \<Rightarrow>
   journal_error + journal" where
  "bind_local_identity x k i l j =
     rbind (to_json (ec_identity_to k) l) (\<lambda>encoded.
     let sel = (\<lambda>r. en_id r = environment_text x i \<and>
                  (en_local_identity r = None \<or> en_local_identity r = Some encoded)) in
     rbind (ensure (rows_where sel (jn_environments j) = 1)
              (Journal_Storage ''environment already owns another resource'')) (\<lambda>_.
     Inr (j\<lparr>jn_environments := update_where sel (\<lambda>r. r\<lparr>en_local_identity := Some encoded\<rparr>)
            (jn_environments j)\<rparr>)))"

definition find_environment ::
  "externals \<Rightarrow> environment_codec \<Rightarrow> (environment_row \<Rightarrow> bool) \<Rightarrow> journal \<Rightarrow>
   journal_error + environment option" where
  "find_environment x k q j =
     (case find q (jn_environments j) of
        None \<Rightarrow> Inr None
      | Some r \<Rightarrow> rbind (load_environment x k r) (\<lambda>e. Inr (Some e)))"

definition journal_environment ::
  "externals \<Rightarrow> environment_codec \<Rightarrow> prepared_environment_id \<Rightarrow> journal \<Rightarrow>
   journal_error + environment option" where
  "journal_environment x k i j = find_environment x k (\<lambda>r. en_id r = environment_text x i) j"

definition placement_environment ::
  "externals \<Rightarrow> environment_codec \<Rightarrow> placement_id \<Rightarrow> generation \<Rightarrow> journal \<Rightarrow>
   journal_error + environment option" where
  "placement_environment x k p g j =
     rbind (journal_i64 (generation_get g)) (\<lambda>gen.
     find_environment x k
       (\<lambda>r. en_placement_id r = x_show_uuid x (placement_uuid p) \<and> en_generation r = gen) j)"

definition unshipped_output ::
  "externals \<Rightarrow> environment_codec \<Rightarrow> journal \<Rightarrow> journal_error + environment list" where
  "unshipped_output x k j =
     rfold (\<lambda>acc r. rbind (load_environment x k r) (\<lambda>e. Inr (acc @ [e])))
       (filter (\<lambda>r. en_local_identity r \<noteq> None \<and> en_id r \<notin> set (jn_shipped_output j))
          (jn_environments j)) []"

definition output_shipped :: "externals \<Rightarrow> prepared_environment_id \<Rightarrow> journal \<Rightarrow> journal" where
  "output_shipped x i j =
     (if environment_text x i \<in> set (jn_shipped_output j) then j
      else j\<lparr>jn_shipped_output := jn_shipped_output j @ [environment_text x i]\<rparr>)"

end
