(* ===== verification/Dispatch.thy ===== *)
theory Dispatch
  imports Journal
begin

text \<open>
  The dispatcher of the host agent (\<^verbatim>\<open>crates/gridops-host-agent/src/dispatch.rs\<close>) over the
  runtime helper (\<^verbatim>\<open>helper.rs\<close>). The helper is the trait the dispatcher is generic over: a record
  of functions on a world \<open>'w\<close> it may change, its containers, virtual machines and processes. The
  state of the agent is its journal and that world; a journal write survives an error that follows
  it, so every operation returns the state beside its result. Fresh UUIDs and clocks are arguments.
\<close>

section \<open>The runtime helper\<close>

record helper_request =
  hq_environment_id :: "prepared_environment_id option"
  hq_docker_socket :: bool
  hq_prepared :: "prepare_environment option"
  hq_bootstrap :: "string option"
  hq_operation :: agent_operation

datatype helper_response = Helper_Succeeded success_evidence | Helper_Failed failure_code bool

datatype start_remains =
  Remains_Runner local_resource_identity | Remains_Nothing | Remains_Unknown

record 'w runtime_helper =
  rh_call :: "helper_request \<Rightarrow> 'w \<Rightarrow> helper_response \<times> 'w"
  rh_interrupted_start :: "helper_request \<Rightarrow> bool \<Rightarrow> 'w \<Rightarrow> start_remains \<times> 'w"

text \<open>The helper of an agent without a runtime.\<close>

definition NoRuntime :: "'w runtime_helper" where
  "NoRuntime = \<lparr>rh_call = (\<lambda>_ w. (Helper_Failed Fail_Unsupported False, w)),
                rh_interrupted_start = (\<lambda>_ _ w. (Remains_Unknown, w))\<rparr>"

section \<open>Outcomes and errors\<close>

definition refused :: "failure_code \<Rightarrow> command_outcome" where
  "refused code = Outcome_Failed code False None"

definition cut_short :: command_outcome where
  "cut_short = Outcome_Failed Fail_Cancelled True None"

definition unknown :: command_outcome where
  "unknown = Outcome_Uncertain LocalStateUnknown None"

fun helper_outcome :: "helper_response \<Rightarrow> command_outcome" where
  "helper_outcome (Helper_Succeeded evidence) = Outcome_Succeeded evidence"
| "helper_outcome (Helper_Failed code retryable) = Outcome_Failed code retryable None"

datatype dispatch_error =
    Dispatch_Contract contract_error
  | Dispatch_Command command_error
  | Dispatch_Journal journal_error
  | Dispatch_Internal journal_error

record 'w dispatcher =
  dp_helper :: "'w runtime_helper"
  dp_trust_docker_socket :: bool

type_synonym 'w agent = "journal \<times> 'w"

text \<open>Sequencing that keeps the state when a step fails.\<close>

definition abind ::
  "('e + 'a) \<times> 's \<Rightarrow> ('a \<Rightarrow> 's \<Rightarrow> ('e + 'b) \<times> 's) \<Rightarrow> ('e + 'b) \<times> 's" where
  "abind m f = (case m of (Inl e, s) \<Rightarrow> (Inl e, s) | (Inr a, s) \<Rightarrow> f a s)"

definition on_journal ::
  "(journal \<Rightarrow> journal_error + journal) \<Rightarrow> 'w agent \<Rightarrow> (journal_error + unit) \<times> 'w agent" where
  "on_journal f s =
     (case f (fst s) of Inl e \<Rightarrow> (Inl e, s) | Inr j \<Rightarrow> (Inr (), (j, snd s)))"

section \<open>Calling the helper\<close>

definition helper_request_for ::
  "'w dispatcher \<Rightarrow> environment option \<Rightarrow> agent_operation \<Rightarrow> string option \<Rightarrow> helper_request" where
  "helper_request_for d env oper material =
     \<lparr>hq_environment_id = map_option ev_id env,
      hq_docker_socket = (dp_trust_docker_socket d \<and>
        (case env of None \<Rightarrow> False | Some e \<Rightarrow> ev_docker_socket e)),
      hq_prepared = map_option ev_prepare env, hq_bootstrap = material, hq_operation = oper\<rparr>"

definition call_helper ::
  "'w dispatcher \<Rightarrow> helper_request \<Rightarrow> 'w agent \<Rightarrow> helper_response \<times> 'w agent" where
  "call_helper d q s =
     (let (r, w) = rh_call (dp_helper d) q (snd s) in (r, (fst s, w)))"

definition is_owned_fix_sandbox :: "environment \<Rightarrow> local_resource_identity \<Rightarrow> bool" where
  "is_owned_fix_sandbox e expected \<longleftrightarrow>
     ev_workload e = Prepared_FixSandbox \<and> ev_runtime_kind e = Docker \<and> ev_execution_os e = Linux \<and>
     is_docker_identity expected \<and> ev_local_identity e = Some expected"

fun is_owned_operation :: "agent_operation \<Rightarrow> bool" where
  "is_owned_operation (PrepareEnvironment _) = False"
| "is_owned_operation InspectHost = False"
| "is_owned_operation agent_operation.DrainHost = False"
| "is_owned_operation (UpgradeAgent _ _ _ _) = False"
| "is_owned_operation _ = True"

text \<open>Whether the environment the journal has for the placement is the one the command names.\<close>

fun names_environment :: "agent_operation \<Rightarrow> environment \<Rightarrow> bool" where
  "names_environment (StartRunner s) e = (ev_id e = sr_prepared_environment_id s)"
| "names_environment (Inspect r) e = (ev_local_identity e = Some r)"
| "names_environment (Drain r) e = (ev_local_identity e = Some r)"
| "names_environment (Stop r _) e = (ev_local_identity e = Some r)"
| "names_environment (Cleanup r) e = (ev_local_identity e = Some r)"
| "names_environment (Op_ExecuteSandbox r _ _ _ _ _) e = is_owned_fix_sandbox e r"
| "names_environment (SandboxFile r _) e = is_owned_fix_sandbox e r"
| "names_environment (SandboxArtifact r _) e = is_owned_fix_sandbox e r"
| "names_environment _ e = False"

section \<open>Executing a new command\<close>

definition prepare ::
  "externals \<Rightarrow> environment_codec \<Rightarrow> 'w dispatcher \<Rightarrow> prepare_environment \<Rightarrow> placement_id \<Rightarrow>
   generation \<Rightarrow> uuid \<Rightarrow> 'w agent \<Rightarrow> (journal_error + command_outcome) \<times> 'w agent" where
  "prepare x k d p placement g fresh s =
     (case fleet_uuid_try_new PreparedEnvironmentId fresh of
        Inl _ \<Rightarrow> (Inl (Journal_Storage ''nil uuid''), s)
      | Inr i \<Rightarrow>
          let env = \<lparr>ev_id = i, ev_placement_id = placement, ev_generation = g,
                     ev_workload = pe_workload p, ev_runtime_kind = pe_runtime_kind p,
                     ev_execution_os = pe_execution_os p,
                     ev_docker_socket = ec_requires_docker_socket (pe_configuration p),
                     ev_prepare = p, ev_local_identity = None\<rparr>;
              (response, s') = call_helper d
                (helper_request_for d (Some env) (PrepareEnvironment p) None) s in
          (case response of
             Helper_Succeeded evidence \<Rightarrow>
               if evidence = Ev_PreparedEnvironment i then
                 abind (on_journal (record_environment x k env) s') (\<lambda>_ s''.
                 (Inr (helper_outcome response), s''))
               else (Inr unknown, s')
           | Helper_Failed _ _ \<Rightarrow> (Inr (helper_outcome response), s')))"

definition run_owned ::
  "externals \<Rightarrow> environment_codec \<Rightarrow> 'w dispatcher \<Rightarrow> environment \<Rightarrow> agent_operation \<Rightarrow>
   string option \<Rightarrow> 'w agent \<Rightarrow> (journal_error + command_outcome) \<times> 'w agent" where
  "run_owned x k d env oper material s =
     (let (response, s') = call_helper d (helper_request_for d (Some env) oper
            (if is_start_runner oper then material else None)) s in
      case response of
        Helper_Succeeded (Ev_RunnerStarted _ _ _ local_identity) \<Rightarrow>
          abind (on_journal (bind_local_identity x k (ev_id env) local_identity) s') (\<lambda>_ s''.
          (Inr (helper_outcome response), s''))
      | _ \<Rightarrow> (Inr (helper_outcome response), s'))"

definition owned_of ::
  "externals \<Rightarrow> environment_codec \<Rightarrow> command_scope \<Rightarrow> journal \<Rightarrow> journal_error + environment option" where
  "owned_of x k sc j =
     (case sc of
        Scope_Placement p _ g \<Rightarrow> placement_environment x k p g j
      | Scope_Host \<Rightarrow> Inr None)"

definition execute ::
  "externals \<Rightarrow> environment_codec \<Rightarrow> 'w dispatcher \<Rightarrow> agent_command_envelope \<Rightarrow> string option \<Rightarrow>
   uuid \<Rightarrow> 'w agent \<Rightarrow> (journal_error + command_outcome) \<times> 'w agent" where
  "execute x k d e material fresh s =
     abind (owned_of x k (env_scope e) (fst s), s) (\<lambda>owned s.
     let oper = env_operation e in
     case env_scope e of
       Scope_Placement placement _ g \<Rightarrow>
         (case oper of
            PrepareEnvironment p \<Rightarrow>
              if ec_requires_docker_socket (pe_configuration p) \<and> \<not> dp_trust_docker_socket d
              then (Inr (refused Fail_Permission), s)
              else if ec_requires_interactive (pe_configuration p)
              then (Inr (refused Fail_Unsupported), s)
              else if owned \<noteq> None then (Inr (refused Fail_Configuration), s)
              else prepare x k d p placement g fresh s
          | _ \<Rightarrow>
              if is_owned_operation oper then
                (case owned of
                   Some env \<Rightarrow>
                     if names_environment oper env then run_owned x k d env oper material s
                     else (Inr (refused Fail_Permission), s)
                 | None \<Rightarrow> (Inr (refused Fail_Permission), s))
              else (Inr (refused Fail_Unsupported), s))
     | Scope_Host \<Rightarrow>
         if oper = InspectHost \<or> oper = agent_operation.DrainHost then
           (let (response, s') = call_helper d (helper_request_for d None oper None) s
            in (Inr (helper_outcome response), s'))
         else (Inr (refused Fail_Unsupported), s))"

section \<open>Recovering an interrupted command\<close>

definition started :: "start_runner \<Rightarrow> local_resource_identity \<Rightarrow> command_outcome" where
  "started start l = Outcome_Succeeded (Ev_RunnerStarted (sr_prepared_environment_id start)
     (sr_execution_profile_id start) (sr_profile_revision start) l)"

definition start_left ::
  "externals \<Rightarrow> environment_codec \<Rightarrow> 'w dispatcher \<Rightarrow> agent_command_envelope \<Rightarrow> start_runner \<Rightarrow>
   environment \<Rightarrow> string \<Rightarrow> 'w agent \<Rightarrow> (journal_error + command_outcome) \<times> 'w agent" where
  "start_left x k d e start env boot s =
     (case ev_local_identity env of
        Some l \<Rightarrow> (Inr (started start l), s)
      | None \<Rightarrow>
          let rebooted = rebooted_since x (env_command_id e) boot (fst s);
              (left_over, w) = rh_interrupted_start (dp_helper d)
                (helper_request_for d (Some env) (env_operation e) None) rebooted (snd s);
              s' = (fst s, w) in
          (case left_over of
             Remains_Runner l \<Rightarrow>
               abind (on_journal (bind_local_identity x k (ev_id env) l) s') (\<lambda>_ s''.
               (Inr (started start l), s''))
           | Remains_Nothing \<Rightarrow> (Inr cut_short, s')
           | Remains_Unknown \<Rightarrow> (Inr unknown, s')))"

definition remains ::
  "externals \<Rightarrow> environment_codec \<Rightarrow> 'w dispatcher \<Rightarrow> agent_command_envelope \<Rightarrow> string \<Rightarrow> 'w agent \<Rightarrow>
   (journal_error + command_outcome) \<times> 'w agent" where
  "remains x k d e boot s =
     (case env_scope e of
        Scope_Host \<Rightarrow> (Inr unknown, s)
      | Scope_Placement p _ g \<Rightarrow>
          abind (placement_environment x k p g (fst s), s) (\<lambda>owned s.
          case (env_operation e, owned) of
            (PrepareEnvironment _, Some env) \<Rightarrow>
              (Inr (Outcome_Succeeded (Ev_PreparedEnvironment (ev_id env))), s)
          | (PrepareEnvironment _, None) \<Rightarrow> (Inr cut_short, s)
          | (StartRunner start, Some env) \<Rightarrow>
              if ev_id env = sr_prepared_environment_id start
              then start_left x k d e start env boot s
              else (Inr (refused Fail_Permission), s)
          | (StartRunner _, None) \<Rightarrow> (Inr (refused Fail_Permission), s)
          | _ \<Rightarrow> (Inr unknown, s)))"

section \<open>Dispatching\<close>

definition DEFAULT_JSON_BYTES :: nat where "DEFAULT_JSON_BYTES = 1024 * 1024"

definition scope_generation_of :: "command_scope \<Rightarrow> generation option" where
  "scope_generation_of sc = (case sc of Scope_Placement _ _ g \<Rightarrow> Some g | Scope_Host \<Rightarrow> None)"

definition command_result ::
  "externals \<Rightarrow> agent_command_envelope \<Rightarrow> command_outcome \<Rightarrow> wire_timestamp \<Rightarrow> uuid \<Rightarrow>
   journal_error + agent_command_result" where
  "command_result x e outcome now fresh =
     rbind (map_err (\<lambda>_. Journal_Storage ''nil uuid'') (fleet_uuid_try_new ResultId fresh)) (\<lambda>i.
     rbind (map_err (\<lambda>_. Journal_Storage ''digest'')
              (sha256_digest_try_from (x_codec x) (env_request_hash e))) (\<lambda>h.
     Inr \<lparr>res_result_id = i, res_command_id = env_command_id e, res_operation_id = env_operation_id e,
          res_host_id = env_host_id e, res_host_epoch = env_host_epoch e,
          res_control_plane_incarnation = env_control_plane_incarnation e,
          res_authority_session_id = env_authority_session_id e, res_scope = env_scope e,
          res_generation = scope_generation_of (env_scope e), res_request_hash = h,
          res_observed_at = now, res_outcome = outcome\<rparr>))"

definition trusted_result ::
  "externals \<Rightarrow> agent_command_envelope \<Rightarrow> agent_command_result \<Rightarrow> agent_command_result" where
  "trusted_result x e r =
     (case result_validate_against (x_codec x) r e of
        Inl _ \<Rightarrow> r\<lparr>res_outcome := unknown\<rparr>
      | Inr _ \<Rightarrow> r)"

definition answer ::
  "externals \<Rightarrow> agent_command_envelope \<Rightarrow> command_outcome \<Rightarrow> wire_timestamp \<Rightarrow> uuid \<Rightarrow> 'w agent \<Rightarrow>
   (dispatch_error + agent_command_result) \<times> 'w agent" where
  "answer x e outcome now fresh s =
     (case command_result x e outcome now fresh of
        Inl err \<Rightarrow> (Inl (Dispatch_Internal err), s)
      | Inr r0 \<Rightarrow>
          let r = trusted_result x e r0 in
          (case complete x r (fst s) of
             Inl err \<Rightarrow> (Inl (Dispatch_Internal err), s)
           | Inr j \<Rightarrow> (Inr r, (j, snd s))))"

text \<open>What a received command leads to: its recovery, a refusal when it came late, or its execution.\<close>

definition act ::
  "externals \<Rightarrow> environment_codec \<Rightarrow> 'w dispatcher \<Rightarrow> receipt \<Rightarrow> bool \<Rightarrow> agent_command_envelope \<Rightarrow>
   string option \<Rightarrow> string \<Rightarrow> uuid \<Rightarrow> 'w agent \<Rightarrow> (journal_error + command_outcome) \<times> 'w agent" where
  "act x k d rec in_time e material boot fresh s =
     (if rec = Receipt_Interrupted then remains x k d e boot s
      else if \<not> in_time then (Inr (refused Fail_Deadline), s)
      else execute x k d e material fresh s)"

definition dispatch_with ::
  "externals \<Rightarrow> environment_codec \<Rightarrow> (u8 list \<Rightarrow> agent_command_envelope option) \<Rightarrow> 'w dispatcher \<Rightarrow>
   u8 list \<Rightarrow> expected_agent_session \<Rightarrow> wire_timestamp \<Rightarrow> string option \<Rightarrow> i64 \<Rightarrow> string \<Rightarrow>
   (nat \<Rightarrow> uuid) \<Rightarrow> 'w agent \<Rightarrow> (dispatch_error + agent_command_result) \<times> 'w agent" where
  "dispatch_with x k from_slice d body session now material clock boot fresh s =
     (case parse_json from_slice body DEFAULT_JSON_BYTES of
        Inl err \<Rightarrow> (Inl (Dispatch_Contract err), s)
      | Inr e \<Rightarrow>
     (case validate_binding (x_codec x) (x_envelope_to_vec x) e session of
        Inl err \<Rightarrow> (Inl (Dispatch_Command err), s)
      | Inr _ \<Rightarrow>
     let in_time = is_ok (validate_against (x_codec x) (x_envelope_to_vec x) e session now) in
     (case receive x e clock boot (fst s) of
        Inl err \<Rightarrow> (Inl (Dispatch_Journal err), s)
      | Inr (Receipt_Completed r, j) \<Rightarrow> (Inr r, (j, snd s))
      | Inr (rec, j) \<Rightarrow>
          (case act x k d rec in_time e material boot (fresh 0) (j, snd s) of
             (Inl err, s') \<Rightarrow> (Inl (Dispatch_Internal err), s')
           | (Inr outcome, s') \<Rightarrow> answer x e outcome now (fresh 1) s'))))"

definition dispatch ::
  "externals \<Rightarrow> environment_codec \<Rightarrow> (u8 list \<Rightarrow> agent_command_envelope option) \<Rightarrow> 'w dispatcher \<Rightarrow>
   u8 list \<Rightarrow> expected_agent_session \<Rightarrow> wire_timestamp \<Rightarrow> i64 \<Rightarrow> string \<Rightarrow> (nat \<Rightarrow> uuid) \<Rightarrow> 'w agent \<Rightarrow>
   (dispatch_error + agent_command_result) \<times> 'w agent" where
  "dispatch x k from_slice d body session now = dispatch_with x k from_slice d body session now None"

definition interrupted ::
  "externals \<Rightarrow> environment_codec \<Rightarrow> 'w dispatcher \<Rightarrow> agent_command_envelope \<Rightarrow> wire_timestamp \<Rightarrow>
   string \<Rightarrow> uuid \<Rightarrow> 'w agent \<Rightarrow> (dispatch_error + agent_command_result) \<times> 'w agent" where
  "interrupted x k d e now boot fresh s =
     (case remains x k d e boot s of
        (Inl err, s') \<Rightarrow> (Inl (Dispatch_Internal err), s')
      | (Inr outcome, s') \<Rightarrow> answer x e outcome now fresh s')"

end
