(* ===== verification/Capacity.thy ===== *)
theory Capacity
  imports Store
begin

text \<open>
  Resource domains and the capacity check of admission: \<^verbatim>\<open>domain_path\<close> and
  \<^verbatim>\<open>domains_fit\<close> of \<^verbatim>\<open>crates/gridops-core/src/fleet/admission.rs\<close>. A
  machine's resources form a tree of domains; a workload is charged to every domain from its
  backend's leaf to the root. The main lemma is that a candidate that fits can be charged along
  its whole path without any domain going over its budget.
\<close>

section \<open>Candidates\<close>

record candidate =
  cd_host_id :: string
  cd_backend_id :: string
  cd_domain_id :: string
  cd_host_epoch :: i64
  cd_authority_session_id :: string
  cd_boot_id :: string
  cd_control_plane_incarnation :: string
  cd_session_id :: "string option"
  cd_profile_revision :: i64
  cd_cpu_millis :: i64
  cd_memory_mib :: i64
  cd_disk_bytes :: i64
  cd_runtime_kind :: string
  cd_execution_os :: string
  cd_architecture :: string
  cd_mode :: string
  cd_requires_interactive :: bool
  cd_requires_docker_socket :: bool
  cd_labels_json :: string
  cd_config_json :: string
  cd_image :: string
  cd_capabilities_json :: string
  cd_probe_received_at :: "i64 option"
  cd_probe_epoch :: "i64 option"
  cd_probe_session_id :: "string option"
  cd_probe_boot_id :: "string option"
  cd_probe_incarnation :: "string option"

section \<open>The path of a domain\<close>

text \<open>
  The loop of \<^verbatim>\<open>domain_path\<close>. It ends because a turn adds a row to the path and a path
  of 64 rows is refused.
\<close>

function domain_path_loop ::
  "fleet_db \<Rightarrow> string \<Rightarrow> string option \<Rightarrow> string list \<Rightarrow> domain_row list \<Rightarrow>
   fleet_error + domain_row list" where
  "domain_path_loop db host None seen acc = Inr acc"
| "domain_path_loop db host (Some i) seen acc =
     (if i \<in> set seen \<or> length acc \<ge> MAX_RESOURCE_DOMAIN_DEPTH
      then Inl (Fleet_Invariant ''resource domain topology is cyclic or too deep'')
      else case find (\<lambda>d. dr_id d = i \<and> dr_host_id d = host) (domains db) of
        None \<Rightarrow> Inl (Fleet_Invariant ''resource domain is missing or cross-host'')
      | Some row \<Rightarrow>
          domain_path_loop db host (dr_parent_domain_id row) (i # seen) (acc @ [row]))"
  by pat_completeness auto

termination
  by (relation "measure (\<lambda>(_, _, _, _, acc). MAX_RESOURCE_DOMAIN_DEPTH - length acc)") auto

definition domain_path :: "fleet_db \<Rightarrow> string \<Rightarrow> string \<Rightarrow> fleet_error + domain_row list" where
  "domain_path db leaf host = domain_path_loop db host (Some leaf) [] []"

section \<open>The capacity check\<close>

definition u64_from_i64 :: "i64 \<Rightarrow> string \<Rightarrow> fleet_error + u64" where
  "u64_from_i64 v msg = ok_or (word_try_from v) (Fleet_Invariant msg)"

definition amount_from_i64 ::
  "i64 \<Rightarrow> i64 \<Rightarrow> i64 \<Rightarrow> string \<Rightarrow> string \<Rightarrow> string \<Rightarrow> string \<Rightarrow> fleet_error + resource_amount" where
  "amount_from_i64 cpu mem disk ecpu emem edisk ebounds =
     rbind (u64_from_i64 cpu ecpu) (\<lambda>c.
     rbind (u64_from_i64 mem emem) (\<lambda>m.
     rbind (u64_from_i64 disk edisk) (\<lambda>d.
     map_err (\<lambda>_. Fleet_Invariant ebounds) (resource_amount_new c m d))))"

definition allocation_amount :: "allocation_row \<Rightarrow> fleet_error + resource_amount" where
  "allocation_amount a =
     amount_from_i64 (ca_cpu_millis a) (ca_memory_mib a) (ca_disk_bytes a)
       ''negative allocation'' ''negative allocation'' ''negative allocation''
       ''allocation exceeds integer bounds''"

definition charged_allocations :: "fleet_db \<Rightarrow> string \<Rightarrow> string \<Rightarrow> allocation_row list" where
  "charged_allocations db dname host =
     filter (\<lambda>a. ca_domain_id a = dname \<and> ca_host_id a = host \<and> charged a) (allocations db)"

fun aggregate_loop ::
  "resource_amount \<Rightarrow> allocation_row list \<Rightarrow> fleet_error + resource_amount" where
  "aggregate_loop agg [] = Inr agg"
| "aggregate_loop agg (a # as) =
     rbind (allocation_amount a) (\<lambda>amount.
     rbind (map_err (\<lambda>_. Fleet_Invariant ''allocation aggregate overflow'')
              (amount_checked_add agg amount)) (\<lambda>agg'.
     aggregate_loop agg' as))"

definition domain_capacity :: "domain_row \<Rightarrow> fleet_error + resource_amount" where
  "domain_capacity d =
     amount_from_i64 (dr_cpu_millis d) (dr_memory_mib d) (dr_disk_bytes d)
       ''negative budget'' ''negative budget'' ''negative budget''
       ''budget exceeds integer bounds''"

definition exhausted_reason :: "domain_row \<Rightarrow> string" where
  "exhausted_reason d =
     (if dr_parent_domain_id d = None then ''physical_resource_exhausted''
      else ''child_resource_exhausted'')"

fun domains_fit_loop ::
  "fleet_db \<Rightarrow> string \<Rightarrow> resource_amount \<Rightarrow> domain_row list \<Rightarrow> fleet_error + string option" where
  "domains_fit_loop db host request [] = Inr None"
| "domains_fit_loop db host request (d # ds) =
     rbind (aggregate_loop amount_zero (charged_allocations db (dr_id d) host)) (\<lambda>aggregate.
     rbind (domain_capacity d) (\<lambda>capacity.
     case amount_checked_sub capacity aggregate of
       Inl _ \<Rightarrow> Inr (Some (exhausted_reason d))
     | Inr remaining \<Rightarrow>
         if \<not> amount_fits_request remaining request then Inr (Some (exhausted_reason d))
         else domains_fit_loop db host request ds))"

definition candidate_request :: "candidate \<Rightarrow> fleet_error + resource_amount" where
  "candidate_request c =
     amount_from_i64 (cd_cpu_millis c) (cd_memory_mib c) (cd_disk_bytes c)
       ''negative CPU'' ''negative memory'' ''negative disk''
       ''profile resource exceeds integer bounds''"

definition domains_fit :: "fleet_db \<Rightarrow> candidate \<Rightarrow> fleet_error + string option" where
  "domains_fit db c =
     rbind (domain_path db (cd_domain_id c) (cd_host_id c)) (\<lambda>path.
     rbind (candidate_request c) (\<lambda>request.
     domains_fit_loop db (cd_host_id c) request path))"

section \<open>Charges\<close>

fun row_dim :: "resource_dim \<Rightarrow> i64 \<Rightarrow> i64 \<Rightarrow> i64 \<Rightarrow> int" where
  "row_dim Cpu c m d = c"
| "row_dim Memory c m d = m"
| "row_dim Disk c m d = d"

definition allocation_dim :: "resource_dim \<Rightarrow> allocation_row \<Rightarrow> int" where
  "allocation_dim k a = row_dim k (ca_cpu_millis a) (ca_memory_mib a) (ca_disk_bytes a)"

definition domain_dim :: "resource_dim \<Rightarrow> domain_row \<Rightarrow> int" where
  "domain_dim k d = row_dim k (dr_cpu_millis d) (dr_memory_mib d) (dr_disk_bytes d)"

definition candidate_dim :: "resource_dim \<Rightarrow> candidate \<Rightarrow> int" where
  "candidate_dim k c = row_dim k (cd_cpu_millis c) (cd_memory_mib c) (cd_disk_bytes c)"

definition charge :: "fleet_db \<Rightarrow> resource_dim \<Rightarrow> string \<Rightarrow> string \<Rightarrow> int" where
  "charge db k dname host = (\<Sum>a\<leftarrow>charged_allocations db dname host. allocation_dim k a)"

text \<open>No domain is charged beyond its budget, in any dimension.\<close>

definition within_budget :: "fleet_db \<Rightarrow> bool" where
  "within_budget db \<longleftrightarrow>
     (\<forall>d \<in> set (domains db). \<forall>k. charge db k (dr_id d) (dr_host_id d) \<le> domain_dim k d)"

text \<open>The primary key of \<^verbatim>\<open>host_resource_domains\<close>.\<close>

definition domain_keys :: "fleet_db \<Rightarrow> bool" where
  "domain_keys db \<longleftrightarrow> distinct (map dr_id (domains db))"

section \<open>Lemmas on paths\<close>

lemma domain_path_loop_extends:
  assumes "domain_path_loop db host cur seen acc = Inr path"
  shows "\<exists>rest. path = acc @ rest"
  using assms
  by (induction db host cur seen acc rule: domain_path_loop.induct)
    (fastforce split: if_splits option.splits)+

lemma domain_path_loop_sound:
  assumes "domain_path_loop db host cur seen acc = Inr path"
    and "set seen = dr_id ` set acc" and "distinct (map dr_id acc)"
    and "\<forall>d \<in> set acc. d \<in> set (domains db) \<and> dr_host_id d = host"
    and "length acc \<le> 64"
  shows "distinct (map dr_id path) \<and> length path \<le> 64 \<and>
    (\<forall>d \<in> set path. d \<in> set (domains db) \<and> dr_host_id d = host)"
  using assms
proof (induction db host cur seen acc rule: domain_path_loop.induct)
  case (2 db host i seen acc)
  from "2.prems"(1) obtain row
    where i: "i \<notin> set seen" "length acc < 64"
      and row: "find (\<lambda>d. dr_id d = i \<and> dr_host_id d = host) (domains db) = Some row"
      and rest: "domain_path_loop db host (dr_parent_domain_id row) (i # seen) (acc @ [row]) =
        Inr path"
    by (auto simp: MAX_RESOURCE_DOMAIN_DEPTH_def split: if_splits option.splits)
  have r: "row \<in> set (domains db)" "dr_id row = i" "dr_host_id row = host"
    using find_SomeD [OF row] by auto
  show ?case
    by (rule "2.IH" [OF _ row rest])
      (use i r "2.prems" in \<open>auto simp: MAX_RESOURCE_DOMAIN_DEPTH_def\<close>)
qed simp

lemma domain_path_sound:
  assumes "domain_path db leaf host = Inr path"
  shows "distinct (map dr_id path)" and "length path \<le> 64"
    and "d \<in> set path \<Longrightarrow> d \<in> set (domains db) \<and> dr_host_id d = host"
  using domain_path_loop_sound [OF assms [unfolded domain_path_def]] by auto

text \<open>The path starts at the leaf, each row is the parent of the one before, the last is a root.\<close>

fun parent_chain :: "string option \<Rightarrow> domain_row list \<Rightarrow> bool" where
  "parent_chain cur [] = (cur = None)"
| "parent_chain cur (d # ds) = (cur = Some (dr_id d) \<and> parent_chain (dr_parent_domain_id d) ds)"

lemma domain_path_loop_chain:
  assumes "domain_path_loop db host cur seen acc = Inr (acc @ path)"
  shows "parent_chain cur path"
  using assms
proof (induction db host cur seen acc arbitrary: path rule: domain_path_loop.induct)
  case (2 db host i seen acc)
  from "2.prems" obtain row
    where g: "\<not> (i \<in> set seen \<or> length acc \<ge> MAX_RESOURCE_DOMAIN_DEPTH)"
      and row: "find (\<lambda>d. dr_id d = i \<and> dr_host_id d = host) (domains db) = Some row"
      and rest: "domain_path_loop db host (dr_parent_domain_id row) (i # seen) (acc @ [row]) =
        Inr (acc @ path)"
    by (auto split: if_splits option.splits)
  obtain ps where ps: "acc @ path = (acc @ [row]) @ ps"
    using domain_path_loop_extends [OF rest] by auto
  with rest have "parent_chain (dr_parent_domain_id row) ps"
    using "2.IH" [OF g row] by metis
  with ps find_SomeD [OF row] show ?case by simp
qed simp

lemma find_domain:
  assumes "domain_keys db" and "d \<in> set (domains db)" and "dr_host_id d = host"
  shows "find (\<lambda>e. dr_id e = dr_id d \<and> dr_host_id e = host) (domains db) = Some d"
proof -
  have "find (\<lambda>e. dr_id e = dr_id d \<and> dr_host_id e = host) (domains db) \<noteq> None"
    using assms(2,3) by (auto simp: find_None_iff)
  then obtain e where e: "find (\<lambda>e. dr_id e = dr_id d \<and> dr_host_id e = host) (domains db) = Some e"
    by blast
  moreover have "e = d"
    using find_SomeD [OF e] assms(1,2) by (metis domain_keys_def distinct_map inj_onD)
  ultimately show ?thesis by simp
qed

lemma domain_path_loop_complete:
  assumes "domain_keys db" and "parent_chain cur path" and "distinct (map dr_id (acc @ path))"
    and "length (acc @ path) \<le> 64" and "set seen = dr_id ` set acc"
    and "\<forall>d \<in> set path. d \<in> set (domains db) \<and> dr_host_id d = host"
  shows "domain_path_loop db host cur seen acc = Inr (acc @ path)"
  using assms(2-)
proof (induction path arbitrary: cur seen acc)
  case (Cons d ds)
  have "find (\<lambda>e. dr_id e = dr_id d \<and> dr_host_id e = host) (domains db) = Some d"
    using assms(1) Cons.prems(5) by (intro find_domain) auto
  moreover have "domain_path_loop db host (dr_parent_domain_id d) (dr_id d # seen) (acc @ [d]) =
      Inr ((acc @ [d]) @ ds)"
    by (rule Cons.IH) (use Cons.prems in auto)
  ultimately show ?case
    using Cons.prems by (auto simp: MAX_RESOURCE_DOMAIN_DEPTH_def)
qed simp

lemma domain_path_loop_errors:
  assumes "domain_path_loop db host cur seen acc = Inl e"
  shows "e \<in> {Fleet_Invariant ''resource domain topology is cyclic or too deep'',
    Fleet_Invariant ''resource domain is missing or cross-host''}"
  using assms
  by (induction db host cur seen acc rule: domain_path_loop.induct)
    (auto split: if_splits option.splits)

section \<open>Lemmas on the capacity check\<close>

lemma u64_from_i64_eq_Inr [result_splits]: "u64_from_i64 v msg = Inr w \<longleftrightarrow> v = int (unat w)"
  by (simp add: u64_from_i64_def result_splits word_try_from_eq_Some)

lemma amount_from_i64_eq_Inr:
  "amount_from_i64 c m d e1 e2 e3 e4 = Inr a \<longleftrightarrow>
     (\<forall>k. row_dim k c m d = int (amount_dim k a)) \<and> amount_wf a"
  by (cases a)
    (auto simp: amount_from_i64_def result_splits resource_amount_new_eq_Inr all_dims)

lemma allocation_amount_dim:
  "allocation_amount a = Inr x \<Longrightarrow> allocation_dim k a = int (amount_dim k x)"
  by (simp add: allocation_amount_def allocation_dim_def amount_from_i64_eq_Inr)

text \<open>The accumulation loop is the ledger's sum of the converted rows.\<close>

lemma aggregate_loop_ledger:
  assumes "aggregate_loop agg as = Inr t"
  shows "\<exists>xs. list_all2 (\<lambda>a x. allocation_amount a = Inr x) as xs \<and>
    ledger_sum amount_checked_add agg xs = Inr t"
  using assms
proof (induction as arbitrary: agg)
  case (Cons a as)
  from Cons.prems obtain x agg' where x: "allocation_amount a = Inr x"
    and add: "amount_checked_add agg x = Inr agg'" and rest: "aggregate_loop agg' as = Inr t"
    by (auto simp: result_splits)
  from Cons.IH [OF rest] obtain xs
    where xs: "list_all2 (\<lambda>a x. allocation_amount a = Inr x) as xs"
      and sum: "ledger_sum amount_checked_add agg' xs = Inr t" by blast
  have "list_all2 (\<lambda>a x. allocation_amount a = Inr x) (a # as) (x # xs)" using x xs by simp
  moreover have "ledger_sum amount_checked_add agg (x # xs) = Inr t" using add sum by simp
  ultimately show ?case by blast
qed simp

lemma sum_allocation_dims:
  "list_all2 (\<lambda>a x. allocation_amount a = Inr x) as xs \<Longrightarrow>
   (\<Sum>a\<leftarrow>as. allocation_dim k a) = int (\<Sum>x\<leftarrow>xs. amount_dim k x)"
  by (induction rule: list_all2_induct) (auto dest: allocation_amount_dim)

lemma domain_fits_charge:
  assumes "aggregate_loop amount_zero (charged_allocations db (dr_id d) host) = Inr used"
    and "domain_capacity d = Inr cap" and "amount_checked_sub cap used = Inr remaining"
    and "amount_fits_request remaining request"
  shows "charge db k (dr_id d) host + int (amount_dim k request) \<le> domain_dim k d"
proof -
  obtain xs where xs: "list_all2 (\<lambda>a x. allocation_amount a = Inr x)
        (charged_allocations db (dr_id d) host) xs"
    and "ledger_sum amount_checked_add amount_zero xs = Inr used"
    using aggregate_loop_ledger [OF assms(1)] by blast
  then have "(\<Sum>x\<leftarrow>xs. amount_dim k x) + amount_dim k request \<le> amount_dim k cap"
    using assms(3,4) by (rule_tac amounts.charged_plus_request_within_capacity)
  moreover have "domain_dim k d = int (amount_dim k cap)"
    using assms(2) by (simp add: domain_capacity_def domain_dim_def amount_from_i64_eq_Inr)
  ultimately show ?thesis
    using sum_allocation_dims [OF xs, of k] by (simp add: charge_def)
qed

lemma domains_fit_loop_Cons:
  assumes "domains_fit_loop db host request (d # ds) = Inr None"
  obtains used cap remaining
  where "aggregate_loop amount_zero (charged_allocations db (dr_id d) host) = Inr used"
    and "domain_capacity d = Inr cap" and "amount_checked_sub cap used = Inr remaining"
    and "amount_fits_request remaining request"
    and "domains_fit_loop db host request ds = Inr None"
proof -
  from assms obtain used cap
    where u: "aggregate_loop amount_zero (charged_allocations db (dr_id d) host) = Inr used"
      and c: "domain_capacity d = Inr cap"
      and rest: "(case amount_checked_sub cap used of
        Inl _ \<Rightarrow> Inr (Some (exhausted_reason d))
      | Inr remaining \<Rightarrow>
          if \<not> amount_fits_request remaining request then Inr (Some (exhausted_reason d))
          else domains_fit_loop db host request ds) = Inr None"
    by (auto simp: rbind_eq_Inr)
  from rest that [OF u c] show thesis
    by (cases "amount_checked_sub cap used") (auto split: if_splits)
qed

lemma domains_fit_loop_sound:
  assumes "domains_fit_loop db host request ds = Inr None" and "d \<in> set ds"
  shows "charge db k (dr_id d) host + int (amount_dim k request) \<le> domain_dim k d"
  using assms
proof (induction ds)
  case (Cons e ds)
  from Cons.prems(1) show ?case
    by (rule domains_fit_loop_Cons) (use Cons in \<open>auto intro: domain_fits_charge\<close>)
qed simp

lemma candidate_request_dim:
  "candidate_request c = Inr r \<Longrightarrow> candidate_dim k c = int (amount_dim k r)"
  by (simp add: candidate_request_def candidate_dim_def amount_from_i64_eq_Inr)

lemma domains_fit_sound:
  assumes "domains_fit db c = Inr None"
  obtains path where "domain_path db (cd_domain_id c) (cd_host_id c) = Inr path"
    and "\<And>k. 0 \<le> candidate_dim k c"
    and "\<And>d k. d \<in> set path \<Longrightarrow>
      charge db k (dr_id d) (cd_host_id c) + candidate_dim k c \<le> domain_dim k d"
proof -
  from assms obtain path request
    where path: "domain_path db (cd_domain_id c) (cd_host_id c) = Inr path"
      and request: "candidate_request c = Inr request"
      and fit: "domains_fit_loop db (cd_host_id c) request path = Inr None"
    by (auto simp: domains_fit_def result_splits)
  show thesis
    by (rule that [OF path])
      (simp_all add: candidate_request_dim [OF request] domains_fit_loop_sound [OF fit])
qed

section \<open>Charging a path\<close>

text \<open>
  The allocations an admission inserts: one per domain of the path, for the resources of the
  candidate. Adding them keeps every budget when the candidate fits.
\<close>

definition charges_path :: "candidate \<Rightarrow> domain_row list \<Rightarrow> allocation_row list \<Rightarrow> bool" where
  "charges_path c path as \<longleftrightarrow>
     map ca_domain_id as = map dr_id path \<and>
     (\<forall>a \<in> set as. ca_host_id a = cd_host_id c \<and> charged a \<and>
        (\<forall>k. allocation_dim k a = candidate_dim k c))"

lemma charge_append:
  assumes "allocations db' = allocations db @ as"
  shows "charge db' k dname host = charge db k dname host +
    (\<Sum>a\<leftarrow>filter (\<lambda>a. ca_domain_id a = dname \<and> ca_host_id a = host \<and> charged a) as.
       allocation_dim k a)"
  using assms by (simp add: charge_def charged_allocations_def)

lemma charge_of_path:
  assumes "charges_path c path as" and "distinct (map dr_id path)"
  shows "(\<Sum>a\<leftarrow>filter (\<lambda>a. ca_domain_id a = dname \<and> ca_host_id a = host \<and> charged a) as.
            allocation_dim k a) =
    (if dname \<in> dr_id ` set path \<and> host = cd_host_id c then candidate_dim k c else 0)"
proof -
  have "(\<Sum>a\<leftarrow>filter (\<lambda>a. ca_domain_id a = dname \<and> ca_host_id a = host \<and> charged a) as.
            allocation_dim k a) =
    (if dname \<in> set (map ca_domain_id as) \<and> host = cd_host_id c then candidate_dim k c else 0)"
    if "\<forall>a \<in> set as. ca_host_id a = cd_host_id c \<and> charged a \<and>
        (\<forall>k. allocation_dim k a = candidate_dim k c)" and "distinct (map ca_domain_id as)" for as
    using that by (induction as) auto
  with assms show ?thesis by (simp add: charges_path_def) (metis list.set_map)
qed

lemma charging_keeps_budget:
  assumes "within_budget db" and "domain_keys db"
    and "domains_fit db c = Inr None"
    and "domain_path db (cd_domain_id c) (cd_host_id c) = Inr path"
    and "charges_path c path as"
    and "domains db' = domains db" and "allocations db' = allocations db @ as"
  shows "within_budget db'"
  unfolding within_budget_def
proof (intro ballI allI)
  fix d k
  assume d: "d \<in> set (domains db')"
  then have "d \<in> set (domains db)" using assms(6) by simp
  then have old: "charge db k (dr_id d) (dr_host_id d) \<le> domain_dim k d"
    using assms(1) by (simp add: within_budget_def)
  have path: "distinct (map dr_id path)"
    "\<And>e. e \<in> set path \<Longrightarrow> e \<in> set (domains db) \<and> dr_host_id e = cd_host_id c"
    using domain_path_sound [OF assms(4)] by auto
  have "d \<in> set path" if "dr_id d \<in> dr_id ` set path"
    using that path(2) \<open>d \<in> set (domains db)\<close> assms(2)
    by (auto simp: domain_keys_def distinct_map dest: inj_onD)
  moreover obtain path' where "domain_path db (cd_domain_id c) (cd_host_id c) = Inr path'"
    and "\<And>d k. d \<in> set path' \<Longrightarrow>
      charge db k (dr_id d) (cd_host_id c) + candidate_dim k c \<le> domain_dim k d"
    using domains_fit_sound [OF assms(3)] by metis
  ultimately show "charge db' k (dr_id d) (dr_host_id d) \<le> domain_dim k d"
    using old assms(4)
    by (auto simp: charge_append [OF assms(7)] charge_of_path [OF assms(5) path(1)])
qed

end
