(* ===== verification/Ledger.thy ===== *)
theory Ledger
  imports Capacity "HOL-Library.Multiset"
begin

text \<open>
  The abstract specification of capacity. A ledger is the multiset of live claims, each the claim
  of one placement on one resource domain. It changes in two ways: a placement that holds nothing
  reserves claims that fit the budgets, or everything a placement holds is freed, which needs
  proof that the placement is gone. The fleet database is related to a ledger by
  \<open>live\<close>, and \<open>capacity_step\<close> is the contract of every operation that only gives
  capacity back.
\<close>

section \<open>The ledger\<close>

type_synonym claim = "string \<times> string \<times> string \<times> (resource_dim \<Rightarrow> int)"

type_synonym ledger = "claim multiset"

definition usage :: "ledger \<Rightarrow> resource_dim \<Rightarrow> string \<Rightarrow> string \<Rightarrow> int" where
  "usage L k dname host =
     (\<Sum>(_, d, h, amt) \<in># L. if d = dname \<and> h = host then amt k else 0)"

definition held :: "ledger \<Rightarrow> string \<Rightarrow> ledger" where
  "held L pid = filter_mset (\<lambda>c. fst c = pid) L"

text \<open>A budget gives each domain of each host its capacity in each dimension.\<close>

type_synonym budget = "(string \<times> string \<times> (resource_dim \<Rightarrow> int)) set"

definition ledger_within :: "budget \<Rightarrow> ledger \<Rightarrow> bool" where
  "ledger_within B L \<longleftrightarrow> (\<forall>(d, h, cap) \<in> B. \<forall>k. usage L k d h \<le> cap k)"

definition claims_nonneg :: "ledger \<Rightarrow> bool" where
  "claims_nonneg L \<longleftrightarrow> (\<forall>(_, _, _, amt) \<in># L. \<forall>k. 0 \<le> amt k)"

inductive ledger_step :: "budget \<Rightarrow> ledger \<Rightarrow> ledger \<Rightarrow> bool" for B where
  reserve: "\<lbrakk>held L pid = {#}; \<forall>c \<in># C. fst c = pid; claims_nonneg C; ledger_within B (L + C)\<rbrakk> \<Longrightarrow>
    ledger_step B L (L + C)"
| free: "ledger_step B L (filter_mset (\<lambda>c. fst c \<noteq> pid) L)"

inductive_cases ledger_stepE: "ledger_step B L L'"

lemma usage_empty [simp]: "usage {#} k d h = 0"
  by (simp add: usage_def)

lemma usage_union [simp]: "usage (L + M) k d h = usage L k d h + usage M k d h"
  by (simp add: usage_def)

lemma usage_add [simp]:
  "usage (add_mset c L) k d h =
     (if fst (snd c) = d \<and> fst (snd (snd c)) = h then snd (snd (snd c)) k else 0) + usage L k d h"
  by (cases c) (simp add: usage_def)

lemma claims_nonneg_add [simp]:
  "claims_nonneg (add_mset c L) \<longleftrightarrow> (\<forall>k. 0 \<le> snd (snd (snd c)) k) \<and> claims_nonneg L"
  by (cases c) (simp add: claims_nonneg_def)

lemma claims_nonneg_union [simp]:
  "claims_nonneg (L + M) \<longleftrightarrow> claims_nonneg L \<and> claims_nonneg M"
  by (simp add: claims_nonneg_def ball_Un)

lemma claims_nonneg_filter: "claims_nonneg L \<Longrightarrow> claims_nonneg (filter_mset P L)"
  by (auto simp: claims_nonneg_def)

lemma usage_filter_le:
  "claims_nonneg L \<Longrightarrow> usage (filter_mset P L) k d h \<le> usage L k d h"
  by (induction L) (auto simp: add_increasing)

lemma ledger_within_filter:
  assumes "claims_nonneg L" and "ledger_within B L"
  shows "ledger_within B (filter_mset P L)"
  unfolding ledger_within_def
proof (clarify)
  fix d h cap k
  assume "(d, h, cap) \<in> B"
  with assms(2) have "usage L k d h \<le> cap k" by (auto simp: ledger_within_def)
  with usage_filter_le [OF assms(1)] show "usage (filter_mset P L) k d h \<le> cap k"
    by (rule order_trans)
qed

text \<open>No step of the ledger takes a domain past its budget.\<close>

lemma ledger_step_within:
  assumes "ledger_step B L L'" and "claims_nonneg L" and "ledger_within B L"
  shows "claims_nonneg L' \<and> ledger_within B L'"
  using assms by cases (auto simp: claims_nonneg_filter ledger_within_filter)

lemma ledger_steps_within:
  assumes "(ledger_step B)\<^sup>*\<^sup>* L L'" and "claims_nonneg L" and "ledger_within B L"
  shows "claims_nonneg L' \<and> ledger_within B L'"
  using assms by (induction rule: rtranclp_induct) (auto dest: ledger_step_within)

section \<open>The ledger of the database\<close>

definition claim_of :: "allocation_row \<Rightarrow> claim" where
  "claim_of a = (ca_placement_id a, ca_domain_id a, ca_host_id a, \<lambda>k. allocation_dim k a)"

definition live :: "fleet_db \<Rightarrow> ledger" where
  "live db = mset (map claim_of (filter charged (allocations db)))"

definition budgets :: "fleet_db \<Rightarrow> budget" where
  "budgets db = (\<lambda>d. (dr_id d, dr_host_id d, \<lambda>k. domain_dim k d)) ` set (domains db)"

lemma charge_live: "charge db k dname host = usage (live db) k dname host"
proof -
  have "(\<Sum>a\<leftarrow>filter (\<lambda>a. ca_domain_id a = dname \<and> ca_host_id a = host \<and> charged a) as.
      allocation_dim k a) = usage (mset (map claim_of (filter charged as))) k dname host" for as
    by (induction as) (auto simp: claim_of_def)
  then show ?thesis by (simp add: charge_def charged_allocations_def live_def)
qed

lemma within_budget_live: "within_budget db \<longleftrightarrow> ledger_within (budgets db) (live db)"
  by (simp add: within_budget_def ledger_within_def budgets_def charge_live)

lemma live_append:
  "allocations db' = allocations db @ as \<Longrightarrow>
   live db' = live db + mset (map claim_of (filter charged as))"
  by (simp add: live_def)

lemma live_cong: "allocations db' = allocations db \<Longrightarrow> live db' = live db"
  by (simp add: live_def)

section \<open>Giving capacity back\<close>

text \<open>
  The contract of an operation that reserves nothing: budgets, owners and amounts stay, a released
  allocation is never touched again, evidence of absence is kept, what is released has evidence,
  and the ledger loses exactly the claims of some placements with evidence.
\<close>

definition allocation_kept :: "allocation_row \<Rightarrow> allocation_row \<Rightarrow> bool" where
  "allocation_kept a a' \<longleftrightarrow>
     ca_id a' = ca_id a \<and> claim_of a' = claim_of a \<and> (ca_state a = ''released'' \<longrightarrow> a' = a)"

definition capacity_step :: "fleet_db \<Rightarrow> fleet_db \<Rightarrow> bool" where
  "capacity_step db db' \<longleftrightarrow>
     domains db' = domains db \<and> map wp_id (placements db') = map wp_id (placements db) \<and>
     (\<forall>pid. release_permitted db pid \<longrightarrow> release_permitted db' pid) \<and>
     list_all2 allocation_kept (allocations db) (allocations db') \<and>
     (\<forall>a \<in> set (allocations db'). charged a \<or> a \<in> set (allocations db) \<or>
        release_permitted db' (ca_placement_id a)) \<and>
     (\<exists>F. (\<forall>pid \<in> F. release_permitted db' pid) \<and>
          live db' = filter_mset (\<lambda>c. fst c \<notin> F) (live db))"

locale step_preorder =
  fixes R :: "'s \<Rightarrow> 's \<Rightarrow> bool"
  assumes step_refl: "R s s"
    and step_trans: "\<lbrakk>R s t; R t u\<rbrakk> \<Longrightarrow> R s u"
begin

lemma rfold_step:
  assumes "rfold f as s = Inr s'" and "\<And>t a t'. \<lbrakk>a \<in> set as; f t a = Inr t'\<rbrakk> \<Longrightarrow> R t t'"
  shows "R s s'"
  using assms(1) by (rule rfold_keeps) (auto intro: step_refl step_trans assms(2))

lemma foldl_step:
  assumes "\<And>t a. a \<in> set as \<Longrightarrow> R t (f t a)"
  shows "R s (foldl f s as)"
  using assms by (induction as arbitrary: s) (auto intro: step_refl step_trans)

end

lemma allocation_kept_refl: "list_all2 allocation_kept as as"
  by (simp add: list_all2_same allocation_kept_def)

interpretation capacity: step_preorder capacity_step
proof unfold_locales
  fix s
  have "live s = filter_mset (\<lambda>c. fst c \<notin> {}) (live s)" by simp
  then show "capacity_step s s"
    unfolding capacity_step_def using allocation_kept_refl by blast
next
  fix s t u
  assume st: "capacity_step s t" and tu: "capacity_step t u"
  from st tu obtain F G where
    "\<forall>pid \<in> F. release_permitted t pid" "live t = filter_mset (\<lambda>c. fst c \<notin> F) (live s)"
    "\<forall>pid \<in> G. release_permitted u pid" "live u = filter_mset (\<lambda>c. fst c \<notin> G) (live t)"
    unfolding capacity_step_def by blast
  then have "\<exists>F. (\<forall>pid \<in> F. release_permitted u pid) \<and>
      live u = filter_mset (\<lambda>c. fst c \<notin> F) (live s)"
    using tu by (intro exI [of _ "F \<union> G"]) (auto simp: capacity_step_def filter_filter_mset
        intro!: filter_mset_cong)
  moreover have "list_all2 allocation_kept (allocations s) (allocations u)"
    by (rule list_all2_trans [of allocation_kept allocation_kept])
      (use st tu in \<open>auto simp: capacity_step_def allocation_kept_def\<close>)
  ultimately show "capacity_step s u"
    using st tu unfolding capacity_step_def by (metis (no_types, lifting))
qed

text \<open>What the contract gives its clients.\<close>

definition released_proven :: "fleet_db \<Rightarrow> bool" where
  "released_proven db \<longleftrightarrow>
     (\<forall>a \<in> set (allocations db). charged a \<or> release_permitted db (ca_placement_id a))"

lemma capacity_step_released_proven:
  "\<lbrakk>capacity_step db db'; released_proven db\<rbrakk> \<Longrightarrow> released_proven db'"
  unfolding capacity_step_def released_proven_def by metis

lemma capacity_step_within:
  assumes "capacity_step db db'" and "claims_nonneg (live db)" and "within_budget db"
  shows "claims_nonneg (live db')" and "within_budget db'"
proof -
  from assms(1) obtain F where "live db' = filter_mset (\<lambda>c. fst c \<notin> F) (live db)"
    and "budgets db' = budgets db" by (auto simp: capacity_step_def budgets_def)
  with assms(2,3) show "claims_nonneg (live db')" "within_budget db'"
    by (simp_all add: within_budget_live claims_nonneg_filter ledger_within_filter)
qed

lemma capacity_step_released_terminal:
  assumes "capacity_step db db'" and "a \<in> set (allocations db)" and "ca_state a = ''released''"
  shows "a \<in> set (allocations db')"
proof -
  from assms(2) obtain i where i: "i < length (allocations db)" "allocations db ! i = a"
    by (auto simp: in_set_conv_nth)
  moreover have "list_all2 allocation_kept (allocations db) (allocations db')"
    using assms(1) by (simp add: capacity_step_def)
  ultimately have "i < length (allocations db')" "allocation_kept a (allocations db' ! i)"
    by (auto simp: list_all2_conv_all_nth)
  with assms(3) show ?thesis by (metis allocation_kept_def nth_mem)
qed

text \<open>Allocations belong to placements, as the foreign key of their table demands.\<close>

definition allocations_owned :: "fleet_db \<Rightarrow> bool" where
  "allocations_owned db \<longleftrightarrow>
     set (map ca_placement_id (allocations db)) \<subseteq> set (map wp_id (placements db))"

lemma allocation_kept_owner:
  assumes "list_all2 allocation_kept as as'"
  shows "map ca_placement_id as' = map ca_placement_id as"
  using assms by (induction rule: list_all2_induct) (auto simp: allocation_kept_def claim_of_def)

lemma capacity_step_owned:
  assumes "capacity_step db db'" and "allocations_owned db"
  shows "allocations_owned db'"
proof -
  have "map ca_placement_id (allocations db') = map ca_placement_id (allocations db)"
    using assms(1) by (intro allocation_kept_owner) (simp add: capacity_step_def)
  moreover have "map wp_id (placements db') = map wp_id (placements db)"
    using assms(1) by (simp add: capacity_step_def)
  ultimately show ?thesis using assms(2) unfolding allocations_owned_def by simp
qed

text \<open>Freeing one placement after another is a sequence of ledger steps.\<close>

lemma filter_notin_steps:
  assumes "finite F"
  shows "(ledger_step B)\<^sup>*\<^sup>* L (filter_mset (\<lambda>c. fst c \<notin> F) L)"
  using assms
proof (induction F)
  case (insert pid F)
  have "filter_mset (\<lambda>c. fst c \<notin> insert pid F) L =
      filter_mset (\<lambda>c. fst c \<noteq> pid) (filter_mset (\<lambda>c. fst c \<notin> F) L)"
    by (auto simp: filter_filter_mset intro!: filter_mset_cong)
  then have "ledger_step B (filter_mset (\<lambda>c. fst c \<notin> F) L)
      (filter_mset (\<lambda>c. fst c \<notin> insert pid F) L)"
    by (simp only: ledger_step.free)
  with insert.IH show ?case by (rule rtranclp.rtrancl_into_rtrancl)
qed simp

lemma capacity_step_refines:
  assumes "capacity_step db db'"
  shows "(ledger_step (budgets db))\<^sup>*\<^sup>* (live db) (live db')"
proof -
  from assms obtain F where F: "live db' = filter_mset (\<lambda>c. fst c \<notin> F) (live db)"
    unfolding capacity_step_def by blast
  let ?F = "F \<inter> fst ` set_mset (live db)"
  have "live db' = filter_mset (\<lambda>c. fst c \<notin> ?F) (live db)"
    unfolding F by (rule filter_mset_cong) auto
  with filter_notin_steps [of ?F] show ?thesis by simp
qed

section \<open>The operations that give capacity back\<close>

lemma capacity_step_frame:
  assumes "domains db' = domains db" and "allocations db' = allocations db"
    and "map wp_id (placements db') = map wp_id (placements db)"
    and "\<And>pid. release_permitted db pid \<Longrightarrow> release_permitted db' pid"
  shows "capacity_step db db'"
proof -
  have "live db' = filter_mset (\<lambda>c. fst c \<notin> {}) (live db)" using assms(2) by (simp add: live_def)
  with assms show ?thesis
    unfolding capacity_step_def by (auto simp: allocation_kept_refl)
qed

lemma release_permitted_update:
  assumes "release_permitted db pid" and "placements db' = update_where q f (placements db)"
    and "\<And>p. wp_id (f p) = wp_id p" and "\<And>p. absence_proven p \<Longrightarrow> absence_proven (f p)"
  shows "release_permitted db' pid"
proof -
  from assms(1) obtain p where p: "p \<in> set (placements db)" "wp_id p = pid" "absence_proven p"
    by (auto simp: release_permitted_def)
  then have "(if q p then f p else p) \<in> set (placements db')"
    unfolding assms(2) set_update_where by (rule_tac image_eqI) auto
  moreover have "wp_id (if q p then f p else p) = pid" "absence_proven (if q p then f p else p)"
    using p assms(3,4) by auto
  ultimately show ?thesis unfolding release_permitted_def by blast
qed

lemma live_release:
  assumes "allocations db' = update_where (\<lambda>a. ca_placement_id a = pid \<and> charged a)
      (\<lambda>a. a\<lparr>ca_state := ''released'', ca_released_at := Some now, ca_updated_at := now\<rparr>)
      (allocations db)"
  shows "live db' = filter_mset (\<lambda>c. fst c \<noteq> pid) (live db)"
proof -
  have "mset (map claim_of (filter charged (update_where (\<lambda>a. ca_placement_id a = pid \<and> charged a)
      (\<lambda>a. a\<lparr>ca_state := ''released'', ca_released_at := Some now, ca_updated_at := now\<rparr>) as))) =
    filter_mset (\<lambda>c. fst c \<noteq> pid) (mset (map claim_of (filter charged as)))" for as
    by (induction as) (auto simp: update_where_Cons claim_of_def charged_def)
  with assms show ?thesis by (simp add: live_def)
qed

lemma release_allocations_step:
  assumes "release_allocations db pid now = Inr (db', n)"
  shows "capacity_step db db'"
proof -
  let ?sel = "\<lambda>a. ca_placement_id a = pid \<and> charged a"
  let ?f = "\<lambda>a. a\<lparr>ca_state := ''released'', ca_released_at := Some now, ca_updated_at := now\<rparr>"
  from assms have db': "db' = db\<lparr>allocations := update_where ?sel ?f (allocations db)\<rparr>"
    and ok: "rows_where ?sel (allocations db) = 0 \<or> release_permitted db pid"
    by (auto simp: release_allocations_def Let_def split: if_splits)
  show ?thesis
  proof (cases "release_permitted db pid")
    case True
    have perm: "release_permitted db' q = release_permitted db q" for q
      by (simp add: db' release_permitted_def)
    have "list_all2 allocation_kept (allocations db) (allocations db')"
      by (simp add: db' update_where_def list_all2_map2 list_all2_same allocation_kept_def
          claim_of_def allocation_dim_def charged_def fun_eq_iff)
    moreover have "\<forall>a \<in> set (allocations db'). charged a \<or> a \<in> set (allocations db) \<or>
        release_permitted db' (ca_placement_id a)"
      using True by (auto simp: db' set_update_where perm [unfolded db'])
    moreover have "live db' = filter_mset (\<lambda>c. fst c \<notin> {pid}) (live db)"
      using live_release [of db' pid now db] by (simp add: db')
    ultimately show ?thesis
      using True perm unfolding capacity_step_def by (intro conjI exI [of _ "{pid}"]) (auto simp: db')
  next
    case False
    with ok have "update_where ?sel ?f (allocations db) = allocations db"
      by (auto simp: rows_where_def filter_empty_conv intro!: update_where_none)
    then have "db' = db" by (simp add: db')
    then show ?thesis by (simp add: capacity.step_refl)
  qed
qed

end
