(* ===== verification/Agent_Runs.thy ===== *)
theory Agent_Runs
  imports Dispatch Ledger
begin

text \<open>
  The host agent over time: commands are dispatched, the agent may die at any point of a dispatch
  and start again with the journal it left, results are delivered, credentials change. A run
  collects the commands whose execution was begun. What the journal records is never taken back,
  and no command is begun twice.
\<close>

section \<open>Steps and runs\<close>

definition accepted ::
  "externals \<Rightarrow> (u8 list \<Rightarrow> agent_command_envelope option) \<Rightarrow> u8 list \<Rightarrow> expected_agent_session \<Rightarrow>
   agent_command_envelope \<Rightarrow> bool" where
  "accepted x fs body session e \<longleftrightarrow>
     parse_json fs body DEFAULT_JSON_BYTES = Inr e \<and>
     validate_binding (x_codec x) (x_envelope_to_vec x) e session = Inr ()"

definition in_time :: "externals \<Rightarrow> agent_command_envelope \<Rightarrow> expected_agent_session \<Rightarrow> wire_timestamp \<Rightarrow> bool"
  where
  "in_time x e session now \<longleftrightarrow>
     is_ok (validate_against (x_codec x) (x_envelope_to_vec x) e session now)"

text \<open>The commands a dispatch begins to execute: the one it carries, when it is new and in time.\<close>

definition begun ::
  "externals \<Rightarrow> (u8 list \<Rightarrow> agent_command_envelope option) \<Rightarrow> u8 list \<Rightarrow> expected_agent_session \<Rightarrow>
   wire_timestamp \<Rightarrow> i64 \<Rightarrow> string \<Rightarrow> journal \<Rightarrow> command_id list" where
  "begun x fs body session now clock boot j =
     (case parse_json fs body DEFAULT_JSON_BYTES of
        Inl _ \<Rightarrow> []
      | Inr e \<Rightarrow>
          if accepted x fs body session e \<and> in_time x e session now \<and>
             (\<exists>j'. receive x e clock boot j = Inr (Receipt_New, j'))
          then [env_command_id e] else [])"

text \<open>
  \<open>cut_received\<close>, \<open>cut_running\<close> and \<open>cut_unanswered\<close> are the points at which the agent can die:
  after the receipt, while the helper works, and before the result is in the journal. Only an
  answered command is marked delivered. The machine may change by itself.
\<close>

inductive agent_step ::
  "externals \<Rightarrow> environment_codec \<Rightarrow> (u8 list \<Rightarrow> agent_command_envelope option) \<Rightarrow> 'w dispatcher \<Rightarrow>
   'w agent \<Rightarrow> command_id list \<Rightarrow> 'w agent \<Rightarrow> bool" for x k fs d where
  dispatches: "dispatch_with x k fs d body session now material clock boot fresh s = (r, s') \<Longrightarrow>
    agent_step x k fs d s (begun x fs body session now clock boot (fst s)) s'"
| cut_received: "\<lbrakk>accepted x fs body session e; receive x e clock boot (fst s) = Inr (rec, j)\<rbrakk> \<Longrightarrow>
    agent_step x k fs d s [] (j, snd s)"
| cut_running: "\<lbrakk>accepted x fs body session e; in_time x e session now;
    receive x e clock boot (fst s) = Inr (Receipt_New, j)\<rbrakk> \<Longrightarrow>
    agent_step x k fs d s [env_command_id e] (j, w)"
| cut_unanswered: "\<lbrakk>accepted x fs body session e; receive x e clock boot (fst s) = Inr (rec, j);
    act x k d rec (in_time x e session now) e material boot fresh (j, snd s) = (r, s');
    rec = Receipt_New \<or> rec = Receipt_Interrupted\<rbrakk> \<Longrightarrow>
    agent_step x k fs d s (begun x fs body session now clock boot (fst s)) s'"
| recovers: "interrupted x k d e now boot fresh s = (r, s') \<Longrightarrow> agent_step x k fs d s [] s'"
| delivers: "\<lbrakk>find (\<lambda>r. jc_command_id r = command_text x c) (jn_commands (fst s)) = Some row;
    jc_result row \<noteq> None\<rbrakk> \<Longrightarrow> agent_step x k fs d s [] (delivered x c (fst s), snd s)"
| ships: "agent_step x k fs d s [] (output_shipped x i (fst s), snd s)"
| enrolls: "store_identity x ident (fst s) = Inr j \<Longrightarrow> agent_step x k fs d s [] (j, snd s)"
| proposes: "rotation_secret x op g secret (fst s) = Inr (v, j) \<Longrightarrow> agent_step x k fs d s [] (j, snd s)"
| rotates: "finish_rotation secret g (fst s) = Inr j \<Longrightarrow> agent_step x k fs d s [] (j, snd s)"
| machine: "agent_step x k fs d s [] (fst s, w)"

inductive agent_run ::
  "externals \<Rightarrow> environment_codec \<Rightarrow> (u8 list \<Rightarrow> agent_command_envelope option) \<Rightarrow> 'w dispatcher \<Rightarrow>
   'w agent \<Rightarrow> command_id list \<Rightarrow> 'w agent \<Rightarrow> bool" for x k fs d s where
  start: "agent_run x k fs d s [] s"
| more: "\<lbrakk>agent_run x k fs d s tr s'; agent_step x k fs d s' ids s''\<rbrakk> \<Longrightarrow>
    agent_run x k fs d s (tr @ ids) s''"

section \<open>What the journal keeps\<close>

definition command_kept :: "journal_command_row \<Rightarrow> journal_command_row \<Rightarrow> bool" where
  "command_kept r r' \<longleftrightarrow>
     jc_request_hash r' = jc_request_hash r \<and> jc_envelope r' = jc_envelope r \<and>
     jc_received_at r' = jc_received_at r \<and> jc_boot_id r' = jc_boot_id r \<and>
     (jc_result r \<noteq> None \<longrightarrow> jc_result r' = jc_result r)"

definition environment_kept :: "environment_row \<Rightarrow> environment_row \<Rightarrow> bool" where
  "environment_kept r r' \<longleftrightarrow>
     r' = r\<lparr>en_local_identity := en_local_identity r'\<rparr> \<and>
     (en_local_identity r \<noteq> None \<longrightarrow> en_local_identity r' = en_local_identity r)"

definition journal_kept :: "journal \<Rightarrow> journal \<Rightarrow> bool" where
  "journal_kept j j' \<longleftrightarrow>
     (\<forall>cid r. find (\<lambda>c. jc_command_id c = cid) (jn_commands j) = Some r \<longrightarrow>
        (\<exists>r'. find (\<lambda>c. jc_command_id c = cid) (jn_commands j') = Some r' \<and> command_kept r r')) \<and>
     (\<forall>r \<in> set (jn_environments j). \<exists>r' \<in> set (jn_environments j'). environment_kept r r') \<and>
     set (jn_delivered_results j) \<subseteq> set (jn_delivered_results j')"

lemma command_kept_refl [simp]: "command_kept r r"
  by (simp add: command_kept_def)

lemma command_kept_trans: "\<lbrakk>command_kept a b; command_kept b c\<rbrakk> \<Longrightarrow> command_kept a c"
  by (auto simp: command_kept_def)

lemma environment_kept_refl [simp]: "environment_kept r r"
  by (simp add: environment_kept_def)

lemma environments_kept_refl: "r \<in> set rs \<Longrightarrow> \<exists>r' \<in> set rs. environment_kept r r'"
  by (blast intro: environment_kept_refl)

lemma environment_kept_trans: "\<lbrakk>environment_kept a b; environment_kept b c\<rbrakk> \<Longrightarrow> environment_kept a c"
  by (cases a; cases b; cases c) (auto simp: environment_kept_def)

interpretation journals: step_preorder journal_kept
proof
  show "journal_kept j j" for j
    by (auto simp: journal_kept_def environments_kept_refl)
  fix a b c assume ab: "journal_kept a b" and bc: "journal_kept b c"
  show "journal_kept a c"
    unfolding journal_kept_def
  proof (intro conjI allI impI ballI)
    fix cid r assume "find (\<lambda>c. jc_command_id c = cid) (jn_commands a) = Some r"
    with ab obtain r1 where "find (\<lambda>c. jc_command_id c = cid) (jn_commands b) = Some r1" "command_kept r r1"
      unfolding journal_kept_def by blast
    moreover from this(1) bc obtain r2 where "find (\<lambda>c. jc_command_id c = cid) (jn_commands c) = Some r2"
      "command_kept r1 r2" unfolding journal_kept_def by blast
    ultimately show "\<exists>r'. find (\<lambda>c. jc_command_id c = cid) (jn_commands c) = Some r' \<and> command_kept r r'"
      by (blast intro: command_kept_trans)
  next
    fix r assume "r \<in> set (jn_environments a)"
    with ab obtain r1 where "r1 \<in> set (jn_environments b)" "environment_kept r r1"
      unfolding journal_kept_def by blast
    moreover from this(1) bc obtain r2 where "r2 \<in> set (jn_environments c)" "environment_kept r1 r2"
      unfolding journal_kept_def by blast
    ultimately show "\<exists>r' \<in> set (jn_environments c). environment_kept r r'"
      by (blast intro: environment_kept_trans)
  next
    show "set (jn_delivered_results a) \<subseteq> set (jn_delivered_results c)"
      using ab bc unfolding journal_kept_def by blast
  qed
qed

lemma journal_kept_frame:
  assumes "jn_commands j' = jn_commands j" "jn_environments j' = jn_environments j"
    "set (jn_delivered_results j) \<subseteq> set (jn_delivered_results j')"
  shows "journal_kept j j'"
  using assms by (auto simp: journal_kept_def environments_kept_refl)

lemma find_some_extend: "find q xs = Some r \<Longrightarrow> find q (xs @ ys) = Some r"
  by (induction xs) auto

definition received_row :: "externals \<Rightarrow> agent_command_envelope \<Rightarrow> i64 \<Rightarrow> string \<Rightarrow> string \<Rightarrow> journal_command_row"
  where
  "received_row x e now boot json =
     \<lparr>jc_command_id = command_text x (env_command_id e), jc_request_hash = env_request_hash e,
      jc_envelope = json, jc_received_at = now, jc_result = None, jc_boot_id = Some boot\<rparr>"

abbreviation command_row :: "externals \<Rightarrow> command_id \<Rightarrow> journal \<Rightarrow> journal_command_row option" where
  "command_row x c j \<equiv> find (\<lambda>r. jc_command_id r = command_text x c) (jn_commands j)"

text \<open>The three receipts.\<close>

lemma receive_cases:
  assumes "receive x e now boot j = Inr (rec, j')"
  obtains (new) json where "rec = Receipt_New" "command_row x (env_command_id e) j = None"
      "x_envelope_to_string x e = Some json"
      "j' = j\<lparr>jn_commands := jn_commands j @ [received_row x e now boot json]\<rparr>"
  | (seen) row where "rec \<noteq> Receipt_New" "command_row x (env_command_id e) j = Some row"
      "jc_request_hash row = env_request_hash e" "j' = j"
      "case jc_result row of None \<Rightarrow> rec = Receipt_Interrupted
         | Some json \<Rightarrow> (\<exists>r. x_result_from_str x json = Some r \<and> rec = Receipt_Completed r)"
proof (cases "command_row x (env_command_id e) j")
  case None
  with assms obtain json where "x_envelope_to_string x e = Some json" "rec = Receipt_New"
    "j' = j\<lparr>jn_commands := jn_commands j @ [received_row x e now boot json]\<rparr>"
    by (auto simp: receive_def received_row_def rbind_eq_Inr to_json_def ok_or_eq_Inr)
  with None show thesis by (intro new)
next
  case (Some row)
  with assms show thesis
    by (intro seen) (auto simp: receive_def rbind_eq_Inr ensure_eq_Inr from_json_def ok_or_eq_Inr
        split: option.splits)
qed

lemma receive_kept: "receive x e now boot j = Inr (rec, j') \<Longrightarrow> journal_kept j j'"
  by (erule receive_cases)
    (auto simp: journal_kept_def find_some_extend environments_kept_refl)

lemma complete_kept: "complete x r j = Inr j' \<Longrightarrow> journal_kept j j'"
  by (auto simp: complete_def Let_def rbind_eq_Inr journal_kept_def find_update_where command_kept_def
      environments_kept_refl)

text \<open>A command that is executed or recovered changes the environments only.\<close>

definition environments_step :: "journal \<Rightarrow> journal \<Rightarrow> bool" where
  "environments_step j j' \<longleftrightarrow>
     j' = j\<lparr>jn_environments := jn_environments j'\<rparr> \<and>
     (\<forall>r \<in> set (jn_environments j). \<exists>r' \<in> set (jn_environments j'). environment_kept r r')"

lemma environments_step_kept: "environments_step j j' \<Longrightarrow> journal_kept j j'"
  by (cases j') (auto simp: environments_step_def journal_kept_def)

lemma environments_step_commands: "environments_step j j' \<Longrightarrow> jn_commands j' = jn_commands j"
  by (cases j') (auto simp: environments_step_def)

lemma environments_step_refl: "environments_step j j"
  by (auto simp: environments_step_def intro: environment_kept_refl)

lemma record_environment_step: "record_environment x k e j = Inr j' \<Longrightarrow> environments_step j j'"
  by (auto simp: record_environment_def Let_def rbind_eq_Inr map_err_eq_Inr insert_unique_eq_Inr
      environments_step_def intro: environment_kept_refl)

lemma bind_local_identity_step:
  assumes "bind_local_identity x k i l j = Inr j'"
  shows "environments_step j j'"
proof -
  from assms obtain q s where j': "j' = j\<lparr>jn_environments := update_where q
      (\<lambda>r. r\<lparr>en_local_identity := Some s\<rparr>) (jn_environments j)\<rparr>"
    and q: "\<And>r. q r \<Longrightarrow> en_local_identity r = None \<or> en_local_identity r = Some s"
    unfolding bind_local_identity_def Let_def rbind_eq_Inr by (elim exE conjE) auto
  have "\<exists>r' \<in> set (update_where q (\<lambda>r. r\<lparr>en_local_identity := Some s\<rparr>) (jn_environments j)).
      environment_kept r r'" if "r \<in> set (jn_environments j)" for r
  proof
    let ?r = "if q r then r\<lparr>en_local_identity := Some s\<rparr> else r"
    show "?r \<in> set (update_where q (\<lambda>r. r\<lparr>en_local_identity := Some s\<rparr>) (jn_environments j))"
      using that by (auto simp: set_update_where)
    show "environment_kept r ?r" using q [of r] by (auto simp: environment_kept_def)
  qed
  then show ?thesis by (simp add: j' environments_step_def)
qed

section \<open>Steps of the dispatcher\<close>

lemma call_helper_journal: "call_helper d q s = (r, s') \<Longrightarrow> fst s' = fst s"
  by (auto simp: call_helper_def split: prod.splits)

lemma call_helper_step: "call_helper d q s = (r, s') \<Longrightarrow> environments_step (fst s) (fst s')"
  by (simp add: call_helper_journal environments_step_refl)

lemma prepare_step: "prepare x k d p pl g fresh s = (r, s') \<Longrightarrow> environments_step (fst s) (fst s')"
  by (auto simp: prepare_def Let_def abind_def on_journal_def dest!: call_helper_journal
      dest: record_environment_step intro: environments_step_refl
      split: sum.splits prod.splits helper_response.splits if_splits)

lemma run_owned_step: "run_owned x k d env oper m s = (r, s') \<Longrightarrow> environments_step (fst s) (fst s')"
  by (auto simp: run_owned_def Let_def abind_def on_journal_def dest!: call_helper_journal
      dest: bind_local_identity_step intro: environments_step_refl
      split: sum.splits prod.splits helper_response.splits success_evidence.splits if_splits)

lemma start_left_step: "start_left x k d e st env boot s = (r, s') \<Longrightarrow> environments_step (fst s) (fst s')"
  by (auto simp: start_left_def Let_def abind_def on_journal_def
      dest: bind_local_identity_step intro: environments_step_refl
      split: sum.splits prod.splits option.splits start_remains.splits)

lemma remains_step: "remains x k d e boot s = (r, s') \<Longrightarrow> environments_step (fst s) (fst s')"
  by (auto simp: remains_def abind_def dest: start_left_step intro: environments_step_refl
      split: sum.splits option.splits command_scope.splits agent_operation.splits if_splits)

lemma execute_owned:
  assumes "env_scope e = Scope_Placement pl b g" "placement_environment x k pl g (fst s) = Inr owned"
    and "\<nexists>p. env_operation e = PrepareEnvironment p"
  shows "execute x k d e m fresh s =
    (if is_owned_operation (env_operation e) then
       (case owned of
          Some env \<Rightarrow>
            if names_environment (env_operation e) env
            then run_owned x k d env (env_operation e) m s
            else (Inr (refused Fail_Permission), s)
        | None \<Rightarrow> (Inr (refused Fail_Permission), s))
     else (Inr (refused Fail_Unsupported), s))"
  using assms
  by (cases owned; cases "env_operation e") (simp_all add: execute_def owned_of_def abind_def Let_def)

text \<open>The branches of \<open>execute\<close>: a refusal that changes refusal, or one call of the helper.\<close>

lemma execute_cases:
  assumes "execute x k d e m fresh s = (r, s')"
  obtains (refusal) "s' = s" "case r of Inl _ \<Rightarrow> True | Inr out \<Rightarrow> \<exists>c. out = refused c"
  | (prepares) p pl b g where "env_scope e = Scope_Placement pl b g"
      "env_operation e = PrepareEnvironment p" "placement_environment x k pl g (fst s) = Inr None"
      "ec_requires_docker_socket (pe_configuration p) \<longrightarrow> dp_trust_docker_socket d"
      "prepare x k d p pl g fresh s = (r, s')"
  | (owned) env pl b g where "env_scope e = Scope_Placement pl b g"
      "is_owned_operation (env_operation e)" "placement_environment x k pl g (fst s) = Inr (Some env)"
      "names_environment (env_operation e) env" "run_owned x k d env (env_operation e) m s = (r, s')"
  | (host) response where "env_scope e = Scope_Host"
      "env_operation e = InspectHost \<or> env_operation e = agent_operation.DrainHost"
      "call_helper d (helper_request_for d None (env_operation e) None) s = (response, s')"
      "r = Inr (helper_outcome response)"
proof (cases "env_scope e")
  case Scope_Host
  show thesis
  proof (cases "env_operation e = InspectHost \<or> env_operation e = agent_operation.DrainHost")
    case True
    with Scope_Host assms show thesis
      by (cases "call_helper d (helper_request_for d None (env_operation e) None) s")
        (intro host, auto simp: execute_def owned_of_def abind_def)
  next
    case False
    with Scope_Host assms have "s' = s" "r = Inr (refused Fail_Unsupported)"
      by (auto simp: execute_def owned_of_def abind_def)
    then show thesis by (intro refusal) auto
  qed
next
  case (Scope_Placement pl b g)
  show thesis
  proof (cases "placement_environment x k pl g (fst s)")
    case (Inl err)
    with assms Scope_Placement have "s' = s" "r = Inl err"
      by (auto simp: execute_def owned_of_def abind_def)
    then show thesis by (intro refusal) auto
  next
    case (Inr owned)
    note sc = Scope_Placement Inr
    show thesis
    proof (cases "\<exists>p. env_operation e = PrepareEnvironment p")
      case True
      then obtain p where p: "env_operation e = PrepareEnvironment p" by blast
      with assms sc consider c where "(r, s') = (Inr (refused c), s)"
        | "ec_requires_docker_socket (pe_configuration p) \<longrightarrow> dp_trust_docker_socket d"
          "owned = None" "prepare x k d p pl g fresh s = (r, s')"
        by (simp add: execute_def owned_of_def abind_def split: if_splits) metis+
      then show thesis
        by cases (rule refusal, simp, force, rule prepares [OF _ p], use sc in simp_all)
    next
      case False
      with assms execute_owned [OF sc] consider c where "(r, s') = (Inr (refused c), s)"
        | env where "is_owned_operation (env_operation e)" "owned = Some env"
          "names_environment (env_operation e) env" "run_owned x k d env (env_operation e) m s = (r, s')"
        by (simp split: if_splits option.splits) metis+
      then show thesis
        by cases (rule refusal, simp, force, rule owned, use sc in simp_all)
    qed
  qed
qed

lemma execute_step: "execute x k d e m fresh s = (r, s') \<Longrightarrow> environments_step (fst s) (fst s')"
  by (erule execute_cases)
    (auto dest: prepare_step run_owned_step call_helper_step intro: environments_step_refl)

lemma act_step: "act x k d rec t e m boot fresh s = (r, s') \<Longrightarrow> environments_step (fst s) (fst s')"
  by (auto simp: act_def dest: remains_step execute_step intro: environments_step_refl split: if_splits)

lemma command_result_eq_Inr:
  assumes "command_result x e out now fresh = Inr r"
  shows "result_correlates r e" "res_outcome r = out"
    "sha256_digest_string (x_codec x) (res_request_hash r) = env_request_hash e"
    "scope_generation_matches (res_scope r) (res_generation r)"
  using assms
  by (auto simp: command_result_def rbind_eq_Inr map_err_eq_Inr result_correlates_def
      scope_generation_matches_iff scope_generation_of_def sha256_digest_string_def
      sha256_digest_try_from_def split: command_scope.splits if_splits option.splits)

text \<open>The result the agent journals always passes the check against its command.\<close>

lemma trusted_result_valid:
  assumes "command_result x e out now fresh = Inr r"
  shows "result_validate_against (x_codec x) (trusted_result x e r) e = Inr (trusted_result x e r)"
  using command_result_eq_Inr [OF assms]
  by (auto simp: trusted_result_def result_validate_against_eq_Inr result_correlates_def unknown_def
      split: sum.split)

lemma answer_cases:
  assumes "answer x e out now fresh s = (r, s')"
  obtains (failed) err where "r = Inl (Dispatch_Internal err)" "s' = s"
  | (recorded) res j where "r = Inr res" "result_validate_against (x_codec x) res e = Inr res"
      "complete x res (fst s) = Inr j" "s' = (j, snd s)"
proof (cases "command_result x e out now fresh")
  case (Inl err)
  with assms show thesis by (intro failed) (auto simp: answer_def)
next
  case (Inr res)
  show thesis
  proof (cases "complete x (trusted_result x e res) (fst s)")
    case (Inl err)
    with Inr assms show thesis by (intro failed) (auto simp: answer_def)
  next
    case (Inr j)
    from trusted_result_valid [OF \<open>command_result x e out now fresh = Inr res\<close>] assms this
    show thesis by (intro recorded)
        (auto simp: answer_def \<open>command_result x e out now fresh = Inr res\<close>)
  qed
qed

lemma answer_kept: "answer x e out now fresh s = (r, s') \<Longrightarrow> journal_kept (fst s) (fst s')"
  by (erule answer_cases) (auto intro: journals.step_refl complete_kept)

lemma interrupted_kept:
  assumes "interrupted x k d e now boot fresh s = (r, s')"
  shows "journal_kept (fst s) (fst s')"
  using assms
  by (auto simp: interrupted_def dest!: remains_step environments_step_kept dest: answer_kept
      intro: journals.step_trans split: prod.splits sum.splits)

text \<open>
  A dispatch is refused before the journal, fails at the receipt, replays a recorded result, or
  acts on the command and answers it.
\<close>

lemma dispatch_with_cases:
  assumes "dispatch_with x k fs d body session now m clock boot fresh s = (r, s')"
  obtains (rejected) "\<not> is_ok r" "s' = s" "\<forall>e. \<not> accepted x fs body session e"
  | (unread) e err where "accepted x fs body session e"
      "receive x e clock boot (fst s) = Inl err" "r = Inl (Dispatch_Journal err)" "s' = s"
  | (replayed) e res where "accepted x fs body session e"
      "receive x e clock boot (fst s) = Inr (Receipt_Completed res, fst s)" "r = Inr res" "s' = s"
  | (acted) e rec j a s1 where "accepted x fs body session e"
      "receive x e clock boot (fst s) = Inr (rec, j)" "rec = Receipt_New \<or> rec = Receipt_Interrupted"
      "act x k d rec (in_time x e session now) e m boot (fresh 0) (j, snd s) = (a, s1)"
      "case a of Inl err \<Rightarrow> r = Inl (Dispatch_Internal err) \<and> s' = s1
         | Inr out \<Rightarrow> answer x e out now (fresh 1) s1 = (r, s')"
proof (cases "\<exists>e. accepted x fs body session e")
  case False
  with assms show thesis
    by (intro rejected) (auto simp: dispatch_with_def accepted_def split: sum.splits)
next
  case True
  then obtain e where e: "accepted x fs body session e" by blast
  show thesis
  proof (cases "receive x e clock boot (fst s)")
    case (Inl err)
    with e assms show thesis
      by (intro unread) (auto simp: dispatch_with_def accepted_def)
  next
    case (Inr p)
    then obtain rec j where rj: "receive x e clock boot (fst s) = Inr (rec, j)" by (cases p) auto
    show thesis
    proof (cases "rec = Receipt_New \<or> rec = Receipt_Interrupted")
      case True
      with e rj assms show thesis
        by (cases "act x k d rec (in_time x e session now) e m boot (fresh 0) (j, snd s)")
          (intro acted, auto simp: dispatch_with_def accepted_def in_time_def Let_def split: sum.splits)
    next
      case False
      then obtain res where "rec = Receipt_Completed res" by (cases rec) auto
      moreover from this rj have "j = fst s" by (auto elim!: receive_cases)
      ultimately show thesis using rj e assms
        by (intro replayed) (auto simp: dispatch_with_def accepted_def)
    qed
  qed
qed

lemma dispatch_with_kept:
  assumes "dispatch_with x k fs d body session now m clock boot fresh s = (r, s')"
  shows "journal_kept (fst s) (fst s')"
  using assms
proof (cases rule: dispatch_with_cases)
  case (acted e rec j a s1)
  from receive_kept [OF acted(2)] environments_step_kept [OF act_step [OF acted(4)]]
  have "journal_kept (fst s) (fst s1)" by (auto intro: journals.step_trans)
  with acted(5) show ?thesis
    by (cases a) (auto dest: answer_kept intro: journals.step_trans)
qed (auto intro: journals.step_refl)

lemma agent_step_kept: "agent_step x k fs d s ids s' \<Longrightarrow> journal_kept (fst s) (fst s')"
proof (induction rule: agent_step.induct)
  case (cut_unanswered body session e clock boot s rec j now m fresh r s')
  from receive_kept [OF cut_unanswered(2)] environments_step_kept [OF act_step [OF cut_unanswered(3)]]
  show ?case by (auto intro: journals.step_trans)
qed (auto dest: dispatch_with_kept receive_kept interrupted_kept
    simp: delivered_def output_shipped_def store_identity_def rotation_secret_def finish_rotation_def
      Let_def rbind_eq_Inr intro: journals.step_refl journal_kept_frame split: option.splits if_splits)

lemma agent_run_kept: "agent_run x k fs d s tr s' \<Longrightarrow> journal_kept (fst s) (fst s')"
  by (induction rule: agent_run.induct)
    (auto intro: journals.step_refl journals.step_trans agent_step_kept)

section \<open>Commands begun\<close>

lemma receive_new:
  assumes "receive x e now boot j = Inr (Receipt_New, j')"
  shows "command_row x (env_command_id e) j = None" "command_row x (env_command_id e) j' \<noteq> None"
  using assms by (auto elim!: receive_cases simp: find_None_iff received_row_def)

lemma command_row_kept:
  "\<lbrakk>journal_kept j j'; command_row x c j = Some r\<rbrakk> \<Longrightarrow>
   \<exists>r'. command_row x c j' = Some r' \<and> command_kept r r'"
  by (simp add: journal_kept_def)

lemma begun_in:
  assumes "c \<in> set (begun x fs body session now clock boot j)"
  obtains e j' where "c = env_command_id e" "accepted x fs body session e" "in_time x e session now"
    "receive x e clock boot j = Inr (Receipt_New, j')"
  using assms by (auto simp: begun_def split: sum.splits if_splits)

lemma begun_distinct: "distinct (begun x fs body session now clock boot j)"
  by (auto simp: begun_def split: sum.splits)

lemma accepted_unique: "\<lbrakk>accepted x fs body session e; accepted x fs body session e'\<rbrakk> \<Longrightarrow> e' = e"
  by (auto simp: accepted_def)

text \<open>A command is begun only when the journal does not know it, and the journal knows it then.\<close>

lemma agent_step_begun:
  assumes "agent_step x k fs d s ids s'"
  shows "distinct ids" "\<forall>c \<in> set ids. command_row x c (fst s) = None \<and> command_row x c (fst s') \<noteq> None"
proof -
  have later: "command_row x c j' \<noteq> None"
    if "journal_kept j j'" "command_row x c j \<noteq> None" for c j j'
    using command_row_kept [OF that(1)] that(2) by fastforce
  show "distinct ids" using assms by cases (auto intro: begun_distinct)
  show "\<forall>c \<in> set ids. command_row x c (fst s) = None \<and> command_row x c (fst s') \<noteq> None"
    using assms
  proof cases
    case (dispatches body session now m clock boot fresh r)
    show ?thesis
    proof (intro ballI)
      fix c assume "c \<in> set ids"
      then obtain e j where e: "c = env_command_id e" "accepted x fs body session e"
        "receive x e clock boot (fst s) = Inr (Receipt_New, j)"
        using dispatches by (auto elim: begun_in)
      from dispatches(2) have "journal_kept j (fst s')"
      proof (cases rule: dispatch_with_cases)
        case (acted e' rec j' a s1)
        with e have "j' = j" by (auto dest: accepted_unique)
        with acted(5) environments_step_kept [OF act_step [OF acted(4)]] show ?thesis
          by (cases a) (auto dest: answer_kept intro: journals.step_trans)
      qed (use e in \<open>auto dest: accepted_unique\<close>)
      with receive_new [OF e(3)] e(1) later
      show "command_row x c (fst s) = None \<and> command_row x c (fst s') \<noteq> None" by blast
    qed
  next
    case (cut_unanswered body session e clock boot rec j now m fresh r)
    show ?thesis
    proof (intro ballI)
      fix c assume "c \<in> set ids"
      then have "c = env_command_id e" "rec = Receipt_New"
        using cut_unanswered by (auto elim!: begun_in dest: accepted_unique)
      with receive_new later environments_step_kept [OF act_step [OF cut_unanswered(4)]]
        cut_unanswered(3)
      show "command_row x c (fst s) = None \<and> command_row x c (fst s') \<noteq> None" by fastforce
    qed
  qed (auto dest: receive_new)
qed

lemma agent_run_begun:
  assumes "agent_run x k fs d s tr s'"
  shows "distinct tr \<and>
    (\<forall>c \<in> set tr. command_row x c (fst s) = None \<and> command_row x c (fst s') \<noteq> None)"
  using assms
proof (induction rule: agent_run.induct)
  case (more tr s' ids s'')
  have known: "command_row x c (fst s'') \<noteq> None" if "command_row x c (fst s') \<noteq> None" for c
    using command_row_kept [OF agent_step_kept [OF more.hyps(2)]] that by fastforce
  have absent: "command_row x c (fst s) = None" if "command_row x c (fst s') = None" for c
    using command_row_kept [OF agent_run_kept [OF more.hyps(1)]] that
    by (cases "command_row x c (fst s)") fastforce+
  from more.IH agent_step_begun [OF more.hyps(2)] known absent show ?case by (auto 0 3)
qed simp

end
