(* ===== verification/Rotation.thy ===== *)
theory Rotation
  imports Registry
begin

text \<open>
  Authentication of hosts and the rotation of their credentials (\<^verbatim>\<open>registry/mod.rs\<close>). An
  administrator requests a rotation, the host exchanges its next secret with the old credential,
  both are live for five minutes, and the host acknowledges with the new one, which revokes every
  older generation.
\<close>

section \<open>Authentication\<close>

definition authenticate ::
  "externals \<Rightarrow> fleet_db \<Rightarrow> host_id \<Rightarrow> string \<Rightarrow> i64 \<Rightarrow> registry_error + authenticated_host" where
  "authenticate x db host_id secret now =
     rbind (map_err Reg_Credential (validate_secret_text (x_codec x) secret)) (\<lambda>_.
     let v = verifier_from_secret x secret;
         rows = [(c, h). c \<leftarrow> credentials db, h \<leftarrow> hosts db,
                   fh_id h = hk_host_id c \<and> hk_host_id c = x_show_uuid x (host_uuid host_id) \<and>
                   credential_live c now]
     in
     rbind (ok_or (find (\<lambda>(c, h). matches_verifier v (Verifier (hk_verifier c))) rows)
              Reg_InvalidCredential) (\<lambda>(c, h).
     rbind (ensure (\<not> (fh_enrollment_state h = ''revoked'' \<or> fh_lifecycle_state h = ''retired''))
              Reg_InvalidCredential) (\<lambda>_.
     rbind (ok_or (x_parse_uuid x (hk_id c)) Reg_InvalidCredential) (\<lambda>cid.
     rbind (ok_or (word_try_from (hk_generation c)) Reg_InvalidCredential) (\<lambda>gw.
     rbind (map_err (\<lambda>_. Reg_InvalidCredential) (generation_new gw)) (\<lambda>gen.
     rbind (ok_or (word_try_from (fh_epoch h)) Reg_InvalidCredential) (\<lambda>ew.
     rbind (map_err (\<lambda>_. Reg_InvalidCredential) (host_epoch_new ew)) (\<lambda>epoch.
     rbind (ensure (hk_host_epoch c = fh_epoch h) Reg_InvalidCredential) (\<lambda>_.
     Inr \<lparr>ah_host_id = host_id, ah_credential_id = cid, ah_generation = gen, ah_epoch = epoch\<rparr>)))))))))"

section \<open>Requesting a rotation\<close>

record rotation_request =
  rq_host_id :: host_id
  rq_expected_generation :: generation
  rq_idempotency_key :: string

record rotation_request_receipt =
  rr_operation_id :: uuid
  rr_host :: host_id
  rr_old_generation :: generation
  rr_next_generation :: generation
  rr_expires_at :: i64

record rotation_exchange_receipt =
  rx_operation_id :: uuid
  rx_credential_id :: uuid
  rx_generation :: generation
  rx_overlap_expires_at :: i64

record rotation_ack_receipt =
  ra_operation_id :: uuid
  ra_host :: host_id
  ra_generation :: generation
  ra_acknowledged_at :: i64

datatype rotation_operation_state =
  Rotation_Requested | Rotation_Exchanged | Rotation_Acknowledged | Rotation_Revoked | Rotation_Expired

record rotation_operation_status =
  rt_operation_id :: uuid
  rt_host :: host_id
  rt_state :: rotation_operation_state
  rt_old_generation :: generation
  rt_next_generation :: generation
  rt_expires_at :: i64
  rt_updated_at :: i64

definition bound_to_requester :: "rotation_row \<Rightarrow> string \<Rightarrow> string \<Rightarrow> string \<Rightarrow> bool" where
  "bound_to_requester r user host digest \<longleftrightarrow>
     cr_requested_by r = user \<and> cr_request_method r = ''fleet.credential.request'' \<and>
     cr_request_resource r = host \<and> cr_request_hash r = digest"

definition replay_rotation ::
  "externals \<Rightarrow> rotation_row \<Rightarrow> host_id \<Rightarrow> registry_error + rotation_request_receipt" where
  "replay_rotation x r host_id =
     rbind (generation_from_i64 (cr_old_generation r)) (\<lambda>old.
     rbind (parse_stored_uuid x (cr_id r)) (\<lambda>oid.
     rbind (generation_from_i64 (cr_next_generation r)) (\<lambda>gen.
     Inr \<lparr>rr_operation_id = oid, rr_host = host_id, rr_old_generation = old,
          rr_next_generation = gen, rr_expires_at = cr_expires_at r\<rparr>)))"

text \<open>
  Inserting a rotation: its key, its unique idempotency key per host, one active rotation per host,
  and the checks on its generations and lifetime.
\<close>

definition rotation_active :: "rotation_row \<Rightarrow> bool" where
  "rotation_active r \<longleftrightarrow>
     rotation_open r \<and> cr_revoked_at r = None \<and> cr_acknowledged_at r = None"

definition insert_rotation :: "rotation_row \<Rightarrow> fleet_db \<Rightarrow> registry_error + fleet_db" where
  "insert_rotation row db =
     rbind (ensure (0 < cr_old_generation row \<and> cr_old_generation row < cr_next_generation row \<and>
                    cr_requested_at row < cr_expires_at row) (Reg_Database ''CHECK'')) (\<lambda>_.
     rbind (ensure (\<not> (\<exists>r \<in> set (rotations db). cr_host_id r = cr_host_id row \<and> rotation_active r))
              (Reg_Database ''UNIQUE'')) (\<lambda>_.
     map_err registry_db_error
       (rbind (insert_unique cr_id row (rotations db)) (\<lambda>_.
        rbind (insert_unique (\<lambda>r. (cr_host_id r, cr_idempotency_key r)) row (rotations db)) (\<lambda>t.
        Inr (db\<lparr>rotations := t\<rparr>))))))"

definition current_credential ::
  "fleet_db \<Rightarrow> string \<Rightarrow> i64 \<Rightarrow> i64 \<Rightarrow> i64 \<Rightarrow> credential_row option" where
  "current_credential db host gen epoch now =
     find (\<lambda>c. hk_host_id c = host \<and> hk_generation c = gen \<and> hk_host_epoch c = epoch \<and>
       credential_live c now) (credentials db)"

definition request_rotation ::
  "externals \<Rightarrow> fleet_db \<Rightarrow> principal \<Rightarrow> rotation_request \<Rightarrow> uuid \<Rightarrow> i64 \<Rightarrow>
   registry_error + (fleet_db \<times> rotation_request_receipt)" where
  "request_rotation x db p r fresh now =
     (let host = x_show_uuid x (host_uuid (rq_host_id r));
          request_hash = hash_request x (show_nat (unat (generation_get (rq_expected_generation r)))) in
      rbind (validate_idempotency_key (rq_idempotency_key r)) (\<lambda>_.
      rbind (map_err (\<lambda>_. Reg_Forbidden) (require_user p)) (\<lambda>user.
      rbind (ok_or (checked_add_i64 now ROTATION_TTL_MILLIS)
               (Reg_InvalidRequest ''rotation lifetime overflowed'')) (\<lambda>expires_at.
      rbind (ensure_system_admin db user) (\<lambda>_.
      case find (\<lambda>c. cr_host_id c = host \<and> cr_idempotency_key c = rq_idempotency_key r)
             (rotations db) of
        Some row \<Rightarrow>
          rbind (ensure (bound_to_requester row user host request_hash) Reg_IdempotencyConflict) (\<lambda>_.
          rbind (replay_rotation x row (rq_host_id r)) (\<lambda>receipt.
          Inr (db, receipt)))
      | None \<Rightarrow>
          rbind (ok_or (find (\<lambda>h. fh_id h = host) (hosts db)) Reg_NotFound) (\<lambda>h.
          rbind (ensure (\<not> (fh_enrollment_state h = ''revoked'' \<or> fh_lifecycle_state h = ''retired''))
                   Reg_Forbidden) (\<lambda>_.
          rbind (generation_i64 (rq_expected_generation r)) (\<lambda>expected.
          rbind (ensure (\<not> (case fh_current_credential_generation h of
                            None \<Rightarrow> False | Some current \<Rightarrow> current \<noteq> expected)) Reg_StaleGeneration) (\<lambda>_.
          let db1 = revoke_expired_rotations host now db in
          rbind (ensure (\<not> (\<exists>c \<in> set (rotations db1). cr_host_id c = host \<and> rotation_active c))
                   Reg_RotationConflict) (\<lambda>_.
          rbind (ok_or (current_credential db1 host expected (fh_epoch h) now) Reg_StaleGeneration)
            (\<lambda>old.
          rbind (next_generation db1 host) (\<lambda>gen.
          rbind (insert_rotation
                   \<lparr>cr_id = x_show_uuid x fresh, cr_host_id = host,
                    cr_old_credential_id = hk_id old, cr_old_generation = hk_generation old,
                    cr_old_host_epoch = hk_host_epoch old, cr_next_generation = gen,
                    cr_idempotency_key = rq_idempotency_key r, cr_requested_by = user,
                    cr_request_method = ''fleet.credential.request'', cr_request_resource = host,
                    cr_request_hash = request_hash, cr_phase = ''requested'',
                    cr_proposed_verifier = None, cr_requested_at = now,
                    cr_expires_at = expires_at, cr_exchanged_at = None,
                    cr_overlap_expires_at = None, cr_acknowledged_at = None,
                    cr_revoked_at = None\<rparr> db1) (\<lambda>db2.
          rbind (ok_or (word_try_from gen) (Reg_InvalidRequest ''generation invalid'')) (\<lambda>gw.
          rbind (map_err (\<lambda>_. Reg_InvalidRequest ''generation invalid'') (generation_new gw)) (\<lambda>g.
          Inr (audit_and_event (Some host) ''fleet.credential.rotation_requested'' db2,
               \<lparr>rr_operation_id = fresh, rr_host = rq_host_id r,
                rr_old_generation = rq_expected_generation r, rr_next_generation = g,
                rr_expires_at = expires_at\<rparr>))))))))))))))))"

definition rotation_state :: "rotation_row \<Rightarrow> i64 \<Rightarrow> rotation_operation_state" where
  "rotation_state r now =
     (if cr_phase r = ''revoked'' then Rotation_Revoked
      else if cr_acknowledged_at r \<noteq> None then Rotation_Acknowledged
      else if cr_proposed_verifier r \<noteq> None then Rotation_Exchanged
      else if cr_expires_at r \<le> now then Rotation_Expired
      else Rotation_Requested)"

definition rotation_updated_at :: "rotation_row \<Rightarrow> rotation_operation_state \<Rightarrow> i64" where
  "rotation_updated_at r state =
     (let from = (\<lambda>t. case t of Some v \<Rightarrow> v | None \<Rightarrow> cr_requested_at r) in
      case state of
        Rotation_Requested \<Rightarrow> cr_requested_at r
      | Rotation_Expired \<Rightarrow> cr_requested_at r
      | Rotation_Exchanged \<Rightarrow> from (cr_exchanged_at r)
      | Rotation_Acknowledged \<Rightarrow> from (cr_acknowledged_at r)
      | Rotation_Revoked \<Rightarrow> from (cr_revoked_at r))"

definition rotation_status ::
  "externals \<Rightarrow> fleet_db \<Rightarrow> principal \<Rightarrow> uuid \<Rightarrow> i64 \<Rightarrow> registry_error + rotation_operation_status" where
  "rotation_status x db p oid now =
     rbind (map_err (\<lambda>_. Reg_Forbidden) (require_user p)) (\<lambda>user.
     rbind (ensure_system_admin db user) (\<lambda>_.
     rbind (ok_or (find (\<lambda>r. cr_id r = x_show_uuid x oid) (rotations db)) Reg_NotFound) (\<lambda>r.
     let state = rotation_state r now in
     rbind (registry_parse_id x HostId (cr_host_id r)) (\<lambda>host.
     rbind (generation_from_i64 (cr_old_generation r)) (\<lambda>old.
     rbind (generation_from_i64 (cr_next_generation r)) (\<lambda>gen.
     Inr \<lparr>rt_operation_id = oid, rt_host = host, rt_state = state, rt_old_generation = old,
          rt_next_generation = gen, rt_expires_at = cr_expires_at r,
          rt_updated_at = rotation_updated_at r state\<rparr>))))))"

section \<open>Exchanging the next secret\<close>

definition exchange_replay ::
  "externals \<Rightarrow> fleet_db \<Rightarrow> rotation_row \<Rightarrow> uuid \<Rightarrow> verifier \<Rightarrow> string \<Rightarrow>
   registry_error + rotation_exchange_receipt" where
  "exchange_replay x db r oid v existing =
     rbind (ensure (matches_verifier (Verifier existing) v) Reg_RotationConflict) (\<lambda>_.
     rbind (generation_from_i64 (cr_next_generation r)) (\<lambda>g.
     rbind (generation_i64 g) (\<lambda>gen.
     rbind (ok_or (find (\<lambda>c. hk_host_id c = cr_host_id r \<and> hk_generation c = gen) (credentials db))
              (Reg_Database ''RowNotFound'')) (\<lambda>c.
     rbind (ok_or (cr_overlap_expires_at r) Reg_RotationConflict) (\<lambda>overlap.
     rbind (parse_stored_uuid x (hk_id c)) (\<lambda>cid.
     Inr \<lparr>rx_operation_id = oid, rx_credential_id = cid, rx_generation = g,
          rx_overlap_expires_at = overlap\<rparr>))))))"

definition exchange_fresh ::
  "externals \<Rightarrow> fleet_db \<Rightarrow> rotation_row \<Rightarrow> uuid \<Rightarrow> verifier \<Rightarrow> generation \<Rightarrow> uuid \<Rightarrow> i64 \<Rightarrow>
   registry_error + (fleet_db \<times> rotation_exchange_receipt)" where
  "exchange_fresh x db r oid v old cid now =
     rbind (generation_from_i64 (cr_next_generation r)) (\<lambda>g.
     rbind (ok_or (checked_add_i64 now ROTATION_OVERLAP_MILLIS)
              (Reg_InvalidRequest ''overlap lifetime overflowed'')) (\<lambda>overlap.
     rbind (generation_i64 g) (\<lambda>gen.
     rbind (ok_or (find (\<lambda>h. fh_id h = cr_host_id r) (hosts db)) Reg_RotationConflict) (\<lambda>h.
     rbind (insert_credential
              \<lparr>hk_id = x_show_uuid x cid, hk_host_id = fh_id h, hk_host_epoch = fh_epoch h,
               hk_generation = gen, hk_verifier = verifier_str v, hk_created_at = now,
               hk_overlap_expires_at = None, hk_acknowledged_at = None, hk_revoked_at = None\<rparr> db)
       (\<lambda>db1.
     rbind (generation_i64 old) (\<lambda>oldg.
     let sel = (\<lambda>c. hk_id c = cr_old_credential_id r \<and> hk_host_id c = cr_host_id r \<and>
                  hk_generation c = oldg \<and> hk_host_epoch c = cr_old_host_epoch r \<and>
                  hk_revoked_at c = None);
         pick = (\<lambda>c. cr_id c = x_show_uuid x oid \<and> cr_phase c = ''requested'' \<and>
                   cr_revoked_at c = None \<and> cr_expires_at c > now) in
     rbind (ensure (rows_where sel (credentials db1) = 1) Reg_StaleGeneration) (\<lambda>_.
     rbind (ensure (rows_where pick (rotations db1) = 1) Reg_RotationConflict) (\<lambda>_.
     Inr (audit_and_event (Some (cr_host_id r)) ''fleet.credential.rotation_exchanged''
            (db1\<lparr>credentials := update_where sel
                   (\<lambda>c. c\<lparr>hk_overlap_expires_at := Some overlap\<rparr>) (credentials db1),
                 rotations := update_where pick
                   (\<lambda>c. c\<lparr>cr_phase := ''exchanged'', cr_proposed_verifier := Some (verifier_str v),
                          cr_exchanged_at := Some now, cr_overlap_expires_at := Some overlap\<rparr>)
                   (rotations db1)\<rparr>),
          \<lparr>rx_operation_id = oid, rx_credential_id = cid, rx_generation = g,
           rx_overlap_expires_at = overlap\<rparr>)))))))))"

definition exchange_rotation ::
  "externals \<Rightarrow> fleet_db \<Rightarrow> authenticated_host \<Rightarrow> uuid \<Rightarrow> string \<Rightarrow> uuid \<Rightarrow> i64 \<Rightarrow>
   registry_error + (fleet_db \<times> rotation_exchange_receipt)" where
  "exchange_rotation x db a oid next_secret cid now =
     rbind (map_err Reg_Credential (secret_parse (x_codec x) next_secret)) (\<lambda>secret.
     let v = secret_verifier x secret in
     rbind (ensure_authenticated_generation x db a now) (\<lambda>_.
     rbind (ok_or (find (\<lambda>r. cr_id r = x_show_uuid x oid) (rotations db)) Reg_NotFound) (\<lambda>r.
     rbind (ensure (cr_host_id r = x_show_uuid x (host_uuid (ah_host_id a))) Reg_Forbidden) (\<lambda>_.
     rbind (generation_from_i64 (cr_old_generation r)) (\<lambda>old.
     rbind (ensure (old = ah_generation a) Reg_StaleGeneration) (\<lambda>_.
     rbind (ok_or (i64_from_u64 (epoch_get (ah_epoch a))) Reg_InvalidCredential) (\<lambda>epoch.
     rbind (ensure (\<not> (cr_old_credential_id r \<noteq> x_show_uuid x (ah_credential_id a) \<or>
                       cr_old_host_epoch r \<noteq> epoch)) Reg_StaleGeneration) (\<lambda>_.
     rbind (ensure (\<not> (cr_phase r = ''revoked'' \<or> rotation_expired now r)) Reg_RotationGone) (\<lambda>_.
     case cr_proposed_verifier r of
       Some existing \<Rightarrow>
         rbind (exchange_replay x db r oid v existing) (\<lambda>receipt. Inr (db, receipt))
     | None \<Rightarrow> exchange_fresh x db r oid v old cid now)))))))))"

section \<open>Acknowledging and revoking\<close>

definition acknowledge_rotation ::
  "externals \<Rightarrow> fleet_db \<Rightarrow> authenticated_host \<Rightarrow> uuid \<Rightarrow> i64 \<Rightarrow>
   registry_error + (fleet_db \<times> rotation_ack_receipt)" where
  "acknowledge_rotation x db a oid now =
     (let host = x_show_uuid x (host_uuid (ah_host_id a)) in
      rbind (ensure_authenticated_generation x db a now) (\<lambda>_.
      rbind (ok_or (find (\<lambda>r. cr_id r = x_show_uuid x oid) (rotations db)) Reg_NotFound) (\<lambda>r.
      rbind (ensure (cr_host_id r = host) Reg_StaleGeneration) (\<lambda>_.
      rbind (generation_from_i64 (cr_next_generation r)) (\<lambda>g.
      rbind (ensure (g = ah_generation a) Reg_StaleGeneration) (\<lambda>_.
      rbind (ensure (\<not> (cr_phase r = ''revoked'' \<or> cr_exchanged_at r = None)) Reg_RotationGone) (\<lambda>_.
      case cr_acknowledged_at r of
        Some t \<Rightarrow> Inr (db, \<lparr>ra_operation_id = oid, ra_host = ah_host_id a,
                          ra_generation = ah_generation a, ra_acknowledged_at = t\<rparr>)
      | None \<Rightarrow>
          let pick = (\<lambda>c. cr_id c = x_show_uuid x oid \<and> cr_phase c = ''exchanged'' \<and>
                        cr_acknowledged_at c = None \<and> cr_revoked_at c = None) in
          rbind (ensure (rows_where pick (rotations db) = 1) Reg_RotationConflict) (\<lambda>_.
          rbind (generation_i64 (ah_generation a)) (\<lambda>gen.
          let mark = (\<lambda>c. hk_host_id c = host \<and> hk_generation c = gen \<and> hk_revoked_at c = None) in
          rbind (ensure (rows_where mark (credentials db) = 1) Reg_StaleGeneration) (\<lambda>_.
          Inr (audit_and_event (Some host) ''fleet.credential.rotation_acknowledged''
                 (update_hosts (\<lambda>h. fh_id h = host)
                    (\<lambda>h. h\<lparr>fh_current_credential_generation := Some gen,
                           fh_revision := fh_revision h + 1, fh_updated_at := now\<rparr>)
                    (revoke_credentials (\<lambda>c. hk_host_id c = host \<and> hk_generation c < gen) now
                       (db\<lparr>rotations := update_where pick
                              (\<lambda>c. c\<lparr>cr_phase := ''acknowledged'', cr_acknowledged_at := Some now\<rparr>)
                              (rotations db),
                            credentials := update_where mark
                              (\<lambda>c. c\<lparr>hk_acknowledged_at := Some now\<rparr>) (credentials db)\<rparr>))),
               \<lparr>ra_operation_id = oid, ra_host = ah_host_id a, ra_generation = ah_generation a,
                ra_acknowledged_at = now\<rparr>)))))))))))"

definition quarantine_host :: "i64 \<Rightarrow> host_row \<Rightarrow> host_row" where
  "quarantine_host now h =
     h\<lparr>fh_lifecycle_state := ''paused'', fh_integrity_state := ''quarantined'',
       fh_revision := fh_revision h + 1, fh_agent_session_id := None, fh_boot_id := None,
       fh_authority_expires_at := None, fh_inventory_complete := False,
       fh_inventory_revision := 0, fh_inventory_digest := None, fh_updated_at := now\<rparr>"

definition revoke_credential ::
  "externals \<Rightarrow> fleet_db \<Rightarrow> principal \<Rightarrow> host_id \<Rightarrow> generation \<Rightarrow> i64 \<Rightarrow> registry_error + fleet_db" where
  "revoke_credential x db p host_id g now =
     (let host = x_show_uuid x (host_uuid host_id) in
      rbind (map_err (\<lambda>_. Reg_Forbidden) (require_user p)) (\<lambda>user.
      rbind (ensure_system_admin db user) (\<lambda>_.
      rbind (ok_or (find (\<lambda>h. fh_id h = host) (hosts db)) Reg_NotFound) (\<lambda>h.
      rbind (generation_i64 g) (\<lambda>gen.
      rbind (ensure (rows_where (\<lambda>c. hk_host_id c = host \<and> hk_generation c = gen \<and>
                                    hk_revoked_at c = None) (credentials db) = 1) Reg_NotFound) (\<lambda>_.
      let db1 = revoke_open_rotations host now ''fleet.credential.rotation_revoked''
                  (revoke_credentials (\<lambda>c. hk_host_id c = host \<and> hk_generation c = gen) now db);
          db2 = (if fh_lifecycle_state h \<noteq> ''retired''
                 then update_hosts (\<lambda>h. fh_id h = host) (quarantine_host now) db1 else db1)
      in Inr (audit_and_event (Some host) ''fleet.credential.revoked'' db2)))))))"

end
