(* ===== verification/Supervisor.thy ===== *)
theory Supervisor
  imports Agent_Runs Rotation
begin

text \<open>
  The protocol supervisor of the host agent (\<^verbatim>\<open>crates/gridops-host-agent/src/supervisor.rs\<close>) over
  the HTTPS client (\<^verbatim>\<open>client.rs\<close>). The server is a world \<open>'c\<close> of its own, which a request may
  change even when its reply is an error; the client is a record of functions on it. The state of
  the agent is its journal and its machine, beside that server.
\<close>

section \<open>The client\<close>

datatype error_code =
    Code_InvalidRequest | Code_Unauthenticated | Code_Forbidden | Code_NotFound
  | Code_RevisionConflict | Code_IdempotencyConflict | Code_EnrollmentExpired | Code_GrantExpired
  | Code_CursorExpired | Code_CursorGap | Code_PayloadTooLarge | Code_RateLimited
  | Code_DependencyUnavailable | Code_NotReady | Code_ContractRange

datatype client_error =
  InsecureUrl | Client_Unauthenticated | Client_Refused error_code | Client_Unavailable string

record client_enrollment =
  ce_host_id :: host_id
  ce_credential_generation :: generation
  ce_credential :: string

text \<open>The requests of the agent: each with the host, the credential it presents and its body.\<close>

record ('j, 'c) fleet_client =
  fc_enroll :: "string \<Rightarrow> string \<Rightarrow> string option \<Rightarrow> 'c \<Rightarrow> (client_error + client_enrollment) \<times> 'c"
  fc_exchange_rotation :: "host_id \<Rightarrow> string \<Rightarrow> operation_id \<Rightarrow> string \<Rightarrow> 'c \<Rightarrow> (client_error + unit) \<times> 'c"
  fc_acknowledge_rotation :: "host_id \<Rightarrow> string \<Rightarrow> operation_id \<Rightarrow> 'c \<Rightarrow> (client_error + unit) \<times> 'c"
  fc_poll_commands :: "host_id \<Rightarrow> string \<Rightarrow> authority_session_id \<Rightarrow> 'c \<Rightarrow> (client_error + 'j list) \<times> 'c"
  fc_bootstrap :: "host_id \<Rightarrow> string \<Rightarrow> string \<Rightarrow> 'c \<Rightarrow> (client_error + string) \<times> 'c"
  fc_post_result :: "host_id \<Rightarrow> string \<Rightarrow> agent_command_result \<Rightarrow> 'c \<Rightarrow> (client_error + unit) \<times> 'c"

text \<open>How \<^verbatim>\<open>send\<close> reads a reply: its status, whether the body parses, the error code in it.\<close>

definition send_reply :: "nat \<Rightarrow> 'a option \<Rightarrow> error_code option \<Rightarrow> client_error + 'a" where
  "send_reply status body code =
     (if 200 \<le> status \<and> status < 300 then ok_or body (Client_Unavailable ''body'')
      else if status = 401 then Inl Client_Unauthenticated
      else case code of
             Some c \<Rightarrow> if \<not> (500 \<le> status \<and> status < 600) \<and> status \<noteq> 429
                       then Inl (Client_Refused c) else Inl (Client_Unavailable ''status'')
           | None \<Rightarrow> Inl (Client_Unavailable ''status''))"

text \<open>Plain HTTP is for the loopback only.\<close>

definition server_url_allowed :: "string \<Rightarrow> string option \<Rightarrow> bool" where
  "server_url_allowed scheme host \<longleftrightarrow>
     \<not> (scheme \<noteq> ''https'' \<and>
        \<not> (scheme = ''http'' \<and> host \<in> {Some ''127.0.0.1'', Some ''localhost'', Some ''[::1]''}))"

type_synonym ('w, 'c) supervised = "'w agent \<times> 'c"

text \<open>A request reaches the server and leaves the agent as it was.\<close>

definition ask :: "('c \<Rightarrow> (client_error + 'a) \<times> 'c) \<Rightarrow> ('w, 'c) supervised \<Rightarrow>
   (client_error + 'a) \<times> ('w, 'c) supervised" where
  "ask f s = (let (r, c) = f (snd s) in (r, (fst s, c)))"

definition internal :: "'e + 'a \<Rightarrow> client_error + 'a" where
  "internal r = map_err (\<lambda>_. Client_Unavailable ''internal'') r"

definition with_journal ::
  "(journal \<Rightarrow> journal_error + ('a \<times> journal)) \<Rightarrow> ('w, 'c) supervised \<Rightarrow>
   (client_error + 'a) \<times> ('w, 'c) supervised" where
  "with_journal f s =
     (case f (fst (fst s)) of
        Inl e \<Rightarrow> (Inl (Client_Unavailable ''internal''), s)
      | Inr (a, j) \<Rightarrow> (Inr a, ((j, snd (fst s)), snd s)))"

definition supervisor_now :: "externals \<Rightarrow> i64 \<Rightarrow> client_error + wire_timestamp" where
  "supervisor_now x millis = internal (wire_timestamp_from_millis (x_year_of x) millis)"

section \<open>Enrollment and rotation\<close>

definition enroll_replacing ::
  "externals \<Rightarrow> ('j, 'c) fleet_client \<Rightarrow> string \<Rightarrow> string \<Rightarrow> string option \<Rightarrow> ('w, 'c) supervised \<Rightarrow>
   (client_error + unit) \<times> ('w, 'c) supervised" where
  "enroll_replacing x cl name code fingerprint s =
     abind (ask (fc_enroll cl code name fingerprint) s) (\<lambda>e s.
     abind (internal (host_epoch_new 1), s) (\<lambda>epoch s.
     with_journal (\<lambda>j. rbind (store_identity x \<lparr>idn_host_id = ce_host_id e, idn_host_epoch = epoch,
            idn_credential = ce_credential e, idn_credential_generation = ce_credential_generation e\<rparr> j)
         (\<lambda>j. Inr ((), j))) s))"

definition enroll ::
  "externals \<Rightarrow> ('j, 'c) fleet_client \<Rightarrow> string \<Rightarrow> string \<Rightarrow> string option \<Rightarrow> ('w, 'c) supervised \<Rightarrow>
   (client_error + unit) \<times> ('w, 'c) supervised" where
  "enroll x cl name code fingerprint s =
     abind (internal (journal_identity x (fst (fst s))), s) (\<lambda>i s.
     if i \<noteq> None then (Inl (Client_Unavailable ''this agent is already enrolled''), s)
     else enroll_replacing x cl name code fingerprint s)"

record pending_rotation =
  pn_operation_id :: operation_id
  pn_next_generation :: generation

definition rotate ::
  "externals \<Rightarrow> ('j, 'c) fleet_client \<Rightarrow> host_id \<Rightarrow> string \<Rightarrow> pending_rotation \<Rightarrow> string \<Rightarrow>
   ('w, 'c) supervised \<Rightarrow> (client_error + string) \<times> ('w, 'c) supervised" where
  "rotate x cl host credential p fresh s =
     abind (with_journal (rotation_secret x (pn_operation_id p) (pn_next_generation p) fresh) s)
       (\<lambda>secret s.
     abind (ask (fc_exchange_rotation cl host credential (pn_operation_id p) secret) s) (\<lambda>_ s.
     abind (ask (fc_acknowledge_rotation cl host secret (pn_operation_id p)) s) (\<lambda>_ s.
     abind (with_journal (\<lambda>j. rbind (finish_rotation secret (pn_next_generation p) j)
              (\<lambda>j. Inr ((), j))) s) (\<lambda>_ s.
     (Inr secret, s)))))"

section \<open>Delivering results\<close>

definition RESULT_REDELIVERY_WINDOW :: int where "RESULT_REDELIVERY_WINDOW = 24 * 60 * 60 * 1000"

text \<open>A refusal is final, except for a rate limit; any other error ends the session.\<close>

fun refusal_is_final :: "client_error \<Rightarrow> bool" where
  "refusal_is_final (Client_Refused code) = (code \<noteq> Code_RateLimited)"
| "refusal_is_final _ = False"

definition post_final ::
  "('j, 'c) fleet_client \<Rightarrow> host_id \<Rightarrow> string \<Rightarrow> agent_command_result \<Rightarrow> ('w, 'c) supervised \<Rightarrow>
   (client_error + unit) \<times> ('w, 'c) supervised" where
  "post_final cl host credential r s =
     (case ask (fc_post_result cl host credential r) s of
        (Inr _, s) \<Rightarrow> (Inr (), s)
      | (Inl e, s) \<Rightarrow> (if refusal_is_final e then Inr () else Inl e, s))"

definition result_or_leftovers ::
  "externals \<Rightarrow> environment_codec \<Rightarrow> 'w dispatcher \<Rightarrow> agent_command_envelope \<Rightarrow>
   agent_command_result option \<Rightarrow> i64 \<Rightarrow> string \<Rightarrow> uuid \<Rightarrow> ('w, 'c) supervised \<Rightarrow>
   (client_error + agent_command_result) \<times> ('w, 'c) supervised" where
  "result_or_leftovers x k d e r millis boot fresh s =
     (case r of
        Some r \<Rightarrow> (Inr r, s)
      | None \<Rightarrow>
          abind (supervisor_now x millis, s) (\<lambda>now s.
          let (r, a) = interrupted x k d e now boot fresh (fst s) in (internal r, (a, snd s))))"

definition mark_delivered ::
  "externals \<Rightarrow> command_id \<Rightarrow> ('w, 'c) supervised \<Rightarrow> (client_error + unit) \<times> ('w, 'c) supervised" where
  "mark_delivered x c s = (Inr (), ((delivered x c (fst (fst s)), snd (fst s)), snd s))"

fun deliver_each ::
  "externals \<Rightarrow> environment_codec \<Rightarrow> 'w dispatcher \<Rightarrow> ('j, 'c) fleet_client \<Rightarrow> host_id \<Rightarrow> string \<Rightarrow>
   i64 \<Rightarrow> string \<Rightarrow> (nat \<Rightarrow> uuid) \<Rightarrow>
   (agent_command_envelope \<times> agent_command_result option) list \<Rightarrow> ('w, 'c) supervised \<Rightarrow>
   (client_error + unit) \<times> ('w, 'c) supervised" where
  "deliver_each x k d cl host credential millis boot fresh [] s = (Inr (), s)"
| "deliver_each x k d cl host credential millis boot fresh ((e, r) # rest) s =
     abind (result_or_leftovers x k d e r millis boot (fresh (length rest)) s) (\<lambda>r s.
     abind (post_final cl host credential r s) (\<lambda>_ s.
     abind (mark_delivered x (env_command_id e) s) (\<lambda>_ s.
     deliver_each x k d cl host credential millis boot fresh rest s)))"

definition deliver_results ::
  "externals \<Rightarrow> environment_codec \<Rightarrow> 'w dispatcher \<Rightarrow> ('j, 'c) fleet_client \<Rightarrow> host_id \<Rightarrow> string \<Rightarrow>
   i64 \<Rightarrow> string \<Rightarrow> (nat \<Rightarrow> uuid) \<Rightarrow> ('w, 'c) supervised \<Rightarrow>
   (client_error + unit) \<times> ('w, 'c) supervised" where
  "deliver_results x k d cl host credential millis boot fresh s =
     abind (internal (undelivered x (millis - RESULT_REDELIVERY_WINDOW) (fst (fst s))), s)
       (\<lambda>entries s. deliver_each x k d cl host credential millis boot fresh entries s)"

section \<open>The command loop\<close>

record session_context =
  sc_host_id :: host_id
  sc_host_epoch :: host_epoch
  sc_control_plane_incarnation :: control_plane_incarnation
  sc_authority_session_id :: authority_session_id

record authority =
  au_credential :: string
  au_generation :: generation
  au_expires_at :: "wire_timestamp option"

text \<open>Whether the session holds work authority at a time; an unreadable clock counts as expired.\<close>

definition holds_authority :: "externals \<Rightarrow> authority \<Rightarrow> i64 \<Rightarrow> bool" where
  "holds_authority x a millis =
     (case au_expires_at a of
        None \<Rightarrow> False
      | Some expires \<Rightarrow>
          \<not> expires \<le> (case supervisor_now x millis of Inl _ \<Rightarrow> expires | Inr now \<Rightarrow> now))"

definition expected_session :: "session_context \<Rightarrow> authority \<Rightarrow> wire_timestamp \<Rightarrow> expected_agent_session" where
  "expected_session ctx a expires =
     \<lparr>eas_host_id = sc_host_id ctx, eas_host_epoch = sc_host_epoch ctx,
      eas_control_plane_incarnation = sc_control_plane_incarnation ctx,
      eas_authority_session_id = sc_authority_session_id ctx,
      eas_credential_generation = au_generation a, eas_authority_expires_at = expires\<rparr>"

text \<open>One polled command: its material is fetched, it is dispatched, its result is posted.\<close>

definition run_command ::
  "externals \<Rightarrow> environment_codec \<Rightarrow> (u8 list \<Rightarrow> agent_command_envelope option) \<Rightarrow>
   ('j \<Rightarrow> u8 list option) \<Rightarrow> ('j \<Rightarrow> string option) \<Rightarrow> 'w dispatcher \<Rightarrow> ('j, 'c) fleet_client \<Rightarrow>
   session_context \<Rightarrow> authority \<Rightarrow> expected_agent_session \<Rightarrow> authority \<Rightarrow> i64 \<Rightarrow> string \<Rightarrow>
   (nat \<Rightarrow> uuid) \<Rightarrow> 'j \<Rightarrow> ('w, 'c) supervised \<Rightarrow> (client_error + unit) \<times> ('w, 'c) supervised" where
  "run_command x k fs to_vec reference d cl ctx current session latest millis boot fresh command s =
     abind (internal (ok_or (to_vec command) (Journal_Storage ''json'')), s) (\<lambda>body s.
     let (material, s) =
           (case reference command of
              Some ref \<Rightarrow>
                let (r, s) = ask (fc_bootstrap cl (sc_host_id ctx) (au_credential current) ref) s
                in (case r of Inl _ \<Rightarrow> None | Inr m \<Rightarrow> Some m, s)
            | None \<Rightarrow> (None, s)) in
     abind (supervisor_now x millis, s) (\<lambda>now s.
     let (r, a) = dispatch_with x k fs d body session now material millis boot fresh (fst s);
         s = (a, snd s) in
     case r of
       Inl _ \<Rightarrow> (Inr (), s)
     | Inr result \<Rightarrow>
         abind (ask (fc_post_result cl (sc_host_id ctx) (au_credential latest) result) s) (\<lambda>_ s.
         mark_delivered x (res_command_id result) s)))"

section \<open>The run loop\<close>

datatype supervisor_stop = Stop_Shutdown | Stop_Incompatible | Stop_CredentialRejected

definition MIN_BACKOFF :: nat where "MIN_BACKOFF = 1000"
definition MAX_BACKOFF :: nat where "MAX_BACKOFF = 30000"

text \<open>The milliseconds from which the delay is drawn; \<open>draw\<close> is the random generator's range.\<close>

definition backoff_ceiling :: "u32 \<Rightarrow> nat" where
  "backoff_ceiling failures = min (MIN_BACKOFF * 2 ^ unat (min failures 5)) MAX_BACKOFF"

definition backoff :: "(nat \<Rightarrow> nat \<Rightarrow> nat) \<Rightarrow> u32 \<Rightarrow> nat" where
  "backoff draw failures = draw MIN_BACKOFF (backoff_ceiling failures)"

text \<open>What the loop does with the end of a session: stop, or wait and try again.\<close>

definition after_session ::
  "(nat \<Rightarrow> nat \<Rightarrow> nat) \<Rightarrow> client_error + supervisor_stop \<Rightarrow> u32 \<Rightarrow> supervisor_stop + (nat \<times> u32)" where
  "after_session draw r failures =
     (case r of
        Inr stop \<Rightarrow> Inl stop
      | Inl e \<Rightarrow>
          if e = Client_Unauthenticated then Inl Stop_CredentialRejected
          else Inr (backoff draw failures, if failures = - 1 then failures else failures + 1))"

end
