(* ===== verification/Commands.thy ===== *)
theory Commands
  imports Registry Ledger
begin

text \<open>
  Command delivery and result intake
  (\<^verbatim>\<open>crates/gridops-core/src/fleet/registry/commands.rs\<close>). Every operation is one
  transaction: an error leaves the database as it was, a success returns it updated.
\<close>

section \<open>Releasing a placement\<close>

text \<open>Registration material is erased once a start resolves.\<close>

definition erase_bootstrap :: "string \<Rightarrow> i64 \<Rightarrow> fleet_db \<Rightarrow> fleet_db" where
  "erase_bootstrap pid now db =
     db\<lparr>bootstrap := update_where (\<lambda>b. bm_placement_id b = pid \<and> bm_erased_at b = None)
          (\<lambda>b. b\<lparr>bm_sealed := None, bm_erased_at := Some now\<rparr>) (bootstrap db)\<rparr>"

definition release :: "string \<Rightarrow> i64 \<Rightarrow> fleet_db \<Rightarrow> registry_error + fleet_db" where
  "release pid now db =
     rbind (map_err registry_db_error
              (release_allocations
                (db\<lparr>placements := update_where (\<lambda>p. wp_id p = pid) (record_absence now)
                     (placements db)\<rparr>) pid now)) (\<lambda>(db', _). Inr db')"

definition set_state_where ::
  "(placement_row \<Rightarrow> bool) \<Rightarrow> string \<Rightarrow> i64 \<Rightarrow> fleet_db \<Rightarrow> fleet_db" where
  "set_state_where q state now db =
     db\<lparr>placements := update_where q (set_placement_state state now) (placements db)\<rparr>"

definition placement_is_uncertain :: "fleet_db \<Rightarrow> string \<Rightarrow> bool" where
  "placement_is_uncertain db pid \<longleftrightarrow>
     (\<exists>p \<in> set (placements db). wp_id p = pid \<and> wp_state p = ''uncertain'')"

definition unsettled :: "fleet_db \<Rightarrow> string \<Rightarrow> bool" where
  "unsettled db pid \<longleftrightarrow>
     (\<exists>c \<in> set (commands db). hc_placement_id c = Some pid \<and> hc_state c = ''uncertain'' \<and>
        hc_kind c \<noteq> ''inspect'')"

definition keep_uncertain_while_unsettled :: "string \<Rightarrow> i64 \<Rightarrow> fleet_db \<Rightarrow> fleet_db" where
  "keep_uncertain_while_unsettled pid now db =
     set_state_where (\<lambda>p. wp_id p = pid \<and> wp_state p \<noteq> ''uncertain'' \<and> unsettled db (wp_id p))
       ''uncertain'' now db"

section \<open>Applying an outcome\<close>

fun in_progress :: "command_outcome \<Rightarrow> bool" where
  "in_progress (Outcome_Accepted _) = True"
| "in_progress (Outcome_Running _) = True"
| "in_progress (Outcome_Succeeded _) = False"
| "in_progress (Outcome_Failed _ _ _) = False"
| "in_progress (Outcome_Uncertain _ _) = False"

fun is_cleaned :: "success_evidence \<Rightarrow> bool" where
  "is_cleaned (Ev_Cleaned _ _ _) = True"
| "is_cleaned _ = False"

definition commit_allocations :: "string \<Rightarrow> i64 \<Rightarrow> fleet_db \<Rightarrow> fleet_db" where
  "commit_allocations pid now db =
     db\<lparr>allocations := update_where (\<lambda>a. ca_placement_id a = pid \<and> ca_state a = ''reserved'')
          (\<lambda>a. a\<lparr>ca_state := ''committed'', ca_updated_at := now\<rparr>) (allocations db)\<rparr>"

text \<open>The state an outcome moves the placement to, with the changes that come before it.\<close>

definition outcome_effect ::
  "string \<Rightarrow> string \<Rightarrow> command_outcome \<Rightarrow> i64 \<Rightarrow> fleet_db \<Rightarrow>
   registry_error + (fleet_db \<times> string option)" where
  "outcome_effect pid kind outcome now db =
     (case outcome of
        Outcome_Accepted _ \<Rightarrow> Inr (db, None)
      | Outcome_Running _ \<Rightarrow> Inr (db, None)
      | Outcome_Succeeded evidence \<Rightarrow>
          (if kind = ''prepare_environment'' then Inr (db, Some ''registering'')
           else if kind = ''start_runner'' then
             Inr (commit_allocations pid now db, Some ''running'')
           else if kind = ''stop'' then Inr (db, Some ''stopped'')
           else if kind = ''cleanup'' then
             (if is_cleaned evidence
              then rbind (release pid now db) (\<lambda>db'. Inr (db', Some ''cleaned''))
              else Inr (db, None))
           else Inr (db, None))
      | Outcome_Failed _ _ _ \<Rightarrow>
          (if kind \<in> {''prepare_environment'', ''start_runner''}
           then rbind (release pid now db) (\<lambda>db'. Inr (db', Some ''failed''))
           else Inr (db, None))
      | Outcome_Uncertain _ _ \<Rightarrow>
          (if kind = ''prepare_environment''
           then rbind (release pid now db) (\<lambda>db'. Inr (db', Some ''failed''))
           else if kind = ''inspect'' then Inr (db, None)
           else Inr (db, Some ''uncertain'')))"

definition apply_to_placement ::
  "string \<Rightarrow> string \<Rightarrow> command_outcome \<Rightarrow> i64 \<Rightarrow> fleet_db \<Rightarrow> registry_error + fleet_db" where
  "apply_to_placement pid kind outcome now db =
     rbind (outcome_effect pid kind outcome now
              (if kind = ''start_runner'' \<and> \<not> in_progress outcome
               then erase_bootstrap pid now db else db)) (\<lambda>(db', next).
     case next of
       None \<Rightarrow> Inr db'
     | Some state \<Rightarrow> Inr (set_state_where (\<lambda>p. wp_id p = pid) state now db'))"

section \<open>Delivery\<close>

definition REDELIVERY_MILLIS :: i64 where "REDELIVERY_MILLIS = 60000"

definition DELIVERY_MARGIN_MILLIS :: i64 where "DELIVERY_MARGIN_MILLIS = 5000"

definition MAX_ATTEMPTS :: i64 where "MAX_ATTEMPTS = 10"

definition set_command_state :: "string \<Rightarrow> string \<Rightarrow> fleet_db \<Rightarrow> fleet_db" where
  "set_command_state cid state db =
     db\<lparr>commands := update_where (\<lambda>c. hc_id c = cid) (\<lambda>c. c\<lparr>hc_state := state\<rparr>) (commands db)\<rparr>"

text \<open>
  The rows \<^verbatim>\<open>cancel_undeliverable\<close> selects. \<^verbatim>\<open>IS NOT\<close> compares nulls as values.
\<close>

definition undeliverable :: "externals \<Rightarrow> host_row \<Rightarrow> i64 \<Rightarrow> command_row \<Rightarrow> bool" where
  "undeliverable x h now c \<longleftrightarrow>
     (hc_state c = ''delivered'' \<and> hc_deadline_at c \<le> now) \<or>
     (hc_state c = ''pending'' \<and>
       (hc_deadline_at c \<le> now + DELIVERY_MARGIN_MILLIS \<or> fh_agent_session_id h = None \<or>
        x_payload_session x (hc_payload_json c) \<noteq> fh_agent_session_id h \<or>
        hc_host_epoch c \<noteq> fh_epoch h))"

definition undeliverable_rows :: "externals \<Rightarrow> fleet_db \<Rightarrow> string \<Rightarrow> i64 \<Rightarrow> command_row list" where
  "undeliverable_rows x db host now =
     [c. c \<leftarrow> commands db, h \<leftarrow> hosts db,
       fh_id h = hc_host_id c \<and> hc_host_id c = host \<and> undeliverable x h now c]"

definition fail_released :: "string \<Rightarrow> i64 \<Rightarrow> fleet_db \<Rightarrow> registry_error + fleet_db" where
  "fail_released pid now db =
     rbind (release pid now (erase_bootstrap pid now db)) (\<lambda>db'.
     Inr (set_state_where (\<lambda>p. wp_id p = pid) ''failed'' now db'))"

definition cancel_one :: "i64 \<Rightarrow> fleet_db \<Rightarrow> command_row \<Rightarrow> registry_error + fleet_db" where
  "cancel_one now db c =
     (let delivered = (hc_state c = ''delivered'');
          db1 = set_command_state (hc_id c) (if delivered then ''uncertain'' else ''cancelled'') db
      in case hc_placement_id c of
           None \<Rightarrow> Inr db1
         | Some pid \<Rightarrow>
             if delivered \<and> hc_kind c = ''inspect'' then Inr db1
             else if delivered \<and> hc_kind c \<noteq> ''prepare_environment'' then
               Inr (set_state_where (\<lambda>p. wp_id p = pid) ''uncertain'' now db1)
             else if hc_kind c = ''prepare_environment'' \<or> hc_kind c = ''start_runner'' then
               fail_released pid now db1
             else Inr db1)"

definition cancel_undeliverable ::
  "externals \<Rightarrow> string \<Rightarrow> i64 \<Rightarrow> fleet_db \<Rightarrow> registry_error + fleet_db" where
  "cancel_undeliverable x host now db =
     rfold (cancel_one now) (undeliverable_rows x db host now) db"

definition work_authorized :: "fleet_db \<Rightarrow> string \<Rightarrow> string \<Rightarrow> i64 \<Rightarrow> bool" where
  "work_authorized db host session now =
     (case find (\<lambda>h. fh_id h = host) (hosts db) of
        None \<Rightarrow> False
      | Some h \<Rightarrow> fh_agent_session_id h = Some session \<and>
          (case fh_authority_expires_at h of None \<Rightarrow> False | Some t \<Rightarrow> t > now))"

definition deliverable :: "externals \<Rightarrow> fleet_db \<Rightarrow> string \<Rightarrow> string \<Rightarrow> i64 \<Rightarrow> command_row \<Rightarrow> bool"
  where
  "deliverable x db host session now c \<longleftrightarrow>
     hc_host_id c = host \<and> hc_deadline_at c > now + DELIVERY_MARGIN_MILLIS \<and>
     x_payload_session x (hc_payload_json c) = Some session \<and>
     (hc_state c = ''pending'' \<or>
      (hc_state c = ''delivered'' \<and> hc_attempt_count c < MAX_ATTEMPTS \<and>
       \<not> (\<exists>a \<in> set (attempts db). at_command_id a = hc_id c \<and>
            at_recorded_at a > now - REDELIVERY_MILLIS)))"

text \<open>
  One delivery: the constraints of the two tables are the bound of ten attempts and one row per
  attempt.
\<close>

definition deliver :: "externals \<Rightarrow> i64 \<Rightarrow> fleet_db \<Rightarrow> command_row \<Rightarrow>
   registry_error + (fleet_db \<times> agent_command_envelope)" where
  "deliver x now db c =
     (let attempt = hc_attempt_count c + 1 in
      rbind (ensure (0 \<le> attempt \<and> attempt \<le> 10) (Reg_Database ''CHECK'')) (\<lambda>_.
      rbind (map_err registry_db_error
               (insert_unique (\<lambda>a. (at_command_id a, at_attempt a))
                  \<lparr>at_command_id = hc_id c, at_attempt = attempt, at_state = ''delivered'',
                   at_recorded_at = now\<rparr> (attempts db))) (\<lambda>t.
      rbind (ok_or (x_envelope_from_str x (hc_payload_json c)) Reg_Json) (\<lambda>envelope.
      Inr (db\<lparr>commands := update_where (\<lambda>d. hc_id d = hc_id c)
                (\<lambda>d. d\<lparr>hc_state := ''delivered'', hc_attempt_count := attempt\<rparr>) (commands db),
              attempts := t\<rparr>, envelope)))))"

definition poll_commands ::
  "externals \<Rightarrow> fleet_db \<Rightarrow> authenticated_host \<Rightarrow> authority_session_id \<Rightarrow> i64 \<Rightarrow>
   registry_error + (fleet_db \<times> agent_command_envelope list)" where
  "poll_commands x db a session now =
     (let host = x_show_uuid x (host_uuid (ah_host_id a));
          sid = x_show_uuid x (authority_session_uuid session) in
      rbind (ensure_authenticated_generation x db a now) (\<lambda>_.
      if \<not> (\<exists>c \<in> set (commands db). hc_host_id c = host \<and>
              hc_state c \<in> {''pending'', ''delivered''}) then Inr (db, [])
      else
        rbind (cancel_undeliverable x host now db) (\<lambda>db1.
        if \<not> work_authorized db1 host sid now then Inr (db1, [])
        else case sort_key hc_cursor (filter (deliverable x db1 host sid now) (commands db1)) of
          [] \<Rightarrow> Inr (db1, [])
        | c # _ \<Rightarrow> rbind (deliver x now db1 c) (\<lambda>(db2, e). Inr (db2, [e])))))"

section \<open>Registration material\<close>

definition claim_bootstrap ::
  "externals \<Rightarrow> (string \<Rightarrow> string option) \<Rightarrow> fleet_db \<Rightarrow> authenticated_host \<Rightarrow>
   bootstrap_reference \<Rightarrow> i64 \<Rightarrow> fleet_db \<times> (registry_error + string)" where
  "claim_bootstrap x vault_open db a reference now =
     (case ensure_authenticated_generation x db a now of
        Inl e \<Rightarrow> (db, Inl e)
      | Inr _ \<Rightarrow>
          (let ref = x_show_uuid x (bootstrap_uuid reference) in
           case find (\<lambda>b. bm_reference b = ref \<and>
                   bm_host_id b = x_show_uuid x (host_uuid (ah_host_id a)) \<and>
                   bm_sealed b \<noteq> None \<and> bm_expires_at b > now) (bootstrap db) of
             None \<Rightarrow> (db, Inl Reg_NotFound)
           | Some b \<Rightarrow>
               (db\<lparr>bootstrap := update_where (\<lambda>b. bm_reference b = ref)
                     (\<lambda>b. b\<lparr>bm_claimed_at :=
                        Some (case bm_claimed_at b of Some t \<Rightarrow> t | None \<Rightarrow> now)\<rparr>)
                     (bootstrap db)\<rparr>,
                ok_or (vault_open (the (bm_sealed b)))
                  (Reg_InvalidRequest ''bootstrap material is unreadable''))))"

section \<open>Results\<close>

datatype result_disposition = Applied | Stale_Result

fun outcome_state :: "command_outcome \<Rightarrow> string" where
  "outcome_state (Outcome_Accepted _) = ''accepted''"
| "outcome_state (Outcome_Running _) = ''running''"
| "outcome_state (Outcome_Succeeded _) = ''succeeded''"
| "outcome_state (Outcome_Failed _ _ _) = ''failed''"
| "outcome_state (Outcome_Uncertain _ _) = ''uncertain''"

definition upsert_attempt :: "string \<Rightarrow> i64 \<Rightarrow> string \<Rightarrow> i64 \<Rightarrow> fleet_db \<Rightarrow> fleet_db" where
  "upsert_attempt cid attempt state now db =
     (let key = (\<lambda>a. at_command_id a = cid \<and> at_attempt a = attempt) in
      db\<lparr>attempts :=
        (if \<exists>a \<in> set (attempts db). key a
         then update_where key (\<lambda>a. a\<lparr>at_state := state, at_recorded_at := now\<rparr>) (attempts db)
         else attempts db @ [\<lparr>at_command_id = cid, at_attempt = attempt, at_state = state,
                              at_recorded_at = now\<rparr>])\<rparr>)"

definition insert_result :: "result_row \<Rightarrow> fleet_db \<Rightarrow> registry_error + fleet_db" where
  "insert_result row db =
     rbind (map_err registry_db_error (insert_unique rr_id row (results db))) (\<lambda>_.
     rbind (map_err registry_db_error
              (insert_unique (\<lambda>r. (rr_command_id r, rr_result_hash r)) row (results db))) (\<lambda>t.
     Inr (db\<lparr>results := t\<rparr>)))"

text \<open>A command that went uncertain with no applied result still waits for its late result.\<close>

definition late_result :: "fleet_db \<Rightarrow> command_row \<Rightarrow> bool" where
  "late_result db c \<longleftrightarrow>
     hc_state c = ''uncertain'' \<and>
     \<not> (\<exists>r \<in> set (results db). rr_command_id r = hc_id c \<and> rr_disposition r = ''applied'')"

definition result_terminal :: "fleet_db \<Rightarrow> command_row \<Rightarrow> bool" where
  "result_terminal db c \<longleftrightarrow>
     \<not> late_result db c \<and>
     hc_state c \<in> {''succeeded'', ''failed'', ''uncertain'', ''cancelled''}"

definition settle_result ::
  "string \<Rightarrow> command_row \<Rightarrow> bool \<Rightarrow> command_outcome \<Rightarrow> i64 \<Rightarrow> fleet_db \<Rightarrow> registry_error + fleet_db"
  where
  "settle_result host c late outcome now db =
     (let db1 = set_command_state (hc_id c) (outcome_state outcome) db;
          db2 = upsert_attempt (hc_id c) (max (hc_attempt_count c) 1) (outcome_state outcome) now db1
      in rbind (case hc_placement_id c of
                  None \<Rightarrow> Inr db2
                | Some pid \<Rightarrow>
                    if \<not> late then apply_to_placement pid (hc_kind c) outcome now db2
                    else if placement_is_uncertain db2 pid then
                      rbind (apply_to_placement pid (hc_kind c) outcome now db2) (\<lambda>db3.
                      Inr (keep_uncertain_while_unsettled pid now db3))
                    else Inr db2) (\<lambda>db3.
         Inr (audit_and_event (Some host) ''fleet.command.result'' db3)))"

definition record_command_result ::
  "externals \<Rightarrow> fleet_db \<Rightarrow> authenticated_host \<Rightarrow> agent_command_result \<Rightarrow> i64 \<Rightarrow>
   registry_error + (fleet_db \<times> result_disposition)" where
  "record_command_result x db a result now =
     (let host = x_show_uuid x (host_uuid (ah_host_id a));
          cid = x_show_uuid x (command_uuid (res_command_id result)) in
      rbind (ensure_authenticated_generation x db a now) (\<lambda>_.
      rbind (ok_or (find (\<lambda>c. hc_id c = cid \<and> hc_host_id c = host) (commands db)) Reg_NotFound)
        (\<lambda>c.
      rbind (ok_or (x_envelope_from_str x (hc_payload_json c)) Reg_Json) (\<lambda>envelope.
      rbind (map_err (\<lambda>_. Reg_InvalidRequest ''result does not match its command'')
               (result_validate_against (x_codec x) result envelope)) (\<lambda>_.
      rbind (ok_or (x_result_to_string x result) Reg_Json) (\<lambda>encoded.
      let h = hash_token x encoded in
      case find (\<lambda>r. rr_command_id r = cid \<and> rr_result_hash r = h) (results db) of
        Some r \<Rightarrow> Inr (db, if rr_disposition r = ''applied'' then Applied else Stale_Result)
      | None \<Rightarrow>
          (let terminal = result_terminal db c in
           rbind (insert_result
                    \<lparr>rr_id = x_show_uuid x (result_uuid (res_result_id result)),
                     rr_command_id = cid, rr_result_hash = h,
                     rr_disposition = (if terminal then ''stale'' else ''applied''),
                     rr_result_json = encoded, rr_received_at = now\<rparr> db) (\<lambda>db1.
           if terminal then Inr (db1, Stale_Result)
           else rbind (settle_result host c (late_result db c) (res_outcome result) now db1)
                  (\<lambda>db2. Inr (db2, Applied))))))))))"

section \<open>Commands a reconnecting agent never received\<close>

definition unreceived_rows ::
  "externals \<Rightarrow> fleet_db \<Rightarrow> string \<Rightarrow> i64 \<Rightarrow> string \<Rightarrow> command_row list" where
  "unreceived_rows x db host epoch session =
     filter (\<lambda>c. hc_host_id c = host \<and> hc_host_epoch c = epoch \<and>
       hc_state c \<in> {''delivered'', ''uncertain''} \<and>
       x_payload_session x (hc_payload_json c) \<noteq> Some session \<and>
       \<not> (\<exists>r \<in> set (results db). rr_command_id r = hc_id c)) (commands db)"

definition settle_one ::
  "string \<Rightarrow> i64 \<Rightarrow> fleet_db \<times> string list \<Rightarrow> command_row \<Rightarrow>
   registry_error + (fleet_db \<times> string list)" where
  "settle_one host now s c =
     (let (db, touched) = s;
          db1 = audit_and_event (Some host) ''fleet.command.unreceived''
                  (set_command_state (hc_id c) ''cancelled'' db)
      in case hc_placement_id c of
           None \<Rightarrow> Inr (db1, touched)
         | Some pid \<Rightarrow>
             if hc_kind c = ''prepare_environment'' \<or> hc_kind c = ''start_runner'' then
               rbind (release pid now (erase_bootstrap pid now db1)) (\<lambda>db2.
               Inr (set_state_where (\<lambda>p. wp_id p = pid \<and>
                      wp_state p \<in> {''preparing'', ''registering'', ''starting'', ''uncertain''})
                      ''failed'' now db2, touched))
             else if hc_kind c \<noteq> ''inspect'' then Inr (db1, touched @ [pid])
             else Inr (db1, touched))"

definition resume_one :: "i64 \<Rightarrow> fleet_db \<Rightarrow> string \<Rightarrow> fleet_db" where
  "resume_one now db pid =
     keep_uncertain_while_unsettled pid now
       (set_state_where (\<lambda>p. wp_id p = pid \<and> wp_state p = ''uncertain'') ''running'' now db)"

definition settle_unreceived ::
  "externals \<Rightarrow> host_id \<Rightarrow> i64 \<Rightarrow> string \<Rightarrow> i64 \<Rightarrow> fleet_db \<Rightarrow> registry_error + fleet_db" where
  "settle_unreceived x host epoch session now db =
     (let hid = x_show_uuid x (host_uuid host) in
      rbind (rfold (settle_one hid now) (unreceived_rows x db hid epoch session) (db, []))
        (\<lambda>(db', touched). Inr (foldl (resume_one now) db' touched)))"

section \<open>Every operation only gives capacity back\<close>

named_theorems capacity_intros \<open>operations that keep the capacity contract\<close>

lemma release_permitted_frame:
  "placements db' = placements db \<Longrightarrow> release_permitted db' pid = release_permitted db pid"
  by (simp add: release_permitted_def)

lemma other_tables_step [capacity_intros]:
  "capacity_step db (erase_bootstrap pid now db)"
  "capacity_step db (set_command_state cid state db)"
  "capacity_step db (audit_and_event host action db)"
  "capacity_step db (upsert_attempt cid n state now db)"
  by (intro capacity_step_frame;
      simp add: erase_bootstrap_def set_command_state_def audit_and_event_def upsert_attempt_def
        Let_def release_permitted_def)+

lemma set_state_where_step [capacity_intros]: "capacity_step db (set_state_where q state now db)"
proof (rule capacity_step_frame)
  show "release_permitted (set_state_where q state now db) pid" if "release_permitted db pid" for pid
    using that
    by (rule release_permitted_update [where q = q and f = "set_placement_state state now"])
      (simp_all add: set_state_where_def)
qed (simp_all add: set_state_where_def map_update_where)

lemma keep_uncertain_step [capacity_intros]:
  "capacity_step db (keep_uncertain_while_unsettled pid now db)"
  unfolding keep_uncertain_while_unsettled_def by (rule set_state_where_step)

lemma commit_allocations_step [capacity_intros]: "capacity_step db (commit_allocations pid now db)"
proof -
  let ?db = "commit_allocations pid now db"
  have "mset (map claim_of (filter charged (update_where
      (\<lambda>a. ca_placement_id a = pid \<and> ca_state a = ''reserved'')
      (\<lambda>a. a\<lparr>ca_state := ''committed'', ca_updated_at := now\<rparr>) as))) =
    mset (map claim_of (filter charged as))" for as
    by (induction as) (auto simp: update_where_Cons claim_of_def charged_def allocation_dim_def)
  then have "live ?db = filter_mset (\<lambda>c. fst c \<notin> {}) (live db)"
    by (simp add: live_def commit_allocations_def)
  moreover have "list_all2 allocation_kept (allocations db) (allocations ?db)"
    by (simp add: commit_allocations_def update_where_def list_all2_map2 list_all2_same
        allocation_kept_def claim_of_def allocation_dim_def fun_eq_iff)
  moreover have "\<forall>a \<in> set (allocations ?db). charged a \<or> a \<in> set (allocations db)"
    by (auto simp: commit_allocations_def set_update_where charged_def)
  ultimately show ?thesis
    unfolding capacity_step_def
    by (auto simp: commit_allocations_def release_permitted_def)
qed

lemma record_absence_step:
  "capacity_step db (db\<lparr>placements := update_where q (record_absence now) (placements db)\<rparr>)"
proof (rule capacity_step_frame)
  show "release_permitted (db\<lparr>placements := update_where q (record_absence now) (placements db)\<rparr>) pid"
    if "release_permitted db pid" for pid
    using that by (rule release_permitted_update [where q = q and f = "record_absence now"]) simp_all
qed (simp_all add: map_update_where)

lemma release_step:
  "release pid now db = Inr db' \<Longrightarrow> capacity_step db db'"
  unfolding release_def
  by (auto simp: rbind_eq_Inr map_err_eq_Inr
      intro: capacity.step_trans [OF record_absence_step release_allocations_step])

lemma outcome_effect_step:
  assumes "outcome_effect pid kind outcome now db = Inr (db', next)"
  shows "capacity_step db db'"
  using assms
  by (auto simp: outcome_effect_def rbind_eq_Inr
      intro: capacity.step_refl release_step commit_allocations_step
      split: command_outcome.splits if_splits)

lemma apply_to_placement_step:
  assumes "apply_to_placement pid kind outcome now db = Inr db'"
  shows "capacity_step db db'"
proof -
  let ?db = "if kind = ''start_runner'' \<and> \<not> in_progress outcome then erase_bootstrap pid now db
    else db"
  from assms obtain db1 st where eff: "outcome_effect pid kind outcome now ?db = Inr (db1, st)"
    and db': "(case st of None \<Rightarrow> Inr db1
       | Some state \<Rightarrow> Inr (set_state_where (\<lambda>p. wp_id p = pid) state now db1)) =
       (Inr db' :: registry_error + fleet_db)"
    by (auto simp: apply_to_placement_def rbind_eq_Inr)
  have "capacity_step db ?db" by (simp add: other_tables_step capacity.step_refl)
  moreover have "capacity_step ?db db1" using eff by (rule outcome_effect_step)
  moreover have "capacity_step db1 db'"
    using db' by (cases st) (auto simp: set_state_where_step capacity.step_refl)
  ultimately show ?thesis by (blast intro: capacity.step_trans)
qed

lemma fail_released_step:
  "fail_released pid now db = Inr db' \<Longrightarrow> capacity_step db db'"
  unfolding fail_released_def
  by (auto simp: rbind_eq_Inr intro: capacity.step_trans [OF capacity.step_trans
        [OF other_tables_step(1) release_step] set_state_where_step])

lemma cancel_one_step:
  assumes "cancel_one now db c = Inr db'"
  shows "capacity_step db db'"
  using assms unfolding cancel_one_def Let_def
  by (auto split: option.splits if_splits
      intro: capacity.step_trans [OF other_tables_step(2)] other_tables_step fail_released_step
        set_state_where_step)

lemma cancel_undeliverable_step:
  "cancel_undeliverable x host now db = Inr db' \<Longrightarrow> capacity_step db db'"
  unfolding cancel_undeliverable_def by (erule capacity.rfold_step) (rule cancel_one_step)

lemma deliver_step:
  assumes "deliver x now db c = Inr (db', e)"
  shows "capacity_step db db'"
  using assms
  by (intro capacity_step_frame)
    (auto simp: deliver_def Let_def result_splits release_permitted_def)

lemma poll_commands_step:
  assumes "poll_commands x db a session now = Inr (db', es)"
  shows "capacity_step db db'"
  using assms unfolding poll_commands_def Let_def
  by (auto simp: rbind_eq_Inr intro: capacity.step_refl cancel_undeliverable_step
      capacity.step_trans [OF cancel_undeliverable_step deliver_step]
      split: if_splits list.splits)

lemma claim_bootstrap_step: "capacity_step db (fst (claim_bootstrap x vault db a reference now))"
  by (rule capacity_step_frame)
    (auto simp: claim_bootstrap_def Let_def release_permitted_def split: sum.splits option.splits)

lemma settle_result_step:
  assumes "settle_result host c late outcome now db = Inr db'"
  shows "capacity_step db db'"
proof -
  let ?db = "upsert_attempt (hc_id c) (max (hc_attempt_count c) 1) (outcome_state outcome) now
    (set_command_state (hc_id c) (outcome_state outcome) db)"
  from assms obtain db1 where
    inner: "(case hc_placement_id c of
        None \<Rightarrow> Inr ?db
      | Some pid \<Rightarrow>
          if \<not> late then apply_to_placement pid (hc_kind c) outcome now ?db
          else if placement_is_uncertain ?db pid then
            rbind (apply_to_placement pid (hc_kind c) outcome now ?db) (\<lambda>db3.
            Inr (keep_uncertain_while_unsettled pid now db3))
          else Inr ?db) = Inr db1"
    and db': "db' = audit_and_event (Some host) ''fleet.command.result'' db1"
    unfolding settle_result_def Let_def rbind_eq_Inr by blast
  have "capacity_step db ?db" by (blast intro: capacity.step_trans other_tables_step)
  moreover have "capacity_step ?db db1"
    using inner by (auto simp: rbind_eq_Inr split: option.splits if_splits
        intro: capacity.step_refl apply_to_placement_step
          capacity.step_trans [OF apply_to_placement_step keep_uncertain_step])
  moreover have "capacity_step db1 db'" by (simp add: db' other_tables_step)
  ultimately show ?thesis by (blast intro: capacity.step_trans)
qed

lemma insert_result_step: "insert_result row db = Inr db' \<Longrightarrow> capacity_step db db'"
  by (rule capacity_step_frame)
    (auto simp: insert_result_def result_splits release_permitted_def)

lemma record_command_result_step:
  assumes "record_command_result x db a result now = Inr (db', d)"
  shows "capacity_step db db'"
  using assms unfolding record_command_result_def Let_def
  by (auto simp: rbind_eq_Inr split: option.splits if_splits
      intro: capacity.step_refl insert_result_step
        capacity.step_trans [OF insert_result_step settle_result_step])

lemma settle_one_step:
  assumes "settle_one host now (db, touched) c = Inr (db', touched')"
  shows "capacity_step db db'"
proof -
  let ?db = "audit_and_event (Some host) ''fleet.command.unreceived''
    (set_command_state (hc_id c) ''cancelled'' db)"
  have 1: "capacity_step db ?db" by (blast intro: capacity.step_trans other_tables_step)
  have "capacity_step ?db db'"
    using assms unfolding settle_one_def Let_def
    by (auto simp: rbind_eq_Inr split: option.splits if_splits
        intro: capacity.step_refl capacity.step_trans [OF capacity.step_trans
          [OF other_tables_step(1) release_step] set_state_where_step])
  with 1 show ?thesis by (rule capacity.step_trans)
qed

lemma resume_one_step: "capacity_step db (resume_one now db pid)"
  unfolding resume_one_def
  by (rule capacity.step_trans [OF set_state_where_step keep_uncertain_step])

lemma settle_unreceived_step:
  assumes "settle_unreceived x host epoch session now db = Inr db'"
  shows "capacity_step db db'"
proof -
  from assms obtain db1 touched where
    loop: "rfold (settle_one (x_show_uuid x (host_uuid host)) now)
      (unreceived_rows x db (x_show_uuid x (host_uuid host)) epoch session) (db, []) =
      Inr (db1, touched)"
    and db': "db' = foldl (resume_one now) db1 touched"
    by (auto simp: settle_unreceived_def Let_def rbind_eq_Inr)
  have "capacity_step db (fst (db1, touched))"
    using loop
    by (rule rfold_keeps)
      (auto intro: capacity.step_refl capacity.step_trans [OF _ settle_one_step])
  moreover have "capacity_step db1 db'"
    unfolding db' by (rule capacity.foldl_step) (rule resume_one_step)
  ultimately show ?thesis by (auto intro: capacity.step_trans)
qed

end
