(* ===== verification/Enrollment.thy ===== *)
theory Enrollment
  imports Registry
begin

text \<open>
  Enrollment of hosts (\<^verbatim>\<open>registry/mod.rs\<close>): issuing, revoking and reading one-time codes,
  consuming a code for a new host or for the recovery of a known one, and issuing a recovery code.
  Each operation is one transaction that reads the clock once.
\<close>

section \<open>The table of enrollments\<close>

text \<open>
  Inserting an enrollment: its keys, the verifier's format and the check on its lifetime. The
  trigger on modes holds by construction of the rows.
\<close>

definition insert_enrollment :: "enrollment_row \<Rightarrow> fleet_db \<Rightarrow> registry_error + fleet_db" where
  "insert_enrollment row db =
     rbind (ensure (verifier_format_ok (he_code_verifier row))
              (Reg_Database ''enrollment verifier must be sha256 base64url'')) (\<lambda>_.
     rbind (ensure (he_created_at row < he_expires_at row \<and>
                    he_expires_at row \<le> he_created_at row + 3600000) (Reg_Database ''CHECK'')) (\<lambda>_.
     map_err registry_db_error
       (rbind (insert_unique he_id row (enrollments db)) (\<lambda>_.
        rbind (insert_unique he_code_verifier row (enrollments db)) (\<lambda>_.
        rbind (insert_unique (\<lambda>e. (he_issued_by e, he_idempotency_key e)) row (enrollments db)) (\<lambda>t.
        Inr (db\<lparr>enrollments := t\<rparr>)))))))"

definition enrollment_by_key :: "fleet_db \<Rightarrow> string \<Rightarrow> string \<Rightarrow> enrollment_row option" where
  "enrollment_by_key db user key =
     find (\<lambda>e. he_issued_by e = user \<and> he_idempotency_key e = key) (enrollments db)"

definition consumed_host :: "externals \<Rightarrow> enrollment_row \<Rightarrow> registry_error + host_id option" where
  "consumed_host x e =
     (case he_consumed_host_id e of
        None \<Rightarrow> Inr None
      | Some h \<Rightarrow> rbind (registry_parse_id x HostId h) (\<lambda>i. Inr (Some i)))"

definition metadata_of :: "externals \<Rightarrow> enrollment_row \<Rightarrow> registry_error + enrollment_metadata" where
  "metadata_of x e =
     rbind (parse_stored_uuid x (he_id e)) (\<lambda>i.
     rbind (consumed_host x e) (\<lambda>host.
     Inr \<lparr>em_id = i, em_expires_at = he_expires_at e, em_consumed_at = he_consumed_at e,
          em_revoked_at = he_revoked_at e, em_consumed_host_id = host\<rparr>))"

section \<open>Issuing, revoking and reading codes\<close>

definition issue_enrollment ::
  "externals \<Rightarrow> fleet_db \<Rightarrow> principal \<Rightarrow> issue_enrollment_request \<Rightarrow> u8 list \<Rightarrow> uuid \<Rightarrow> i64 \<Rightarrow>
   registry_error + (fleet_db \<times> enrollment_issue)" where
  "issue_enrollment x db p r bytes fresh now =
     rbind (map_err (\<lambda>_. Reg_Forbidden) (require_user p)) (\<lambda>user.
     rbind (validate_idempotency_key (ie_idempotency_key r)) (\<lambda>_.
     rbind (map_err Reg_Input (issue_ttl_millis r)) (\<lambda>ttl.
     rbind (ok_or (x_scope_to_string x (scope_target_ids (ie_scope r))) Reg_Json) (\<lambda>scope_json.
     let request_hash = hash_request x (scope_json @ ''|'' @
           (case ie_intended_host_id r of None \<Rightarrow> [] | Some h \<Rightarrow> x_show_uuid x (host_uuid h)) @
           ''|'' @ show_nat (nat ttl));
         code = secret_generate (x_codec x) bytes
     in
     rbind (ok_or (checked_add_i64 now ttl)
              (Reg_InvalidRequest ''enrollment lifetime overflowed'')) (\<lambda>expires_at.
     rbind (ensure_system_admin db user) (\<lambda>_.
     rbind (ensure_scope_admin x db user (ie_scope r)) (\<lambda>_.
     case enrollment_by_key db user (ie_idempotency_key r) of
       Some e \<Rightarrow>
         rbind (ensure (he_request_hash e = request_hash) Reg_IdempotencyConflict) (\<lambda>_.
         rbind (consumed_host x e) (\<lambda>_.
         rbind (metadata_of x e) (\<lambda>m.
         Inr (db, Issue_Replay m))))
     | None \<Rightarrow>
         rbind (ensure (ie_intended_host_id r = None)
                  (Reg_InvalidRequest ''existing hosts require explicit recovery'')) (\<lambda>_.
         rbind (insert_enrollment
                  \<lparr>he_id = x_show_uuid x fresh, he_code_verifier = verifier_str (secret_verifier x code),
                   he_intended_host_id = None, he_scope_json = scope_json, he_issued_by = user,
                   he_created_at = now, he_expires_at = expires_at, he_consumed_at = None,
                   he_consumed_host_id = None, he_revoked_at = None, he_mode = ''normal'',
                   he_expected_host_epoch = None, he_expected_host_revision = None,
                   he_idempotency_key = ie_idempotency_key r, he_request_hash = request_hash\<rparr> db)
           (\<lambda>db'.
         Inr (audit_and_event None ''fleet.enrollment.issued'' db',
              Issue_Created \<lparr>ise_id = fresh, ise_code = code,
                             ise_expires_at = expires_at\<rparr>))))))))))"

definition revoke_enrollment ::
  "externals \<Rightarrow> fleet_db \<Rightarrow> principal \<Rightarrow> uuid \<Rightarrow> i64 \<Rightarrow> registry_error + fleet_db" where
  "revoke_enrollment x db p eid now =
     rbind (map_err (\<lambda>_. Reg_Forbidden) (require_user p)) (\<lambda>user.
     rbind (ensure_system_admin db user) (\<lambda>_.
     rbind (ok_or (find (\<lambda>e. he_id e = x_show_uuid x eid) (enrollments db)) Reg_NotFound) (\<lambda>e.
     if he_revoked_at e \<noteq> None then Inr db
     else if he_consumed_at e \<noteq> None then Inl Reg_EnrollmentGone
     else
       let sel = (\<lambda>e. he_id e = x_show_uuid x eid \<and> he_revoked_at e = None \<and> he_consumed_at e = None)
       in rbind (ensure (rows_where sel (enrollments db) = 1) Reg_EnrollmentGone) (\<lambda>_.
          Inr (audit_and_event None ''fleet.enrollment.revoked''
            (db\<lparr>enrollments := update_where sel (\<lambda>e. e\<lparr>he_revoked_at := Some now\<rparr>)
                 (enrollments db)\<rparr>))))))"

definition enrollment_status ::
  "externals \<Rightarrow> fleet_db \<Rightarrow> principal \<Rightarrow> uuid \<Rightarrow> registry_error + enrollment_metadata" where
  "enrollment_status x db p eid =
     rbind (map_err (\<lambda>_. Reg_Forbidden) (require_user p)) (\<lambda>user.
     rbind (ensure_system_admin db user) (\<lambda>_.
     rbind (ok_or (find (\<lambda>e. he_id e = x_show_uuid x eid) (enrollments db)) Reg_NotFound) (\<lambda>e.
     metadata_of x e)))"

section \<open>Consuming a code\<close>

text \<open>
  Marking a code consumed, once: with the unique index that lets one recovery be consumed per host
  epoch, and the trigger that binds a recovery to the host it was issued for.
\<close>

definition mark_consumed :: "string \<Rightarrow> string \<Rightarrow> i64 \<Rightarrow> fleet_db \<Rightarrow> registry_error + fleet_db" where
  "mark_consumed eid host now db =
     (let sel = (\<lambda>e. he_id e = eid \<and> he_consumed_at e = None \<and> he_revoked_at e = None \<and>
                   he_expires_at e > now)
      in rbind (ensure (\<forall>e \<in> set (enrollments db). sel e \<and> he_mode e = ''recovery'' \<longrightarrow>
             he_intended_host_id e = Some host \<and>
             \<not> (\<exists>d \<in> set (enrollments db). he_mode d = ''recovery'' \<and> he_consumed_at d \<noteq> None \<and>
                  he_consumed_host_id d = Some host \<and>
                  he_expected_host_epoch d = he_expected_host_epoch e))
             (Reg_Database ''recovery enrollment'')) (\<lambda>_.
         rbind (ensure (rows_where sel (enrollments db) = 1) Reg_EnrollmentGone) (\<lambda>_.
         Inr (db\<lparr>enrollments := update_where sel
                (\<lambda>e. e\<lparr>he_consumed_at := Some now, he_consumed_host_id := Some host\<rparr>)
                (enrollments db)\<rparr>))))"

text \<open>
  \<^verbatim>\<open>fleet_hosts_current_enrollment_consistency\<close>, for the row as it would be.
\<close>

definition lineage_consistent :: "fleet_db \<Rightarrow> host_row \<Rightarrow> bool" where
  "lineage_consistent db h \<longleftrightarrow>
     fh_current_enrollment_id h = None \<or>
     (\<exists>e \<in> set (enrollments db). Some (he_id e) = fh_current_enrollment_id h \<and>
        he_consumed_at e \<noteq> None \<and> he_consumed_host_id e = Some (fh_id h) \<and>
        fh_current_enrollment_epoch h = Some (fh_epoch h) \<and>
        ((he_mode e = ''normal'' \<and> fh_epoch h = 1 \<and> he_expected_host_epoch e = None) \<or>
         (he_mode e = ''recovery'' \<and> he_expected_host_epoch e = Some (fh_epoch h - 1))))"

definition update_lineage ::
  "(host_row \<Rightarrow> bool) \<Rightarrow> (host_row \<Rightarrow> host_row) \<Rightarrow> fleet_db \<Rightarrow> registry_error + fleet_db" where
  "update_lineage q f db =
     rbind (ensure (\<forall>h \<in> set (hosts db). q h \<longrightarrow> lineage_consistent db (f h))
              (Reg_Database ''current enrollment lineage is inconsistent'')) (\<lambda>_.
     rbind (ensure (rows_where q (hosts db) = 1) Reg_StaleRevision) (\<lambda>_.
     Inr (update_hosts q f db)))"

definition recovered_host :: "string \<Rightarrow> i64 \<Rightarrow> i64 \<Rightarrow> i64 \<Rightarrow> host_row \<Rightarrow> host_row" where
  "recovered_host eid epoch generation now h =
     h\<lparr>fh_epoch := epoch, fh_revision := fh_revision h + 1, fh_enrollment_state := ''pending'',
       fh_lifecycle_state := ''paused'', fh_integrity_state := ''unverified'',
       fh_agent_session_id := None, fh_boot_id := None, fh_authority_expires_at := None,
       fh_inventory_complete := False, fh_inventory_revision := 0, fh_inventory_digest := None,
       fh_current_credential_generation := Some generation, fh_current_enrollment_id := Some eid,
       fh_current_enrollment_epoch := Some epoch, fh_updated_at := now\<rparr>"

definition consume_recovery ::
  "externals \<Rightarrow> fleet_db \<Rightarrow> enrollment_row \<Rightarrow> one_time_secret \<Rightarrow> uuid \<Rightarrow> i64 \<Rightarrow>
   registry_error + (fleet_db \<times> enrollment_receipt)" where
  "consume_recovery x db e credential cid now =
     rbind (ok_or (he_intended_host_id e) Reg_EnrollmentScopeMismatch) (\<lambda>intended.
     rbind (registry_parse_id x HostId intended) (\<lambda>host_id.
     rbind (ok_or (he_expected_host_epoch e) Reg_EnrollmentScopeMismatch) (\<lambda>expected_epoch.
     rbind (ok_or (he_expected_host_revision e) Reg_EnrollmentScopeMismatch) (\<lambda>expected_revision.
     let host = x_show_uuid x (host_uuid host_id) in
     rbind (ok_or (find (\<lambda>h. fh_id h = host) (hosts db)) Reg_EnrollmentScopeMismatch) (\<lambda>h.
     rbind (ensure (\<not> (fh_epoch h \<noteq> expected_epoch \<or> fh_revision h \<noteq> expected_revision \<or>
                       fh_enrollment_state h = ''revoked'')) Reg_EnrollmentScopeMismatch) (\<lambda>_.
     rbind (ensure (fh_lifecycle_state h \<noteq> ''retired'') Reg_Forbidden) (\<lambda>_.
     rbind (ok_or (checked_add_i64 expected_epoch 1)
              (Reg_InvalidRequest ''host epoch overflowed'')) (\<lambda>new_epoch.
     rbind (next_generation db host) (\<lambda>gen.
     let db1 = revoke_credentials (\<lambda>c. hk_host_id c = host) now
                 (revoke_open_rotations host now ''fleet.credential.rotation_revoked_by_recovery'' db)
     in
     rbind (mark_consumed (he_id e) host now db1) (\<lambda>db2.
     rbind (update_lineage
              (\<lambda>h. fh_id h = host \<and> fh_epoch h = expected_epoch \<and> fh_revision h = expected_revision)
              (recovered_host (he_id e) new_epoch gen now) db2) (\<lambda>db3.
     rbind (insert_credential
              \<lparr>hk_id = x_show_uuid x cid, hk_host_id = host, hk_host_epoch = new_epoch,
               hk_generation = gen, hk_verifier = verifier_str (secret_verifier x credential),
               hk_created_at = now, hk_overlap_expires_at = None, hk_acknowledged_at = None,
               hk_revoked_at = None\<rparr> db3) (\<lambda>db4.
     rbind (ok_or (word_try_from gen) (Reg_InvalidRequest ''generation is malformed'')) (\<lambda>g.
     Inr (audit_and_event (Some host) ''fleet.host.recovered'' db4,
          \<lparr>er_host_id = host_id, er_credential_id = cid, er_credential_generation = g,
           er_credential = credential\<rparr>))))))))))))))"

definition new_host :: "externals \<Rightarrow> host_id \<Rightarrow> host_registration \<Rightarrow> i64 \<Rightarrow> host_row" where
  "new_host x host_id r now =
     \<lparr>fh_id = x_show_uuid x (host_uuid host_id), fh_enrollment_state = ''pending'',
      fh_lifecycle_state = ''paused'', fh_integrity_state = ''unverified'', fh_epoch = 1,
      fh_boot_id = None, fh_agent_session_id = None, fh_tags_json = ''{}'',
      fh_last_heartbeat_at = None, fh_last_inventory_at = None, fh_authority_expires_at = None,
      fh_inventory_complete = False, fh_pressure_state = ''unknown'',
      fh_authority_incarnation = None, fh_inventory_epoch = None, fh_inventory_session_id = None,
      fh_inventory_boot_id = None, fh_name = hr_name r, fh_host_os = os_name (hr_host_os r),
      fh_architecture = architecture_name (hr_architecture r),
      fh_hardware_fingerprint = hr_hardware_fingerprint r, fh_agent_version = None,
      fh_revision = 1, fh_inventory_revision = 0, fh_inventory_digest = None,
      fh_current_credential_generation = Some 1, fh_current_enrollment_id = None,
      fh_current_enrollment_epoch = None, fh_updated_at = now, fh_retired_at = None\<rparr>"

definition insert_root_domain :: "string \<Rightarrow> string \<Rightarrow> fleet_db \<Rightarrow> registry_error + fleet_db" where
  "insert_root_domain did host db =
     map_err registry_db_error
       (rbind (insert_unique dr_id
          \<lparr>dr_id = did, dr_host_id = host, dr_parent_domain_id = None, dr_name = ''physical-root'',
           dr_cpu_millis = 0, dr_memory_mib = 0, dr_disk_bytes = 0, dr_revision = 1\<rparr> (domains db))
        (\<lambda>t. Inr (db\<lparr>domains := t\<rparr>)))"

definition consume_normal ::
  "externals \<Rightarrow> fleet_db \<Rightarrow> enrollment_row \<Rightarrow> host_registration \<Rightarrow> one_time_secret \<Rightarrow> host_id \<Rightarrow>
   uuid \<Rightarrow> uuid \<Rightarrow> i64 \<Rightarrow> registry_error + (fleet_db \<times> enrollment_receipt)" where
  "consume_normal x db e registration credential host_id did cid now =
     (let host = x_show_uuid x (host_uuid host_id) in
      rbind (map_err registry_db_error (insert_unique fh_id (new_host x host_id registration now)
               (hosts db))) (\<lambda>hs.
      rbind (insert_root_domain (x_show_uuid x did) host (db\<lparr>hosts := hs\<rparr>)) (\<lambda>db1.
      rbind (insert_credential
               \<lparr>hk_id = x_show_uuid x cid, hk_host_id = host, hk_host_epoch = 1, hk_generation = 1,
                hk_verifier = verifier_str (secret_verifier x credential), hk_created_at = now,
                hk_overlap_expires_at = None, hk_acknowledged_at = None, hk_revoked_at = None\<rparr> db1)
        (\<lambda>db2.
      rbind (mark_consumed (he_id e) host now db2) (\<lambda>db3.
      rbind (update_lineage
               (\<lambda>h. fh_id h = host \<and> fh_epoch h = 1 \<and> fh_current_enrollment_id h = None)
               (\<lambda>h. h\<lparr>fh_current_enrollment_id := Some (he_id e),
                      fh_current_enrollment_epoch := Some (fh_epoch h)\<rparr>) db3) (\<lambda>db4.
      Inr (audit_and_event (Some host) ''fleet.enrollment.consumed'' db4,
           \<lparr>er_host_id = host_id, er_credential_id = cid, er_credential_generation = 1,
            er_credential = credential\<rparr>)))))))"

text \<open>\<open>bytes\<close> is the random secret, then the fresh host, domain and credential UUIDs.\<close>

definition consume_enrollment ::
  "externals \<Rightarrow> fleet_db \<Rightarrow> string \<Rightarrow> host_registration \<Rightarrow> u8 list \<Rightarrow> uuid \<Rightarrow> uuid \<Rightarrow> uuid \<Rightarrow> i64 \<Rightarrow>
   registry_error + (fleet_db \<times> enrollment_receipt)" where
  "consume_enrollment x db code registration bytes hid did cid now =
     rbind (map_err Reg_Credential (secret_parse (x_codec x) code)) (\<lambda>secret.
     let credential = secret_generate (x_codec x) bytes in
     rbind (map_err (\<lambda>_. Reg_InvalidRequest ''host id generation failed'')
              (fleet_uuid_try_new HostId hid)) (\<lambda>host_id.
     rbind (ok_or (find (\<lambda>e. he_code_verifier e = verifier_str (secret_verifier x secret))
              (enrollments db)) Reg_EnrollmentGone) (\<lambda>e.
     rbind (ensure (\<not> (he_expires_at e \<le> now \<or> he_consumed_at e \<noteq> None \<or> he_revoked_at e \<noteq> None))
              Reg_EnrollmentGone) (\<lambda>_.
     rbind (ok_or (scope_deserialize x (he_scope_json e)) Reg_EnrollmentScopeMismatch) (\<lambda>scope.
     rbind (ensure_scope_admin x db (he_issued_by e) scope) (\<lambda>_.
     if he_mode e = ''recovery'' then consume_recovery x db e credential cid now
     else
       rbind (ensure (he_mode e = ''normal'') Reg_EnrollmentScopeMismatch) (\<lambda>_.
       rbind (ensure (he_intended_host_id e = None \<and> he_expected_host_epoch e = None \<and>
                      he_expected_host_revision e = None) Reg_EnrollmentScopeMismatch) (\<lambda>_.
       consume_normal x db e registration credential host_id did cid now))))))))"

section \<open>Issuing a recovery code\<close>

definition lineage_scope :: "externals \<Rightarrow> fleet_db \<Rightarrow> string \<Rightarrow> enrollment_row option" where
  "lineage_scope x db host =
     (case [e. h \<leftarrow> hosts db, e \<leftarrow> enrollments db, Some (he_id e) = fh_current_enrollment_id h \<and>
              fh_id h = host \<and> he_consumed_host_id e = Some (fh_id h) \<and> he_consumed_at e \<noteq> None] of
        [] \<Rightarrow> None | e # _ \<Rightarrow> Some e)"

definition granted_targets :: "externals \<Rightarrow> fleet_db \<Rightarrow> string \<Rightarrow> registry_error + ci_target_id list" where
  "granted_targets x db host =
     rfold (\<lambda>ids t. rbind (registry_parse_id x CiTargetId t) (\<lambda>i. Inr (ids @ [i])))
       (sort (map tg_target_id (filter (\<lambda>g. tg_host_id g = host \<and> tg_revoked_at g = None)
          (target_grants db)))) []"

definition recovery_scope :: "externals \<Rightarrow> fleet_db \<Rightarrow> host_row \<Rightarrow> registry_error + enrollment_scope" where
  "recovery_scope x db h =
     (if fh_enrollment_state h = ''pending'' then
        rbind (ok_or (lineage_scope x db (fh_id h)) Reg_EnrollmentScopeMismatch) (\<lambda>e.
        ok_or (scope_deserialize x (he_scope_json e)) Reg_EnrollmentScopeMismatch)
      else
        rbind (granted_targets x db (fh_id h)) (\<lambda>ids. map_err Reg_Input (scope_new x ids)))"

definition recover_host ::
  "externals \<Rightarrow> fleet_db \<Rightarrow> principal \<Rightarrow> recover_host_request \<Rightarrow> u8 list \<Rightarrow> uuid \<Rightarrow> i64 \<Rightarrow>
   registry_error + (fleet_db \<times> recovery_issue)" where
  "recover_host x db p r bytes fresh now =
     rbind (map_err (\<lambda>_. Reg_Forbidden) (require_user p)) (\<lambda>user.
     rbind (validate_idempotency_key (rh_idempotency_key r)) (\<lambda>_.
     let code = secret_generate (x_codec x) bytes;
         host = x_show_uuid x (host_uuid (rh_host_id r)) in
     rbind (ok_or (checked_add_i64 now DEFAULT_ENROLLMENT_TTL_MILLIS)
              (Reg_InvalidRequest ''recovery lifetime overflowed'')) (\<lambda>expires_at.
     rbind (ensure_system_admin db user) (\<lambda>_.
     let request_hash = hash_request x (host @ ''|'' @
           show_nat (unat (revision_get (rh_expected_revision r)))) in
     case enrollment_by_key db user (rh_idempotency_key r) of
       Some e \<Rightarrow>
         rbind (ensure (he_request_hash e = request_hash \<and> he_mode e = ''recovery'')
                  Reg_IdempotencyConflict) (\<lambda>_.
         rbind (ok_or (scope_deserialize x (he_scope_json e)) Reg_EnrollmentScopeMismatch) (\<lambda>scope.
         rbind (ensure_scope_admin x db user scope) (\<lambda>_.
         rbind (metadata_of x e) (\<lambda>m.
         Inr (db, Recovery_Replay m)))))
     | None \<Rightarrow>
         rbind (ok_or (find (\<lambda>h. fh_id h = host \<and> fh_enrollment_state h \<noteq> ''revoked'') (hosts db))
                  Reg_NotFound) (\<lambda>h.
         rbind (ensure (fh_lifecycle_state h \<noteq> ''retired'') Reg_Forbidden) (\<lambda>_.
         rbind (ok_or (i64_from_u64 (revision_get (rh_expected_revision r)))
                  (Reg_InvalidRequest ''revision exceeds SQLite integer'')) (\<lambda>expected.
         rbind (ensure (fh_revision h = expected) Reg_StaleRevision) (\<lambda>_.
         rbind (recovery_scope x db h) (\<lambda>scope.
         rbind (ensure_scope_admin x db user scope) (\<lambda>_.
         rbind (ok_or (x_scope_to_string x (scope_target_ids scope)) Reg_Json) (\<lambda>scope_json.
         rbind (insert_enrollment
                  \<lparr>he_id = x_show_uuid x fresh, he_code_verifier = verifier_str (secret_verifier x code),
                   he_intended_host_id = Some host, he_scope_json = scope_json, he_issued_by = user,
                   he_created_at = now, he_expires_at = expires_at, he_consumed_at = None,
                   he_consumed_host_id = None, he_revoked_at = None, he_mode = ''recovery'',
                   he_expected_host_epoch = Some (fh_epoch h),
                   he_expected_host_revision = Some (fh_revision h),
                   he_idempotency_key = rh_idempotency_key r, he_request_hash = request_hash\<rparr> db)
           (\<lambda>db'.
         Inr (audit_and_event (Some host) ''fleet.host.recovery_issued'' db',
              Recovery_Created \<lparr>ire_id = fresh, ire_host_id = rh_host_id r, ire_code = code,
                                ire_expires_at = expires_at\<rparr>)))))))))))))"

end
