(* ===== verification/Agent_Api.thy ===== *)
theory Agent_Api
  imports Supervisor Commands Enrollment
begin

text \<open>
  The HTTP boundary between the host agent and the registry: the bearer extractor
  (\<^verbatim>\<open>crates/gridops-api/src/fleet/auth.rs\<close>), the public error codes (\<^verbatim>\<open>error.rs\<close>), the agent's
  routes (\<^verbatim>\<open>credentials.rs\<close>, \<^verbatim>\<open>commands.rs\<close>), and the agent's client over them. A request runs one
  transaction of the registry; a commit stands even when the reply is an error or is lost.
\<close>

section \<open>Errors\<close>

fun error_status :: "error_code \<Rightarrow> nat" where
  "error_status Code_InvalidRequest = 400"
| "error_status Code_ContractRange = 400"
| "error_status Code_Unauthenticated = 401"
| "error_status Code_Forbidden = 403"
| "error_status Code_NotFound = 404"
| "error_status Code_RevisionConflict = 409"
| "error_status Code_IdempotencyConflict = 409"
| "error_status Code_EnrollmentExpired = 410"
| "error_status Code_GrantExpired = 410"
| "error_status Code_CursorExpired = 410"
| "error_status Code_CursorGap = 410"
| "error_status Code_PayloadTooLarge = 413"
| "error_status Code_RateLimited = 429"
| "error_status Code_DependencyUnavailable = 503"
| "error_status Code_NotReady = 503"

fun registry_error_code :: "registry_error \<Rightarrow> error_code" where
  "registry_error_code (Reg_Database _) = Code_DependencyUnavailable"
| "registry_error_code Reg_Json = Code_DependencyUnavailable"
| "registry_error_code Reg_Storage = Code_DependencyUnavailable"
| "registry_error_code Reg_Forbidden = Code_Forbidden"
| "registry_error_code Reg_TargetScopeForbidden = Code_Forbidden"
| "registry_error_code Reg_NotFound = Code_NotFound"
| "registry_error_code Reg_EnrollmentGone = Code_EnrollmentExpired"
| "registry_error_code Reg_InvalidCredential = Code_Unauthenticated"
| "registry_error_code Reg_StaleRevision = Code_RevisionConflict"
| "registry_error_code Reg_StaleGeneration = Code_RevisionConflict"
| "registry_error_code Reg_RotationConflict = Code_IdempotencyConflict"
| "registry_error_code Reg_IdempotencyConflict = Code_IdempotencyConflict"
| "registry_error_code Reg_RotationGone = Code_GrantExpired"
| "registry_error_code Reg_EnrollmentScopeMismatch = Code_InvalidRequest"
| "registry_error_code (Reg_InvalidRequest _) = Code_InvalidRequest"
| "registry_error_code (Reg_InvalidIdentifier _) = Code_InvalidRequest"
| "registry_error_code (Reg_Credential _) = Code_InvalidRequest"
| "registry_error_code (Reg_Input _) = Code_InvalidRequest"

text \<open>What the agent's client makes of a reply of the API.\<close>

definition via_http :: "error_code + 'a \<Rightarrow> client_error + 'a" where
  "via_http r =
     (case r of
        Inr a \<Rightarrow> send_reply 200 (Some a) None
      | Inl code \<Rightarrow> send_reply (error_status code) None (Some code))"

section \<open>Authentication\<close>

definition bearer_char :: "char \<Rightarrow> bool" where
  "bearer_char c \<longleftrightarrow>
     (CHR ''a'' \<le> c \<and> c \<le> CHR ''z'') \<or> (CHR ''A'' \<le> c \<and> c \<le> CHR ''Z'') \<or>
     (CHR ''0'' \<le> c \<and> c \<le> CHR ''9'') \<or> c = CHR ''_'' \<or> c = CHR ''-''"

definition ascii_lower :: "char \<Rightarrow> char" where
  "ascii_lower c = (if CHR ''A'' \<le> c \<and> c \<le> CHR ''Z'' then char_of (of_char c + 32 :: nat) else c)"

text \<open>The token after the first space, when there is one.\<close>

definition split_once_space :: "string \<Rightarrow> (string \<times> string) option" where
  "split_once_space s =
     (let scheme = takeWhile (\<lambda>c. c \<noteq> CHR '' '') s in
      if length scheme < length s then Some (scheme, drop (length scheme + 1) s) else None)"

text \<open>The headers of a request: whether it has a cookie, and its authorization values as text.\<close>

definition bearer :: "bool \<Rightarrow> string option list \<Rightarrow> string option" where
  "bearer has_cookie authorizations =
     (if has_cookie then None
      else case authorizations of
             [Some value] \<Rightarrow>
               (case split_once_space value of
                  Some (scheme, token) \<Rightarrow>
                    if map ascii_lower scheme = ''bearer'' \<and> length token = 43 \<and> list_all bearer_char token
                    then Some token else None
                | None \<Rightarrow> None)
           | _ \<Rightarrow> None)"

definition fleet_agent ::
  "externals \<Rightarrow> fleet_db \<Rightarrow> host_id \<Rightarrow> bool \<Rightarrow> string option list \<Rightarrow> i64 \<Rightarrow> error_code + authenticated_host"
  where
  "fleet_agent x db host has_cookie authorizations now =
     rbind (ok_or (bearer has_cookie authorizations) Code_Unauthenticated) (\<lambda>credential.
     map_err (\<lambda>e. case e of Reg_Database _ \<Rightarrow> Code_DependencyUnavailable | _ \<Rightarrow> Code_Unauthenticated)
       (authenticate x db host credential now))"

text \<open>The agent's requests carry its credential and no cookie.\<close>

definition bearer_auth :: "string \<Rightarrow> string option list" where
  "bearer_auth credential = [Some (''Bearer '' @ credential)]"

section \<open>Routes\<close>

text \<open>A route: authenticate, run the registry's transaction, reply.\<close>

definition agent_route ::
  "externals \<Rightarrow> i64 \<Rightarrow> (authenticated_host \<Rightarrow> fleet_db \<Rightarrow> registry_error + (fleet_db \<times> 'a)) \<Rightarrow>
   host_id \<Rightarrow> string \<Rightarrow> fleet_db \<Rightarrow> (error_code + 'a) \<times> fleet_db" where
  "agent_route x now f host credential db =
     (case fleet_agent x db host False (bearer_auth credential) now of
        Inl code \<Rightarrow> (Inl code, db)
      | Inr a \<Rightarrow>
          (case f a db of
             Inl e \<Rightarrow> (Inl (registry_error_code e), db)
           | Inr (db', r) \<Rightarrow> (Inr r, db')))"

definition api_timestamp :: "externals \<Rightarrow> i64 \<Rightarrow> error_code + unit" where
  "api_timestamp x t =
     map_err (\<lambda>_. Code_ContractRange) (rbind (wire_timestamp_from_millis (x_year_of x) t) (\<lambda>_. Inr ()))"

definition reply_with :: "('a \<Rightarrow> error_code + 'b) \<Rightarrow> (error_code + 'a) \<times> 's \<Rightarrow> (error_code + 'b) \<times> 's" where
  "reply_with f rs = (rbind (fst rs) f, snd rs)"

definition secret_input_ok :: "string \<Rightarrow> bool" where
  "secret_input_ok s \<longleftrightarrow> length s = 43 \<and> list_all bearer_char s"

definition api_exchange ::
  "externals \<Rightarrow> i64 \<Rightarrow> uuid \<Rightarrow> host_id \<Rightarrow> string \<Rightarrow> operation_id \<Rightarrow> string \<Rightarrow> fleet_db \<Rightarrow>
   (error_code + unit) \<times> fleet_db" where
  "api_exchange x now cid host credential op next_secret db =
     (case fleet_agent x db host False (bearer_auth credential) now of
        Inl code \<Rightarrow> (Inl code, db)
      | Inr _ \<Rightarrow>
          if \<not> secret_input_ok next_secret then (Inl Code_InvalidRequest, db)
          else reply_with (\<lambda>r. api_timestamp x (rx_overlap_expires_at r))
                 (agent_route x now (\<lambda>a db. exchange_rotation x db a (operation_uuid op) next_secret cid now)
                    host credential db))"

definition api_acknowledge ::
  "externals \<Rightarrow> i64 \<Rightarrow> host_id \<Rightarrow> string \<Rightarrow> operation_id \<Rightarrow> fleet_db \<Rightarrow> (error_code + unit) \<times> fleet_db"
  where
  "api_acknowledge x now host credential op db =
     reply_with (\<lambda>r. api_timestamp x (ra_acknowledged_at r))
       (agent_route x now (\<lambda>a db. acknowledge_rotation x db a (operation_uuid op) now) host credential db)"

text \<open>The route of enrollment has no credential yet; \<open>f\<close> has the server's randomness.\<close>

record enroll_entropy =
  ee_bytes :: "u8 list"
  ee_host :: uuid
  ee_domain :: uuid
  ee_credential :: uuid

definition api_consume ::
  "externals \<Rightarrow> i64 \<Rightarrow> enroll_entropy \<Rightarrow> string \<Rightarrow> string \<Rightarrow> execution_os \<Rightarrow> architecture \<Rightarrow>
   string option \<Rightarrow> fleet_db \<Rightarrow> (error_code + client_enrollment) \<times> fleet_db" where
  "api_consume x now f code name os arch fingerprint db =
     (if \<not> secret_input_ok code then (Inl Code_InvalidRequest, db)
      else case host_registration_new name os arch fingerprint of
        Inl _ \<Rightarrow> (Inl Code_InvalidRequest, db)
      | Inr registration \<Rightarrow>
          (case consume_enrollment x db code registration (ee_bytes f) (ee_host f) (ee_domain f)
                  (ee_credential f) now of
             Inl e \<Rightarrow> (Inl (registry_error_code e), db)
           | Inr (db', r) \<Rightarrow>
               (map_err (\<lambda>_. Code_ContractRange)
                  (rbind (generation_new (er_credential_generation r)) (\<lambda>g.
                   Inr \<lparr>ce_host_id = er_host_id r, ce_credential_generation = g,
                        ce_credential = expose (er_credential r)\<rparr>)), db')))"

text \<open>One step of the long poll.\<close>

definition api_poll ::
  "externals \<Rightarrow> i64 \<Rightarrow> host_id \<Rightarrow> string \<Rightarrow> authority_session_id \<Rightarrow> fleet_db \<Rightarrow>
   (error_code + agent_command_envelope list) \<times> fleet_db" where
  "api_poll x now host credential session db =
     agent_route x now (\<lambda>a db. poll_commands x db a session now) host credential db"

definition api_result ::
  "externals \<Rightarrow> i64 \<Rightarrow> host_id \<Rightarrow> string \<Rightarrow> agent_command_result \<Rightarrow> fleet_db \<Rightarrow>
   (error_code + result_disposition) \<times> fleet_db" where
  "api_result x now host credential result db =
     agent_route x now (\<lambda>a db. record_command_result x db a result now) host credential db"

text \<open>A failed claim may still have changed the database, which its transaction committed.\<close>

definition api_bootstrap ::
  "externals \<Rightarrow> (string \<Rightarrow> string option) \<Rightarrow> i64 \<Rightarrow> host_id \<Rightarrow> string \<Rightarrow> bootstrap_reference option \<Rightarrow> fleet_db \<Rightarrow>
   (error_code + string) \<times> fleet_db" where
  "api_bootstrap x vault now host credential body db =
     (case fleet_agent x db host False (bearer_auth credential) now of
        Inl code \<Rightarrow> (Inl code, db)
      | Inr a \<Rightarrow>
          (case body of
             None \<Rightarrow> (Inl Code_InvalidRequest, db)
           | Some ref \<Rightarrow>
               let (db', r) = claim_bootstrap x vault db a ref now in (map_err registry_error_code r, db')))"

section \<open>The client over the routes\<close>

definition over_http :: "(error_code + 'a) \<times> 's \<Rightarrow> (client_error + 'a) \<times> 's" where
  "over_http rs = (via_http (fst rs), snd rs)"

definition drop_value :: "('e + 'a) \<times> 's \<Rightarrow> ('e + unit) \<times> 's" where
  "drop_value rs = (rbind (fst rs) (\<lambda>_. Inr ()), snd rs)"

text \<open>The agent's client against the registry, at a time and with the server's randomness.\<close>

definition registry_client ::
  "externals \<Rightarrow> (string \<Rightarrow> string option) \<Rightarrow> (string \<Rightarrow> bootstrap_reference option) \<Rightarrow> execution_os \<Rightarrow>
   architecture \<Rightarrow> i64 \<Rightarrow> enroll_entropy \<Rightarrow> (agent_command_envelope, fleet_db) fleet_client" where
  "registry_client x vault parse_ref os arch now f =
     \<lparr>fc_enroll = (\<lambda>code name fp db. over_http (api_consume x now f code name os arch fp db)),
      fc_exchange_rotation = (\<lambda>h c op s db. over_http (api_exchange x now (ee_credential f) h c op s db)),
      fc_acknowledge_rotation = (\<lambda>h c op db. over_http (api_acknowledge x now h c op db)),
      fc_poll_commands = (\<lambda>h c session db. over_http (api_poll x now h c session db)),
      fc_bootstrap = (\<lambda>h c s db. over_http (api_bootstrap x vault now h c (parse_ref s) db)),
      fc_post_result = (\<lambda>h c r db. drop_value (over_http (api_result x now h c r db)))\<rparr>"

end
