(* ===== verification/Output.thy ===== *)
theory Output
  imports Agent_Api
begin

text \<open>
  The console output of a runner on its way to the registry: the uploader of the agent
  (\<^verbatim>\<open>crates/gridops-host-agent/src/output.rs\<close>) and the registry's streams
  (\<^verbatim>\<open>crates/gridops-core/src/fleet/registry/output.rs\<close>). A stream is a row, the link that counts what
  was received, and a file; files are a map from names to bytes. The file is written between two
  transactions, so the tables may change in between. Base64 is a parameter. Of a stream's row the
  columns for display (names, provider, job) are left out.
\<close>

section \<open>Streams\<close>

record runner_output_chunk =
  oc_authority_session_id :: authority_session_id
  oc_placement_id :: placement_id
  oc_offset :: u64
  oc_data :: string
  oc_finished :: bool

record runner_output_receipt =
  orc_received :: nat
  orc_finished :: bool

record output_stream_row =
  os_id :: string
  os_runner_id :: string
  os_path :: string
  os_size_bytes :: i64
  os_complete :: bool
  os_expires_at :: i64
  os_created_at :: i64
  os_updated_at :: i64

record output_link_row =
  ol_placement_id :: string
  ol_log_stream_id :: string
  ol_received_bytes :: i64

record output_tables =
  ot_streams :: "output_stream_row list"
  ot_links :: "output_link_row list"

type_synonym files = "string \<rightharpoonup> u8 list"

type_synonym output_state = "output_tables \<times> files"

definition MAX_OUTPUT_CHUNK_BYTES :: nat where "MAX_OUTPUT_CHUNK_BYTES = 256 * 1024"
definition MAX_STREAM_BYTES :: nat where "MAX_STREAM_BYTES = 32 * 1024 * 1024"
definition KEEP_STREAM_BYTES :: nat where "KEEP_STREAM_BYTES = 16 * 1024 * 1024"

text \<open>A placement's stream as stored, or the one its first chunk creates.\<close>

record output_stream =
  st_id :: string
  st_path :: string
  st_size :: nat
  st_received :: nat
  st_new :: bool

definition authorize_output ::
  "externals \<Rightarrow> fleet_db \<Rightarrow> authenticated_host \<Rightarrow> runner_output_chunk \<Rightarrow> i64 \<Rightarrow> registry_error + string" where
  "authorize_output x db a chunk now =
     (let host = x_show_uuid x (host_uuid (ah_host_id a)) in
      rbind (ensure_authenticated_generation x db a now) (\<lambda>_.
      rbind (ensure (case find (\<lambda>h. fh_id h = host) (hosts db) of
                       None \<Rightarrow> False
                     | Some h \<Rightarrow>
                         fh_agent_session_id h =
                           Some (x_show_uuid x (authority_session_uuid (oc_authority_session_id chunk))) \<and>
                         (case fh_authority_expires_at h of None \<Rightarrow> False | Some t \<Rightarrow> t > now))
               Reg_Forbidden) (\<lambda>_.
      ok_or (Option.bind
          (find (\<lambda>p. wp_id p = x_show_uuid x (placement_uuid (oc_placement_id chunk)) \<and> wp_host_id p = host \<and>
               wp_host_epoch p = (case i64_from_u64 (epoch_get (ah_epoch a)) of None \<Rightarrow> i64_max | Some e \<Rightarrow> e) \<and>
               (\<exists>r \<in> set (runners db). wp_runner_id p = Some (rn_id r))) (placements db)) wp_runner_id)
        Reg_NotFound)))"

definition find_stream :: "string \<Rightarrow> output_tables \<Rightarrow> (output_stream_row \<times> output_link_row) option" where
  "find_stream placement t =
     (case find (\<lambda>l. ol_placement_id l = placement) (ot_links t) of
        None \<Rightarrow> None
      | Some l \<Rightarrow> map_option (\<lambda>s. (s, l)) (find (\<lambda>s. os_id s = ol_log_stream_id l) (ot_streams t)))"

section \<open>Writing the file\<close>

text \<open>Everything a write that never committed left behind is cut off, then the bytes follow.\<close>

definition file_append :: "u8 list option \<Rightarrow> nat \<Rightarrow> u8 list \<Rightarrow> u8 list" where
  "file_append content sz bytes =
     (let old = (case content of None \<Rightarrow> [] | Some c \<Rightarrow> c)
      in take sz old @ replicate (sz - length old) 0 @ bytes)"

text \<open>The newest bytes of a file with what follows, from the start of a line.\<close>

definition newest_output :: "u8 list \<Rightarrow> nat \<Rightarrow> u8 list \<Rightarrow> u8 list" where
  "newest_output content sz fresh =
     (let kept = min (KEEP_STREAM_BYTES - length fresh) sz;
          output = take kept (drop (sz - kept) content) @ fresh
      in if 10 \<in> set output then tl (dropWhile (\<lambda>b. b \<noteq> 10) output) else output)"

definition write_output ::
  "output_stream \<Rightarrow> nat \<Rightarrow> u8 list \<Rightarrow> files \<Rightarrow> registry_error + ((string \<times> nat) \<times> files)" where
  "write_output s finish fresh files =
     (if fresh = [] then Inr ((st_path s, st_size s), files)
      else if st_size s + length fresh \<le> MAX_STREAM_BYTES then
        Inr ((st_path s, st_size s + length fresh),
             files(st_path s \<mapsto> file_append (files (st_path s)) (st_size s) fresh))
      else case files (st_path s) of
        None \<Rightarrow> Inl Reg_Storage
      | Some content \<Rightarrow>
          let kept = newest_output content (st_size s) fresh;
              path = st_id s @ ''.'' @ show_nat finish @ ''.log''
          in Inr ((path, length kept), files(path \<mapsto> kept)))"

section \<open>Recording\<close>

definition nat_i64 :: "nat \<Rightarrow> i64" where
  "nat_i64 n = (if int n \<le> i64_max then int n else i64_max)"

definition insert_stream ::
  "fleet_db \<Rightarrow> (string \<Rightarrow> i64 option) \<Rightarrow> string \<Rightarrow> string \<Rightarrow> output_stream \<Rightarrow> string \<Rightarrow> i64 \<Rightarrow> output_tables \<Rightarrow>
   registry_error + output_tables" where
  "insert_stream db days_from runner placement s path now t =
     (let days = (case Option.bind (map_option snd (find (\<lambda>kv. fst kv = ''logRetentionDays'') (settings db)))
                         days_from of None \<Rightarrow> 30 | Some d \<Rightarrow> d) in
      rbind (ensure (\<exists>r \<in> set (runners db). rn_id r = runner \<and> (\<exists>p \<in> set (pools db). rp_id p = rn_pool_id r))
               (Reg_Database ''RowNotFound'')) (\<lambda>_.
      map_err registry_db_error
        (rbind (insert_unique os_id
                  \<lparr>os_id = st_id s, os_runner_id = runner, os_path = path, os_size_bytes = 0,
                   os_complete = False,
                   os_expires_at = saturating_add now (saturating_mul days 86400000),
                   os_created_at = now, os_updated_at = now\<rparr> (ot_streams t)) (\<lambda>ss.
         let link = \<lparr>ol_placement_id = placement, ol_log_stream_id = st_id s, ol_received_bytes = 0\<rparr> in
         rbind (insert_unique ol_placement_id link (ot_links t)) (\<lambda>_.
         rbind (insert_unique ol_log_stream_id link (ot_links t)) (\<lambda>ls.
         Inr (t\<lparr>ot_streams := ss, ot_links := ls\<rparr>)))))))"

text \<open>\<open>False\<close> when the stream was closed meanwhile; nothing of the transaction stands after an error.\<close>

definition record_output ::
  "externals \<Rightarrow> fleet_db \<Rightarrow> (string \<Rightarrow> i64 option) \<Rightarrow> authenticated_host \<Rightarrow> runner_output_chunk \<Rightarrow> string \<Rightarrow>
   output_stream \<Rightarrow> string \<Rightarrow> nat \<Rightarrow> nat \<Rightarrow> i64 \<Rightarrow> output_tables \<Rightarrow> registry_error + (bool \<times> output_tables)" where
  "record_output x db days_from a chunk runner s path sz received now t =
     rbind (authorize_output x db a chunk now) (\<lambda>_.
     rbind (if st_new s
            then insert_stream db days_from runner (x_show_uuid x (placement_uuid (oc_placement_id chunk))) s path now t
            else Inr t) (\<lambda>t.
     let sel = (\<lambda>r. os_id r = st_id s \<and> \<not> os_complete r) in
     if rows_where sel (ot_streams t) = 0 then Inr (False, t)
     else Inr (True, t\<lparr>ot_streams := update_where sel
                 (\<lambda>r. r\<lparr>os_path := path, os_size_bytes := nat_i64 sz, os_complete := oc_finished chunk,
                        os_updated_at := now\<rparr>) (ot_streams t),
               ot_links := update_where (\<lambda>l. ol_log_stream_id l = st_id s)
                 (\<lambda>l. l\<lparr>ol_received_bytes := nat_i64 received\<rparr>) (ot_links t)\<rparr>)))"

text \<open>
  \<open>meanwhile\<close> is what happens to the tables between the two transactions; \<open>db\<close> and \<open>now\<close> are what the
  first sees, \<open>db'\<close> and \<open>now'\<close> what the second sees; \<open>sid\<close> is the UUID text of a new stream.
\<close>

definition opened_stream :: "string \<Rightarrow> (output_stream_row \<times> output_link_row) option \<Rightarrow> output_stream" where
  "opened_stream sid found =
     (case found of
        Some (r, l) \<Rightarrow> \<lparr>st_id = os_id r, st_path = os_path r, st_size = nat (os_size_bytes r),
                        st_received = nat (ol_received_bytes l), st_new = False\<rparr>
      | None \<Rightarrow> \<lparr>st_id = sid, st_path = sid @ ''.log'', st_size = 0, st_received = 0, st_new = True\<rparr>)"

definition store_output ::
  "externals \<Rightarrow> (string \<Rightarrow> i64 option) \<Rightarrow> authenticated_host \<Rightarrow> runner_output_chunk \<Rightarrow> u8 list \<Rightarrow> nat \<Rightarrow>
   string \<Rightarrow> output_stream \<Rightarrow> (output_tables \<Rightarrow> output_tables) \<Rightarrow> fleet_db \<Rightarrow> i64 \<Rightarrow> output_state \<Rightarrow>
   (registry_error + runner_output_receipt) \<times> output_state" where
  "store_output x days_from a chunk data finish runner s meanwhile db' now' st =
     (let fresh = drop (min (st_received s - unat (oc_offset chunk)) (length data)) data in
      (case write_output s finish fresh (snd st) of
         Inl e \<Rightarrow> (Inl e, st)
       | Inr ((path, sz), files) \<Rightarrow>
           let received = max (st_received s) finish;
               tables = meanwhile (fst st);
               recorded = record_output x db' days_from a chunk runner s path sz received now' tables;
               committed = (case recorded of Inr (True, _) \<Rightarrow> True | _ \<Rightarrow> False);
               files' = (if path = st_path s then files
                         else if committed then files(st_path s := None) else files(path := None)) in
           (case recorded of
              Inl e \<Rightarrow> (Inl e, (tables, files'))
            | Inr (False, t) \<Rightarrow> (Inr \<lparr>orc_received = st_received s, orc_finished = True\<rparr>, (t, files'))
            | Inr (True, t) \<Rightarrow>
                (Inr \<lparr>orc_received = received, orc_finished = oc_finished chunk\<rparr>, (t, files')))))"

definition append_runner_output ::
  "externals \<Rightarrow> (string \<Rightarrow> u8 list option) \<Rightarrow> (string \<Rightarrow> i64 option) \<Rightarrow> authenticated_host \<Rightarrow>
   runner_output_chunk \<Rightarrow> string \<Rightarrow> fleet_db \<Rightarrow> i64 \<Rightarrow> (output_tables \<Rightarrow> output_tables) \<Rightarrow> fleet_db \<Rightarrow> i64 \<Rightarrow>
   output_state \<Rightarrow> (registry_error + runner_output_receipt) \<times> output_state" where
  "append_runner_output x decode days_from a chunk sid db now meanwhile db' now' st =
     (case decode (oc_data chunk) of
        None \<Rightarrow> (Inl (Reg_InvalidRequest ''runner output is not base64''), st)
      | Some data \<Rightarrow>
          if MAX_OUTPUT_CHUNK_BYTES < length data
          then (Inl (Reg_InvalidRequest ''runner output chunk is too large''), st)
          else
          let finish = unat (oc_offset chunk) + length data in
          if int finish > i64_max then (Inl (Reg_InvalidRequest ''runner output offset is too large''), st)
          else (case authorize_output x db a chunk now of
            Inl e \<Rightarrow> (Inl e, st)
          | Inr runner \<Rightarrow>
            let found = find_stream (x_show_uuid x (placement_uuid (oc_placement_id chunk))) (fst st) in
            if (case found of None \<Rightarrow> False | Some (r, _) \<Rightarrow> os_complete r)
            then (Inr \<lparr>orc_received = nat (ol_received_bytes (snd (the found))), orc_finished = True\<rparr>, st)
            else store_output x days_from a chunk data finish runner (opened_stream sid found) meanwhile db'
                   now' st))"

text \<open>The route of the chunk, authenticated by the first state it sees.\<close>

definition api_output ::
  "externals \<Rightarrow> (string \<Rightarrow> u8 list option) \<Rightarrow> (string \<Rightarrow> i64 option) \<Rightarrow> host_id \<Rightarrow> string \<Rightarrow>
   runner_output_chunk \<Rightarrow> string \<Rightarrow> fleet_db \<Rightarrow> i64 \<Rightarrow> (output_tables \<Rightarrow> output_tables) \<Rightarrow> fleet_db \<Rightarrow> i64 \<Rightarrow>
   output_state \<Rightarrow> (error_code + runner_output_receipt) \<times> output_state" where
  "api_output x decode days_from host credential chunk sid db now meanwhile db' now' st =
     (case fleet_agent x db host False (bearer_auth credential) now of
        Inl code \<Rightarrow> (Inl code, st)
      | Inr a \<Rightarrow>
          let (r, st') = append_runner_output x decode days_from a chunk sid db now meanwhile db' now' st
          in (map_err registry_error_code r, st'))"

section \<open>The uploader\<close>

definition CHUNK_BYTES :: nat where "CHUNK_BYTES = 192 * 1024"
definition READ_BYTES :: nat where "READ_BYTES = 16 * 1024"

text \<open>What a read of the runner's output gives: bytes, the end, an error, or nothing in the batch window.\<close>

datatype output_read = Read_Data "u8 list" | Read_End | Read_Failed | Read_Timeout

text \<open>
  The batches that \<^verbatim>\<open>gather\<close> returns one after the other, each with whether the output ended. The
  window runs from the first byte of a batch. Reads still waited for are not in the list.
\<close>

fun gathered :: "u8 list \<Rightarrow> output_read list \<Rightarrow> (u8 list \<times> bool) list" where
  "gathered buffer [] = []"
| "gathered buffer (Read_Data d # rs) =
     (if length (buffer @ d) < CHUNK_BYTES then gathered (buffer @ d) rs
      else (buffer @ d, False) # gathered [] rs)"
| "gathered buffer (Read_End # rs) = (buffer, True) # gathered [] rs"
| "gathered buffer (Read_Failed # rs) = (buffer, True) # gathered [] rs"
| "gathered buffer (Read_Timeout # rs) =
     (if buffer = [] then gathered [] rs else (buffer, False) # gathered [] rs)"

fun upload_retries :: "client_error \<Rightarrow> bool" where
  "upload_retries (Client_Unavailable _) = True"
| "upload_retries Client_Unauthenticated = True"
| "upload_retries (Client_Refused code) = (code = Code_Forbidden \<or> code = Code_RateLimited)"
| "upload_retries InsecureUrl = False"

text \<open>
  A chunk is sent until the server takes or refuses it; \<open>None\<close> is a sender still waiting when the
  session ends, after as many tries as it made. \<open>post\<close> is the request, whose effect may stand although
  its reply is an error.
\<close>

fun send_chunk ::
  "nat \<Rightarrow> ('k \<Rightarrow> 's \<Rightarrow> (client_error + runner_output_receipt) \<times> 's) \<Rightarrow> 'k \<Rightarrow> 's \<Rightarrow>
   runner_output_receipt option option \<times> 's" where
  "send_chunk 0 post chunk s = (None, s)"
| "send_chunk (Suc tries) post chunk s =
     (case post chunk s of
        (Inr receipt, s) \<Rightarrow> (Some (Some receipt), s)
      | (Inl e, s) \<Rightarrow> if upload_retries e then send_chunk tries post chunk s else (Some None, s))"

text \<open>A piece of the output: its offset, its bytes, and whether the output ends with it.\<close>

type_synonym piece = "nat \<times> u8 list \<times> bool"

text \<open>
  How an upload ends: the session ended first, the server refused a chunk for good, or it closed the
  stream. The agent records the output as shipped after the last two.
\<close>

datatype upload_end = Upload_Cut | Upload_Refused | Upload_Closed

fun upload_batches ::
  "nat \<Rightarrow> (piece \<Rightarrow> 's \<Rightarrow> (client_error + runner_output_receipt) \<times> 's) \<Rightarrow> nat \<Rightarrow> nat \<Rightarrow>
   (u8 list \<times> bool) list \<Rightarrow> 's \<Rightarrow> upload_end \<times> 's" where
  "upload_batches tries post position received [] s = (Upload_Cut, s)"
| "upload_batches tries post position received ((buffer, ended) # rest) s =
     (let skip = min (received - position) (length buffer) in
      if skip < length buffer \<or> ended then
        (case send_chunk tries post (position + skip, drop skip buffer, ended) s of
           (None, s) \<Rightarrow> (Upload_Cut, s)
         | (Some None, s) \<Rightarrow> (Upload_Refused, s)
         | (Some (Some receipt), s) \<Rightarrow>
             if orc_finished receipt then (Upload_Closed, s)
             else upload_batches tries post (position + length buffer) (orc_received receipt) rest s)
      else upload_batches tries post (position + length buffer) received rest s)"

text \<open>The first chunk is empty: it asks how much the server has.\<close>

definition upload_stream ::
  "nat \<Rightarrow> (piece \<Rightarrow> 's \<Rightarrow> (client_error + runner_output_receipt) \<times> 's) \<Rightarrow>
   output_read list \<Rightarrow> 's \<Rightarrow> upload_end \<times> 's" where
  "upload_stream tries post reads s =
     (case send_chunk tries post (0, [], False) s of
        (None, s) \<Rightarrow> (Upload_Cut, s)
      | (Some None, s) \<Rightarrow> (Upload_Refused, s)
      | (Some (Some receipt), s) \<Rightarrow>
          if orc_finished receipt then (Upload_Closed, s)
          else upload_batches tries post 0 (orc_received receipt) (gathered [] reads) s)"

definition output_chunk ::
  "(u8 list \<Rightarrow> string) \<Rightarrow> authority_session_id \<Rightarrow> placement_id \<Rightarrow> piece \<Rightarrow> runner_output_chunk" where
  "output_chunk encode session placement p =
     (case p of (offset, data, finished) \<Rightarrow>
        \<lparr>oc_authority_session_id = session, oc_placement_id = placement, oc_offset = of_nat offset,
         oc_data = encode data, oc_finished = finished\<rparr>)"

text \<open>The upload of one environment's output and the mark in the journal that it is over.\<close>

definition follow ::
  "externals \<Rightarrow> nat \<Rightarrow> (piece \<Rightarrow> 's \<Rightarrow> (client_error + runner_output_receipt) \<times> 's) \<Rightarrow> environment \<Rightarrow>
   output_read list option \<Rightarrow> journal \<Rightarrow> 's \<Rightarrow> journal \<times> 's" where
  "follow x tries post env output j s =
     (case (ev_local_identity env, output) of
        (Some _, Some reads) \<Rightarrow>
          (case upload_stream tries post reads s of
             (Upload_Cut, s) \<Rightarrow> (j, s)
           | (_, s) \<Rightarrow> (output_shipped x (ev_id env) j, s))
      | _ \<Rightarrow> (output_shipped x (ev_id env) j, s))"

end
