(* ===== verification/Agent_Properties.thy ===== *)
theory Agent_Properties
  imports Agent_Runs
begin

text \<open>
  What the host agent promises: a command is begun at most once however often it is delivered and
  however often the agent dies, its answer never changes, the control plane's check accepts every
  answer, and the runtime helper is asked only for what the command's own environment allows.
\<close>

section \<open>Answers\<close>

lemma complete_row:
  assumes "complete x r j = Inr j'" and "command_row x (res_command_id r) j = Some row"
    and "jc_result row = None"
  obtains json where "x_result_to_string x r = Some json"
    "command_row x (res_command_id r) j' = Some (row\<lparr>jc_result := Some json\<rparr>)"
proof -
  from assms(1) obtain json where json: "x_result_to_string x r = Some json"
    and j': "j' = j\<lparr>jn_commands := update_where
      (\<lambda>c. jc_command_id c = command_text x (res_command_id r) \<and> jc_result c = None)
      (\<lambda>c. c\<lparr>jc_result := Some json\<rparr>) (jn_commands j)\<rparr>"
    by (auto simp: complete_def Let_def rbind_eq_Inr to_json_def ok_or_eq_Inr)
  from assms(2) have "jc_command_id row = command_text x (res_command_id r)" by (auto dest: find_SomeD)
  with assms(2,3) j' have "command_row x (res_command_id r) j' = Some (row\<lparr>jc_result := Some json\<rparr>)"
    by (simp add: find_update_where)
  with json show thesis by (rule that)
qed

text \<open>An answer is in the journal, under the command and the hash it answers.\<close>

lemma dispatch_recorded:
  assumes "dispatch_with x k fs d body session now m clock boot fresh s = (Inr r, s')"
  obtains e row json where "accepted x fs body session e" "x_envelope_to_string x e \<noteq> None"
    "command_row x (env_command_id e) (fst s') = Some row" "jc_request_hash row = env_request_hash e"
    "jc_result row = Some json"
    "x_result_from_str x json = Some r \<and> s' = s \<or>
     x_result_to_string x r = Some json \<and> result_validate_against (x_codec x) r e = Inr r"
  using assms
proof (cases rule: dispatch_with_cases)
  case (replayed e res)
  then have "x_envelope_to_string x e \<noteq> None"
    by (auto simp: receive_def Let_def rbind_eq_Inr to_json_def ok_or_eq_Inr)
  moreover from replayed obtain row json where
    "command_row x (env_command_id e) (fst s) = Some row" "jc_request_hash row = env_request_hash e"
    "jc_result row = Some json" "x_result_from_str x json = Some res"
    by (auto elim!: receive_cases split: option.splits)
  ultimately show thesis using replayed by (intro that) auto
next
  case (acted e rec j a s1)
  from acted(2) have ser: "x_envelope_to_string x e \<noteq> None"
    by (auto simp: receive_def Let_def rbind_eq_Inr to_json_def ok_or_eq_Inr)
  from acted(2,3) obtain row where row: "command_row x (env_command_id e) j = Some row"
    "jc_request_hash row = env_request_hash e" "jc_result row = None"
    by (auto elim!: receive_cases simp: find_append_new received_row_def split: option.splits)
  from acted(5) obtain out where "answer x e out now (fresh 1) s1 = (Inr r, s')"
    by (cases a) auto
  then obtain j' where v: "result_validate_against (x_codec x) r e = Inr r"
    and c: "complete x r (fst s1) = Inr j'" and s': "s' = (j', snd s1)"
    by (auto elim!: answer_cases)
  from v have "res_command_id r = env_command_id e"
    by (simp add: result_validate_against_eq_Inr result_correlates_def)
  with row(1) environments_step_commands [OF act_step [OF acted(4)]]
  have "command_row x (res_command_id r) (fst s1) = Some row" by simp
  from complete_row [OF c this row(3)] obtain json where "x_result_to_string x r = Some json"
    "command_row x (res_command_id r) j' = Some (row\<lparr>jc_result := Some json\<rparr>)" .
  with acted(1) ser row(2) v s' \<open>res_command_id r = env_command_id e\<close> show thesis
    by (intro that [of e "row\<lparr>jc_result := Some json\<rparr>" json]) auto
qed auto

lemma replay:
  assumes "accepted x fs body session e" "x_envelope_to_string x e \<noteq> None"
    and "command_row x (env_command_id e) (fst s) = Some row" "jc_request_hash row = env_request_hash e"
    and "jc_result row = Some json" "x_result_from_str x json = Some r"
  shows "dispatch_with x k fs d body session now m clock boot fresh s = (Inr r, s)"
proof -
  from assms(2) obtain t where "x_envelope_to_string x e = Some t" by blast
  with assms have "receive x e clock boot (fst s) = Inr (Receipt_Completed r, fst s)"
    by (simp add: receive_def to_json_def from_json_def)
  with assms(1) show ?thesis by (simp add: dispatch_with_def accepted_def)
qed

section \<open>A sample dispatch\<close>

text \<open>
  An agent without a runtime gets the sample cleanup command: it owns no such environment, so it
  refuses, records the refusal and answers with it.
\<close>

definition sample_dispatcher :: "unit dispatcher" where
  "sample_dispatcher = \<lparr>dp_helper = NoRuntime, dp_trust_docker_socket = False\<rparr>"

definition sample_environment_codec :: environment_codec where
  "sample_environment_codec =
     \<lparr>ec_workload_to = (\<lambda>_. None), ec_workload_from = (\<lambda>_. None), ec_runtime_to = (\<lambda>_. None),
      ec_runtime_from = (\<lambda>_. None), ec_os_to = (\<lambda>_. None), ec_os_from = (\<lambda>_. None),
      ec_prepare_to = (\<lambda>_. None), ec_prepare_from = (\<lambda>_. None), ec_identity_to = (\<lambda>_. None),
      ec_identity_from = (\<lambda>_. None)\<rparr>"

definition sample_answer :: agent_command_result where
  "sample_answer = sample_result\<lparr>res_result_id := ResultId 21, res_observed_at := WireTimestamp 2000,
     res_outcome := refused Fail_Permission\<rparr>"

definition agent_externals :: externals where
  "agent_externals = sample_externals
     \<lparr>x_envelope_to_string := (\<lambda>e. if e = sample_sealed then Some ''envelope'' else None),
      x_result_to_string := (\<lambda>r. if r = sample_answer then Some ''result'' else None),
      x_result_from_str := (\<lambda>_. Some sample_answer)\<rparr>"

definition agent_body :: "u8 list \<Rightarrow> agent_command_envelope option" where
  "agent_body = (\<lambda>_. Some sample_sealed)"

definition received_journal :: journal where
  "received_journal = empty_journal\<lparr>jn_commands :=
     [received_row agent_externals sample_sealed 2000 ''boot'' ''envelope'']\<rparr>"

definition answered_journal :: journal where
  "answered_journal = empty_journal\<lparr>jn_commands :=
     [(received_row agent_externals sample_sealed 2000 ''boot'' ''envelope'')\<lparr>jc_result := Some ''result''\<rparr>]\<rparr>"

lemma agent_externals_simps [simp]:
  "x_show_uuid agent_externals = unary" "x_codec agent_externals = sample_codec"
  "x_envelope_to_string agent_externals e = (if e = sample_sealed then Some ''envelope'' else None)"
  "x_envelope_from_str agent_externals t = Some sample_sealed"
  "x_year_of agent_externals y = Some 2026"
  "x_envelope_to_vec agent_externals = (\<lambda>_. Some [])"
  "x_result_to_string agent_externals r = (if r = sample_answer then Some ''result'' else None)"
  "x_result_from_str agent_externals t = Some sample_answer"
  by (simp_all add: agent_externals_def sample_externals_def)

lemma sample_binding:
  "validate_binding sample_codec (\<lambda>_. Some []) sample_sealed sample_session = Inr ()"
  "validate_against sample_codec (\<lambda>_. Some []) sample_sealed sample_session (WireTimestamp 2000) =
     Inr sample_sealed"
  by (simp_all add: validate_against_def validate_binding_def check_shape_def operation_check_def
      sample_sealed_def sample_envelope_def sample_session_def checked_sub_i64_def in_i64_def
      duration_cap_def canonical_hash_def less_eq_wire_timestamp_def less_wire_timestamp_def)

lemma sample_accepted: "accepted agent_externals agent_body [] sample_session sample_sealed"
  by (simp add: accepted_def sample_binding agent_body_def parse_json_def DEFAULT_JSON_BYTES_def
      MAX_JSON_BYTES_def)

lemma sample_in_time: "in_time agent_externals sample_sealed sample_session (WireTimestamp 2000)"
  by (simp add: in_time_def sample_binding)

lemma sample_receive:
  "receive agent_externals sample_sealed 2000 ''boot'' empty_journal =
     Inr (Receipt_New, received_journal)"
  by (simp add: receive_def received_journal_def received_row_def empty_journal_def to_json_def)

lemma sample_execute:
  "execute agent_externals sample_environment_codec sample_dispatcher sample_sealed m fresh
     (received_journal, w) = (Inr (refused Fail_Permission), (received_journal, w))"
  by (simp add: execute_def owned_of_def abind_def sample_sealed_def sample_envelope_def
      placement_environment_def find_environment_def received_journal_def empty_journal_def
      journal_i64_def generation_get_def i64_from_u64_def i64_max_u64_def)

lemma sample_dispatch:
  "dispatch_with agent_externals sample_environment_codec agent_body sample_dispatcher [] sample_session
     (WireTimestamp 2000) None 2000 ''boot'' (\<lambda>n. 20 + of_nat n) (empty_journal, ()) =
   (Inr sample_answer, (answered_journal, ()))"
proof -
  have "fleet_uuid_try_new ResultId 21 = Inr (ResultId 21)" by (simp add: fleet_uuid_try_new_def)
  moreover have "sha256_digest_try_from sample_codec (env_request_hash sample_sealed) =
      Inr (Sha256Digest (sha256 sample_codec []))"
    using sample_codec_laws
    by (simp add: sample_sealed_def sha256_digest_try_from_def byte_codec_laws_def)
  ultimately have "command_result agent_externals sample_sealed (refused Fail_Permission)
      (WireTimestamp 2000) 21 = Inr sample_answer"
    by (simp add: command_result_def sample_answer_def sample_result_def scope_generation_of_def)
      (simp add: sample_sealed_def sample_envelope_def)
  moreover have "complete agent_externals sample_answer received_journal = Inr answered_journal"
    by (simp add: complete_def to_json_def received_journal_def answered_journal_def empty_journal_def
        received_row_def rows_where_def update_where_def sample_answer_def sample_result_def
        sample_sealed_def sample_envelope_def)
  moreover have "trusted_result agent_externals sample_sealed sample_answer = sample_answer"
    using command_result_eq_Inr [OF calculation(1)]
    by (auto simp: trusted_result_def result_validate_against_def result_correlates_def refused_def
        ensure_def split: sum.split)
  ultimately have "answer agent_externals sample_sealed (refused Fail_Permission) (WireTimestamp 2000)
      21 (received_journal, ()) = (Inr sample_answer, (answered_journal, ()))"
    by (simp add: answer_def)
  moreover note sample_accepted [unfolded accepted_def] sample_receive sample_in_time [unfolded in_time_def]
  ultimately show ?thesis
    by (simp add: dispatch_with_def act_def sample_execute)
qed

text \<open>The command is delivered, the agent dies, and the command is delivered again.\<close>

lemma sample_agent_run:
  "agent_run agent_externals sample_environment_codec agent_body sample_dispatcher (empty_journal, ())
     [CommandId 1] (received_journal, ())"
proof -
  have "agent_step agent_externals sample_environment_codec agent_body sample_dispatcher
      (empty_journal, ()) [env_command_id sample_sealed] (received_journal, ())"
    by (rule agent_step.cut_running [OF sample_accepted sample_in_time, of 2000 "''boot''"])
      (simp add: sample_receive)
  from agent_run.more [OF agent_run.start this] show ?thesis
    by (simp add: sample_sealed_def sample_envelope_def)
qed

section \<open>Properties\<close>



text \<open>
  C14. Once the agent has answered a command, every later delivery of it is answered with the same
  result and changes neither the journal nor the machine, whatever the agent did in the meantime.
  The result must survive its own JSON text.
\<close>

theorem answer_is_stable:
  assumes "dispatch_with x k fs d body session now m clock boot fresh s = (Inr r, s1)"
    and "agent_run x k fs d s1 tr s2"
    and "\<And>t. x_result_to_string x r = Some t \<Longrightarrow> x_result_from_str x t = Some r"
  shows "dispatch_with x k fs d body session now' m' clock' boot' fresh' s2 = (Inr r, s2)"
proof -
  from assms(1) obtain e row json where e: "accepted x fs body session e"
    "x_envelope_to_string x e \<noteq> None" "command_row x (env_command_id e) (fst s1) = Some row"
    "jc_request_hash row = env_request_hash e" "jc_result row = Some json"
    "x_result_from_str x json = Some r"
    by (rule dispatch_recorded) (auto intro: assms(3))
  from command_row_kept [OF agent_run_kept [OF assms(2)] e(3)] obtain row' where
    "command_row x (env_command_id e) (fst s2) = Some row'" "command_kept row row'" by blast
  with e show ?thesis by (intro replay [of x fs body session e s2 row' json]) (auto simp: command_kept_def)
qed

theorem answer_is_stable_witness:
  "dispatch_with agent_externals sample_environment_codec agent_body sample_dispatcher [] sample_session
     (WireTimestamp 80000) None 80000 ''reboot'' (\<lambda>n. 0) (answered_journal, ()) =
   (Inr sample_answer, (answered_journal, ()))"
  by (rule answer_is_stable [OF sample_dispatch agent_run.start]) simp_all

text \<open>
  C18. Every answer the agent gives to a command it acted on passes the control plane's check of
  results against commands: a success the evidence does not prove was turned into an uncertain
  outcome before it was journalled.
\<close>

theorem fresh_answer_is_valid:
  assumes "dispatch_with x k fs d body session now m clock boot fresh s = (Inr r, s')"
    and "parse_json fs body DEFAULT_JSON_BYTES = Inr e"
    and "\<And>row. command_row x (env_command_id e) (fst s) = Some row \<Longrightarrow> jc_result row = None"
  shows "result_validate_against (x_codec x) r e = Inr r"
  using assms(1)
  by (rule dispatch_recorded) (use assms(2,3) in \<open>auto simp: accepted_def\<close>)

theorem fresh_answer_is_valid_witness:
  "result_validate_against sample_codec sample_answer sample_sealed = Inr sample_answer"
  using fresh_answer_is_valid [OF sample_dispatch, of sample_sealed] sample_accepted
  by (simp add: accepted_def empty_journal_def)

section \<open>Confinement of the helper\<close>

text \<open>
  What the dispatcher may ask of the helper for a command: the command's own operation, with the
  Docker socket only on an agent that trusts it, with bootstrap material only for a start, and for
  the environment the journal has for the placement, which the command names; or for a new one,
  when the command prepares it; or for the host.
\<close>

definition request_allowed ::
  "externals \<Rightarrow> environment_codec \<Rightarrow> 'w dispatcher \<Rightarrow> agent_command_envelope \<Rightarrow> journal \<Rightarrow>
   helper_request \<Rightarrow> bool" where
  "request_allowed x k d e j q \<longleftrightarrow>
     hq_operation q = env_operation e \<and>
     (hq_docker_socket q \<longrightarrow> dp_trust_docker_socket d) \<and>
     (hq_bootstrap q \<noteq> None \<longrightarrow> is_start_runner (env_operation e)) \<and>
     (case (env_scope e, env_operation e) of
        (Scope_Host, _) \<Rightarrow> hq_environment_id q = None \<and>
          (env_operation e = InspectHost \<or> env_operation e = agent_operation.DrainHost)
      | (Scope_Placement p _ g, PrepareEnvironment pe) \<Rightarrow>
          placement_environment x k p g j = Inr None \<and> hq_prepared q = Some pe \<and>
          (ec_requires_docker_socket (pe_configuration pe) \<longrightarrow> dp_trust_docker_socket d)
      | (Scope_Placement p _ g, _) \<Rightarrow>
          (\<exists>env. placement_environment x k p g j = Inr (Some env) \<and>
             names_environment (env_operation e) env \<and> hq_environment_id q = Some (ev_id env) \<and>
             hq_prepared q = Some (ev_prepare env) \<and>
             (hq_docker_socket q \<longrightarrow> ev_docker_socket env)))"

lemma call_helper_cong:
  "rh_call (dp_helper d) q (snd s) = rh_call (dp_helper d') q (snd s) \<Longrightarrow>
   call_helper d q s = call_helper d' q s"
  by (simp add: call_helper_def)

lemma helper_request_for_cong:
  "dp_trust_docker_socket d' = dp_trust_docker_socket d \<Longrightarrow>
   helper_request_for d' = helper_request_for d"
  by (simp add: helper_request_for_def fun_eq_iff)

lemma prepare_cong:
  assumes "dp_trust_docker_socket d' = dp_trust_docker_socket d"
    and "\<And>env. ev_prepare env = p \<Longrightarrow> ev_docker_socket env = ec_requires_docker_socket (pe_configuration p) \<Longrightarrow>
      let q = helper_request_for d (Some env) (PrepareEnvironment p) None
      in rh_call (dp_helper d') q (snd s) = rh_call (dp_helper d) q (snd s)"
  shows "prepare x k d' p pl g fresh s = prepare x k d p pl g fresh s"
  using assms(2)
  by (auto simp: prepare_def Let_def helper_request_for_cong [OF assms(1)] call_helper_def split: sum.split)

lemma run_owned_cong:
  assumes "dp_trust_docker_socket d' = dp_trust_docker_socket d"
    and "let q = helper_request_for d (Some env) oper (if is_start_runner oper then m else None)
      in rh_call (dp_helper d') q (snd s) = rh_call (dp_helper d) q (snd s)"
  shows "run_owned x k d' env oper m s = run_owned x k d env oper m s"
  using assms(2) by (simp add: run_owned_def Let_def helper_request_for_cong [OF assms(1)] call_helper_def)


text \<open>A host inspection: the second helper answers anything else by success, and is not asked.\<close>

definition inspection :: agent_command_envelope where
  "inspection = sample_sealed\<lparr>env_scope := Scope_Host, env_operation := InspectHost\<rparr>"

definition eager_dispatcher :: "unit dispatcher" where
  "eager_dispatcher = sample_dispatcher\<lparr>dp_helper := \<lparr>rh_call = (\<lambda>q w.
     if hq_operation q = InspectHost \<and> \<not> hq_docker_socket q \<and> hq_bootstrap q = None
     then (Helper_Failed Fail_Unsupported False, w) else (Helper_Succeeded (Ev_Inspected None), w)),
     rh_interrupted_start = (\<lambda>_ _ w. (Remains_Nothing, w))\<rparr>\<rparr>"


end
