(* ===== verification/Supervisor_Properties.thy ===== *)
theory Supervisor_Properties
  imports Agent_Properties Supervisor
begin

text \<open>
  The journal as the supervisor keeps it, and what a reconnecting agent has told the server. The
  journal holds one row per command, its JSON columns name that command, and what is marked
  delivered is answered. Serialization is assumed to round-trip.
\<close>

section \<open>A sound journal\<close>

definition json_round_trips :: "externals \<Rightarrow> bool" where
  "json_round_trips x \<longleftrightarrow>
     (\<forall>e t. x_envelope_to_string x e = Some t \<longrightarrow> x_envelope_from_str x t = Some e) \<and>
     (\<forall>r t. x_result_to_string x r = Some t \<longrightarrow> x_result_from_str x t = Some r)"

definition command_row_sound :: "externals \<Rightarrow> string list \<Rightarrow> journal_command_row \<Rightarrow> bool" where
  "command_row_sound x delivered_ids c \<longleftrightarrow>
     (\<forall>e. x_envelope_from_str x (jc_envelope c) = Some e \<longrightarrow>
        command_text x (env_command_id e) = jc_command_id c) \<and>
     (\<forall>t r. jc_result c = Some t \<longrightarrow> x_result_from_str x t = Some r \<longrightarrow>
        command_text x (res_command_id r) = jc_command_id c) \<and>
     (jc_command_id c \<in> set delivered_ids \<longrightarrow> jc_result c \<noteq> None)"

definition journal_sound :: "externals \<Rightarrow> journal \<Rightarrow> bool" where
  "journal_sound x j \<longleftrightarrow>
     distinct (map jc_command_id (jn_commands j)) \<and>
     set (jn_delivered_results j) \<subseteq> jc_command_id ` set (jn_commands j) \<and>
     (\<forall>c \<in> set (jn_commands j). command_row_sound x (jn_delivered_results j) c)"

lemma journal_sound_cong:
  "\<lbrakk>jn_commands j' = jn_commands j; jn_delivered_results j' = jn_delivered_results j\<rbrakk> \<Longrightarrow>
   journal_sound x j' = journal_sound x j"
  by (simp add: journal_sound_def)

lemma environments_step_sound: "environments_step j j' \<Longrightarrow> journal_sound x j' = journal_sound x j"
  by (rule journal_sound_cong; cases j'; auto simp: environments_step_def)

lemma receive_sound:
  assumes "receive x e now boot j = Inr (rec, j')" and "journal_sound x j" and "json_round_trips x"
  shows "journal_sound x j'"
  using assms(1)
proof (cases rule: receive_cases)
  case (new json)
  let ?id = "command_text x (env_command_id e)"
  from new(2) have "?id \<notin> jc_command_id ` set (jn_commands j)" by (auto simp: find_None_iff)
  moreover from this assms(2) have "?id \<notin> set (jn_delivered_results j)"
    by (auto simp: journal_sound_def)
  ultimately show ?thesis
    using new assms(2,3)
    by (auto simp: journal_sound_def received_row_def command_row_sound_def json_round_trips_def)
qed (use assms in simp)

lemma complete_sound:
  assumes "complete x r j = Inr j'" and "journal_sound x j" and "json_round_trips x"
  shows "journal_sound x j'"
proof -
  from assms(1) obtain t where t: "x_result_to_string x r = Some t"
    and j': "j' = j\<lparr>jn_commands := update_where
      (\<lambda>c. jc_command_id c = command_text x (res_command_id r) \<and> jc_result c = None)
      (\<lambda>c. c\<lparr>jc_result := Some t\<rparr>) (jn_commands j)\<rparr>"
    by (auto simp: complete_def Let_def rbind_eq_Inr to_json_def ok_or_eq_Inr)
  have "map jc_command_id (jn_commands j') = map jc_command_id (jn_commands j)"
    by (simp add: j' update_where_def)
  moreover from this have "jc_command_id ` set (jn_commands j') = jc_command_id ` set (jn_commands j)"
    by (metis list.set_map)
  moreover have "command_row_sound x (jn_delivered_results j) c" if "c \<in> set (jn_commands j')" for c
    using that t assms(2,3)
    by (auto simp: j' set_update_where journal_sound_def command_row_sound_def json_round_trips_def)
  ultimately show ?thesis using assms(2) by (simp add: journal_sound_def j')
qed

text \<open>A command with an answer may be marked delivered.\<close>

lemma delivered_sound:
  assumes "journal_sound x j" and "command_row x c j = Some row" and "jc_result row \<noteq> None"
  shows "journal_sound x (delivered x c j)"
proof -
  have row: "row \<in> set (jn_commands j)" "jc_command_id row = command_text x c"
    using find_SomeD [OF assms(2)] by auto
  have "jc_result r \<noteq> None" if "r \<in> set (jn_commands j)" "jc_command_id r = command_text x c" for r
  proof -
    have "r = row"
      using assms(1) row that inj_on_eq_iff [of jc_command_id "set (jn_commands j)" r row]
      by (simp add: journal_sound_def distinct_map)
    with assms(3) show ?thesis by simp
  qed
  moreover from row have "command_text x c \<in> jc_command_id ` set (jn_commands j)" by (metis image_eqI)
  ultimately show ?thesis
    using assms(1) by (auto simp: journal_sound_def delivered_def command_row_sound_def)
qed

lemma answer_sound:
  "\<lbrakk>answer x e out now fresh s = (r, s'); journal_sound x (fst s); json_round_trips x\<rbrakk> \<Longrightarrow>
   journal_sound x (fst s')"
  by (erule answer_cases) (auto intro: complete_sound)

lemma dispatch_with_sound:
  assumes "dispatch_with x k fs d body session now m clock boot fresh s = (r, s')"
    and "journal_sound x (fst s)" and "json_round_trips x"
  shows "journal_sound x (fst s')"
  using assms(1)
proof (cases rule: dispatch_with_cases)
  case (acted e rec j a s1)
  from receive_sound [OF acted(2) assms(2,3)] environments_step_sound [OF act_step [OF acted(4)]]
  have "journal_sound x (fst s1)" by simp
  with acted(5) assms(3) show ?thesis by (cases a) (auto dest: answer_sound)
qed (use assms in simp_all)

lemma interrupted_sound:
  assumes "interrupted x k d e now boot fresh s = (r, s')" and "journal_sound x (fst s)"
    and "json_round_trips x"
  shows "journal_sound x (fst s')"
proof -
  obtain a s1 where a: "remains x k d e boot s = (a, s1)" by (cases "remains x k d e boot s")
  with assms(2) have "journal_sound x (fst s1)"
    by (simp add: environments_step_sound [OF remains_step [OF a]])
  with assms(1,3) a show ?thesis
    by (cases a) (auto simp: interrupted_def dest: answer_sound)
qed

section \<open>Flushing the results\<close>

text \<open>The rows of a journal that have no answer yet, and when each command was received.\<close>

definition unanswered :: "journal \<Rightarrow> journal_command_row set" where
  "unanswered j = {c \<in> set (jn_commands j). jc_result c = None}"

definition receipts :: "journal \<Rightarrow> (string \<times> i64) list" where
  "receipts j = map (\<lambda>c. (jc_command_id c, jc_received_at c)) (jn_commands j)"

definition answering :: "journal \<Rightarrow> journal \<Rightarrow> bool" where
  "answering j j' \<longleftrightarrow> unanswered j' \<subseteq> unanswered j \<and> receipts j' = receipts j \<and>
     set (jn_delivered_results j) \<subseteq> set (jn_delivered_results j')"

interpretation answers: step_preorder answering
  by unfold_locales (auto simp: answering_def)

lemma environments_step_answering: "environments_step j j' \<Longrightarrow> answering j j'"
  by (cases j') (auto simp: environments_step_def answering_def unanswered_def receipts_def)

lemma complete_answers:
  assumes "complete x r j = Inr j'"
  shows "answering j j'" "\<And>c. c \<in> unanswered j' \<Longrightarrow> jc_command_id c \<noteq> command_text x (res_command_id r)"
  using assms
  by (auto simp: complete_def Let_def rbind_eq_Inr answering_def unanswered_def receipts_def
      set_update_where update_where_def)

lemma interrupted_answers:
  assumes "interrupted x k d e now boot fresh s = (Inr r, s')"
  shows "answering (fst s) (fst s')"
    "\<And>c. c \<in> unanswered (fst s') \<Longrightarrow> jc_command_id c \<noteq> command_text x (env_command_id e)"
proof -
  obtain a s1 where a: "remains x k d e boot s = (a, s1)" by (cases "remains x k d e boot s")
  with assms obtain out where "answer x e out now fresh s1 = (Inr r, s')"
    by (cases a) (auto simp: interrupted_def)
  then obtain j where j: "complete x r (fst s1) = Inr j" "s' = (j, snd s1)"
    and "result_validate_against (x_codec x) r e = Inr r"
    by (auto elim!: answer_cases)
  then have id: "res_command_id r = env_command_id e"
    by (simp add: result_validate_against_eq_Inr result_correlates_def)
  from environments_step_answering [OF remains_step [OF a]] complete_answers(1) [OF j(1)] j(2)
  show "answering (fst s) (fst s')" by (auto intro: answers.step_trans)
  show "jc_command_id c \<noteq> command_text x (env_command_id e)" if "c \<in> unanswered (fst s')" for c
    using complete_answers(2) [OF j(1)] that j(2) id by auto
qed

lemma delivered_answering: "answering j (delivered x c j)"
  by (auto simp: answering_def delivered_def unanswered_def receipts_def)

lemma abind_eq_Inr:
  "abind m f = (Inr b, s') \<longleftrightarrow> (\<exists>a s. m = (Inr a, s) \<and> f a s = (Inr b, s'))"
  by (auto simp: abind_def split: prod.splits sum.splits)

lemma post_final_agent: "post_final cl host cred r s = (v, s') \<Longrightarrow> fst s' = fst s"
  by (auto simp: post_final_def ask_def split: prod.splits sum.splits if_splits)

text \<open>One entry: afterwards its command is answered and marked delivered.\<close>

lemma result_or_leftovers_cases:
  assumes "result_or_leftovers x k d e r millis boot fresh s = (Inr res, s')"
  obtains (known) "r = Some res" "s' = s"
  | (recovered) now where "r = None" "interrupted x k d e now boot fresh (fst s) = (Inr res, fst s')"
proof (cases r)
  case None
  with assms obtain now where "(case interrupted x k d e now boot fresh (fst s) of
      (r, a) \<Rightarrow> (internal r, (a, snd s))) = (Inr res, s')"
    by (auto simp: result_or_leftovers_def abind_eq_Inr)
  with None show thesis
    by (intro recovered) (auto simp: internal_def map_err_eq_Inr split: prod.splits)
qed (use assms in \<open>auto simp: result_or_leftovers_def intro: known\<close>)

lemma result_or_leftovers_answers:
  assumes "result_or_leftovers x k d e r millis boot fresh s = (Inr res, s')"
  shows "answering (fst (fst s)) (fst (fst s'))"
    and "\<And>c. \<lbrakk>r = None; c \<in> unanswered (fst (fst s'))\<rbrakk> \<Longrightarrow>
      jc_command_id c \<noteq> command_text x (env_command_id e)"
  using assms
  by (auto elim!: result_or_leftovers_cases intro: answers.step_refl dest: interrupted_answers)

lemma deliver_each_flushes:
  assumes "deliver_each x k d cl host cred millis boot fresh es s = (Inr (), s')"
  shows "answering (fst (fst s)) (fst (fst s')) \<and>
    (\<forall>(e, r) \<in> set es. command_text x (env_command_id e) \<in> set (jn_delivered_results (fst (fst s'))) \<and>
       (r = None \<longrightarrow> (\<forall>c \<in> unanswered (fst (fst s')).
          jc_command_id c \<noteq> command_text x (env_command_id e))))"
  using assms
proof (induction es arbitrary: s)
  case (Cons er es)
  obtain e r where er: "er = (e, r)" by (cases er)
  from Cons.prems er obtain res s1 s2 s3 where
    s1: "result_or_leftovers x k d e r millis boot (fresh (length es)) s = (Inr res, s1)"
    and s2: "post_final cl host cred res s1 = (Inr (), s2)"
    and s3: "mark_delivered x (env_command_id e) s2 = (Inr (), s3)"
    and rest: "deliver_each x k d cl host cred millis boot fresh es s3 = (Inr (), s')"
    by (auto simp: abind_eq_Inr)
  have j3: "fst (fst s3) = delivered x (env_command_id e) (fst (fst s1))"
    using s3 post_final_agent [OF s2] by (auto simp: mark_delivered_def)
  note IH = Cons.IH [OF rest]
  have "answering (fst (fst s)) (fst (fst s3))"
    using result_or_leftovers_answers(1) [OF s1] delivered_answering j3 answers.step_trans by metis
  with IH have all: "answering (fst (fst s)) (fst (fst s'))" by (blast intro: answers.step_trans)
  from IH have later: "answering (fst (fst s3)) (fst (fst s'))" by blast
  have "command_text x (env_command_id e) \<in> set (jn_delivered_results (fst (fst s')))"
    using later by (auto simp: answering_def j3 delivered_def split: if_splits)
  moreover have "jc_command_id c \<noteq> command_text x (env_command_id e)"
    if "r = None" "c \<in> unanswered (fst (fst s'))" for c
  proof -
    from later that(2) have "c \<in> unanswered (fst (fst s3))" by (auto simp: answering_def)
    then have "c \<in> unanswered (fst (fst s1))" by (simp add: j3 unanswered_def delivered_def split: if_splits)
    with result_or_leftovers_answers(2) [OF s1 that(1)] show ?thesis by blast
  qed
  ultimately show ?case using IH all er by auto
qed (auto intro: answers.step_refl)

lemma collect_entries:
  assumes "rfold (\<lambda>acc c. rbind (f c) (\<lambda>v. Inr (acc @ [v]))) cs acc = Inr vs"
  shows "set acc \<subseteq> set vs \<and> (\<forall>c \<in> set cs. \<exists>v \<in> set vs. f c = Inr v)
    \<and> (\<forall>v \<in> set vs. v \<in> set acc \<or> (\<exists>c \<in> set cs. f c = Inr v))"
  using assms
proof (induction cs arbitrary: acc)
  case (Cons c cs)
  then obtain v where "f c = Inr v"
    "rfold (\<lambda>acc c. rbind (f c) (\<lambda>v. Inr (acc @ [v]))) cs (acc @ [v]) = Inr vs"
    by (auto simp: rbind_eq_Inr)
  with Cons.IH show ?case by fastforce
qed simp

lemma undelivered_entries:
  assumes "undelivered x since j = Inr es"
  shows "\<And>c. c \<in> set (undelivered_rows since j) \<Longrightarrow> \<exists>v \<in> set es. undelivered_entry x c = Inr v"
    and "\<And>v. v \<in> set es \<Longrightarrow> \<exists>c \<in> set (undelivered_rows since j). undelivered_entry x c = Inr v"
  using collect_entries [OF assms [unfolded undelivered_def]] by auto

lemma undelivered_entry_eq_Inr:
  "undelivered_entry x c = Inr (e, r) \<Longrightarrow>
   x_envelope_from_str x (jc_envelope c) = Some e \<and> (r = None \<longleftrightarrow> jc_result c = None)"
  by (auto simp: undelivered_entry_def rbind_eq_Inr from_json_def ok_or_eq_Inr split: option.splits)

lemma deliver_results_flushes:
  assumes "deliver_results x k d cl host cred millis boot fresh s = (Inr (), s')"
    and sound: "journal_sound x (fst (fst s))"
    and row: "c \<in> set (jn_commands (fst (fst s')))" "millis - RESULT_REDELIVERY_WINDOW \<le> jc_received_at c"
  shows "jc_command_id c \<in> set (jn_delivered_results (fst (fst s')))" "jc_result c \<noteq> None"
proof -
  let ?since = "millis - RESULT_REDELIVERY_WINDOW" and ?j = "fst (fst s)" and ?j' = "fst (fst s')"
  from assms(1) obtain es where es: "undelivered x ?since ?j = Inr es"
    and each: "deliver_each x k d cl host cred millis boot fresh es s = (Inr (), s')"
    by (auto simp: deliver_results_def abind_eq_Inr internal_def map_err_eq_Inr)
  note flush = deliver_each_flushes [OF each]
  have entry: "\<exists>(e, r) \<in> set es. command_text x (env_command_id e) = jc_command_id c0 \<and>
      (r = None \<longleftrightarrow> jc_result c0 = None)"
    if "c0 \<in> set (jn_commands ?j)" "?since \<le> jc_received_at c0"
      "jc_command_id c0 \<notin> set (jn_delivered_results ?j)" for c0
  proof -
    from that have "c0 \<in> set (undelivered_rows ?since ?j)" by (simp add: undelivered_rows_def)
    from undelivered_entries(1) [OF es this] obtain e r where
      "(e, r) \<in> set es" "undelivered_entry x c0 = Inr (e, r)" by auto
    moreover note undelivered_entry_eq_Inr [OF this(2)]
    moreover from this sound that(1) have "command_text x (env_command_id e) = jc_command_id c0"
      by (auto simp: journal_sound_def command_row_sound_def)
    ultimately show ?thesis by (intro bexI [of _ "(e, r)"]) auto
  qed
  have "(jc_command_id c, jc_received_at c) \<in> set (receipts ?j')"
    using row(1) by (auto simp: receipts_def)
  with flush have "(jc_command_id c, jc_received_at c) \<in> set (receipts ?j)"
    by (auto simp: answering_def)
  then obtain c0 where c0: "c0 \<in> set (jn_commands ?j)" "jc_command_id c0 = jc_command_id c"
    "jc_received_at c0 = jc_received_at c" by (auto simp: receipts_def)
  show "jc_command_id c \<in> set (jn_delivered_results ?j')"
  proof (cases "jc_command_id c \<in> set (jn_delivered_results ?j)")
    case True
    with flush show ?thesis by (auto simp: answering_def)
  next
    case False
    with entry [OF c0(1)] c0 row(2) flush show ?thesis by fastforce
  qed
  show "jc_result c \<noteq> None"
  proof
    assume "jc_result c = None"
    with row(1) flush have c: "c \<in> unanswered ?j'" "c \<in> set (jn_commands ?j)"
      by (auto simp: answering_def unanswered_def)
    with sound \<open>jc_result c = None\<close> have "jc_command_id c \<notin> set (jn_delivered_results ?j)"
      by (auto simp: journal_sound_def command_row_sound_def)
    with entry [OF c(2) row(2)] c(1) flush \<open>jc_result c = None\<close> show False by fastforce
  qed
qed

section \<open>Runs\<close>

lemma agent_step_sound:
  assumes "agent_step x k fs d s ids s'" and "journal_sound x (fst s)" and "json_round_trips x"
  shows "journal_sound x (fst s')"
  using assms(1)
proof cases
  case dispatches
  with assms(2,3) show ?thesis by (blast intro: dispatch_with_sound)
next
  case (cut_unanswered body session e clock boot rec j now m fresh r)
  with receive_sound [OF cut_unanswered(3) assms(2,3)]
    environments_step_sound [OF act_step [OF cut_unanswered(4)]] show ?thesis by simp
next
  case recovers
  with assms(2,3) show ?thesis by (blast intro: interrupted_sound)
next
  case (delivers c row)
  with assms(2) show ?thesis by (auto intro: delivered_sound)
next
  case (proposes op g secret v j)
  then have "jn_commands j = jn_commands (fst s) \<and> jn_delivered_results j = jn_delivered_results (fst s)"
    by (auto simp: rotation_secret_def Let_def rbind_eq_Inr split: option.splits if_splits)
  with journal_sound_cong [of j "fst s" x] assms(2) proposes(2) show ?thesis by simp
next
  case cut_received
  with assms(2,3) show ?thesis by (auto intro: receive_sound)
next
  case cut_running
  with assms(2,3) show ?thesis by (auto intro: receive_sound)
qed (use assms(2) in \<open>auto simp: output_shipped_def store_identity_def finish_rotation_def rbind_eq_Inr
  journal_sound_def\<close>)

lemma journal_sound_empty: "journal_sound x empty_journal"
  by (simp add: journal_sound_def empty_journal_def)

lemma agent_run_sound:
  "\<lbrakk>agent_run x k fs d s tr s'; journal_sound x (fst s); json_round_trips x\<rbrakk> \<Longrightarrow> journal_sound x (fst s')"
  by (induction rule: agent_run.induct) (auto intro: agent_step_sound)

lemma agent_run_trans:
  assumes "agent_run x k fs d s1 tr' s2" and "agent_run x k fs d s tr s1"
  shows "agent_run x k fs d s (tr @ tr') s2"
  using assms by (induction rule: agent_run.induct) (auto dest: agent_run.more)

lemma agent_run_step: "agent_step x k fs d s ids s' \<Longrightarrow> agent_run x k fs d s ids s'"
  using agent_run.more [OF agent_run.start] by fastforce

text \<open>
  Every operation of the supervisor is a run of the agent: whatever the server replies, the journal
  and the machine change only by the agent's own steps.
\<close>

lemma command_row_member:
  assumes "journal_sound x j" and "c \<in> set (jn_commands j)" and "jc_command_id c = command_text x i"
  shows "command_row x i j = Some c"
proof -
  from assms(2,3) obtain c' where c': "command_row x i j = Some c'"
    by (cases "command_row x i j") (auto simp: find_None_iff)
  with find_SomeD [OF c'] assms have "c' = c"
    using inj_on_eq_iff [of jc_command_id "set (jn_commands j)" c' c]
    by (auto simp: journal_sound_def distinct_map)
  with c' show ?thesis by simp
qed

lemma run_command_cases:
  assumes "run_command x k fs to_vec ref d cl ctx current session latest millis boot fresh command s = (r, s')"
  obtains (untouched) "fst s' = fst s"
  | (dispatched) body now m r1 a where
      "dispatch_with x k fs d body session now m millis boot fresh (fst s) = (r1, a)"
      "fst s' = a \<or> (\<exists>res. r1 = Inr res \<and> fst s' = (delivered x (res_command_id res) (fst a), snd a))"
proof (cases "to_vec command")
  case None
  with assms show thesis
    by (intro untouched) (auto simp: run_command_def internal_def abind_def)
next
  case (Some body)
  define mat where "mat = (case ref command of
      Some f \<Rightarrow> let (r, s) = ask (fc_bootstrap cl (sc_host_id ctx) (au_credential current) f) s
                in (case r of Inl _ \<Rightarrow> None | Inr m \<Rightarrow> Some m, s)
    | None \<Rightarrow> (None, s))"
  obtain m s1 where m: "mat = (m, s1)" by (cases mat)
  have s1: "fst s1 = fst s"
    using m by (auto simp: mat_def ask_def split: option.splits prod.splits sum.splits)
  show thesis
  proof (cases "supervisor_now x millis")
    case (Inl e)
    with assms Some m s1 show thesis
      by (intro untouched) (auto simp: run_command_def internal_def abind_def mat_def [symmetric])
  next
    case (Inr now)
    obtain r1 a where d: "dispatch_with x k fs d body session now m millis boot fresh (fst s) = (r1, a)"
      by (cases "dispatch_with x k fs d body session now m millis boot fresh (fst s)")
    with assms Some m s1 Inr
    have "fst s' = a \<or> (\<exists>res. r1 = Inr res \<and> fst s' = (delivered x (res_command_id res) (fst a), snd a))"
      by (auto simp: run_command_def internal_def abind_def mat_def [symmetric] mark_delivered_def ask_def
          Let_def split: sum.splits prod.splits)
    with d show thesis by (rule dispatched)
  qed
qed

lemma run_command_run:
  assumes "run_command x k fs to_vec ref d cl ctx current session latest millis boot fresh command s = (r, s')"
    and "journal_sound x (fst (fst s))" and "json_round_trips x"
  shows "\<exists>tr. agent_run x k fs d (fst s) tr (fst s')"
  using assms(1)
proof (cases rule: run_command_cases)
  case untouched
  then show ?thesis using agent_run.start by metis
next
  case (dispatched body now m r1 a)
  have step: "agent_run x k fs d (fst s) (begun x fs body session now millis boot (fst (fst s))) a"
    using dispatched(1) by (intro agent_run_step agent_step.dispatches)
  have "agent_step x k fs d a [] (delivered x (res_command_id res) (fst a), snd a)" if r1: "r1 = Inr res" for res
  proof -
    have sound: "journal_sound x (fst a)" using dispatch_with_sound [OF dispatched(1) assms(2,3)] .
    obtain e row json where
      row: "command_row x (env_command_id e) (fst a) = Some row" "jc_result row = Some json"
      and "x_result_from_str x json = Some res \<and> a = fst s \<or>
        x_result_to_string x res = Some json \<and> result_validate_against (x_codec x) res e = Inr res"
      by (rule dispatch_recorded [OF dispatched(1) [unfolded r1]])
    then have res: "x_result_from_str x json = Some res"
      using assms(3) by (auto simp: json_round_trips_def)
    from find_SomeD [OF row(1)] sound row(2) res
    have "command_text x (res_command_id res) = jc_command_id row"
      by (auto simp: journal_sound_def command_row_sound_def)
    with find_SomeD [OF row(1)] row sound have "command_row x (res_command_id res) (fst a) = Some row"
      by (intro command_row_member) auto
    with row(2) show ?thesis by (intro agent_step.delivers) auto
  qed
  with agent_run.more [OF step] have "\<exists>tr. agent_run x k fs d (fst s) tr
      (delivered x (res_command_id res) (fst a), snd a)" if "r1 = Inr res" for res
    using that by blast
  with dispatched(2) step show ?thesis by auto
qed

text \<open>Delivering one entry: its command is answered and known, so it may be marked.\<close>

definition entry_known :: "externals \<Rightarrow> journal \<Rightarrow> agent_command_envelope \<times> agent_command_result option \<Rightarrow> bool"
  where
  "entry_known x j v \<longleftrightarrow>
     (\<exists>at. (command_text x (env_command_id (fst v)), at) \<in> set (receipts j)) \<and>
     (snd v \<noteq> None \<longrightarrow> (\<forall>c \<in> unanswered j. jc_command_id c \<noteq> command_text x (env_command_id (fst v))))"

lemma entry_known_answering: "\<lbrakk>answering j j'; entry_known x j v\<rbrakk> \<Longrightarrow> entry_known x j' v"
  by (auto simp: answering_def entry_known_def)

lemma answered_row:
  assumes "(command_text x i, at) \<in> set (receipts j)"
    and "\<And>c. c \<in> unanswered j \<Longrightarrow> jc_command_id c \<noteq> command_text x i"
  shows "\<exists>row. command_row x i j = Some row \<and> jc_result row \<noteq> None"
proof (cases "command_row x i j")
  case None
  with assms(1) show ?thesis by (auto simp: find_None_iff receipts_def)
next
  case (Some row)
  with find_SomeD [OF Some] assms(2) [of row] show ?thesis by (auto simp: unanswered_def)
qed

lemma result_or_leftovers_run:
  assumes "result_or_leftovers x k d e r millis boot fresh s = (v, s')"
  shows "\<exists>tr. agent_run x k fs d (fst s) tr (fst s')"
proof (cases r)
  case (Some res)
  with assms show ?thesis by (auto simp: result_or_leftovers_def intro: agent_run.start)
next
  case None
  show ?thesis
  proof (cases "supervisor_now x millis")
    case (Inl e)
    with None assms show ?thesis by (auto simp: result_or_leftovers_def abind_def intro: agent_run.start)
  next
    case (Inr now)
    obtain r1 a where r1: "interrupted x k d e now boot fresh (fst s) = (r1, a)"
      by (cases "interrupted x k d e now boot fresh (fst s)")
    with None Inr assms have "fst s' = a" by (auto simp: result_or_leftovers_def abind_def)
    with r1 show ?thesis by (metis agent_run_step agent_step.recovers)
  qed
qed

lemma deliver_each_run:
  assumes "deliver_each x k d cl host cred millis boot fresh es s = (r, s')"
    and "\<And>v. v \<in> set es \<Longrightarrow> entry_known x (fst (fst s)) v"
  shows "\<exists>tr. agent_run x k fs d (fst s) tr (fst s')"
  using assms
proof (induction es arbitrary: s)
  case Nil
  then show ?case by (auto intro: agent_run.start)
next
  case (Cons v es)
  obtain e r0 where v: "v = (e, r0)" by (cases v)
  obtain w s1 where s1: "result_or_leftovers x k d e r0 millis boot (fresh (length es)) s = (w, s1)"
    by (cases "result_or_leftovers x k d e r0 millis boot (fresh (length es)) s")
  from result_or_leftovers_run [OF s1] obtain tr1 where tr1: "agent_run x k fs d (fst s) tr1 (fst s1)" by blast
  show ?case
  proof (cases w)
    case (Inl err)
    with Cons.prems(1) s1 v have "s' = s1" by (auto simp: abind_def)
    with tr1 show ?thesis by blast
  next
    case (Inr res)
    note s1 = s1 [unfolded Inr]
    obtain p s2 where s2: "post_final cl host cred res s1 = (p, s2)" by (cases "post_final cl host cred res s1")
    note a2 = post_final_agent [OF s2]
    show ?thesis
    proof (cases p)
      case (Inl err)
      with Cons.prems(1) s1 s2 v have "s' = s2" by (auto simp: abind_def)
      with tr1 a2 show ?thesis by auto
    next
      case (Inr u)
      let ?a3 = "(delivered x (env_command_id e) (fst (fst s1)), snd (fst s1))"
      from Inr Cons.prems(1) s1 s2 v a2
      have rest: "deliver_each x k d cl host cred millis boot fresh es (?a3, snd s2) = (r, s')"
        by (auto simp: abind_def mark_delivered_def)
      note ans = result_or_leftovers_answers [OF s1]
      have known: "entry_known x (fst (fst s)) (e, r0)" using Cons.prems(2) v by auto
      then obtain at where "(command_text x (env_command_id e), at) \<in> set (receipts (fst (fst s1)))"
        using ans(1) by (auto simp: entry_known_def answering_def)
      moreover have "jc_command_id c \<noteq> command_text x (env_command_id e)"
        if "c \<in> unanswered (fst (fst s1))" for c
        using that known ans by (cases r0) (auto simp: entry_known_def answering_def)
      ultimately obtain row where "command_row x (env_command_id e) (fst (fst s1)) = Some row"
        "jc_result row \<noteq> None" using answered_row by blast
      then have "agent_step x k fs d (fst s1) [] ?a3" by (rule agent_step.delivers)
      from agent_run.more [OF tr1 this] have tr3: "agent_run x k fs d (fst s) tr1 ?a3" by simp
      have "\<exists>tr. agent_run x k fs d (fst (?a3, snd s2)) tr (fst s')"
      proof (rule Cons.IH [OF rest])
        fix v' assume "v' \<in> set es"
        with Cons.prems(2) have "entry_known x (fst (fst s)) v'" by simp
        moreover have "answering (fst (fst s)) (fst ?a3)"
          using ans(1) delivered_answering by (auto intro: answers.step_trans)
        ultimately show "entry_known x (fst (fst (?a3, snd s2))) v'"
          by (auto intro: entry_known_answering)
      qed
      with tr3 show ?thesis by (auto dest: agent_run_trans)
    qed
  qed
qed

lemma deliver_results_run:
  assumes "deliver_results x k d cl host cred millis boot fresh s = (r, s')"
    and "journal_sound x (fst (fst s))"
  shows "\<exists>tr. agent_run x k fs d (fst s) tr (fst s')"
proof (cases "undelivered x (millis - RESULT_REDELIVERY_WINDOW) (fst (fst s))")
  case (Inl e)
  with assms(1) show ?thesis
    by (auto simp: deliver_results_def internal_def abind_def intro: agent_run.start)
next
  case (Inr es)
  have "entry_known x (fst (fst s)) v" if v: "v \<in> set es" for v
  proof -
    obtain e r where er: "v = (e, r)" by (cases v)
    from undelivered_entries(2) [OF Inr v] obtain c where
      c: "c \<in> set (jn_commands (fst (fst s)))" "undelivered_entry x c = Inr (e, r)"
      unfolding er by (auto simp: undelivered_rows_def)
    from undelivered_entry_eq_Inr [OF c(2)] c(1) assms(2)
    have id: "command_text x (env_command_id e) = jc_command_id c" "r = None \<longleftrightarrow> jc_result c = None"
      by (auto simp: journal_sound_def command_row_sound_def)
    with c(1) have "(command_text x (env_command_id e), jc_received_at c) \<in> set (receipts (fst (fst s)))"
      by (auto simp: receipts_def)
    moreover have "jc_command_id c' \<noteq> command_text x (env_command_id e)"
      if "r \<noteq> None" "c' \<in> unanswered (fst (fst s))" for c'
    proof
      assume "jc_command_id c' = command_text x (env_command_id e)"
      then have "command_row x (env_command_id e) (fst (fst s)) = Some c'"
        using assms(2) that(2) by (intro command_row_member) (auto simp: unanswered_def)
      moreover have "command_row x (env_command_id e) (fst (fst s)) = Some c"
        using assms(2) c(1) id(1) by (intro command_row_member) auto
      ultimately show False using that id(2) by (auto simp: unanswered_def)
    qed
    ultimately show ?thesis by (auto simp: entry_known_def er)
  qed
  moreover from assms(1) Inr have "deliver_each x k d cl host cred millis boot fresh es s = (r, s')"
    by (simp add: deliver_results_def internal_def abind_def)
  ultimately show ?thesis by (blast intro: deliver_each_run)
qed

lemma with_journal_run:
  assumes "with_journal f s = (r, s')"
    and "\<And>a j. f (fst (fst s)) = Inr (a, j) \<Longrightarrow> agent_step x k fs d (fst s) [] (j, snd (fst s))"
  shows "agent_run x k fs d (fst s) [] (fst s')"
  using assms by (auto simp: with_journal_def split: sum.splits prod.splits
      intro: agent_run.start agent_run_step)

lemma ask_agent: "ask f s = (r, s') \<Longrightarrow> fst s' = fst s"
  by (auto simp: ask_def split: prod.splits)

lemma abind_run:
  assumes "abind m f = (r, s')" and "agent_run x k fs d a [] (fst (snd m))"
    and "\<And>v s1. m = (Inr v, s1) \<Longrightarrow> f v s1 = (r, s') \<Longrightarrow> agent_run x k fs d (fst s1) [] (fst s')"
  shows "agent_run x k fs d a [] (fst s')"
  using assms by (auto simp: abind_def split: prod.splits sum.splits dest: agent_run_trans)

lemma with_journal_finish:
  "with_journal (\<lambda>j. rbind (f j) (\<lambda>j. Inr ((), j))) s = (r, s') \<Longrightarrow>
   (\<And>j. f (fst (fst s)) = Inr j \<Longrightarrow> agent_step x k fs d (fst s) [] (j, snd (fst s))) \<Longrightarrow>
   agent_run x k fs d (fst s) [] (fst s')"
  by (erule with_journal_run) (auto simp: rbind_eq_Inr)

lemma rotate_run:
  assumes "rotate x cl host cred p secret s = (r, s')"
  shows "agent_run x k fs d (fst s) [] (fst s')"
  using assms unfolding rotate_def
proof (rule abind_run, goal_cases)
  case 1
  then show ?case
    by (metis prod.exhaust_sel with_journal_run agent_step.proposes)
next
  case (2 v s1)
  from 2(2) show ?case
  proof (rule abind_run, goal_cases)
    case 1
    then show ?case by (metis prod.exhaust_sel ask_agent agent_run.start)
  next
    case (2 v2 s2)
    note a2 = ask_agent [OF 2(1)]
    from 2(2) show ?case
    proof (rule abind_run, goal_cases)
      case 1
      then show ?case by (metis prod.exhaust_sel ask_agent agent_run.start)
    next
      case (2 v3 s3)
      from 2(2) show ?case
      proof (rule abind_run, goal_cases)
        case 1
        show ?case by (rule with_journal_finish [OF prod.collapse [symmetric]]) (rule agent_step.rotates)
      qed (auto intro: agent_run.start)
    qed
  qed
qed

lemma enroll_replacing_run:
  assumes "enroll_replacing x cl name code fp s = (r, s')"
  shows "agent_run x k fs d (fst s) [] (fst s')"
  using assms unfolding enroll_replacing_def
proof (rule abind_run, goal_cases)
  case 1
  then show ?case by (metis prod.exhaust_sel ask_agent agent_run.start)
next
  case (2 v s1)
  from 2(2) show ?case
  proof (rule abind_run, goal_cases)
    case (2 epoch s2)
    from 2(2) show ?case by (rule with_journal_finish) (rule agent_step.enrolls)
  qed (auto intro: agent_run.start)
qed

lemma enroll_run:
  assumes "enroll x cl name code fp s = (r, s')"
  shows "agent_run x k fs d (fst s) [] (fst s')"
  using assms unfolding enroll_def
  by (rule abind_run) (auto intro: agent_run.start enroll_replacing_run split: if_splits)

text \<open>
  The supervisor over time. Between its operations the agent may die and start again, at any of
  the points of \<open>agent_step\<close>, and the server may change.
\<close>

inductive supervisor_run ::
  "externals \<Rightarrow> environment_codec \<Rightarrow> (u8 list \<Rightarrow> agent_command_envelope option) \<Rightarrow> 'w dispatcher \<Rightarrow>
   ('j, 'c) fleet_client \<Rightarrow> ('j \<Rightarrow> u8 list option) \<Rightarrow> ('j \<Rightarrow> string option) \<Rightarrow>
   ('w, 'c) supervised \<Rightarrow> ('w, 'c) supervised \<Rightarrow> bool" for x k fs d cl to_vec ref s where
  start: "supervisor_run x k fs d cl to_vec ref s s"
| flushes: "\<lbrakk>supervisor_run x k fs d cl to_vec ref s s';
    deliver_results x k d cl host cred millis boot fresh s' = (r, s'')\<rbrakk> \<Longrightarrow>
    supervisor_run x k fs d cl to_vec ref s s''"
| runs: "\<lbrakk>supervisor_run x k fs d cl to_vec ref s s';
    run_command x k fs to_vec ref d cl ctx current session latest millis boot fresh command s' = (r, s'')\<rbrakk> \<Longrightarrow>
    supervisor_run x k fs d cl to_vec ref s s''"
| rotates: "\<lbrakk>supervisor_run x k fs d cl to_vec ref s s'; rotate x cl host cred p secret s' = (v, s'')\<rbrakk> \<Longrightarrow>
    supervisor_run x k fs d cl to_vec ref s s''"
| enrolls: "\<lbrakk>supervisor_run x k fs d cl to_vec ref s s'; enroll x cl name code fp s' = (u, s'')\<rbrakk> \<Longrightarrow>
    supervisor_run x k fs d cl to_vec ref s s''"
| recovers: "\<lbrakk>supervisor_run x k fs d cl to_vec ref s s'; enroll_replacing x cl name code fp s' = (u, s'')\<rbrakk> \<Longrightarrow>
    supervisor_run x k fs d cl to_vec ref s s''"
| dies: "\<lbrakk>supervisor_run x k fs d cl to_vec ref s s'; agent_step x k fs d (fst s') ids a\<rbrakk> \<Longrightarrow>
    supervisor_run x k fs d cl to_vec ref s (a, c)"

lemma supervisor_run_refines:
  assumes "supervisor_run x k fs d cl to_vec ref s s'" and "journal_sound x (fst (fst s))"
    and "json_round_trips x"
  shows "\<exists>tr. agent_run x k fs d (fst s) tr (fst s')"
  using assms(1)
proof (induction rule: supervisor_run.induct)
  case start
  show ?case by (blast intro: agent_run.start)
next
  case (flushes s' host cred millis boot fresh r s'')
  then obtain tr where tr: "agent_run x k fs d (fst s) tr (fst s')" by blast
  with agent_run_sound [OF tr assms(2,3)] deliver_results_run [OF flushes.hyps(2)] show ?case
    by (blast intro: agent_run_trans)
next
  case (runs s' ctx current session latest millis boot fresh command r s'')
  then obtain tr where tr: "agent_run x k fs d (fst s) tr (fst s')" by blast
  with agent_run_sound [OF tr assms(2,3)] run_command_run [OF runs.hyps(2) _ assms(3)] show ?case
    by (blast intro: agent_run_trans)
next
  case dies
  then show ?case by (auto dest: agent_run.more)
qed (blast intro: agent_run_trans rotate_run enroll_run enroll_replacing_run)+

section \<open>A sample reconnection\<close>

text \<open>
  The agent answered the sample command and died before the answer was posted; the server of the
  example takes every result. The next session delivers the answer.
\<close>

definition sample_client :: "(unit, agent_command_result list) fleet_client" where
  "sample_client =
     \<lparr>fc_enroll = (\<lambda>_ _ _ c. (Inl Client_Unauthenticated, c)),
      fc_exchange_rotation = (\<lambda>_ _ _ _ c. (Inl Client_Unauthenticated, c)),
      fc_acknowledge_rotation = (\<lambda>_ _ _ c. (Inl Client_Unauthenticated, c)),
      fc_poll_commands = (\<lambda>_ _ _ c. (Inr [], c)),
      fc_bootstrap = (\<lambda>_ _ _ c. (Inl (Client_Refused Code_NotFound), c)),
      fc_post_result = (\<lambda>_ _ r c. (Inr (), c @ [r]))\<rparr>"

abbreviation sample_supervisor ::
  "(unit, agent_command_result list) supervised \<Rightarrow> (unit, agent_command_result list) supervised \<Rightarrow> bool" where
  "sample_supervisor \<equiv> supervisor_run agent_externals sample_environment_codec agent_body sample_dispatcher
     sample_client (\<lambda>_. None) (\<lambda>_. None)"

lemma agent_round_trips: "json_round_trips agent_externals"
  by (simp add: json_round_trips_def)

lemma sample_supervised: "sample_supervisor ((empty_journal, ()), []) ((answered_journal, ()), [])"
  by (rule supervisor_run.dies [OF supervisor_run.start])
    (use agent_step.dispatches [OF sample_dispatch] in simp)

definition flushed_journal :: journal where
  "flushed_journal = answered_journal\<lparr>jn_delivered_results := [''u'']\<rparr>"

lemma sample_flush:
  "deliver_results agent_externals sample_environment_codec sample_dispatcher sample_client (HostId 3)
     ''secret'' 3000 ''boot'' (\<lambda>n. 30) ((answered_journal, ()), []) =
   (Inr (), ((flushed_journal, ()), [sample_answer]))"
proof -
  have "undelivered agent_externals (3000 - RESULT_REDELIVERY_WINDOW) answered_journal =
      Inr [(sample_sealed, Some sample_answer)]"
    by (simp add: undelivered_def undelivered_rows_def answered_journal_def empty_journal_def
        received_row_def RESULT_REDELIVERY_WINDOW_def undelivered_entry_def from_json_def)
  moreover have "delivered agent_externals (env_command_id sample_sealed) answered_journal = flushed_journal"
    by (simp add: delivered_def flushed_journal_def answered_journal_def empty_journal_def
        command_text_def sample_sealed_def sample_envelope_def)
  ultimately show ?thesis
    by (simp add: deliver_results_def internal_def abind_def result_or_leftovers_def post_final_def
        ask_def sample_client_def mark_delivered_def)
qed

section \<open>Properties\<close>





end
