(* ===== verification/Host_Admin.thy ===== *)
theory Host_Admin
  imports Enrollment
begin

text \<open>
  What an administrator does with enrolled hosts (\<^verbatim>\<open>registry/mod.rs\<close>): changing the lifecycle,
  retiring, enabling backends, granting targets and approving a host with the inventory it reported.
\<close>

section \<open>Lifecycle\<close>

fun lifecycle_of_intent :: "host_intent \<Rightarrow> registry_error + string" where
  "lifecycle_of_intent Intent_Active = Inr ''active''"
| "lifecycle_of_intent Intent_Paused = Inr ''paused''"
| "lifecycle_of_intent Intent_Draining = Inr ''draining''"
| "lifecycle_of_intent Intent_Maintenance = Inr ''maintenance''"
| "lifecycle_of_intent Intent_Retired = Inl (Reg_InvalidRequest ''retire hosts through retirement'')"

definition expected_revision_i64 :: "revision \<Rightarrow> registry_error + i64" where
  "expected_revision_i64 r =
     ok_or (i64_from_u64 (revision_get r)) (Reg_InvalidRequest ''revision exceeds SQLite integer'')"

definition set_host_lifecycle ::
  "externals \<Rightarrow> fleet_db \<Rightarrow> principal \<Rightarrow> host_id \<Rightarrow> revision \<Rightarrow> host_intent \<Rightarrow> i64 \<Rightarrow>
   registry_error + fleet_db" where
  "set_host_lifecycle x db p host_id rvn intent now =
     (let host = x_show_uuid x (host_uuid host_id) in
      rbind (map_err (\<lambda>_. Reg_Forbidden) (require_user p)) (\<lambda>user.
      rbind (lifecycle_of_intent intent) (\<lambda>state.
      rbind (ensure_system_admin db user) (\<lambda>_.
      rbind (ok_or (find (\<lambda>h. fh_id h = host) (hosts db)) Reg_NotFound) (\<lambda>h.
      rbind (ensure (\<not> (fh_enrollment_state h \<noteq> ''approved'' \<or> fh_lifecycle_state h = ''retired''))
               (Reg_InvalidRequest ''host is not approved'')) (\<lambda>_.
      rbind (expected_revision_i64 rvn) (\<lambda>expected.
      rbind (ensure (fh_revision h = expected) Reg_StaleRevision) (\<lambda>_.
      if fh_lifecycle_state h = state then Inr db
      else Inr (audit_and_event (Some host) ''fleet.host.lifecycle_changed''
        (update_hosts (\<lambda>h. fh_id h = host \<and> fh_revision h = expected)
           (\<lambda>h. h\<lparr>fh_lifecycle_state := state, fh_revision := fh_revision h + 1,
                  fh_updated_at := now,
                  fh_authority_expires_at :=
                    (if state \<in> {''active'', ''draining''} then fh_authority_expires_at h
                     else None)\<rparr>) db))))))))))"

definition host_busy :: "fleet_db \<Rightarrow> string \<Rightarrow> bool" where
  "host_busy db host \<longleftrightarrow>
     rows_where (\<lambda>p. wp_host_id p = host \<and> wp_state p \<notin> {''cleaned'', ''failed''})
       (placements db) > 0"

definition retire_host ::
  "externals \<Rightarrow> fleet_db \<Rightarrow> principal \<Rightarrow> host_id \<Rightarrow> revision \<Rightarrow> i64 \<Rightarrow> registry_error + fleet_db" where
  "retire_host x db p host_id rvn now =
     (let host = x_show_uuid x (host_uuid host_id) in
      rbind (map_err (\<lambda>_. Reg_Forbidden) (require_user p)) (\<lambda>user.
      rbind (ensure_system_admin db user) (\<lambda>_.
      rbind (expected_revision_i64 rvn) (\<lambda>expected.
      rbind (ok_or (find (\<lambda>h. fh_id h = host) (hosts db)) Reg_NotFound) (\<lambda>h.
      if fh_lifecycle_state h = ''retired'' then Inr db
      else
        rbind (ensure (fh_revision h = expected) Reg_StaleRevision) (\<lambda>_.
        rbind (ensure (\<not> host_busy db host)
                 (Reg_InvalidRequest ''the machine still runs work; drain it first'')) (\<lambda>_.
        Inr (audit_and_event (Some host) ''fleet.host.retired''
          (revoke_credentials (\<lambda>c. hk_host_id c = host) now
            (update_hosts (\<lambda>h. fh_id h = host \<and> fh_revision h = expected)
               (\<lambda>h. h\<lparr>fh_lifecycle_state := ''retired'', fh_retired_at := Some now,
                      fh_authority_expires_at := None, fh_revision := fh_revision h + 1,
                      fh_updated_at := now\<rparr>) db))))))))))"

section \<open>Backends and grants\<close>

definition set_backend_enabled ::
  "externals \<Rightarrow> fleet_db \<Rightarrow> principal \<Rightarrow> host_id \<Rightarrow> backend_id \<Rightarrow> bool \<Rightarrow> registry_error + fleet_db" where
  "set_backend_enabled x db p host_id bid enabled =
     (let host = x_show_uuid x (host_uuid host_id);
          sel = (\<lambda>b. hb_id b = x_show_uuid x (backend_uuid bid) \<and> hb_host_id b = host) in
      rbind (map_err (\<lambda>_. Reg_Forbidden) (require_user p)) (\<lambda>user.
      rbind (ensure_system_admin db user) (\<lambda>_.
      rbind (ensure (rows_where sel (backends db) = 1) Reg_NotFound) (\<lambda>_.
      Inr (audit_and_event (Some host) ''fleet.backend.enabled_changed''
        (db\<lparr>backends := update_where sel (\<lambda>b. b\<lparr>hb_enabled := enabled\<rparr>) (backends db)\<rparr>))))))"

definition set_host_grant ::
  "externals \<Rightarrow> fleet_db \<Rightarrow> principal \<Rightarrow> host_id \<Rightarrow> string \<Rightarrow> bool \<Rightarrow> bool \<Rightarrow> bool \<Rightarrow>
   registry_error + fleet_db" where
  "set_host_grant x db p host_id target schedule native docker =
     (let host = x_show_uuid x (host_uuid host_id);
          sel = (\<lambda>g. tg_host_id g = host \<and> tg_target_id g = target) in
      rbind (map_err (\<lambda>_. Reg_Forbidden) (require_user p)) (\<lambda>user.
      rbind (ensure_system_admin db user) (\<lambda>_.
      rbind (ensure ((\<exists>h \<in> set (hosts db). fh_id h = host \<and> fh_lifecycle_state h \<noteq> ''retired'') \<and>
                     (\<exists>t \<in> set (targets db). ct_id t = target)) Reg_NotFound) (\<lambda>_.
      Inr (audit_and_event (Some host) ''fleet.grant.changed''
        (db\<lparr>target_grants :=
           (if \<exists>g \<in> set (target_grants db). sel g
            then update_where sel
              (\<lambda>g. g\<lparr>tg_allow_schedule := schedule, tg_allow_native := native,
                     tg_allow_docker_socket := docker, tg_revision := tg_revision g + 1,
                     tg_revoked_at := None, tg_granted_by := Some user\<rparr>) (target_grants db)
            else target_grants db @
              [\<lparr>tg_host_id = host, tg_target_id = target, tg_allow_schedule = schedule,
                tg_allow_native = native, tg_allow_interactive = False,
                tg_allow_docker_socket = docker, tg_revision = 1, tg_revoked_at = None,
                tg_granted_by = Some user\<rparr>])\<rparr>))))))"

section \<open>Approval\<close>

text \<open>
  The observation the administrator approves is the host's current one: a live, unconflicted
  session of this epoch, boot and incarnation, its newest snapshot, and a live credential.
\<close>

definition observation_current ::
  "fleet_db \<Rightarrow> host_row \<Rightarrow> string \<Rightarrow> string \<Rightarrow> i64 \<Rightarrow> i64 \<Rightarrow> bool" where
  "observation_current db h host digest inventory_revision now \<longleftrightarrow>
     length [s. s \<leftarrow> observation_sessions db, i \<leftarrow> inventory_snapshots db, c \<leftarrow> credentials db,
       is_host_id i = os_host_id s \<and> is_authority_session_id i = os_session_id s \<and>
       is_inventory_sequence i = os_current_inventory_sequence s \<and>
       hk_host_id c = os_host_id s \<and> hk_id c = os_current_credential_id s \<and>
       hk_generation c = os_current_credential_generation s \<and> hk_host_epoch c = os_host_epoch s \<and>
       os_host_id s = host \<and> Some (os_session_id s) = fh_agent_session_id h \<and>
       os_host_epoch s = fh_epoch h \<and> Some (os_boot_id s) = fh_boot_id h \<and>
       Some (os_control_plane_incarnation s) = fh_authority_incarnation h \<and>
       os_ended_at s = None \<and> os_state s \<noteq> ''conflicted'' \<and> os_lease_expires_at s > now \<and>
       os_current_inventory_digest s = Some digest \<and>
       os_current_inventory_received_at s \<noteq> None \<and>
       os_current_inventory_received_at s = fh_last_inventory_at h \<and>
       is_host_epoch i = os_host_epoch s \<and>
       is_control_plane_incarnation i = os_control_plane_incarnation s \<and>
       is_inventory_sequence i > 0 \<and> Some (is_digest i) = os_current_inventory_digest s \<and>
       Some (is_received_at i) = os_current_inventory_received_at s \<and>
       is_inventory_revision i = Some inventory_revision \<and> credential_live c now] = 1"

definition inventory_fresh :: "host_row \<Rightarrow> i64 \<Rightarrow> bool" where
  "inventory_fresh h now =
     (case fh_last_inventory_at h of
        None \<Rightarrow> False
      | Some t \<Rightarrow> t \<le> now \<and> saturating_sub now t < 45000)"

definition approval_matches ::
  "externals \<Rightarrow> fleet_db \<Rightarrow> host_row \<Rightarrow> i64 \<Rightarrow> i64 \<Rightarrow> string \<Rightarrow> i64 \<Rightarrow> bool" where
  "approval_matches x db h rvn inventory_revision digest now \<longleftrightarrow>
     fh_revision h = rvn \<and> fh_inventory_revision h = inventory_revision \<and> inventory_revision > 0 \<and>
     fh_inventory_digest h = Some digest \<and>
     validate_secret_text (x_codec x) digest = Inr () \<and> fh_inventory_complete h \<and>
     fh_inventory_epoch h = Some (fh_epoch h) \<and>
     fh_inventory_session_id h = fh_agent_session_id h \<and> fh_inventory_boot_id h = fh_boot_id h \<and>
     fh_authority_incarnation h = map_option cp_incarnation (control_plane db) \<and>
     inventory_fresh h now"

definition ensure_all_targets ::
  "externals \<Rightarrow> fleet_db \<Rightarrow> string \<Rightarrow> ci_target_id list \<Rightarrow> registry_error + unit" where
  "ensure_all_targets x db user ids = rfold (\<lambda>_ t. ensure_target_admin x db user t) ids ()"

definition revoke_other_grants :: "string \<Rightarrow> string list \<Rightarrow> i64 \<Rightarrow> fleet_db \<Rightarrow> fleet_db" where
  "revoke_other_grants host keep now db =
     db\<lparr>target_grants := update_where
          (\<lambda>g. tg_host_id g = host \<and> tg_revoked_at g = None \<and> tg_target_id g \<notin> set keep)
          (\<lambda>g. g\<lparr>tg_revoked_at := Some now\<rparr>) (target_grants db)\<rparr>"

text \<open>A target the host never had may be scheduled; a revoked one comes back with nothing allowed.\<close>

definition grant_target :: "string \<Rightarrow> string \<Rightarrow> fleet_db \<Rightarrow> string \<Rightarrow> fleet_db" where
  "grant_target host user db target =
     (let same = (\<lambda>g. tg_host_id g = host \<and> tg_target_id g = target) in
      case find same (target_grants db) of
        None \<Rightarrow> db\<lparr>target_grants := target_grants db @
          [\<lparr>tg_host_id = host, tg_target_id = target, tg_allow_schedule = True,
            tg_allow_native = False, tg_allow_interactive = False, tg_allow_docker_socket = False,
            tg_revision = 1, tg_revoked_at = None, tg_granted_by = Some user\<rparr>]\<rparr>
      | Some row \<Rightarrow>
          if tg_revoked_at row \<noteq> None then
            db\<lparr>target_grants := update_where (\<lambda>g. same g \<and> tg_revoked_at g \<noteq> None)
              (\<lambda>g. g\<lparr>tg_allow_schedule := False, tg_allow_native := False,
                     tg_allow_interactive := False, tg_allow_docker_socket := False,
                     tg_revision := tg_revision g + 1, tg_revoked_at := None,
                     tg_granted_by := Some user\<rparr>) (target_grants db)\<rparr>
          else db)"

definition approve_writes ::
  "externals \<Rightarrow> string \<Rightarrow> string \<Rightarrow> i64 \<Rightarrow> string list \<Rightarrow> i64 \<Rightarrow> fleet_db \<Rightarrow> fleet_db" where
  "approve_writes x host user rvn requested now db =
     audit_and_event (Some host) ''fleet.host.approved''
       (update_hosts (\<lambda>h. fh_id h = host \<and> fh_revision h = rvn)
          (\<lambda>h. h\<lparr>fh_enrollment_state := ''approved'', fh_lifecycle_state := ''paused'',
                 fh_integrity_state := ''verified'', fh_revision := fh_revision h + 1,
                 fh_updated_at := now\<rparr>)
          (foldl (grant_target host user) (revoke_other_grants host requested now db) requested))"

definition approve_host ::
  "externals \<Rightarrow> fleet_db \<Rightarrow> principal \<Rightarrow> approve_host_request \<Rightarrow> i64 \<Rightarrow> registry_error + fleet_db" where
  "approve_host x db p r now =
     (let host = x_show_uuid x (host_uuid (ap_host_id r)) in
      rbind (map_err (\<lambda>_. Reg_Forbidden) (require_user p)) (\<lambda>user.
      rbind (ensure_system_admin db user) (\<lambda>_.
      rbind (ok_or (find (\<lambda>h. fh_id h = host) (hosts db)) Reg_NotFound) (\<lambda>h.
      rbind (ensure (\<not> (fh_enrollment_state h = ''revoked'' \<or> fh_lifecycle_state h = ''retired''))
               Reg_Forbidden) (\<lambda>_.
      rbind (ensure (fh_enrollment_state h = ''pending'') Reg_StaleRevision) (\<lambda>_.
      rbind (expected_revision_i64 (ap_expected_revision r)) (\<lambda>rvn.
      rbind (ok_or (i64_from_u64 (ap_expected_inventory_revision r))
               (Reg_InvalidRequest ''inventory revision exceeds SQLite integer'')) (\<lambda>irv.
      rbind (ensure (approval_matches x db h rvn irv (ap_expected_inventory_digest r) now)
               Reg_StaleRevision) (\<lambda>_.
      rbind (ensure (observation_current db h host (ap_expected_inventory_digest r) irv now)
               Reg_StaleRevision) (\<lambda>_.
      rbind (ok_or (lineage_scope x db host) Reg_EnrollmentScopeMismatch) (\<lambda>e.
      rbind (ok_or (scope_deserialize x (he_scope_json e)) Reg_EnrollmentScopeMismatch) (\<lambda>issued.
      rbind (ensure_scope_admin x db (he_issued_by e) issued) (\<lambda>_.
      rbind (ensure (scope_is_subset (ap_scope r) issued) Reg_EnrollmentScopeMismatch) (\<lambda>_.
      rbind (ensure_scope_admin x db user (ap_scope r)) (\<lambda>_.
      rbind (ensure_all_targets x db user (scope_target_ids (ap_scope r))) (\<lambda>_.
      rbind (granted_targets x db host) (\<lambda>current.
      rbind (ensure_all_targets x db user current) (\<lambda>_.
      Inr (approve_writes x host user rvn (map (target_text x) (scope_target_ids (ap_scope r)))
             now db)))))))))))))))))))"

end
