(* ===== verification/Registry_Invariants.thy ===== *)
theory Registry_Invariants
  imports Host_Admin Rotation Ledger
begin

text \<open>
  The registry as a transition system: every transaction of an administrator or a host on the
  enrollments, hosts, credentials and rotations. The invariant says that rotation rows keep the
  shape their table demands, that a host has one open rotation at most, with a generation beyond
  all others, and that an acknowledged rotation leaves no older credential of the host live.
\<close>

section \<open>Steps\<close>

inductive registry_step :: "externals \<Rightarrow> fleet_db \<Rightarrow> fleet_db \<Rightarrow> bool" for x where
  issues: "issue_enrollment x db p r bytes fresh now = Inr (db', i) \<Longrightarrow> registry_step x db db'"
| withdraws: "revoke_enrollment x db p eid now = Inr db' \<Longrightarrow> registry_step x db db'"
| consumes: "consume_enrollment x db code reg bytes hid did cid now = Inr (db', receipt) \<Longrightarrow>
    registry_step x db db'"
| recovers: "recover_host x db p rec bytes fresh now = Inr (db', ri) \<Longrightarrow> registry_step x db db'"
| lifecycle: "set_host_lifecycle x db p host rvn intent now = Inr db' \<Longrightarrow> registry_step x db db'"
| retires: "retire_host x db p host rvn now = Inr db' \<Longrightarrow> registry_step x db db'"
| enables: "set_backend_enabled x db p host bid b = Inr db' \<Longrightarrow> registry_step x db db'"
| grants: "set_host_grant x db p host tgt s n d = Inr db' \<Longrightarrow> registry_step x db db'"
| approves: "approve_host x db p ap now = Inr db' \<Longrightarrow> registry_step x db db'"
| requests: "request_rotation x db p rq fresh now = Inr (db', rc) \<Longrightarrow> registry_step x db db'"
| exchanges: "exchange_rotation x db a oid secret cid now = Inr (db', rx) \<Longrightarrow> registry_step x db db'"
| acknowledges: "acknowledge_rotation x db a oid now = Inr (db', ra) \<Longrightarrow> registry_step x db db'"
| revokes: "revoke_credential x db p host g now = Inr db' \<Longrightarrow> registry_step x db db'"

inductive registry_reachable :: "externals \<Rightarrow> fleet_db \<Rightarrow> fleet_db \<Rightarrow> bool" for x db where
  start: "registry_reachable x db db"
| more: "\<lbrakk>registry_reachable x db db'; registry_step x db' db''\<rbrakk> \<Longrightarrow> registry_reachable x db db''"

section \<open>The invariant\<close>

text \<open>The check on the phases of \<^verbatim>\<open>host_credential_rotations\<close>.\<close>

definition exchange_recorded :: "rotation_row \<Rightarrow> bool" where
  "exchange_recorded r \<longleftrightarrow>
     cr_proposed_verifier r \<noteq> None \<and> cr_exchanged_at r \<noteq> None \<and> cr_overlap_expires_at r \<noteq> None"

definition exchange_absent :: "rotation_row \<Rightarrow> bool" where
  "exchange_absent r \<longleftrightarrow>
     cr_proposed_verifier r = None \<and> cr_exchanged_at r = None \<and> cr_overlap_expires_at r = None"

definition rotation_wf :: "rotation_row \<Rightarrow> bool" where
  "rotation_wf r \<longleftrightarrow>
     (cr_phase r = ''requested'' \<and> exchange_absent r \<and> cr_acknowledged_at r = None \<and>
        cr_revoked_at r = None) \<or>
     (cr_phase r = ''exchanged'' \<and> exchange_recorded r \<and> cr_acknowledged_at r = None \<and>
        cr_revoked_at r = None) \<or>
     (cr_phase r = ''acknowledged'' \<and> exchange_recorded r \<and> cr_acknowledged_at r \<noteq> None \<and>
        cr_revoked_at r = None) \<or>
     (cr_phase r = ''revoked'' \<and> cr_revoked_at r \<noteq> None \<and> cr_acknowledged_at r = None \<and>
        (exchange_absent r \<or> exchange_recorded r))"

definition rotations_ordered :: "rotation_row list \<Rightarrow> bool" where
  "rotations_ordered rs \<longleftrightarrow>
     (\<forall>r \<in> set rs. \<forall>s \<in> set rs. rotation_open r \<and> cr_host_id s = cr_host_id r \<and> cr_id s \<noteq> cr_id r \<longrightarrow>
        cr_next_generation s < cr_next_generation r)"

definition rotations_fence :: "rotation_row list \<Rightarrow> credential_row list \<Rightarrow> bool" where
  "rotations_fence rs cs \<longleftrightarrow>
     (\<forall>r \<in> set rs. \<forall>c \<in> set cs. cr_phase r = ''acknowledged'' \<and> hk_host_id c = cr_host_id r \<and>
        hk_revoked_at c = None \<longrightarrow> cr_next_generation r \<le> hk_generation c)"

definition registry_sound :: "fleet_db \<Rightarrow> bool" where
  "registry_sound db \<longleftrightarrow>
     distinct (map fh_id (hosts db)) \<and> distinct (map cr_id (rotations db)) \<and>
     (\<forall>r \<in> set (rotations db). rotation_wf r \<and> cr_host_id r \<in> fh_id ` set (hosts db)) \<and>
     rotations_ordered (rotations db) \<and> rotations_fence (rotations db) (credentials db)"

section \<open>Steps that only take away\<close>

text \<open>
  Most operations keep the identifiers of hosts, close rotations or leave them, and give no
  credential back.
\<close>

definition credentials_shrink :: "credential_row list \<Rightarrow> credential_row list \<Rightarrow> bool" where
  "credentials_shrink cs cs' \<longleftrightarrow>
     (\<forall>c' \<in> set cs'. hk_revoked_at c' = None \<longrightarrow> (\<exists>c \<in> set cs. hk_revoked_at c = None \<and>
        hk_host_id c = hk_host_id c' \<and> hk_generation c = hk_generation c'))"

definition rotation_closes :: "rotation_row \<Rightarrow> rotation_row \<Rightarrow> bool" where
  "rotation_closes r r' \<longleftrightarrow>
     cr_id r' = cr_id r \<and> cr_host_id r' = cr_host_id r \<and>
     cr_next_generation r' = cr_next_generation r \<and> (rotation_wf r \<longrightarrow> rotation_wf r') \<and>
     (rotation_open r' \<longrightarrow> rotation_open r) \<and>
     (cr_phase r' = ''acknowledged'' \<longrightarrow> cr_phase r = ''acknowledged'')"

definition registry_shrinks :: "fleet_db \<Rightarrow> fleet_db \<Rightarrow> bool" where
  "registry_shrinks db db' \<longleftrightarrow>
     map fh_id (hosts db') = map fh_id (hosts db) \<and>
     list_all2 rotation_closes (rotations db) (rotations db') \<and>
     credentials_shrink (credentials db) (credentials db')"

lemma credentials_shrink_trans:
  "\<lbrakk>credentials_shrink a b; credentials_shrink b c\<rbrakk> \<Longrightarrow> credentials_shrink a c"
  unfolding credentials_shrink_def by metis

lemma credentials_shrink_refl [simp]: "credentials_shrink cs cs"
  by (auto simp: credentials_shrink_def)

lemma credentials_shrink_update:
  assumes "\<And>c. hk_revoked_at (f c) = None \<Longrightarrow> hk_revoked_at c = None"
    and "\<And>c. hk_host_id (f c) = hk_host_id c" and "\<And>c. hk_generation (f c) = hk_generation c"
  shows "credentials_shrink cs (update_where q f cs)"
  unfolding credentials_shrink_def set_update_where
proof (intro ballI impI)
  fix c' assume "c' \<in> (\<lambda>c. if q c then f c else c) ` set cs" and live: "hk_revoked_at c' = None"
  then obtain c where "c \<in> set cs" "c' = (if q c then f c else c)" by auto
  with live assms show "\<exists>c \<in> set cs. hk_revoked_at c = None \<and> hk_host_id c = hk_host_id c' \<and>
      hk_generation c = hk_generation c'"
    by (intro bexI [of _ c]) (auto split: if_splits)
qed

lemma rotation_closes_refl [simp]: "rotation_closes r r"
  by (simp add: rotation_closes_def)

lemma rotations_close_refl [simp]: "list_all2 rotation_closes rs rs"
  by (simp add: list_all2_same)

lemma rotations_close_trans:
  "\<lbrakk>list_all2 rotation_closes a b; list_all2 rotation_closes b c\<rbrakk> \<Longrightarrow> list_all2 rotation_closes a c"
  by (rule list_all2_trans [of rotation_closes rotation_closes]) (auto simp: rotation_closes_def)

interpretation registry: step_preorder registry_shrinks
  by unfold_locales
    (auto simp: registry_shrinks_def intro: credentials_shrink_trans rotations_close_trans)

lemma rotations_close_members:
  assumes "list_all2 rotation_closes rs rs'" and "r' \<in> set rs'"
  obtains r where "r \<in> set rs" "rotation_closes r r'"
  using assms by (metis in_set_conv_nth list_all2_conv_all_nth)

lemma rotations_close_ids: "list_all2 rotation_closes rs rs' \<Longrightarrow> map cr_id rs' = map cr_id rs"
  by (induction rule: list_all2_induct) (auto simp: rotation_closes_def)

lemma rotations_close_ordered:
  assumes "list_all2 rotation_closes rs rs'" and "rotations_ordered rs"
  shows "rotations_ordered rs'"
  unfolding rotations_ordered_def
proof (intro ballI impI, elim conjE)
  fix r' s' assume "r' \<in> set rs'" "s' \<in> set rs'"
    and h: "rotation_open r'" "cr_host_id s' = cr_host_id r'" "cr_id s' \<noteq> cr_id r'"
  from assms(1) this(1,2) obtain r s where "r \<in> set rs" "rotation_closes r r'"
    "s \<in> set rs" "rotation_closes s s'" by (meson rotations_close_members)
  with h assms(2) show "cr_next_generation s' < cr_next_generation r'"
    by (auto simp: rotations_ordered_def rotation_closes_def)
qed

lemma fence_shrink:
  assumes "rotations_fence rs cs" and "list_all2 rotation_closes rs rs'" and "credentials_shrink cs cs'"
  shows "rotations_fence rs' cs'"
  unfolding rotations_fence_def
proof (intro ballI impI, elim conjE)
  fix r' c' assume "r' \<in> set rs'" and c': "c' \<in> set cs'" and h: "cr_phase r' = ''acknowledged''"
    "hk_host_id c' = cr_host_id r'" "hk_revoked_at c' = None"
  from assms(2) this(1) obtain r where r: "r \<in> set rs" "rotation_closes r r'"
    by (rule rotations_close_members)
  from assms(3) c' h(3) obtain c where "c \<in> set cs" "hk_revoked_at c = None"
    "hk_host_id c = hk_host_id c'" "hk_generation c = hk_generation c'"
    by (auto simp: credentials_shrink_def)
  with r h assms(1) show "cr_next_generation r' \<le> hk_generation c'"
    unfolding rotations_fence_def rotation_closes_def by metis
qed

lemma same_host_ids:
  "map fh_id (hosts db') = map fh_id (hosts db) \<Longrightarrow> fh_id ` set (hosts db') = fh_id ` set (hosts db)"
  by (metis list.set_map)

lemma registry_shrinks_sound:
  assumes "registry_shrinks db db'" and "registry_sound db"
  shows "registry_sound db'"
proof -
  from assms(1) have same: "map fh_id (hosts db') = map fh_id (hosts db)"
    and close: "list_all2 rotation_closes (rotations db) (rotations db')"
    and shrink: "credentials_shrink (credentials db) (credentials db')"
    by (simp_all add: registry_shrinks_def)
  have "rotation_wf r' \<and> cr_host_id r' \<in> fh_id ` set (hosts db)" if "r' \<in> set (rotations db')" for r'
    using rotations_close_members [OF close that] assms(2)
    by (metis registry_sound_def rotation_closes_def)
  moreover have "rotations_fence (rotations db') (credentials db')"
    using assms(2) close shrink by (auto simp: registry_sound_def intro: fence_shrink)
  moreover have "rotations_ordered (rotations db')"
    using assms(2) rotations_close_ordered [OF close] by (simp add: registry_sound_def)
  ultimately show ?thesis
    using assms(2) unfolding registry_sound_def same same_host_ids [OF same] rotations_close_ids [OF close]
    by blast
qed

lemma map_id_update_hosts:
  assumes "\<And>h. fh_id (f h) = fh_id h"
  shows "map fh_id (hosts (update_hosts q f db)) = map fh_id (hosts db)"
  using assms by (simp add: update_hosts_def map_update_where invalidate_inventory_def)

lemma update_hosts_tables [simp]:
  "rotations (update_hosts q f db) = rotations db"
  "credentials (update_hosts q f db) = credentials db"
  "enrollments (update_hosts q f db) = enrollments db"
  "target_grants (update_hosts q f db) = target_grants db"
  by (simp_all add: update_hosts_def)

lemma audit_tables [simp]:
  "rotations (audit_and_event h a db) = rotations db"
  "credentials (audit_and_event h a db) = credentials db"
  "enrollments (audit_and_event h a db) = enrollments db"
  "target_grants (audit_and_event h a db) = target_grants db"
  "hosts (audit_and_event h a db) = hosts db"
  by (simp_all add: audit_and_event_def)

lemma revoke_credentials_tables [simp]:
  "rotations (revoke_credentials q now db) = rotations db"
  "enrollments (revoke_credentials q now db) = enrollments db"
  "hosts (revoke_credentials q now db) = hosts db"
  by (simp_all add: revoke_credentials_def)

lemma revoke_credentials_shrink:
  "credentials_shrink (credentials db) (credentials (revoke_credentials q now db))"
  unfolding revoke_credentials_def by simp (rule credentials_shrink_update, auto)

lemma registry_shrinks_frame:
  assumes "map fh_id (hosts db') = map fh_id (hosts db)" "rotations db' = rotations db"
    "credentials_shrink (credentials db) (credentials db')"
  shows "registry_shrinks db db'"
  using assms by (simp add: registry_shrinks_def)

lemma close_rotation_shrinks:
  assumes "\<And>r. q r \<Longrightarrow> rotation_open r"
  shows "registry_shrinks db (close_rotation q host action now db rid)"
proof -
  have "rotation_closes r (r\<lparr>cr_phase := ''revoked'', cr_revoked_at := Some now\<rparr>)" if "q r" for r
    using assms [OF that]
    by (auto simp: rotation_closes_def rotation_wf_def rotation_open_def exchange_absent_def
        exchange_recorded_def)
  then show ?thesis
    by (auto simp: registry_shrinks_def close_rotation_def Let_def update_where_def list_all2_map2
        list_all2_same)
qed

lemma close_rotations_shrinks:
  assumes "\<And>r. q r \<Longrightarrow> rotation_open r"
  shows "registry_shrinks db (close_rotations q host action now db)"
  unfolding close_rotations_def
  by (rule registry.foldl_step) (rule close_rotation_shrinks [OF assms])

lemma revoke_rotations_shrinks:
  "registry_shrinks db (revoke_expired_rotations host now db)"
  "registry_shrinks db (revoke_open_rotations host now action db)"
  unfolding revoke_expired_rotations_def revoke_open_rotations_def
  by (rule close_rotations_shrinks, simp add: rotation_expired_def rotation_open_def)+

lemma close_rotation_tables [simp]:
  "hosts (close_rotation q host action now db rid) = hosts db"
  "credentials (close_rotation q host action now db rid) = credentials db"
  "enrollments (close_rotation q host action now db rid) = enrollments db"
  by (simp_all add: close_rotation_def Let_def)

lemma close_rotations_tables [simp]:
  "hosts (close_rotations q host action now db) = hosts db"
  "credentials (close_rotations q host action now db) = credentials db"
  "enrollments (close_rotations q host action now db) = enrollments db"
proof -
  have "hosts (foldl (close_rotation q host action now) db ids) = hosts db \<and>
      credentials (foldl (close_rotation q host action now) db ids) = credentials db \<and>
      enrollments (foldl (close_rotation q host action now) db ids) = enrollments db" for ids
    by (induction ids arbitrary: db) simp_all
  then show "hosts (close_rotations q host action now db) = hosts db"
    "credentials (close_rotations q host action now db) = credentials db"
    "enrollments (close_rotations q host action now db) = enrollments db"
    by (simp_all add: close_rotations_def)
qed

lemma insert_enrollment_shrinks:
  "insert_enrollment row db = Inr db' \<Longrightarrow> registry_shrinks db db'"
  by (rule registry_shrinks_frame)
    (auto simp: insert_enrollment_def rbind_eq_Inr map_err_eq_Inr)

lemma audit_shrinks: "registry_shrinks db (audit_and_event h action db)"
  by (rule registry_shrinks_frame) simp_all

lemma revoke_credentials_shrinks: "registry_shrinks db (revoke_credentials q now db)"
  by (rule registry_shrinks_frame) (simp_all add: revoke_credentials_shrink)

lemma update_hosts_shrinks:
  "(\<And>h. fh_id (f h) = fh_id h) \<Longrightarrow> registry_shrinks db (update_hosts q f db)"
  by (rule registry_shrinks_frame) (simp_all add: map_id_update_hosts)

lemma enrollment_steps_shrink:
  "issue_enrollment x db p r bytes fresh now = Inr (db', i) \<Longrightarrow> registry_shrinks db db'"
  "revoke_enrollment x db p eid now = Inr db' \<Longrightarrow> registry_shrinks db db'"
  "recover_host x db p rec bytes fresh now = Inr (db', ri) \<Longrightarrow> registry_shrinks db db'"
  subgoal
    unfolding issue_enrollment_def Let_def rbind_eq_Inr
    by (auto simp: rbind_eq_Inr split: option.splits
        intro: registry.step_refl registry.step_trans [OF insert_enrollment_shrinks audit_shrinks])
  subgoal
    by (rule registry_shrinks_frame)
      (auto simp: revoke_enrollment_def rbind_eq_Inr Let_def split: if_splits)
  subgoal
    unfolding recover_host_def Let_def rbind_eq_Inr
    by (auto simp: rbind_eq_Inr split: option.splits
        intro: registry.step_refl registry.step_trans [OF insert_enrollment_shrinks audit_shrinks])
  done

lemma grant_target_tables:
  "hosts (foldl (grant_target host user) db ts) = hosts db"
  "rotations (foldl (grant_target host user) db ts) = rotations db"
  "credentials (foldl (grant_target host user) db ts) = credentials db"
  by (induction ts arbitrary: db) (auto simp: grant_target_def Let_def split: option.splits)

lemma admin_steps_shrink:
  "set_host_lifecycle x db p host rvn intent now = Inr db' \<Longrightarrow> registry_shrinks db db'"
  "retire_host x db p host rvn now = Inr db' \<Longrightarrow> registry_shrinks db db'"
  "set_backend_enabled x db p host bid b = Inr db' \<Longrightarrow> registry_shrinks db db'"
  "set_host_grant x db p host tgt s n d = Inr db' \<Longrightarrow> registry_shrinks db db'"
  "approve_host x db p ap now = Inr db' \<Longrightarrow> registry_shrinks db db'"
  subgoal
    by (rule registry_shrinks_frame)
      (auto simp: set_host_lifecycle_def rbind_eq_Inr Let_def map_id_update_hosts split: if_splits)
  subgoal
    unfolding retire_host_def Let_def rbind_eq_Inr
    by (auto simp: rbind_eq_Inr split: if_splits
        intro: registry.step_refl registry.step_trans [OF registry.step_trans
          [OF update_hosts_shrinks revoke_credentials_shrinks] audit_shrinks])
  subgoal
    by (rule registry_shrinks_frame) (auto simp: set_backend_enabled_def rbind_eq_Inr Let_def)
  subgoal
    by (rule registry_shrinks_frame) (auto simp: set_host_grant_def rbind_eq_Inr Let_def)
  subgoal
    by (rule registry_shrinks_frame)
      (auto simp: approve_host_def approve_writes_def revoke_other_grants_def rbind_eq_Inr Let_def
        map_id_update_hosts grant_target_tables)
  done

lemma revoke_credential_shrinks:
  assumes "revoke_credential x db p host_id g now = Inr db'"
  shows "registry_shrinks db db'"
proof -
  note 1 = revoke_credentials_shrinks
  have 2: "registry_shrinks db (update_hosts q (quarantine_host now) db)" for q db
    by (rule update_hosts_shrinks) (simp add: quarantine_host_def)
  show ?thesis
    using assms unfolding revoke_credential_def Let_def rbind_eq_Inr
    by (auto split: if_splits intro: registry.step_trans [OF registry.step_trans
          [OF registry.step_trans [OF 1 revoke_rotations_shrinks(2)] 2] audit_shrinks]
        registry.step_trans [OF registry.step_trans [OF 1 revoke_rotations_shrinks(2)] audit_shrinks])
qed

section \<open>Steps that give\<close>

lemma fold_max_ge: "m \<le> fold max vs m \<and> (\<forall>v \<in> set vs. v \<le> fold max vs m)" for m :: int
  by (induction vs arbitrary: m) (simp, metis fold_simps(2) max.bounded_iff max.commute set_ConsD)

lemma max_or_zero_ge: "v \<in> set vs \<Longrightarrow> v \<le> max_or_zero vs"
  by (cases vs) (auto simp: max_or_zero_def fold_max_ge)

lemma next_generation_above:
  assumes "next_generation db host = Inr gen"
  shows "\<And>c. \<lbrakk>c \<in> set (credentials db); hk_host_id c = host\<rbrakk> \<Longrightarrow> hk_generation c < gen"
    and "\<And>r. \<lbrakk>r \<in> set (rotations db); cr_host_id r = host\<rbrakk> \<Longrightarrow> cr_next_generation r < gen"
proof -
  let ?c = "max_or_zero (map hk_generation (filter (\<lambda>c. hk_host_id c = host) (credentials db)))"
  let ?r = "max_or_zero (map cr_next_generation (filter (\<lambda>r. cr_host_id r = host) (rotations db)))"
  have gen: "gen = max ?c ?r + 1"
    using assms by (simp add: next_generation_def ok_or_eq_Inr checked_add_i64_eq_Some)
  show "hk_generation c < gen" if "c \<in> set (credentials db)" "hk_host_id c = host" for c
  proof -
    have "hk_generation c \<le> ?c" using that by (intro max_or_zero_ge) auto
    with gen show ?thesis by simp
  qed
  show "cr_next_generation r < gen" if "r \<in> set (rotations db)" "cr_host_id r = host" for r
  proof -
    have "cr_next_generation r \<le> ?r" using that by (intro max_or_zero_ge) auto
    with gen show ?thesis by simp
  qed
qed

lemma insert_credential_tables:
  assumes "insert_credential row db = Inr db'"
  shows "db' = db\<lparr>credentials := credentials db @ [row]\<rparr>" and "hk_id row \<notin> hk_id ` set (credentials db)"
    and "hk_verifier row \<notin> hk_verifier ` set (credentials db)"
  using assms by (auto simp: insert_credential_def rbind_eq_Inr map_err_eq_Inr insert_unique_eq_Inr)

lemma insert_credential_sound:
  assumes "insert_credential row db = Inr db'" and "registry_sound db"
    and "\<And>r. \<lbrakk>r \<in> set (rotations db); cr_phase r = ''acknowledged''; cr_host_id r = hk_host_id row\<rbrakk> \<Longrightarrow>
      cr_next_generation r \<le> hk_generation row"
  shows "registry_sound db'"
  using assms(2,3) unfolding insert_credential_tables(1) [OF assms(1)]
  by (auto simp: registry_sound_def rotations_fence_def)

lemma open_rotation_active: "\<lbrakk>rotation_wf r; rotation_open r\<rbrakk> \<Longrightarrow> rotation_active r"
  by (auto simp: rotation_wf_def rotation_open_def rotation_active_def)

lemma insert_rotation_sound:
  assumes "insert_rotation row db = Inr db'" and "registry_sound db"
    and "rotation_wf row" and "cr_phase row = ''requested''" and "cr_host_id row \<in> fh_id ` set (hosts db)"
    and "\<And>r. \<lbrakk>r \<in> set (rotations db); cr_host_id r = cr_host_id row\<rbrakk> \<Longrightarrow>
      cr_next_generation r < cr_next_generation row"
  shows "registry_sound db'"
proof -
  from assms(1) have db': "db' = db\<lparr>rotations := rotations db @ [row]\<rparr>"
    and fresh: "cr_id row \<notin> cr_id ` set (rotations db)"
    and none: "\<not> (\<exists>r \<in> set (rotations db). cr_host_id r = cr_host_id row \<and> rotation_active r)"
    by (auto simp: insert_rotation_def rbind_eq_Inr map_err_eq_Inr insert_unique_eq_Inr result_splits)
  have "\<not> rotation_open r" if "r \<in> set (rotations db)" "cr_host_id r = cr_host_id row" for r
    using that none assms(2) open_rotation_active by (auto simp: registry_sound_def)
  then have "rotations_ordered (rotations db @ [row])"
    using assms(2,6) by (auto simp: registry_sound_def rotations_ordered_def)
  then show ?thesis
    using assms(2-5) fresh by (auto simp: db' registry_sound_def rotations_fence_def)
qed

lemma request_rotation_sound:
  assumes "request_rotation x db p r fresh now = Inr (db', receipt)" and "registry_sound db"
  shows "registry_sound db'"
proof -
  let ?host = "x_show_uuid x (host_uuid (rq_host_id r))"
  let ?db1 = "revoke_expired_rotations ?host now db"
  have sound: "registry_sound ?db1"
    using revoke_rotations_shrinks(1) assms(2) by (rule registry_shrinks_sound)
  consider "db' = db"
    | h row gen db2 where "find (\<lambda>h. fh_id h = ?host) (hosts db) = Some h"
      "next_generation ?db1 ?host = Inr gen" "insert_rotation row ?db1 = Inr db2"
      "rotation_wf row" "cr_phase row = ''requested''" "cr_host_id row = ?host"
      "cr_next_generation row = gen"
      "db' = audit_and_event (Some ?host) ''fleet.credential.rotation_requested'' db2"
  proof (cases "find (\<lambda>c. cr_host_id c = ?host \<and> cr_idempotency_key c = rq_idempotency_key r)
      (rotations db)")
    case None
    with assms(1) show thesis
      unfolding request_rotation_def Let_def rbind_eq_Inr
      by (elim exE conjE, simp only: option.case rbind_eq_Inr ok_or_eq_Inr)
        (elim exE conjE, rule that(2), assumption+, auto simp: rotation_wf_def exchange_absent_def)
  next
    case (Some row)
    with assms(1) show thesis
      by (intro that(1)) (auto simp: request_rotation_def Let_def rbind_eq_Inr)
  qed
  then show ?thesis
  proof cases
    case 2
    have "registry_sound db2"
    proof (rule insert_rotation_sound [OF 2(3) sound 2(4,5)])
      show "cr_host_id row \<in> fh_id ` set (hosts ?db1)"
        using find_SomeD [OF 2(1)] 2(6) by (auto simp: revoke_expired_rotations_def intro: rev_image_eqI)
    qed (use next_generation_above(2) [OF 2(2)] 2(6,7) in auto)
    with 2(8) show ?thesis by (auto intro: registry_shrinks_sound [OF audit_shrinks])
  qed (use assms(2) in simp)
qed

lemma generation_round_trip:
  "\<lbrakk>generation_from_i64 v = Inr g; generation_i64 g = Inr w\<rbrakk> \<Longrightarrow> w = v"
  by (auto simp: generation_from_i64_def generation_i64_def rbind_eq_Inr ok_or_eq_Inr map_err_eq_Inr
      word_try_from_eq_Some generation_new_def bounded_counter_try_from_def i64_from_u64_def
      split: if_splits)

lemma rows_where_member:
  assumes "rows_where q rs = 1"
  obtains r where "r \<in> set rs" "q r"
proof -
  from assms obtain r where "filter q rs = [r]" by (auto simp: rows_where_def length_Suc_conv)
  then have "r \<in> set (filter q rs)" by simp
  then show thesis using that [of r] by simp
qed

lemma rotation_row_unique:
  assumes "distinct (map cr_id rs)" "find (\<lambda>r. cr_id r = oid) rs = Some r"
    and "s \<in> set rs" "cr_id s = oid"
  shows "s = r"
  using find_SomeD [OF assms(2)] assms by (metis distinct_map inj_onD)

lemma phase_distinct: "''acknowledged'' \<noteq> ''requested''" "''acknowledged'' \<noteq> ''exchanged''"
  by simp_all

lemma exchange_fresh_sound:
  assumes "exchange_fresh x db r oid v old cid now = Inr (db', rx)" and "registry_sound db"
    and "find (\<lambda>r. cr_id r = x_show_uuid x oid) (rotations db) = Some r"
  shows "registry_sound db'"
proof -
  let ?pick = "\<lambda>c. cr_id c = x_show_uuid x oid \<and> cr_phase c = ''requested'' \<and>
    cr_revoked_at c = None \<and> cr_expires_at c > now"
  from assms(1) obtain g gen row db1 sel overlap where
    gen: "generation_from_i64 (cr_next_generation r) = Inr g" "generation_i64 g = Inr gen"
    and ins: "insert_credential row db = Inr db1"
    and row: "hk_host_id row = cr_host_id r" "hk_generation row = gen"
    and one: "rows_where ?pick (rotations db1) = 1"
    and db': "db' = audit_and_event (Some (cr_host_id r)) ''fleet.credential.rotation_exchanged''
      (db1\<lparr>credentials := update_where sel (\<lambda>c. c\<lparr>hk_overlap_expires_at := Some overlap\<rparr>)
             (credentials db1),
           rotations := update_where ?pick
             (\<lambda>c. c\<lparr>cr_phase := ''exchanged'', cr_proposed_verifier := Some (verifier_str v),
                    cr_exchanged_at := Some now, cr_overlap_expires_at := Some overlap\<rparr>)
             (rotations db1)\<rparr>)"
    unfolding exchange_fresh_def Let_def rbind_eq_Inr ok_or_eq_Inr
    by (elim exE conjE) (auto dest!: find_SomeD simp: result_splits)
  have rots: "rotations db1 = rotations db" using insert_credential_tables(1) [OF ins] by simp
  from one obtain s where s: "s \<in> set (rotations db)" "?pick s"
    unfolding rots by (rule rows_where_member)
  then have r: "r \<in> set (rotations db)" "cr_phase r = ''requested''"
    using assms(2,3) rotation_row_unique by (auto simp: registry_sound_def)
  have "registry_sound db1"
  proof (rule insert_credential_sound [OF ins assms(2)])
    fix q assume q: "q \<in> set (rotations db)" "cr_phase q = ''acknowledged''"
      "cr_host_id q = hk_host_id row"
    then have "cr_id q \<noteq> cr_id r"
      using r assms(2) by (metis distinct_map inj_onD registry_sound_def phase_distinct)
    moreover have "rotation_open r" using r(2) by (simp add: rotation_open_def)
    ultimately have "cr_next_generation q < cr_next_generation r"
      using q r(1) assms(2) row(1) unfolding registry_sound_def rotations_ordered_def by simp
    then show "cr_next_generation q \<le> hk_generation row"
      using generation_round_trip [OF gen] row(2) by simp
  qed
  moreover have "registry_shrinks db1 db'"
    unfolding db' registry_shrinks_def
    by (auto simp: update_where_def list_all2_map2 list_all2_same rotation_closes_def rotation_wf_def
        rotation_open_def exchange_absent_def exchange_recorded_def
        intro: credentials_shrink_update [unfolded update_where_def])
  ultimately show ?thesis by (rule registry_shrinks_sound [rotated])
qed

lemma exchange_rotation_sound:
  assumes "exchange_rotation x db a oid secret cid now = Inr (db', rx)" and "registry_sound db"
  shows "registry_sound db'"
  using assms unfolding exchange_rotation_def Let_def rbind_eq_Inr ok_or_eq_Inr
  by (elim exE conjE) (auto simp: rbind_eq_Inr split: option.splits intro: exchange_fresh_sound)

lemma registry_sound_with_rotations:
  "registry_sound (db\<lparr>rotations := rs\<rparr>) \<longleftrightarrow>
     distinct (map fh_id (hosts db)) \<and> distinct (map cr_id rs) \<and>
     (\<forall>r \<in> set rs. rotation_wf r \<and> cr_host_id r \<in> fh_id ` set (hosts db)) \<and>
     rotations_ordered rs \<and> rotations_fence rs (credentials db)"
  by (simp add: registry_sound_def)

text \<open>Acknowledging revokes what the fence is about first, then closes the rotation behind it.\<close>

lemma acknowledge_effect_sound:
  assumes "registry_sound db" and "r \<in> set (rotations db)"
    and "\<And>c. \<lbrakk>c \<in> set (credentials db); hk_host_id c = cr_host_id r; hk_revoked_at c = None\<rbrakk> \<Longrightarrow>
      cr_next_generation r \<le> hk_generation c"
  shows "registry_sound (db\<lparr>rotations := update_where (\<lambda>c. cr_id c = cr_id r \<and> cr_phase c = ''exchanged'' \<and>
      cr_acknowledged_at c = None \<and> cr_revoked_at c = None)
    (\<lambda>c. c\<lparr>cr_phase := ''acknowledged'', cr_acknowledged_at := Some now\<rparr>) (rotations db)\<rparr>)"
proof -
  let ?p = "\<lambda>c. cr_id c = cr_id r \<and> cr_phase c = ''exchanged'' \<and> cr_acknowledged_at c = None \<and>
    cr_revoked_at c = None"
  let ?f = "\<lambda>c. if ?p c then c\<lparr>cr_phase := ''acknowledged'', cr_acknowledged_at := Some now\<rparr> else c"
  have uniq: "c = r" if "c \<in> set (rotations db)" "cr_id c = cr_id r" for c
    using that assms(1,2) by (metis distinct_map inj_onD registry_sound_def)
  have wf: "rotation_wf (?f c) \<and> cr_host_id (?f c) \<in> fh_id ` set (hosts db)"
    if "c \<in> set (rotations db)" for c
    using that assms(1) by (auto simp: registry_sound_def rotation_wf_def exchange_recorded_def
        exchange_absent_def)
  have ordered: "rotations_ordered (map ?f (rotations db))"
    using assms(1) unfolding registry_sound_def rotations_ordered_def
    by (auto simp: rotation_open_def)
  have fence: "rotations_fence (map ?f (rotations db)) (credentials db)"
    unfolding rotations_fence_def
  proof (intro ballI impI, elim conjE)
    fix q c assume "q \<in> set (map ?f (rotations db))" and c: "c \<in> set (credentials db)"
      and h: "cr_phase q = ''acknowledged''" "hk_host_id c = cr_host_id q" "hk_revoked_at c = None"
    then obtain k where k: "k \<in> set (rotations db)" "q = ?f k" by auto
    show "cr_next_generation q \<le> hk_generation c"
    proof (cases "?p k")
      case True
      with uniq [OF k(1)] k(2) c h assms(3) show ?thesis by simp
    next
      case False
      with k c h assms(1) show ?thesis by (simp add: registry_sound_def rotations_fence_def)
    qed
  qed
  have ids: "map cr_id (map ?f (rotations db)) = map cr_id (rotations db)" by simp
  have rows: "update_where ?p (\<lambda>c. c\<lparr>cr_phase := ''acknowledged'', cr_acknowledged_at := Some now\<rparr>)
      (rotations db) = map ?f (rotations db)"
    by (simp add: update_where_def)
  have all: "\<forall>c \<in> set (map ?f (rotations db)). rotation_wf c \<and> cr_host_id c \<in> fh_id ` set (hosts db)"
    using wf unfolding set_map by blast
  show ?thesis
    unfolding rows registry_sound_with_rotations ids
    using assms(1) all ordered fence unfolding registry_sound_def by blast
qed

lemma acknowledge_rotation_sound:
  assumes "acknowledge_rotation x db a oid now = Inr (db', ra)" and "registry_sound db"
  shows "registry_sound db'"
proof -
  let ?host = "x_show_uuid x (host_uuid (ah_host_id a))"
  from assms(1) obtain r g where
    r: "find (\<lambda>r. cr_id r = x_show_uuid x oid) (rotations db) = Some r" "cr_host_id r = ?host"
    and g: "generation_from_i64 (cr_next_generation r) = Inr g" "g = ah_generation a"
    unfolding acknowledge_rotation_def Let_def rbind_eq_Inr ok_or_eq_Inr
    by (elim exE conjE) (simp add: result_splits)
  have oid: "r \<in> set (rotations db)" "cr_id r = x_show_uuid x oid" using find_SomeD [OF r(1)] by auto
  show ?thesis
  proof (cases "cr_acknowledged_at r")
    case None
    let ?pick = "\<lambda>c. cr_id c = cr_id r \<and> cr_phase c = ''exchanged'' \<and> cr_acknowledged_at c = None \<and>
      cr_revoked_at c = None"
    let ?ack = "\<lambda>c. c\<lparr>cr_phase := ''acknowledged'', cr_acknowledged_at := Some now\<rparr>"
    from assms(1) None r g obtain gen mark f where
      gen: "generation_i64 g = Inr gen" and
      db': "db' = audit_and_event (Some ?host) ''fleet.credential.rotation_acknowledged''
        (update_hosts (\<lambda>h. fh_id h = ?host) f
          (revoke_credentials (\<lambda>c. hk_host_id c = ?host \<and> hk_generation c < gen) now
            (db\<lparr>rotations := update_where ?pick ?ack (rotations db),
                 credentials := update_where mark (\<lambda>c. c\<lparr>hk_acknowledged_at := Some now\<rparr>)
                   (credentials db)\<rparr>)))"
      and f: "\<And>h. fh_id (f h) = fh_id h"
      unfolding acknowledge_rotation_def Let_def rbind_eq_Inr
      by (elim exE conjE) (auto simp: rbind_eq_Inr oid)
    let ?db1 = "revoke_credentials (\<lambda>c. hk_host_id c = ?host \<and> hk_generation c < gen) now
      (db\<lparr>credentials := update_where mark (\<lambda>c. c\<lparr>hk_acknowledged_at := Some now\<rparr>) (credentials db)\<rparr>)"
    have "registry_shrinks db (db\<lparr>credentials := update_where mark
        (\<lambda>c. c\<lparr>hk_acknowledged_at := Some now\<rparr>) (credentials db)\<rparr>)"
      by (rule registry_shrinks_frame) (auto intro: credentials_shrink_update)
    then have "registry_sound ?db1"
      using assms(2) by (blast intro: registry_shrinks_sound revoke_credentials_shrinks)
    moreover have "cr_next_generation r \<le> hk_generation c"
      if "c \<in> set (credentials ?db1)" "hk_host_id c = cr_host_id r" "hk_revoked_at c = None" for c
      using that generation_round_trip [OF g(1) gen] r(2)
      by (auto simp: revoke_credentials_def set_update_where split: if_splits)
    ultimately have "registry_sound (?db1\<lparr>rotations := update_where ?pick ?ack (rotations ?db1)\<rparr>)"
      using oid by (intro acknowledge_effect_sound) simp_all
    moreover have "?db1\<lparr>rotations := update_where ?pick ?ack (rotations ?db1)\<rparr> =
      revoke_credentials (\<lambda>c. hk_host_id c = ?host \<and> hk_generation c < gen) now
        (db\<lparr>rotations := update_where ?pick ?ack (rotations db),
             credentials := update_where mark (\<lambda>c. c\<lparr>hk_acknowledged_at := Some now\<rparr>)
               (credentials db)\<rparr>)"
      by (simp add: revoke_credentials_def)
    ultimately show ?thesis
      unfolding db'
      by (intro registry_shrinks_sound [OF audit_shrinks]
          registry_shrinks_sound [OF update_hosts_shrinks] f) simp
  next
    case (Some t)
    with assms r g show ?thesis by (auto simp: acknowledge_rotation_def Let_def rbind_eq_Inr)
  qed
qed

section \<open>Consuming a code\<close>

lemma mark_consumed_shrinks: "mark_consumed eid host now db = Inr db' \<Longrightarrow> registry_shrinks db db'"
  by (auto simp: mark_consumed_def Let_def rbind_eq_Inr intro: registry_shrinks_frame)

lemma update_lineage_shrinks:
  assumes "update_lineage q f db = Inr db'" and "\<And>h. fh_id (f h) = fh_id h"
  shows "registry_shrinks db db'"
  using assms by (auto simp: update_lineage_def rbind_eq_Inr intro: update_hosts_shrinks)

lemma recovered_host_id [simp]: "fh_id (recovered_host eid epoch gen now h) = fh_id h"
  by (simp add: recovered_host_def)

lemma consume_recovery_sound:
  assumes "consume_recovery x db e credential cid now = Inr (db', receipt)" and "registry_sound db"
  shows "registry_sound db'"
proof -
  from assms(1) obtain epoch rvn gen db2 db3 db4 host row where
    gen: "next_generation db host = Inr gen" and
    db2: "mark_consumed (he_id e) host now (revoke_credentials (\<lambda>c. hk_host_id c = host) now
       (revoke_open_rotations host now ''fleet.credential.rotation_revoked_by_recovery'' db)) = Inr db2"
    and db3: "update_lineage
       (\<lambda>h. fh_id h = host \<and> fh_epoch h = epoch \<and> fh_revision h = rvn)
       (recovered_host (he_id e) (epoch + 1) gen now) db2 = Inr db3"
    and db4: "insert_credential row db3 = Inr db4"
    and row: "hk_host_id row = host" "hk_generation row = gen"
    and db': "db' = audit_and_event (Some host) ''fleet.host.recovered'' db4"
    unfolding consume_recovery_def Let_def rbind_eq_Inr ok_or_eq_Inr checked_add_i64_eq_Some
    by (elim exE conjE) auto
  have shrinks: "registry_shrinks db db3"
    by (rule registry.step_trans [OF registry.step_trans [OF registry.step_trans
        [OF revoke_rotations_shrinks(2) revoke_credentials_shrinks] mark_consumed_shrinks [OF db2]]
        update_lineage_shrinks [OF db3]]) simp
  have "cr_next_generation r \<le> hk_generation row"
    if "r \<in> set (rotations db3)" "cr_host_id r = hk_host_id row" for r
  proof -
    from shrinks that obtain r0 where "r0 \<in> set (rotations db)" "rotation_closes r0 r"
      unfolding registry_shrinks_def by (blast elim: rotations_close_members)
    with that row next_generation_above(2) [OF gen, of r0] show ?thesis
      by (simp add: rotation_closes_def)
  qed
  then have "registry_sound db4"
    using registry_shrinks_sound [OF shrinks assms(2)] by (blast intro: insert_credential_sound [OF db4])
  then show ?thesis unfolding db' by (rule registry_shrinks_sound [OF audit_shrinks])
qed

lemma consume_normal_sound:
  assumes "consume_normal x db e registration credential host_id did cid now = Inr (db', receipt)"
    and "registry_sound db"
  shows "registry_sound db'"
proof -
  let ?host = "x_show_uuid x (host_uuid host_id)"
  let ?row = "\<lparr>hk_id = x_show_uuid x cid, hk_host_id = ?host, hk_host_epoch = 1, hk_generation = 1,
    hk_verifier = verifier_str (secret_verifier x credential), hk_created_at = now,
    hk_overlap_expires_at = None, hk_acknowledged_at = None, hk_revoked_at = None\<rparr>"
  let ?link = "\<lambda>h. h\<lparr>fh_current_enrollment_id := Some (he_id e),
    fh_current_enrollment_epoch := Some (fh_epoch h)\<rparr>"
  from assms(1) obtain db1 db2 db3 db4 where
    fresh: "?host \<notin> fh_id ` set (hosts db)" and
    db1: "insert_root_domain (x_show_uuid x did) ?host
       (db\<lparr>hosts := hosts db @ [new_host x host_id registration now]\<rparr>) = Inr db1" and
    db2: "insert_credential ?row db1 = Inr db2" and
    db3: "mark_consumed (he_id e) ?host now db2 = Inr db3" and
    db4: "update_lineage (\<lambda>h. fh_id h = ?host \<and> fh_epoch h = 1 \<and> fh_current_enrollment_id h = None)
       ?link db3 = Inr db4" and
    db': "db' = audit_and_event (Some ?host) ''fleet.enrollment.consumed'' db4"
    unfolding consume_normal_def Let_def rbind_eq_Inr map_err_eq_Inr insert_unique_eq_Inr
    by (elim exE conjE) (auto simp: new_host_def)
  have tables: "rotations db1 = rotations db" "credentials db1 = credentials db"
    "hosts db1 = hosts db @ [new_host x host_id registration now]"
    using db1 by (auto simp: insert_root_domain_def rbind_eq_Inr map_err_eq_Inr)
  have "registry_sound db1"
    using assms(2) fresh by (auto simp: registry_sound_def tables new_host_def)
  then have "registry_sound db2"
  proof (rule insert_credential_sound [OF db2])
    fix r assume r: "r \<in> set (rotations db1)" "cr_host_id r = hk_host_id ?row"
    from assms(2) r(1) have "cr_host_id r \<in> fh_id ` set (hosts db)"
      by (simp add: registry_sound_def tables)
    with fresh r(2) show "cr_next_generation r \<le> hk_generation ?row" by simp
  qed
  moreover have "registry_shrinks db2 db4"
    by (rule registry.step_trans [OF mark_consumed_shrinks [OF db3] update_lineage_shrinks [OF db4]]) simp
  ultimately show ?thesis
    unfolding db' using registry_shrinks_sound audit_shrinks by blast
qed

lemma consume_enrollment_cases:
  assumes "consume_enrollment x db code registration bytes hid did cid now = Inr (db', receipt)"
  obtains (recovery) e where "consume_recovery x db e (secret_generate (x_codec x) bytes) cid now =
      Inr (db', receipt)"
  | (normal) e host where "consume_normal x db e registration (secret_generate (x_codec x) bytes) host
      did cid now = Inr (db', receipt)"
  using assms by (auto simp: consume_enrollment_def Let_def rbind_eq_Inr split: if_splits)

lemma consume_enrollment_sound:
  assumes "consume_enrollment x db code registration bytes hid did cid now = Inr (db', receipt)"
    and "registry_sound db"
  shows "registry_sound db'"
  using assms(1) by (rule consume_enrollment_cases)
    (blast intro: consume_recovery_sound consume_normal_sound assms(2))+

section \<open>Every reachable state\<close>

lemma registry_step_sound:
  assumes "registry_step x db db'" and "registry_sound db"
  shows "registry_sound db'"
  using assms
  by (cases rule: registry_step.cases)
    (blast intro: registry_shrinks_sound enrollment_steps_shrink admin_steps_shrink
      revoke_credential_shrinks request_rotation_sound exchange_rotation_sound
      acknowledge_rotation_sound consume_enrollment_sound)+

lemma registry_reachable_sound:
  assumes "registry_reachable x db db'" and "registry_sound db"
  shows "registry_sound db'"
  using assms by (induction rule: registry_reachable.induct) (auto intro: registry_step_sound)

end
