(* ===== verification/Registry_Properties.thy ===== *)
theory Registry_Properties
  imports Registry_Invariants Sample
begin

text \<open>
  A complete run of the registry on a sample, and what every reachable registry guarantees of
  credential rotations: their rows stay well-formed, and an acknowledged one fences every older
  credential.
\<close>

section \<open>A sample run\<close>

text \<open>
  An administrator issues a code, a host consumes it and authenticates, and its credential is
  rotated. Text encodes to itself and the digest of a text is its first 32 bytes.
\<close>

definition registry_externals :: externals where
  "registry_externals = sample_externals
     \<lparr>x_codec := sample_codec\<lparr>sha256 := (\<lambda>bs. take 32 (bs @ replicate 32 97))\<rparr>,
      x_str_bytes := map (\<lambda>c. of_nat (byte c))\<rparr>"

definition registry_db :: fleet_db where
  "registry_db = sample_db\<lparr>hosts := [], domains := [], backends := [], target_grants := [],
     users := [\<lparr>us_id = ''admin'', us_role = ''admin''\<rparr>],
     user_installations := [\<lparr>ui_user_id = ''admin'', ui_installation_id = 1, ui_permission = ''admin''\<rparr>]\<rparr>"

definition sample_secret :: "char \<Rightarrow> string" where
  "sample_secret c = replicate 32 c @ replicate 11 (CHR ''A'')"

definition sample_issue :: issue_enrollment_request where
  "sample_issue = \<lparr>ie_idempotency_key = ''issue-key-000001'', ie_scope = EnrollmentScope [CiTargetId 4],
     ie_intended_host_id = None, ie_ttl_millis = None\<rparr>"

definition sample_registration :: host_registration where
  "sample_registration = \<lparr>hr_name = ''host'', hr_host_os = Linux, hr_architecture = X64,
     hr_hardware_fingerprint = None\<rparr>"

definition sample_rotation_request :: rotation_request where
  "sample_rotation_request = \<lparr>rq_host_id = HostId 1, rq_expected_generation = Generation 1,
     rq_idempotency_key = ''rotate-key-00001''\<rparr>"

definition sample_agent :: "uuid \<Rightarrow> u64 \<Rightarrow> authenticated_host" where
  "sample_agent cid g = \<lparr>ah_host_id = HostId 1, ah_credential_id = cid, ah_generation = Generation g,
     ah_epoch = HostEpoch 1\<rparr>"

definition sample_enrollment :: enrollment_row where
  "sample_enrollment =
     \<lparr>he_id = unary 9, he_code_verifier = sample_secret (CHR ''b''), he_intended_host_id = None,
      he_scope_json = ''scope'', he_issued_by = ''admin'', he_created_at = 1000,
      he_expires_at = 601000, he_consumed_at = None, he_consumed_host_id = None,
      he_revoked_at = None, he_mode = ''normal'', he_expected_host_epoch = None,
      he_expected_host_revision = None, he_idempotency_key = ''issue-key-000001'',
      he_request_hash = hash_request registry_externals (''scope||'' @ show_nat 600000)\<rparr>"

definition sample_credential :: "uuid \<Rightarrow> char \<Rightarrow> i64 \<Rightarrow> i64 \<Rightarrow> credential_row" where
  "sample_credential cid c g created =
     \<lparr>hk_id = unary cid, hk_host_id = unary 1, hk_host_epoch = 1, hk_generation = g,
      hk_verifier = sample_secret c, hk_created_at = created, hk_overlap_expires_at = None,
      hk_acknowledged_at = None, hk_revoked_at = None\<rparr>"

definition sample_rotation :: rotation_row where
  "sample_rotation =
     \<lparr>cr_id = unary 4, cr_host_id = unary 1, cr_old_credential_id = unary 3, cr_old_generation = 1,
      cr_old_host_epoch = 1, cr_next_generation = 2, cr_idempotency_key = ''rotate-key-00001'',
      cr_requested_by = ''admin'', cr_request_method = ''fleet.credential.request'',
      cr_request_resource = unary 1, cr_request_hash = hash_request registry_externals (show_nat 1),
      cr_phase = ''requested'', cr_proposed_verifier = None, cr_requested_at = 3000,
      cr_expires_at = 903000, cr_exchanged_at = None, cr_overlap_expires_at = None,
      cr_acknowledged_at = None, cr_revoked_at = None\<rparr>"

definition issued_db :: fleet_db where
  "issued_db = audit_and_event None ''fleet.enrollment.issued''
     (registry_db\<lparr>enrollments := [sample_enrollment]\<rparr>)"

definition enrolled_db :: fleet_db where
  "enrolled_db = audit_and_event (Some (unary 1)) ''fleet.enrollment.consumed''
     (issued_db\<lparr>hosts := [(new_host registry_externals (HostId 1) sample_registration 2000)
           \<lparr>fh_current_enrollment_id := Some (unary 9), fh_current_enrollment_epoch := Some 1\<rparr>],
        domains := [\<lparr>dr_id = unary 2, dr_host_id = unary 1, dr_parent_domain_id = None,
           dr_name = ''physical-root'', dr_cpu_millis = 0, dr_memory_mib = 0, dr_disk_bytes = 0,
           dr_revision = 1\<rparr>],
        credentials := [sample_credential 3 (CHR ''c'') 1 2000],
        enrollments := [sample_enrollment\<lparr>he_consumed_at := Some 2000,
           he_consumed_host_id := Some (unary 1)\<rparr>]\<rparr>)"

definition requested_db :: fleet_db where
  "requested_db = audit_and_event (Some (unary 1)) ''fleet.credential.rotation_requested''
     (enrolled_db\<lparr>rotations := [sample_rotation]\<rparr>)"

definition exchanged_db :: fleet_db where
  "exchanged_db = audit_and_event (Some (unary 1)) ''fleet.credential.rotation_exchanged''
     (requested_db\<lparr>credentials := [(sample_credential 3 (CHR ''c'') 1 2000)\<lparr>hk_overlap_expires_at := Some 304000\<rparr>,
          sample_credential 5 (CHR ''d'') 2 4000],
        rotations := [sample_rotation\<lparr>cr_phase := ''exchanged'',
          cr_proposed_verifier := Some (sample_secret (CHR ''d'')), cr_exchanged_at := Some 4000,
          cr_overlap_expires_at := Some 304000\<rparr>]\<rparr>)"

lemma registry_externals_simps [simp]:
  "x_show_uuid registry_externals = unary"
  "x_parse_uuid registry_externals s = Some (of_nat (length s))"
  "x_scope_to_string registry_externals ids = Some ''scope''"
  "x_scope_from_str registry_externals s = Some [CiTargetId 4]"
  by (simp_all add: registry_externals_def sample_externals_def)

lemma of_char_u8: "char_of (unat (of_nat (byte c) :: u8)) = c"
  by (simp add: byte_def take_bit_nat_eq_self unat_of_nat)

lemma sample_secret_codec:
  "b64_encode (x_codec registry_externals) (replicate 32 (of_nat (byte c))) = sample_secret c"
  "b64_decode (x_codec registry_externals) (sample_secret c) = Some (replicate 32 (of_nat (byte c)))"
  "sha256 (x_codec registry_externals) (x_str_bytes registry_externals (sample_secret c)) =
     replicate 32 (of_nat (byte c))"
  by (simp_all add: registry_externals_def sample_codec_def sample_secret_def of_char_u8)

lemma sample_secrets [simp]:
  "is_base64url c \<Longrightarrow> validate_secret_text (x_codec registry_externals) (sample_secret c) = Inr ()"
  "is_base64url c \<Longrightarrow> secret_parse (x_codec registry_externals) (sample_secret c) =
     Inr (OneTimeSecret (sample_secret c))"
  "is_base64url c \<Longrightarrow> verifier_format_ok (sample_secret c)"
  "verifier_from_secret registry_externals (sample_secret c) = Verifier (sample_secret c)"
  "sample_secret c = sample_secret d \<longleftrightarrow> c = d"
proof -
  have len: "length (sample_secret c) = 43" and chars: "set (sample_secret c) = {c, CHR ''A''}"
    by (auto simp: sample_secret_def)
  have A: "is_base64url (CHR ''A'')" by code_simp
  show v: "is_base64url c \<Longrightarrow> validate_secret_text (x_codec registry_externals) (sample_secret c) = Inr ()"
    by (simp add: validate_secret_text_def SECRET_TEXT_LENGTH_def SECRET_BYTES_def len chars A
        sample_secret_codec)
  show "is_base64url c \<Longrightarrow> secret_parse (x_codec registry_externals) (sample_secret c) =
     Inr (OneTimeSecret (sample_secret c))"
    by (simp add: secret_parse_def v)
  show "is_base64url c \<Longrightarrow> verifier_format_ok (sample_secret c)"
    by (simp add: verifier_format_ok_def len chars A)
  show "verifier_from_secret registry_externals (sample_secret c) = Verifier (sample_secret c)"
    by (simp add: verifier_from_secret_def sample_secret_codec)
  show "sample_secret c = sample_secret d \<longleftrightarrow> c = d"
    by (auto simp: sample_secret_def eval_nat_numeral)
qed

lemma sample_generate [simp]:
  "secret_generate (x_codec registry_externals) (replicate 32 98) = OneTimeSecret (sample_secret (CHR ''b''))"
  "secret_generate (x_codec registry_externals) (replicate 32 99) = OneTimeSecret (sample_secret (CHR ''c''))"
  using sample_secret_codec(1) [of "CHR ''b''"] sample_secret_codec(1) [of "CHR ''c''"]
  by (simp_all add: secret_generate_def byte_def)

lemma sample_letters [simp]:
  "is_base64url (CHR ''b'')" "is_base64url (CHR ''c'')" "is_base64url (CHR ''d'')"
  by code_simp+

lemma sample_admin [simp]:
  "ensure_system_admin registry_db ''admin'' = Inr ()"
  "ensure_scope_admin registry_externals registry_db ''admin'' (EnrollmentScope [CiTargetId 4]) = Inr ()"
  by code_simp+

lemma admin_frame [simp]:
  "ensure_system_admin (db\<lparr>enrollments := e\<rparr>) u = ensure_system_admin db u"
  "ensure_system_admin (db\<lparr>events := v\<rparr>) u = ensure_system_admin db u"
  "ensure_system_admin (db\<lparr>hosts := h\<rparr>) u = ensure_system_admin db u"
  "ensure_system_admin (db\<lparr>domains := d\<rparr>) u = ensure_system_admin db u"
  "ensure_system_admin (db\<lparr>credentials := c\<rparr>) u = ensure_system_admin db u"
  "ensure_scope_admin x (db\<lparr>enrollments := e\<rparr>) u s = ensure_scope_admin x db u s"
  "ensure_scope_admin x (db\<lparr>events := v\<rparr>) u s = ensure_scope_admin x db u s"
  by (simp_all add: ensure_system_admin_def ensure_scope_admin_def ensure_target_admin_def
      target_administered_def cong: option.case_cong prod.case_cong)

lemma registry_db_simps [simp]:
  "hosts registry_db = []" "credentials registry_db = []" "rotations registry_db = []"
  "enrollments registry_db = []" "domains registry_db = []"
  by (simp_all add: registry_db_def sample_db_def)

lemma registry_sample_keys [simp]:
  "validate_idempotency_key ''issue-key-000001'' = Inr ()"
  "validate_idempotency_key ''rotate-key-00001'' = Inr ()"
  by code_simp+

lemma sample_counters [simp]:
  "bounded_counter_try_from C k 1 = Inr (C 1)" "bounded_counter_try_from C k 2 = Inr (C 2)"
  "i64_from_u64 1 = Some 1" "i64_from_u64 2 = Some 2"
  by (simp_all add: bounded_counter_try_from_def i64_from_u64_def MAX_COUNTER_def i64_max_u64_def)

lemma sample_issues:
  "issue_enrollment registry_externals registry_db (AuthenticatedUser ''admin'') sample_issue
     (replicate 32 98) 9 1000 = Inr (issued_db, Issue_Created \<lparr>ise_id = 9,
       ise_code = OneTimeSecret (sample_secret (CHR ''b'')), ise_expires_at = 601000\<rparr>)"
  by (simp add: issue_enrollment_def sample_issue_def issue_ttl_millis_def
      DEFAULT_ENROLLMENT_TTL_MILLIS_def MAX_ENROLLMENT_TTL_MILLIS_def checked_add_i64_def in_i64_def
      i64_min_def i64_max_def enrollment_by_key_def insert_enrollment_def secret_verifier_def
      insert_unique_def issued_db_def sample_enrollment_def)

lemma sample_scope [simp]: "scope_new registry_externals [CiTargetId 4] = Inr (EnrollmentScope [CiTargetId 4])"
  by (simp add: scope_new_def MAX_ENROLLMENT_TARGETS_def)

lemma sample_consumes:
  "consume_enrollment registry_externals issued_db (sample_secret (CHR ''b'')) sample_registration
     (replicate 32 99) 1 2 3 2000 = Inr (enrolled_db, \<lparr>er_host_id = HostId 1, er_credential_id = 3,
       er_credential_generation = 1, er_credential = OneTimeSecret (sample_secret (CHR ''c''))\<rparr>)"
  by (simp add: consume_enrollment_def secret_verifier_def fleet_uuid_try_new_def issued_db_def
      sample_enrollment_def audit_and_event_def scope_deserialize_def consume_normal_def
      insert_unique_def insert_root_domain_def insert_credential_def mark_consumed_def rows_where_def
      update_where_def update_lineage_def lineage_consistent_def update_hosts_def
      invalidate_inventory_def new_host_def enrolled_db_def sample_credential_def Let_def)

lemma sample_authenticates:
  "authenticate registry_externals enrolled_db (HostId 1) (sample_secret (CHR ''c'')) 3000 =
     Inr (sample_agent 3 1)"
  by (simp add: authenticate_def enrolled_db_def issued_db_def audit_and_event_def new_host_def
      sample_credential_def credential_live_def matches_verifier_def word_try_from_def
      generation_new_def host_epoch_new_def sample_agent_def)

lemma sample_requests:
  "request_rotation registry_externals enrolled_db (AuthenticatedUser ''admin'')
     sample_rotation_request 4 3000 = Inr (requested_db, \<lparr>rr_operation_id = 4, rr_host = HostId 1,
       rr_old_generation = Generation 1, rr_next_generation = Generation 2, rr_expires_at = 903000\<rparr>)"
  by (simp add: request_rotation_def sample_rotation_request_def ROTATION_TTL_MILLIS_def
      checked_add_i64_def in_i64_def i64_min_def i64_max_def enrolled_db_def issued_db_def
      audit_and_event_def new_host_def generation_i64_def revoke_expired_rotations_def
      close_rotations_def current_credential_def sample_credential_def credential_live_def
      next_generation_def max_or_zero_def insert_rotation_def insert_unique_def word_try_from_def
      generation_new_def requested_db_def sample_rotation_def Let_def)

lemma sample_live:
  "ensure_authenticated_generation registry_externals requested_db (sample_agent 3 1) 4000 = Inr ()"
  "ensure_authenticated_generation registry_externals exchanged_db (sample_agent 5 2) 6000 = Inr ()"
  by (simp_all add: ensure_authenticated_generation_def exchanged_db_def requested_db_def
      enrolled_db_def issued_db_def audit_and_event_def new_host_def sample_agent_def
      generation_i64_def sample_credential_def credential_live_def)

lemma sample_exchanges:
  "exchange_rotation registry_externals requested_db (sample_agent 3 1) 4 (sample_secret (CHR ''d''))
     5 4000 = Inr (exchanged_db, \<lparr>rx_operation_id = 4, rx_credential_id = 5,
       rx_generation = Generation 2, rx_overlap_expires_at = 304000\<rparr>)"
proof -
  have row: "find (\<lambda>r. cr_id r = ''uuuu'') (rotations requested_db) = Some sample_rotation"
    by (simp add: requested_db_def audit_and_event_def sample_rotation_def)
  have "exchange_fresh registry_externals requested_db sample_rotation 4
     (Verifier (sample_secret (CHR ''d''))) (Generation 1) 5 4000 =
     Inr (exchanged_db, \<lparr>rx_operation_id = 4, rx_credential_id = 5,
       rx_generation = Generation 2, rx_overlap_expires_at = 304000\<rparr>)"
    by (simp add: exchange_fresh_def requested_db_def enrolled_db_def issued_db_def audit_and_event_def
        new_host_def sample_rotation_def generation_from_i64_def word_try_from_def generation_new_def
        checked_add_i64_def ROTATION_OVERLAP_MILLIS_def in_i64_def i64_min_def i64_max_def
        generation_i64_def insert_credential_def insert_unique_def sample_credential_def
        rows_where_def update_where_def exchanged_db_def Let_def)
  then show ?thesis
    using sample_live(1)
    by (simp add: exchange_rotation_def secret_verifier_def sample_agent_def row)
      (simp add: sample_rotation_def generation_from_i64_def word_try_from_def generation_new_def
        rotation_expired_def)
qed

lemma sample_authenticates_new:
  "authenticate registry_externals exchanged_db (HostId 1) (sample_secret (CHR ''d'')) 5000 =
     Inr (sample_agent 5 2)"
  by (simp add: authenticate_def exchanged_db_def requested_db_def enrolled_db_def issued_db_def
      audit_and_event_def new_host_def
      sample_credential_def credential_live_def matches_verifier_def word_try_from_def
      generation_new_def host_epoch_new_def sample_agent_def)

definition acknowledged_db :: fleet_db where
  "acknowledged_db = audit_and_event (Some (unary 1)) ''fleet.credential.rotation_acknowledged''
     (exchanged_db\<lparr>
        hosts := map (\<lambda>h. h\<lparr>fh_current_credential_generation := Some 2, fh_revision := 2,
          fh_updated_at := 6000\<rparr>) (hosts exchanged_db),
        credentials := [(sample_credential 3 (CHR ''c'') 1 2000)
            \<lparr>hk_overlap_expires_at := Some 304000, hk_revoked_at := Some 6000\<rparr>,
          (sample_credential 5 (CHR ''d'') 2 4000)\<lparr>hk_acknowledged_at := Some 6000\<rparr>],
        rotations := [sample_rotation\<lparr>cr_phase := ''acknowledged'',
          cr_proposed_verifier := Some (sample_secret (CHR ''d'')), cr_exchanged_at := Some 4000,
          cr_overlap_expires_at := Some 304000, cr_acknowledged_at := Some 6000\<rparr>]\<rparr>)"

lemma sample_acknowledges:
  "acknowledge_rotation registry_externals exchanged_db (sample_agent 5 2) 4 6000 =
     Inr (acknowledged_db, \<lparr>ra_operation_id = 4, ra_host = HostId 1, ra_generation = Generation 2,
       ra_acknowledged_at = 6000\<rparr>)"
  unfolding acknowledge_rotation_def sample_live(2)
  by (simp add: Let_def exchanged_db_def requested_db_def enrolled_db_def issued_db_def
      audit_and_event_def new_host_def sample_rotation_def sample_agent_def generation_from_i64_def
      word_try_from_def generation_new_def rows_where_def update_where_def generation_i64_def
      sample_credential_def update_hosts_def revoke_credentials_def invalidate_inventory_def
      acknowledged_db_def)

lemma acknowledged_db_simps:
  "rotations acknowledged_db = [sample_rotation\<lparr>cr_phase := ''acknowledged'',
          cr_proposed_verifier := Some (sample_secret (CHR ''d'')), cr_exchanged_at := Some 4000,
          cr_overlap_expires_at := Some 304000, cr_acknowledged_at := Some 6000\<rparr>]"
  by (simp add: acknowledged_db_def audit_and_event_def)

lemma sample_authenticates_last:
  "authenticate registry_externals acknowledged_db (HostId 1) (sample_secret (CHR ''d'')) 7000 =
     Inr (sample_agent 5 2)"
  by (simp add: authenticate_def acknowledged_db_def exchanged_db_def requested_db_def enrolled_db_def
      issued_db_def audit_and_event_def new_host_def sample_credential_def credential_live_def
      matches_verifier_def word_try_from_def generation_new_def host_epoch_new_def sample_agent_def)

lemma sample_reachable: "registry_reachable registry_externals registry_db acknowledged_db"
  using registry_reachable.more [OF registry_reachable.more [OF registry_reachable.more [OF
      registry_reachable.more [OF registry_reachable.more [OF registry_reachable.start
      registry_step.issues [OF sample_issues]] registry_step.consumes [OF sample_consumes]]
      registry_step.requests [OF sample_requests]] registry_step.exchanges [OF sample_exchanges]]
      registry_step.acknowledges [OF sample_acknowledges]] .

section \<open>Rotation\<close>

lemma registry_sound_empty: "\<lbrakk>hosts db = []; rotations db = []\<rbrakk> \<Longrightarrow> registry_sound db"
  by (simp add: registry_sound_def rotations_ordered_def rotations_fence_def)

lemma word_try_from_SomeD:
  "word_try_from v = Some (w :: 'a::len word) \<Longrightarrow> uint w = v"
  by (simp add: word_try_from_eq_Some)

lemma authenticate_eq_Inr:
  assumes "authenticate x db host secret now = Inr a"
  obtains c h where "c \<in> set (credentials db)" "h \<in> set (hosts db)" "fh_id h = hk_host_id c"
    "hk_host_id c = x_show_uuid x (host_uuid host)" "credential_live c now"
    "hk_verifier c = verifier_str (verifier_from_secret x secret)"
    "fh_lifecycle_state h \<noteq> ''retired''" "fh_enrollment_state h \<noteq> ''revoked''"
    "uint (generation_get (ah_generation a)) = hk_generation c"
    "uint (epoch_get (ah_epoch a)) = fh_epoch h" "hk_host_epoch c = fh_epoch h"
proof -
  from assms obtain c h cid g e where
    row: "find (\<lambda>(c, h). matches_verifier (verifier_from_secret x secret) (Verifier (hk_verifier c)))
      [(c, h). c \<leftarrow> credentials db, h \<leftarrow> hosts db, fh_id h = hk_host_id c \<and>
        hk_host_id c = x_show_uuid x (host_uuid host) \<and> credential_live c now] = Some (c, h)"
    and ok: "\<not> (fh_enrollment_state h = ''revoked'' \<or> fh_lifecycle_state h = ''retired'')"
    and g: "word_try_from (hk_generation c) = Some g" and e: "word_try_from (fh_epoch h) = Some e"
    and gen: "generation_new g = Inr (ah_generation a)" and epoch: "host_epoch_new e = Inr (ah_epoch a)"
    and same: "hk_host_epoch c = fh_epoch h"
    unfolding authenticate_def Let_def rbind_eq_Inr ok_or_eq_Inr
    by (elim exE conjE) (auto simp: result_splits)
  have "ah_generation a = Generation g" "ah_epoch a = HostEpoch e"
    using gen epoch by (simp_all add: generation_new_def host_epoch_new_def
        bounded_counter_try_from_def split: if_splits)
  then show thesis
    using that [of c h] find_SomeD [OF row] ok same word_try_from_SomeD [OF g] word_try_from_SomeD [OF e]
    by (auto simp: matches_verifier_def)
qed

text \<open>
  C29. The rotations of every reachable registry fit one of the four phases of their table, with the
  columns each phase has, and a host has at most one open rotation, whose generation is beyond all
  its others.
\<close>

theorem rotations_stay_well_formed:
  assumes "registry_reachable x db0 db" and "hosts db0 = []" and "rotations db0 = []"
    and "r \<in> set (rotations db)"
  shows "rotation_wf r \<and> (\<forall>s \<in> set (rotations db). rotation_open r \<and> cr_host_id s = cr_host_id r \<and>
    s \<noteq> r \<longrightarrow> cr_next_generation s < cr_next_generation r \<and> \<not> rotation_open s)"
proof -
  have sound: "registry_sound db"
    using registry_reachable_sound [OF assms(1)] registry_sound_empty assms(2,3) by blast
  have "cr_next_generation s < cr_next_generation r \<and> \<not> rotation_open s"
    if "s \<in> set (rotations db)" "rotation_open r" "cr_host_id s = cr_host_id r" "s \<noteq> r" for s
  proof -
    have "cr_id s \<noteq> cr_id r"
      using that sound assms(4) by (metis distinct_map inj_onD registry_sound_def)
    with that sound assms(4) show ?thesis
      unfolding registry_sound_def rotations_ordered_def by (metis less_asym)
  qed
  with sound assms(4) show ?thesis by (simp add: registry_sound_def)
qed

theorem rotations_stay_well_formed_witness:
  "\<exists>r \<in> set (rotations requested_db). rotation_open r \<and> rotation_wf r"
proof -
  have "registry_reachable registry_externals registry_db requested_db"
    using registry_reachable.more [OF registry_reachable.more [OF registry_reachable.more [OF
      registry_reachable.start registry_step.issues [OF sample_issues]]
      registry_step.consumes [OF sample_consumes]] registry_step.requests [OF sample_requests]] .
  moreover have "sample_rotation \<in> set (rotations requested_db)" "rotation_open sample_rotation"
    by (simp_all add: requested_db_def audit_and_event_def sample_rotation_def rotation_open_def)
  ultimately show ?thesis
    using rotations_stay_well_formed [of registry_externals registry_db requested_db sample_rotation]
    by auto
qed

text \<open>
  C7. A rotation that was acknowledged fences its host: whatever happens to the registry afterwards, a
  secret that still authenticates has the generation the rotation introduced or a later one.
\<close>

theorem acknowledged_rotation_fences:
  assumes "registry_reachable x db0 db" and "hosts db0 = []" and "rotations db0 = []"
    and "r \<in> set (rotations db)" and "cr_phase r = ''acknowledged''"
    and "cr_host_id r = x_show_uuid x (host_uuid host)"
    and "authenticate x db host secret now = Inr a"
  shows "cr_next_generation r \<le> uint (generation_get (ah_generation a))"
proof -
  have sound: "registry_sound db"
    using registry_reachable_sound [OF assms(1)] registry_sound_empty assms(2,3) by blast
  from assms(7) obtain c where "c \<in> set (credentials db)" "hk_host_id c = x_show_uuid x (host_uuid host)"
    "credential_live c now" and gen: "uint (generation_get (ah_generation a)) = hk_generation c"
    by (rule authenticate_eq_Inr)
  with sound assms(4-6) show ?thesis
    unfolding gen by (simp add: registry_sound_def rotations_fence_def credential_live_def)
qed

theorem acknowledged_rotation_fences_witness:
  "authenticate registry_externals acknowledged_db (HostId 1) (sample_secret (CHR ''d'')) 7000 =
     Inr (sample_agent 5 2) \<and> (2 :: int) \<le> uint (generation_get (ah_generation (sample_agent 5 2)))"
  using acknowledged_rotation_fences [OF sample_reachable, of "hd (rotations acknowledged_db)" "HostId 1"
      "sample_secret (CHR ''d'')" 7000 "sample_agent 5 2"] sample_authenticates_last
  by (simp add: acknowledged_db_simps sample_rotation_def)

end
