(* ===== verification/Registry_Finality.thy ===== *)
theory Registry_Finality
  imports Registry_Properties
begin

text \<open>
  What cannot be undone in the registry: a consumed code, a retired host; and what an approval
  cannot exceed: the scope its code was issued for.
\<close>

section \<open>Codes are consumed once\<close>

text \<open>An enrollment that was consumed stays the one its code finds, and stays consumed.\<close>

definition codes_kept :: "fleet_db \<Rightarrow> fleet_db \<Rightarrow> bool" where
  "codes_kept db db' \<longleftrightarrow>
     (\<forall>v e. find (\<lambda>e. he_code_verifier e = v) (enrollments db) = Some e \<longrightarrow>
        (\<exists>e'. find (\<lambda>e. he_code_verifier e = v) (enrollments db') = Some e' \<and>
           (he_consumed_at e \<noteq> None \<longrightarrow> he_consumed_at e' \<noteq> None)))"

interpretation codes: step_preorder codes_kept
  by unfold_locales (auto simp: codes_kept_def, blast+)

lemma codes_kept_frame: "enrollments db' = enrollments db \<Longrightarrow> codes_kept db db'"
  by (simp add: codes_kept_def)

lemma find_some_append: "find q xs = Some r \<Longrightarrow> find q (xs @ ys) = Some r"
  by (induction xs) auto

lemma codes_kept_insert: "insert_enrollment row db = Inr db' \<Longrightarrow> codes_kept db db'"
  by (auto simp: codes_kept_def insert_enrollment_def rbind_eq_Inr map_err_eq_Inr insert_unique_eq_Inr
      find_some_append)

lemma codes_kept_update:
  assumes "\<And>e. he_code_verifier (f e) = he_code_verifier e"
    and "\<And>e. he_consumed_at e \<noteq> None \<Longrightarrow> he_consumed_at (f e) \<noteq> None"
  shows "codes_kept db (db\<lparr>enrollments := update_where q f (enrollments db)\<rparr>)"
  using assms by (auto simp: codes_kept_def find_update_where)

lemma mark_consumed_codes: "mark_consumed eid host now db = Inr db' \<Longrightarrow> codes_kept db db'"
  by (auto simp: mark_consumed_def Let_def rbind_eq_Inr intro: codes_kept_update)

lemma update_lineage_enrollments:
  "update_lineage q f db = Inr db' \<Longrightarrow> enrollments db' = enrollments db"
  by (auto simp: update_lineage_def rbind_eq_Inr)

lemma insert_root_domain_enrollments:
  "insert_root_domain did host db = Inr db' \<Longrightarrow> enrollments db' = enrollments db"
  by (auto simp: insert_root_domain_def rbind_eq_Inr map_err_eq_Inr)

lemma insert_credential_enrollments:
  "insert_credential row db = Inr db' \<Longrightarrow> enrollments db' = enrollments db"
  using insert_credential_tables(1) by fastforce

text \<open>Both ways to consume a code mark it and leave the other enrollments alone.\<close>

definition marks_only :: "enrollment_row \<Rightarrow> i64 \<Rightarrow> fleet_db \<Rightarrow> fleet_db \<Rightarrow> bool" where
  "marks_only e now db db' \<longleftrightarrow>
     (\<exists>host db1 db2. mark_consumed (he_id e) host now db1 = Inr db2 \<and>
        enrollments db1 = enrollments db \<and> enrollments db' = enrollments db2)"

lemma consume_recovery_marks:
  assumes "consume_recovery x db e credential cid now = Inr (db', receipt)"
  shows "marks_only e now db db'"
proof -
  from assms obtain gen db2 db3 db4 host row q f where
    "mark_consumed (he_id e) host now (revoke_credentials (\<lambda>c. hk_host_id c = host) now
       (revoke_open_rotations host now ''fleet.credential.rotation_revoked_by_recovery'' db)) = Inr db2"
    and "update_lineage q f db2 = Inr db3" and "insert_credential row db3 = Inr db4"
    and "db' = audit_and_event (Some host) ''fleet.host.recovered'' db4"
    unfolding consume_recovery_def Let_def rbind_eq_Inr
    by (elim exE conjE) auto
  then show ?thesis
    unfolding marks_only_def
    by (intro exI [of _ host] exI [of _ "revoke_credentials (\<lambda>c. hk_host_id c = host) now
       (revoke_open_rotations host now ''fleet.credential.rotation_revoked_by_recovery'' db)"]
        exI [of _ db2])
      (simp add: revoke_open_rotations_def update_lineage_enrollments insert_credential_enrollments)
qed

lemma consume_normal_marks:
  assumes "consume_normal x db e registration credential host_id did cid now = Inr (db', receipt)"
  shows "marks_only e now db db'"
proof -
  let ?host = "x_show_uuid x (host_uuid host_id)"
  from assms obtain hs db1 db2 db3 db4 row q f where
    "insert_root_domain (x_show_uuid x did) ?host (db\<lparr>hosts := hs\<rparr>) = Inr db1"
    "insert_credential row db1 = Inr db2" "mark_consumed (he_id e) ?host now db2 = Inr db3"
    "update_lineage q f db3 = Inr db4"
    "db' = audit_and_event (Some ?host) ''fleet.enrollment.consumed'' db4"
    unfolding consume_normal_def Let_def rbind_eq_Inr
    by (elim exE conjE) auto
  then show ?thesis
    unfolding marks_only_def
    by (intro exI [of _ ?host] exI [of _ db2] exI [of _ db3])
      (auto simp: update_lineage_enrollments insert_credential_enrollments
        dest!: insert_root_domain_enrollments)
qed

lemma consume_enrollment_marks:
  assumes "consume_enrollment x db code registration bytes hid did cid now = Inr (db', receipt)"
  obtains e where
    "find (\<lambda>e. he_code_verifier e = verifier_str (verifier_from_secret x code)) (enrollments db) = Some e"
    "marks_only e now db db'" "validate_secret_text (x_codec x) code = Inr ()"
    "now < he_expires_at e" "he_consumed_at e = None" "he_revoked_at e = None"
proof -
  from assms obtain e where
    "find (\<lambda>e. he_code_verifier e = verifier_str (verifier_from_secret x code)) (enrollments db) = Some e"
    "validate_secret_text (x_codec x) code = Inr ()"
    "now < he_expires_at e" "he_consumed_at e = None" "he_revoked_at e = None"
    and "consume_recovery x db e (secret_generate (x_codec x) bytes) cid now = Inr (db', receipt) \<or>
      (\<exists>host. consume_normal x db e registration (secret_generate (x_codec x) bytes) host did cid now =
        Inr (db', receipt))"
    unfolding consume_enrollment_def secret_parse_def Let_def rbind_eq_Inr map_err_eq_Inr ok_or_eq_Inr
    by (elim exE conjE, auto simp: secret_verifier_def rbind_eq_Inr result_splits split: if_splits) blast
  then show thesis
    using that consume_recovery_marks consume_normal_marks by blast
qed

lemma marks_only_codes: "marks_only e now db db' \<Longrightarrow> codes_kept db db'"
  by (auto simp: marks_only_def codes_kept_def dest!: mark_consumed_codes)

lemma marks_only_row:
  assumes "marks_only e now db db'" and "find (\<lambda>e. he_code_verifier e = v) (enrollments db) = Some e"
    and "now < he_expires_at e" "he_consumed_at e = None" "he_revoked_at e = None"
  shows "\<exists>e'. find (\<lambda>e. he_code_verifier e = v) (enrollments db') = Some e' \<and> he_consumed_at e' \<noteq> None"
  using assms by (auto simp: marks_only_def mark_consumed_def Let_def rbind_eq_Inr find_update_where)

lemma admin_steps_codes:
  "issue_enrollment x db p r bytes fresh now = Inr (db', i) \<Longrightarrow> codes_kept db db'"
  "revoke_enrollment x db p eid now = Inr db' \<Longrightarrow> codes_kept db db'"
  "recover_host x db p rec bytes fresh now = Inr (db', ri) \<Longrightarrow> codes_kept db db'"
  subgoal
    unfolding issue_enrollment_def Let_def rbind_eq_Inr
    by (auto simp: rbind_eq_Inr split: option.splits
        intro: codes.step_refl codes.step_trans [OF codes_kept_insert codes_kept_frame])
  subgoal
    unfolding revoke_enrollment_def Let_def rbind_eq_Inr
    by (auto simp: rbind_eq_Inr codes_kept_def find_update_where split: if_splits)
  subgoal
    unfolding recover_host_def Let_def rbind_eq_Inr
    by (auto simp: rbind_eq_Inr split: option.splits
        intro: codes.step_refl codes.step_trans [OF codes_kept_insert codes_kept_frame])
  done

lemma grant_targets_enrollments:
  "enrollments (foldl (grant_target host user) db ts) = enrollments db"
  by (induction ts arbitrary: db) (auto simp: grant_target_def Let_def split: option.splits)

lemma other_steps_enrollments:
  "set_host_lifecycle x db p host rvn intent now = Inr db' \<Longrightarrow> enrollments db' = enrollments db"
  "retire_host x db p host rvn now = Inr db' \<Longrightarrow> enrollments db' = enrollments db"
  "set_backend_enabled x db p host bid b = Inr db' \<Longrightarrow> enrollments db' = enrollments db"
  "set_host_grant x db p host tgt s n d = Inr db' \<Longrightarrow> enrollments db' = enrollments db"
  "approve_host x db p ap now = Inr db' \<Longrightarrow> enrollments db' = enrollments db"
  "revoke_credential x db p host g now = Inr db' \<Longrightarrow> enrollments db' = enrollments db"
  by (auto simp: set_host_lifecycle_def retire_host_def set_backend_enabled_def set_host_grant_def
      approve_host_def approve_writes_def revoke_other_grants_def grant_targets_enrollments
      revoke_credential_def revoke_open_rotations_def rbind_eq_Inr Let_def split: if_splits)

lemma insert_rotation_enrollments:
  "insert_rotation row db = Inr db' \<Longrightarrow> enrollments db' = enrollments db"
  by (auto simp: insert_rotation_def rbind_eq_Inr map_err_eq_Inr)

lemma rotation_steps_enrollments:
  "request_rotation x db p rq fresh now = Inr (db', rc) \<Longrightarrow> enrollments db' = enrollments db"
  "exchange_rotation x db a oid secret cid now = Inr (db', rx) \<Longrightarrow> enrollments db' = enrollments db"
  "acknowledge_rotation x db a oid now = Inr (db', ra) \<Longrightarrow> enrollments db' = enrollments db"
  by (auto simp: request_rotation_def exchange_rotation_def exchange_fresh_def acknowledge_rotation_def
      insert_rotation_enrollments insert_credential_enrollments revoke_expired_rotations_def
      rbind_eq_Inr Let_def split: option.splits)

lemma registry_step_codes: "registry_step x db db' \<Longrightarrow> codes_kept db db'"
  by (cases rule: registry_step.cases)
    (blast intro: admin_steps_codes codes_kept_frame other_steps_enrollments rotation_steps_enrollments
      elim: consume_enrollment_marks dest: marks_only_codes)+

lemma registry_reachable_codes: "registry_reachable x db db' \<Longrightarrow> codes_kept db db'"
  by (induction rule: registry_reachable.induct)
    (auto intro: codes.step_refl codes.step_trans registry_step_codes)

text \<open>
  C8. An enrollment code enrolls at most once: after it was consumed, and whatever the registry did
  since, presenting it again is answered with \<open>Reg_EnrollmentGone\<close>.
\<close>

theorem code_enrolls_once:
  assumes "consume_enrollment x db code registration bytes hid did cid now = Inr (db1, receipt)"
    and "registry_reachable x db1 db2" and "hid' \<noteq> 0"
  shows "consume_enrollment x db2 code registration' bytes' hid' did' cid' now' = Inl Reg_EnrollmentGone"
proof -
  let ?v = "verifier_str (verifier_from_secret x code)"
  from assms(1) obtain e where e: "marks_only e now db db1" "validate_secret_text (x_codec x) code = Inr ()"
    "find (\<lambda>e. he_code_verifier e = ?v) (enrollments db) = Some e"
    "now < he_expires_at e" "he_consumed_at e = None" "he_revoked_at e = None"
    by (rule consume_enrollment_marks)
  then obtain e1 where "find (\<lambda>e. he_code_verifier e = ?v) (enrollments db1) = Some e1"
    "he_consumed_at e1 \<noteq> None" using marks_only_row by blast
  then obtain e2 where "find (\<lambda>e. he_code_verifier e = ?v) (enrollments db2) = Some e2"
    "he_consumed_at e2 \<noteq> None" using registry_reachable_codes [OF assms(2)] unfolding codes_kept_def by blast
  with e(2) assms(3) show ?thesis
    by (auto simp: consume_enrollment_def secret_parse_def secret_verifier_def fleet_uuid_try_new_def Let_def)
qed

theorem code_enrolls_once_witness:
  "consume_enrollment registry_externals acknowledged_db (sample_secret (CHR ''b'')) sample_registration
     (replicate 32 99) 30 31 32 8000 = Inl Reg_EnrollmentGone"
proof -
  have "registry_reachable registry_externals enrolled_db acknowledged_db"
    using registry_reachable.more [OF registry_reachable.more [OF registry_reachable.more [OF
      registry_reachable.start registry_step.requests [OF sample_requests]]
      registry_step.exchanges [OF sample_exchanges]] registry_step.acknowledges [OF sample_acknowledges]] .
  then show ?thesis by (rule code_enrolls_once [OF sample_consumes]) simp
qed

section \<open>Retirement is final\<close>

definition retired_kept :: "fleet_db \<Rightarrow> fleet_db \<Rightarrow> bool" where
  "retired_kept db db' \<longleftrightarrow>
     (\<forall>h \<in> set (hosts db). fh_lifecycle_state h = ''retired'' \<longrightarrow>
        (\<exists>h' \<in> set (hosts db'). fh_id h' = fh_id h \<and> fh_lifecycle_state h' = ''retired''))"

interpretation retirement: step_preorder retired_kept
  by unfold_locales (auto simp: retired_kept_def, metis)

lemma retired_kept_frame: "set (hosts db) \<subseteq> set (hosts db') \<Longrightarrow> retired_kept db db'"
  by (auto simp: retired_kept_def)

lemma retired_kept_update:
  assumes "\<And>h. fh_id (f h) = fh_id h"
    and "\<And>h. \<lbrakk>h \<in> set (hosts db); q h; fh_lifecycle_state h = ''retired''\<rbrakk> \<Longrightarrow>
      fh_lifecycle_state (f h) = ''retired''"
  shows "retired_kept db (update_hosts q f db)"
  unfolding retired_kept_def
proof (intro ballI impI)
  fix h assume h: "h \<in> set (hosts db)" "fh_lifecycle_state h = ''retired''"
  let ?h = "if q h then invalidate_inventory h (f h) else h"
  have "?h \<in> set (hosts (update_hosts q f db))"
    using h(1) by (auto simp: update_hosts_def set_update_where)
  moreover have "fh_id ?h = fh_id h" "fh_lifecycle_state ?h = ''retired''"
    using h assms by (auto simp: invalidate_inventory_def)
  ultimately show "\<exists>h' \<in> set (hosts (update_hosts q f db)). fh_id h' = fh_id h \<and>
    fh_lifecycle_state h' = ''retired''" by blast
qed

text \<open>With distinct identifiers, an update of a host that is not retired retires nothing else.\<close>

lemma retired_kept_host:
  assumes "registry_sound db" and "find (\<lambda>h. fh_id h = host) (hosts db) = Some h"
    and "fh_lifecycle_state h \<noteq> ''retired''" and "\<And>k. fh_id (f k) = fh_id k"
    and "\<And>k. q k \<Longrightarrow> fh_id k = host"
  shows "retired_kept db (update_hosts q f db)"
proof (rule retired_kept_update [OF assms(4)])
  fix k assume "k \<in> set (hosts db)" "q k" "fh_lifecycle_state k = ''retired''"
  moreover have "k = h" if "k \<in> set (hosts db)" "fh_id k = host"
    using that find_SomeD [OF assms(2)] assms(1) by (metis distinct_map inj_onD registry_sound_def)
  ultimately show "fh_lifecycle_state (f k) = ''retired''" using assms(3,5) by blast
qed

lemma update_hosts_hosts: "hosts a = hosts b \<Longrightarrow> hosts (update_hosts q f a) = hosts (update_hosts q f b)"
  by (simp add: update_hosts_def)

lemma retired_kept_hosts: "hosts db' = hosts db \<Longrightarrow> retired_kept db db'"
  by (simp add: retired_kept_frame)

lemma retired_kept_same: "\<lbrakk>retired_kept db db'; hosts db'' = hosts db'\<rbrakk> \<Longrightarrow> retired_kept db db''"
  by (simp add: retired_kept_def)

lemma insert_enrollment_hosts: "insert_enrollment row db = Inr db' \<Longrightarrow> hosts db' = hosts db"
  by (auto simp: insert_enrollment_def rbind_eq_Inr map_err_eq_Inr)

lemma insert_credential_hosts: "insert_credential row db = Inr db' \<Longrightarrow> hosts db' = hosts db"
  using insert_credential_tables(1) by fastforce

lemma insert_rotation_hosts: "insert_rotation row db = Inr db' \<Longrightarrow> hosts db' = hosts db"
  by (auto simp: insert_rotation_def rbind_eq_Inr map_err_eq_Inr)

lemma mark_consumed_hosts: "mark_consumed eid host now db = Inr db' \<Longrightarrow> hosts db' = hosts db"
  by (auto simp: mark_consumed_def Let_def rbind_eq_Inr)

lemma steps_without_hosts:
  "issue_enrollment x db p r bytes fresh now = Inr (db', i) \<Longrightarrow> hosts db' = hosts db"
  "revoke_enrollment x db p eid now = Inr db' \<Longrightarrow> hosts db' = hosts db"
  "recover_host x db p rec bytes fresh now = Inr (db', ri) \<Longrightarrow> hosts db' = hosts db"
  "set_backend_enabled x db p host bid b = Inr db' \<Longrightarrow> hosts db' = hosts db"
  "set_host_grant x db p host tgt s n d = Inr db' \<Longrightarrow> hosts db' = hosts db"
  "request_rotation x db p rq fresh now = Inr (db', rc) \<Longrightarrow> hosts db' = hosts db"
  "exchange_rotation x db a oid secret cid now = Inr (db', rx) \<Longrightarrow> hosts db' = hosts db"
  by (auto simp: issue_enrollment_def revoke_enrollment_def recover_host_def set_backend_enabled_def
      set_host_grant_def request_rotation_def exchange_rotation_def exchange_fresh_def
      insert_enrollment_hosts insert_credential_hosts insert_rotation_hosts revoke_expired_rotations_def
      rbind_eq_Inr Let_def split: option.splits if_splits)

lemma retired_kept_wrap:
  "retired_kept db db' \<Longrightarrow> retired_kept db (audit_and_event h a db')"
  "retired_kept db db' \<Longrightarrow> retired_kept db (revoke_credentials c now db')"
  "retired_kept db db' \<Longrightarrow> retired_kept db (revoke_open_rotations host now action db')"
  "retired_kept db db' \<Longrightarrow> retired_kept db (db'\<lparr>credentials := cs\<rparr>)"
  "retired_kept db db' \<Longrightarrow> retired_kept db (db'\<lparr>rotations := rs\<rparr>)"
  by (simp_all add: retired_kept_def revoke_open_rotations_def)

lemma lifecycle_keeps_retired:
  assumes "set_host_lifecycle x db p host rvn intent now = Inr db'" and "registry_sound db"
  shows "retired_kept db db'"
  using assms unfolding set_host_lifecycle_def Let_def rbind_eq_Inr ok_or_eq_Inr
  by (elim exE conjE) (auto simp: ensure_eq_Inr split: if_splits
      intro: retirement.step_refl retired_kept_wrap(1) [OF retired_kept_host])

lemma retire_keeps_retired:
  assumes "retire_host x db p host rvn now = Inr db'"
  shows "retired_kept db db'"
  using assms unfolding retire_host_def Let_def rbind_eq_Inr
  by (elim exE conjE) (auto split: if_splits simp: rbind_eq_Inr
      intro!: retirement.step_refl retired_kept_wrap retired_kept_update)

lemma retired_kept_host_of:
  assumes "registry_sound db" and "find (\<lambda>h. fh_id h = host) (hosts db) = Some h"
    and "fh_lifecycle_state h \<noteq> ''retired''" and "hosts d = hosts db"
    and "\<And>k. fh_id (f k) = fh_id k" and "\<And>k. q k \<Longrightarrow> fh_id k = host"
  shows "retired_kept db (update_hosts q f d)"
  using retired_kept_host [OF assms(1-3), of f q] update_hosts_hosts [OF assms(4)] assms(5,6)
  by (blast intro: retired_kept_same)

lemma approve_keeps_retired:
  assumes "approve_host x db p ap now = Inr db'" and "registry_sound db"
  shows "retired_kept db db'"
proof -
  let ?host = "x_show_uuid x (host_uuid (ap_host_id ap))"
  from assms(1) obtain h where "find (\<lambda>h. fh_id h = ?host) (hosts db) = Some h"
    "fh_lifecycle_state h \<noteq> ''retired''" and
    "\<exists>user rvn ts. db' = approve_writes x ?host user rvn ts now db"
    unfolding approve_host_def Let_def rbind_eq_Inr ok_or_eq_Inr ensure_eq_Inr
    by (elim exE conjE) auto
  then show ?thesis
    unfolding approve_writes_def
    by (auto intro!: retired_kept_wrap(1) retired_kept_host_of [OF assms(2)]
        simp: grant_target_tables revoke_other_grants_def)
qed

lemma retire_makes_retired:
  assumes "retire_host x db p host rvn now = Inr db'"
  shows "\<exists>h \<in> set (hosts db'). fh_id h = x_show_uuid x (host_uuid host) \<and> fh_lifecycle_state h = ''retired''"
proof -
  let ?host = "x_show_uuid x (host_uuid host)"
  let ?f = "\<lambda>h. h\<lparr>fh_lifecycle_state := ''retired'', fh_retired_at := Some now,
    fh_authority_expires_at := None, fh_revision := fh_revision h + 1, fh_updated_at := now\<rparr>"
  from assms obtain h where h: "find (\<lambda>h. fh_id h = ?host) (hosts db) = Some h"
    and db': "db' = db \<and> fh_lifecycle_state h = ''retired'' \<or>
      hosts db' = hosts (update_hosts (\<lambda>k. fh_id k = ?host \<and> fh_revision k = fh_revision h) ?f db)"
    unfolding retire_host_def Let_def rbind_eq_Inr ok_or_eq_Inr
    by (elim exE conjE) (auto simp: result_splits split: if_splits)
  note h' = find_SomeD [OF h]
  have "invalidate_inventory h (?f h) \<in> set (hosts
      (update_hosts (\<lambda>k. fh_id k = ?host \<and> fh_revision k = fh_revision h) ?f db))"
    using h' by (force simp: update_hosts_def set_update_where)
  moreover have "fh_id (invalidate_inventory h (?f h)) = fh_id h"
    "fh_lifecycle_state (invalidate_inventory h (?f h)) = ''retired''"
    by (simp_all add: invalidate_inventory_def)
  ultimately show ?thesis
    using db' h' by (elim disjE conjE) (blast, simp only:, blast)
qed

lemma acknowledge_keeps_retired:
  assumes "acknowledge_rotation x db a oid now = Inr (db', ra)"
  shows "retired_kept db db'"
proof -
  have *: "retired_kept db (update_hosts q f d)"
    if "hosts d = hosts db" "\<And>h. fh_id (f h) = fh_id h"
      "\<And>h. fh_lifecycle_state (f h) = fh_lifecycle_state h" for q f d
    using that by (intro retired_kept_same [OF retired_kept_update update_hosts_hosts]) auto
  show ?thesis
    using assms unfolding acknowledge_rotation_def Let_def rbind_eq_Inr
    by (elim exE conjE) (auto split: option.splits simp: rbind_eq_Inr
        intro!: retirement.step_refl retired_kept_wrap *)
qed

lemma revoke_keeps_retired:
  assumes "revoke_credential x db p host_id g now = Inr db'" and "registry_sound db"
  shows "retired_kept db db'"
proof -
  let ?host = "x_show_uuid x (host_uuid host_id)"
  show ?thesis
    using assms(1) unfolding revoke_credential_def Let_def rbind_eq_Inr ok_or_eq_Inr
    by (elim exE conjE) (auto split: if_splits simp: revoke_open_rotations_def quarantine_host_def
        intro: retired_kept_wrap(1) [OF retired_kept_host_of [OF assms(2)]] retired_kept_hosts)
qed

lemma consume_recovery_keeps_retired:
  assumes "consume_recovery x db e credential cid now = Inr (db', receipt)" and "registry_sound db"
  shows "retired_kept db db'"
proof -
  from assms(1) obtain gen db2 db3 db4 host row q f h where
    h: "find (\<lambda>h. fh_id h = host) (hosts db) = Some h" "fh_lifecycle_state h \<noteq> ''retired''" and
    "mark_consumed (he_id e) host now (revoke_credentials (\<lambda>c. hk_host_id c = host) now
       (revoke_open_rotations host now ''fleet.credential.rotation_revoked_by_recovery'' db)) = Inr db2"
    and db3: "update_lineage q f db2 = Inr db3" and "insert_credential row db3 = Inr db4"
    and "db' = audit_and_event (Some host) ''fleet.host.recovered'' db4"
    and qf: "\<And>k. q k \<Longrightarrow> fh_id k = host" "\<And>k. fh_id (f k) = fh_id k"
    unfolding consume_recovery_def Let_def rbind_eq_Inr ok_or_eq_Inr
    by (elim exE conjE) (auto simp: ensure_eq_Inr)
  then have "hosts db2 = hosts db" "hosts db' = hosts db3"
    by (auto simp: revoke_open_rotations_def insert_credential_hosts dest!: mark_consumed_hosts)
  moreover from db3 have "db3 = update_hosts q f db2" by (auto simp: update_lineage_def rbind_eq_Inr)
  ultimately have "hosts db' = hosts (update_hosts q f db)" by (simp add: update_hosts_def)
  then show ?thesis
    using retired_kept_host [OF assms(2) h, of f q] qf by (blast intro: retired_kept_same)
qed

lemma consume_normal_keeps_retired:
  assumes "consume_normal x db e registration credential host_id did cid now = Inr (db', receipt)"
  shows "retired_kept db db'"
proof -
  let ?host = "x_show_uuid x (host_uuid host_id)"
  from assms obtain db1 db2 db3 db4 row q f where
    db1: "insert_root_domain (x_show_uuid x did) ?host
       (db\<lparr>hosts := hosts db @ [new_host x host_id registration now]\<rparr>) = Inr db1"
    and db2: "insert_credential row db1 = Inr db2" and db3: "mark_consumed (he_id e) ?host now db2 = Inr db3"
    and db4: "update_lineage q f db3 = Inr db4"
    and f: "\<And>k. fh_id (f k) = fh_id k" "\<And>k. fh_lifecycle_state (f k) = fh_lifecycle_state k"
    and db': "db' = audit_and_event (Some ?host) ''fleet.enrollment.consumed'' db4"
    unfolding consume_normal_def Let_def rbind_eq_Inr map_err_eq_Inr insert_unique_eq_Inr
    by (elim exE conjE) auto
  have "retired_kept db db3"
    using db1 db2 db3
    by (intro retired_kept_frame) (auto simp: insert_root_domain_def rbind_eq_Inr map_err_eq_Inr
        dest!: mark_consumed_hosts insert_credential_hosts)
  moreover from db4 have "db4 = update_hosts q f db3" by (auto simp: update_lineage_def rbind_eq_Inr)
  then have "retired_kept db3 db'"
    unfolding db' using f by (auto intro!: retired_kept_wrap(1) retired_kept_update)
  ultimately show ?thesis by (rule retirement.step_trans)
qed

lemma registry_step_retired:
  assumes "registry_step x db db'" and "registry_sound db"
  shows "retired_kept db db'"
  using assms
  by (cases rule: registry_step.cases)
    (blast intro: retired_kept_hosts steps_without_hosts lifecycle_keeps_retired retire_keeps_retired
      approve_keeps_retired acknowledge_keeps_retired revoke_keeps_retired
      consume_recovery_keeps_retired consume_normal_keeps_retired elim: consume_enrollment_cases)+

lemma registry_reachable_retired:
  assumes "registry_reachable x db db'" and "registry_sound db"
  shows "retired_kept db db'"
  using assms
  by (induction rule: registry_reachable.induct)
    (auto intro: retirement.step_refl retirement.step_trans registry_step_retired registry_reachable_sound)

text \<open>
  C9. Retirement is final: once a host is retired, nothing the registry does later lets any secret
  authenticate as it, not even recovery.
\<close>

theorem retirement_is_final:
  assumes "registry_sound db" and "retire_host x db p host rvn now = Inr db1"
    and "registry_reachable x db1 db2"
  shows "\<exists>e. authenticate x db2 host secret t = Inl e"
proof -
  let ?host = "x_show_uuid x (host_uuid host)"
  have sound: "registry_sound db1" "registry_sound db2"
    using assms registry_step.retires registry_step_sound registry_reachable_sound by blast+
  have "\<exists>h \<in> set (hosts db1). fh_id h = ?host \<and> fh_lifecycle_state h = ''retired''"
    using assms(2) retire_makes_retired by blast
  then obtain h where h: "h \<in> set (hosts db2)" "fh_id h = ?host" "fh_lifecycle_state h = ''retired''"
    using registry_reachable_retired [OF assms(3) sound(1)] unfolding retired_kept_def by metis
  have False if auth: "authenticate x db2 host secret t = Inr a" for a
  proof -
    from auth obtain c k where "c \<in> set (credentials db2)" "k \<in> set (hosts db2)" "fh_id k = hk_host_id c" "hk_host_id c = ?host"
      "fh_lifecycle_state k \<noteq> ''retired''" by (rule authenticate_eq_Inr)
    with h sound(2) show False by (metis distinct_map inj_onD registry_sound_def)
  qed
  then show ?thesis by (cases "authenticate x db2 host secret t") auto
qed

lemma sample_retires:
  "\<exists>db. retire_host registry_externals enrolled_db (AuthenticatedUser ''admin'') (HostId 1) (Revision 1)
     5000 = Inr db"
  by (simp add: retire_host_def expected_revision_i64_def enrolled_db_def issued_db_def
      audit_and_event_def new_host_def host_busy_def rows_where_def registry_db_def sample_db_def
      ensure_system_admin_def Let_def)

lemma enrolled_sound: "registry_sound enrolled_db"
  using registry_reachable_sound [OF registry_reachable.more [OF registry_reachable.more [OF
      registry_reachable.start registry_step.issues [OF sample_issues]]
      registry_step.consumes [OF sample_consumes]]] registry_sound_empty [of registry_db]
  by simp

theorem retirement_is_final_witness:
  "\<exists>db. retire_host registry_externals enrolled_db (AuthenticatedUser ''admin'') (HostId 1) (Revision 1)
     5000 = Inr db \<and>
     (\<exists>e. authenticate registry_externals db (HostId 1) (sample_secret (CHR ''c'')) 6000 = Inl e)"
proof -
  obtain db where db: "retire_host registry_externals enrolled_db (AuthenticatedUser ''admin'') (HostId 1)
    (Revision 1) 5000 = Inr db" using sample_retires by blast
  with retirement_is_final [OF enrolled_sound db registry_reachable.start] show ?thesis by blast
qed

section \<open>An approval stays within its code\<close>

text \<open>A grant in force: not revoked.\<close>

definition granted :: "fleet_db \<Rightarrow> string \<Rightarrow> target_grant_row \<Rightarrow> bool" where
  "granted db host g \<longleftrightarrow> g \<in> set (target_grants db) \<and> tg_host_id g = host \<and> tg_revoked_at g = None"

definition harmless :: "target_grant_row \<Rightarrow> bool" where
  "harmless g \<longleftrightarrow> \<not> tg_allow_native g \<and> \<not> tg_allow_interactive g \<and> \<not> tg_allow_docker_socket g"

lemma update_where_member:
  "r' \<in> set (update_where q f rs) \<longleftrightarrow> (\<exists>r \<in> set rs. q r \<and> r' = f r) \<or> r' \<in> set rs \<and> \<not> q r'"
  by (auto simp: set_update_where)

lemma update_where_cases:
  assumes "r' \<in> set (update_where q f rs)"
  obtains r where "r \<in> set rs" "q r" "r' = f r" | "r' \<in> set rs" "\<not> q r'"
  using assms unfolding update_where_member by blast

lemma grant_target_cases:
  obtains (new) row where "grant_target host user db t = db\<lparr>target_grants := target_grants db @ [row]\<rparr>"
    "tg_host_id row = host" "tg_target_id row = t" "tg_revoked_at row = None" "harmless row"
  | (again) r f where "r \<in> set (target_grants db)" "tg_host_id r = host" "tg_target_id r = t"
    "tg_revoked_at r \<noteq> None"
    "grant_target host user db t = db\<lparr>target_grants := update_where
       (\<lambda>g. (tg_host_id g = host \<and> tg_target_id g = t) \<and> tg_revoked_at g \<noteq> None) f (target_grants db)\<rparr>"
    "\<And>g. tg_host_id (f g) = tg_host_id g \<and> tg_target_id (f g) = tg_target_id g \<and>
       tg_revoked_at (f g) = None \<and> harmless (f g)"
  | (same) r where "r \<in> set (target_grants db)" "tg_host_id r = host" "tg_target_id r = t"
    "tg_revoked_at r = None" "grant_target host user db t = db"
proof (cases "find (\<lambda>g. tg_host_id g = host \<and> tg_target_id g = t) (target_grants db)")
  case None
  then show thesis
    by (intro new, simp add: grant_target_def Let_def) (simp_all add: harmless_def)
next
  case (Some r)
  note r = find_SomeD [OF Some]
  show thesis
  proof (cases "tg_revoked_at r")
    case None
    with Some r show thesis by (intro same [of r]) (simp_all add: grant_target_def Let_def)
  next
    case (Some n)
    with r \<open>find _ _ = _\<close> show thesis
      by (intro again [of r "\<lambda>g. g\<lparr>tg_allow_schedule := False, tg_allow_native := False,
          tg_allow_interactive := False, tg_allow_docker_socket := False,
          tg_revision := tg_revision g + 1, tg_revoked_at := None, tg_granted_by := Some user\<rparr>"])
        (simp_all add: grant_target_def Let_def harmless_def)
  qed
qed

lemma grant_target_step:
  shows "granted (grant_target host user db t) host g \<Longrightarrow>
      granted db host g \<or> tg_target_id g = t \<and> harmless g"
    and "granted db host g \<Longrightarrow> granted (grant_target host user db t) host g"
    and "\<exists>g. granted (grant_target host user db t) host g \<and> tg_target_id g = t"
proof -
  show "granted db host g \<or> tg_target_id g = t \<and> harmless g"
    if "granted (grant_target host user db t) host g"
  proof (cases rule: grant_target_cases [where db = db and host = host and t = t and user = user])
    case (again r f)
    from that have "g \<in> set (target_grants (grant_target host user db t))"
      and g: "tg_host_id g = host" "tg_revoked_at g = None" by (simp_all add: granted_def)
    from this(1) have "g \<in> set (update_where (\<lambda>g. (tg_host_id g = host \<and> tg_target_id g = t) \<and>
        tg_revoked_at g \<noteq> None) f (target_grants db))" by (simp add: again(5))
    then show ?thesis
      by (rule update_where_cases) (use again(6) g in \<open>auto simp: granted_def\<close>)
  qed (use that in \<open>auto simp: granted_def\<close>)
  show "granted (grant_target host user db t) host g" if "granted db host g"
  proof (cases rule: grant_target_cases [where db = db and host = host and t = t and user = user])
    case again
    with that show ?thesis by (auto simp: granted_def update_where_member)
  qed (use that in \<open>auto simp: granted_def\<close>)
  show "\<exists>g. granted (grant_target host user db t) host g \<and> tg_target_id g = t"
  proof (cases rule: grant_target_cases [where db = db and host = host and t = t and user = user])
    case (again r f)
    have "f r \<in> set (update_where (\<lambda>g. (tg_host_id g = host \<and> tg_target_id g = t) \<and>
        tg_revoked_at g \<noteq> None) f (target_grants db))"
      unfolding update_where_member using again(1-4) by blast
    then have "granted (grant_target host user db t) host (f r) \<and> tg_target_id (f r) = t"
      using again(2,3,6) by (simp add: granted_def again(5))
    then show ?thesis by blast
  qed (auto simp: granted_def)
qed

lemma grant_targets_fold:
  shows "granted (foldl (grant_target host user) db ts) host g \<Longrightarrow>
      granted db host g \<or> tg_target_id g \<in> set ts \<and> harmless g"
    and "granted db host g \<Longrightarrow> granted (foldl (grant_target host user) db ts) host g"
    and "t \<in> set ts \<Longrightarrow> \<exists>g. granted (foldl (grant_target host user) db ts) host g \<and> tg_target_id g = t"
proof -
  show keeps: "granted db host g \<Longrightarrow> granted (foldl (grant_target host user) db ts) host g" for db g
    by (induction ts arbitrary: db) (auto intro: grant_target_step(2))
  show "granted (foldl (grant_target host user) db ts) host g \<Longrightarrow>
      granted db host g \<or> tg_target_id g \<in> set ts \<and> harmless g"
    by (induction ts arbitrary: db) (auto dest: grant_target_step(1))
  show "t \<in> set ts \<Longrightarrow> \<exists>g. granted (foldl (grant_target host user) db ts) host g \<and> tg_target_id g = t"
    by (induction ts rule: rev_induct) (auto intro: grant_target_step(2) grant_target_step(3))
qed

lemma revoke_other_granted:
  assumes "granted (revoke_other_grants host keep now db) host g"
  shows "granted db host g \<and> tg_target_id g \<in> set keep"
proof -
  from assms have g: "tg_host_id g = host" "tg_revoked_at g = None" and
    "g \<in> set (update_where
       (\<lambda>g. tg_host_id g = host \<and> tg_revoked_at g = None \<and> tg_target_id g \<notin> set keep)
       (\<lambda>g. g\<lparr>tg_revoked_at := Some now\<rparr>) (target_grants db))"
    by (simp_all add: granted_def revoke_other_grants_def)
  from this(3) show ?thesis
    by (rule update_where_cases) (use g in \<open>simp_all add: granted_def\<close>)
qed

text \<open>
  C11. An approval stays within the scope of the code the host was enrolled with: the targets it grants
  are among those of the code, exactly they are granted afterwards, and a grant that was not in
  force before allows neither native runs nor interactive ones nor the Docker socket.
\<close>

theorem approval_within_scope:
  assumes "approve_host x db p ap now = Inr db'"
    and "host = x_show_uuid x (host_uuid (ap_host_id ap))"
  shows "(\<exists>e issued. lineage_scope x db host = Some e \<and> scope_deserialize x (he_scope_json e) = Some issued \<and>
      set (scope_target_ids (ap_scope ap)) \<subseteq> set (scope_target_ids issued)) \<and>
    {tg_target_id g | g. granted db' host g} = target_text x ` set (scope_target_ids (ap_scope ap)) \<and>
    (\<forall>g. granted db' host g \<longrightarrow> granted db host g \<or> harmless g)"
proof -
  let ?ts = "map (target_text x) (scope_target_ids (ap_scope ap))"
  from assms obtain e issued user rvn where
    e: "lineage_scope x db host = Some e" "scope_deserialize x (he_scope_json e) = Some issued"
      "scope_is_subset (ap_scope ap) issued"
    and db': "db' = approve_writes x host user rvn ?ts now db"
    unfolding approve_host_def Let_def rbind_eq_Inr ok_or_eq_Inr ensure_eq_Inr
    by (elim exE conjE) auto
  have same: "granted db' host g = granted (foldl (grant_target host user)
      (revoke_other_grants host ?ts now db) ?ts) host g" for g
    unfolding db' by (simp add: granted_def approve_writes_def)
  have "tg_target_id g \<in> set ?ts \<and> (granted db host g \<or> harmless g)" if "granted db' host g" for g
    using grant_targets_fold(1) [OF that [unfolded same]] revoke_other_granted by blast
  moreover have "\<exists>g. granted db' host g \<and> tg_target_id g = t" if "t \<in> set ?ts" for t
    unfolding same by (rule grant_targets_fold(3) [OF that])
  ultimately have "{tg_target_id g | g. granted db' host g} = set ?ts"
    and "\<forall>g. granted db' host g \<longrightarrow> granted db host g \<or> harmless g" by blast+
  then show ?thesis using e by (auto simp: scope_is_subset_def)
qed

definition approvable_db :: fleet_db where
  "approvable_db = enrolled_db\<lparr>
     hosts := map (\<lambda>h. h\<lparr>fh_agent_session_id := Some (unary 7), fh_boot_id := Some ''boot'',
       fh_authority_incarnation := Some (unary 8), fh_inventory_revision := 1,
       fh_inventory_digest := Some (sample_secret (CHR ''d'')), fh_inventory_complete := True,
       fh_inventory_epoch := Some 1, fh_inventory_session_id := Some (unary 7),
       fh_inventory_boot_id := Some ''boot'', fh_last_inventory_at := Some 3000\<rparr>) (hosts enrolled_db),
     observation_sessions := [\<lparr>os_session_id = unary 7, os_host_id = unary 1, os_host_epoch = 1,
       os_boot_id = ''boot'', os_control_plane_incarnation = unary 8,
       os_current_credential_id = unary 3, os_current_credential_generation = 1,
       os_initial_request_id = ''r'', os_initial_body_digest = ''d'', os_state = ''observing'',
       os_created_at = 2500, os_last_seen_at = 3000, os_ended_at = None,
       os_lease_expires_at = 90000, os_current_inventory_sequence = 1,
       os_current_inventory_digest = Some (sample_secret (CHR ''d'')),
       os_current_inventory_received_at = Some 3000, os_handshake_received_at = 2500,
       os_handshake_lease_expires_at = 90000, os_handshake_state = ''observing''\<rparr>],
     inventory_snapshots := [\<lparr>is_host_id = unary 1, is_authority_session_id = unary 7,
       is_host_epoch = 1, is_control_plane_incarnation = unary 8, is_inventory_sequence = 1,
       is_digest = sample_secret (CHR ''d''), is_received_at = 3000, is_inventory_revision = Some 1\<rparr>]\<rparr>"

definition sample_approval :: approve_host_request where
  "sample_approval = \<lparr>ap_host_id = HostId 1, ap_expected_revision = Revision 1,
     ap_expected_inventory_revision = 1, ap_expected_inventory_digest = sample_secret (CHR ''d''),
     ap_scope = EnrollmentScope [CiTargetId 4]\<rparr>"

lemma approvable_admin:
  "ensure_system_admin approvable_db ''admin'' = Inr ()"
  "ensure_target_admin registry_externals approvable_db ''admin'' (CiTargetId 4) = Inr ()"
  by (simp_all add: ensure_system_admin_def ensure_target_admin_def target_administered_def
      target_text_def approvable_db_def enrolled_db_def issued_db_def audit_and_event_def registry_db_def
      sample_db_def)

lemma approvable_lineage: "\<exists>e. lineage_scope registry_externals approvable_db ''u'' = Some e \<and>
    he_issued_by e = ''admin''"
  by (simp add: lineage_scope_def approvable_db_def enrolled_db_def issued_db_def audit_and_event_def
      new_host_def sample_enrollment_def)

lemma approvable_observed:
  "\<exists>h. find (\<lambda>h. fh_id h = ''u'') (hosts approvable_db) = Some h \<and> fh_enrollment_state h = ''pending'' \<and>
     fh_lifecycle_state h = ''paused'' \<and>
     approval_matches registry_externals approvable_db h 1 1 (sample_secret (CHR ''d'')) 4000 \<and>
     observation_current approvable_db h ''u'' (sample_secret (CHR ''d'')) 1 4000"
  by (simp add: approvable_db_def enrolled_db_def issued_db_def audit_and_event_def new_host_def
      approval_matches_def inventory_fresh_def observation_current_def sample_credential_def
      credential_live_def registry_db_def sample_db_def saturating_sub_def clamp_i64_def in_i64_def i64_min_def
      i64_max_def)

lemma sample_approves:
  "\<exists>db. approve_host registry_externals approvable_db (AuthenticatedUser ''admin'') sample_approval 4000 =
     Inr db"
proof -
  have grants: "target_grants approvable_db = []"
    by (simp add: approvable_db_def enrolled_db_def issued_db_def audit_and_event_def registry_db_def)
  from approvable_lineage approvable_observed show ?thesis
    by (auto simp: approve_host_def sample_approval_def expected_revision_i64_def approvable_admin
        ensure_scope_admin_def ensure_all_targets_def scope_deserialize_def scope_is_subset_def
        granted_targets_def grants Let_def)
qed

theorem approval_within_scope_witness:
  "\<exists>db. approve_host registry_externals approvable_db (AuthenticatedUser ''admin'') sample_approval 4000 =
     Inr db \<and> {tg_target_id g | g. granted db ''u'' g} = {''uuuu''}"
proof -
  obtain db where db: "approve_host registry_externals approvable_db (AuthenticatedUser ''admin'')
    sample_approval 4000 = Inr db" using sample_approves by blast
  with approval_within_scope [OF db refl] show ?thesis
    by (auto simp: sample_approval_def target_text_def)
qed

end
