(* ===== verification/Agent_Rotation.thy ===== *)
theory Agent_Rotation
  imports Agent_Api Supervisor_Properties Registry_Finality
begin

text \<open>
  The rotation of a credential from both sides. The agent stores the secret it proposes before the
  exchange, so a retry proposes the same one, and the registry answers the retry with the receipt
  it gave. The acknowledgement revokes the old credential at once, while the agent keeps it until
  the reply arrives: when that reply is lost, the agent comes back with a credential the registry
  refuses, and stops.
\<close>

section \<open>The agent's side\<close>

lemma rotation_secret_stored:
  assumes "rotation_secret x op g fresh j = Inr (secret, j')"
  shows "\<exists>r. jn_rotation j' = Some r \<and> ps_operation_id r = x_show_uuid x (operation_uuid op) \<and>
    ps_next_secret r = secret" "jn_identity j' = jn_identity j"
  using assms by (auto simp: rotation_secret_def Let_def rbind_eq_Inr split: option.splits if_splits)

lemma rotation_secret_again:
  assumes "jn_rotation j = Some r" and "ps_operation_id r = x_show_uuid x (operation_uuid op)"
  shows "rotation_secret x op g fresh j = Inr (ps_next_secret r, j)"
  using assms by (simp add: rotation_secret_def)

section \<open>The registry's side\<close>

lemma update_where_verifiers:
  assumes "\<And>c. g (f c) = g c"
  shows "map g (update_where q f rs) = map g rs"
  using assms by (simp add: update_where_def)

text \<open>An exchange finds its rotation without a proposal, or replays the receipt of one it has.\<close>

lemma exchange_rotation_cases:
  assumes "exchange_rotation x db a oid secret cid now = Inr (db', receipt)"
  obtains (found) r old epoch s where "find (\<lambda>r. cr_id r = x_show_uuid x oid) (rotations db) = Some r"
    "secret_parse (x_codec x) secret = Inr s"
    "cr_host_id r = x_show_uuid x (host_uuid (ah_host_id a))"
    "generation_from_i64 (cr_old_generation r) = Inr old" "old = ah_generation a"
    "i64_from_u64 (epoch_get (ah_epoch a)) = Some epoch"
    "cr_old_credential_id r = x_show_uuid x (ah_credential_id a)" "cr_old_host_epoch r = epoch"
    "cr_phase r \<noteq> ''revoked''" "\<not> rotation_expired now r"
    "case cr_proposed_verifier r of
       Some v \<Rightarrow> exchange_replay x db r oid (secret_verifier x s) v = Inr receipt \<and> db' = db
     | None \<Rightarrow> exchange_fresh x db r oid (secret_verifier x s) old cid now = Inr (db', receipt)"
  using assms unfolding exchange_rotation_def Let_def rbind_eq_Inr ok_or_eq_Inr map_err_eq_Inr
  by (elim exE conjE) (auto simp: ensure_eq_Inr rbind_eq_Inr split: option.splits)

lemma exchange_fresh_effect:
  assumes "exchange_fresh x db r oid v old cid now = Inr (db', receipt)"
  obtains (effect) g gen overlap h sel pick where "generation_from_i64 (cr_next_generation r) = Inr g"
    "generation_i64 g = Inr gen"
    "receipt = \<lparr>rx_operation_id = oid, rx_credential_id = cid, rx_generation = g, rx_overlap_expires_at = overlap\<rparr>"
    "pick = (\<lambda>c. cr_id c = x_show_uuid x oid \<and> cr_phase c = ''requested'' \<and> cr_revoked_at c = None \<and>
      cr_expires_at c > now)"
    "fh_id (h :: host_row) = cr_host_id r"
    "\<forall>c \<in> set (credentials db). (hk_host_id c, hk_generation c) \<noteq> (cr_host_id r, gen)"
    "rotations db' = update_where pick
      (\<lambda>c. c\<lparr>cr_phase := ''exchanged'', cr_proposed_verifier := Some (verifier_str v),
             cr_exchanged_at := Some now, cr_overlap_expires_at := Some overlap\<rparr>) (rotations db)"
    "credentials db' = update_where sel (\<lambda>c. c\<lparr>hk_overlap_expires_at := Some overlap\<rparr>)
      (credentials db @ [\<lparr>hk_id = x_show_uuid x cid, hk_host_id = fh_id h, hk_host_epoch = fh_epoch h,
         hk_generation = gen, hk_verifier = verifier_str v, hk_created_at = now,
         hk_overlap_expires_at = None, hk_acknowledged_at = None, hk_revoked_at = None\<rparr>])"
proof -
  from assms obtain g overlap gen h db1 oldg where
    g: "generation_from_i64 (cr_next_generation r) = Inr g" "generation_i64 g = Inr gen"
    and h: "find (\<lambda>h. fh_id h = cr_host_id r) (hosts db) = Some h"
    and ins: "insert_credential \<lparr>hk_id = x_show_uuid x cid, hk_host_id = fh_id h, hk_host_epoch = fh_epoch h,
         hk_generation = gen, hk_verifier = verifier_str v, hk_created_at = now,
         hk_overlap_expires_at = None, hk_acknowledged_at = None, hk_revoked_at = None\<rparr> db = Inr db1"
    and db': "db' = audit_and_event (Some (cr_host_id r)) ''fleet.credential.rotation_exchanged''
       (db1\<lparr>credentials := update_where (\<lambda>c. hk_id c = cr_old_credential_id r \<and>
              hk_host_id c = cr_host_id r \<and> hk_generation c = oldg \<and>
              hk_host_epoch c = cr_old_host_epoch r \<and> hk_revoked_at c = None)
            (\<lambda>c. c\<lparr>hk_overlap_expires_at := Some overlap\<rparr>) (credentials db1),
          rotations := update_where (\<lambda>c. cr_id c = x_show_uuid x oid \<and> cr_phase c = ''requested'' \<and>
              cr_revoked_at c = None \<and> cr_expires_at c > now)
            (\<lambda>c. c\<lparr>cr_phase := ''exchanged'', cr_proposed_verifier := Some (verifier_str v),
                   cr_exchanged_at := Some now, cr_overlap_expires_at := Some overlap\<rparr>) (rotations db1)\<rparr>)"
    and receipt: "receipt = \<lparr>rx_operation_id = oid, rx_credential_id = cid, rx_generation = g,
       rx_overlap_expires_at = overlap\<rparr>"
    unfolding exchange_fresh_def Let_def rbind_eq_Inr ok_or_eq_Inr
    by (elim exE conjE) auto
  from find_SomeD [OF h] have "fh_id h = cr_host_id r" by simp
  moreover from ins this have "\<forall>c \<in> set (credentials db). (hk_host_id c, hk_generation c) \<noteq> (cr_host_id r, gen)"
    "rotations db1 = rotations db"
    "credentials db1 = credentials db @ [\<lparr>hk_id = x_show_uuid x cid, hk_host_id = fh_id h,
         hk_host_epoch = fh_epoch h, hk_generation = gen, hk_verifier = verifier_str v,
         hk_created_at = now, hk_overlap_expires_at = None, hk_acknowledged_at = None, hk_revoked_at = None\<rparr>]"
    by (auto simp: insert_credential_def rbind_eq_Inr map_err_eq_Inr insert_unique_eq_Inr
        image_iff)
  ultimately show thesis
    using g receipt by (intro effect) (auto simp: db' audit_and_event_def)
qed

lemma exchange_repeats:
  assumes "exchange_rotation x db a oid secret cid now = Inr (db', receipt)"
    and wf: "\<forall>r \<in> set (rotations db). rotation_wf r"
    and "ensure_authenticated_generation x db' a now' = Inr ()"
    and "x_parse_uuid x (x_show_uuid x cid) = Some cid"
  shows "exchange_rotation x db' a oid secret cid' now' = Inr (db', receipt)"
  using assms(1)
proof (cases rule: exchange_rotation_cases)
  case (found r old epoch s)
  have r: "rotation_wf r" "cr_id r = x_show_uuid x oid" using find_SomeD [OF found(1)] wf by auto
  show ?thesis
  proof (cases "cr_proposed_verifier r")
    case (Some v)
    with r(1) have "\<not> rotation_expired now' r"
      by (auto simp: rotation_wf_def exchange_absent_def rotation_expired_def)
    with found Some assms(3) show ?thesis
      by (simp add: exchange_rotation_def Let_def)
  next
    case None
    with found(11) have fresh: "exchange_fresh x db r oid (secret_verifier x s) old cid now = Inr (db', receipt)"
      by simp
    from this show ?thesis
    proof (cases rule: exchange_fresh_effect)
      case fresh: (effect g gen overlap h sel pick)
      let ?r = "r\<lparr>cr_phase := ''exchanged'', cr_proposed_verifier := Some (verifier_str (secret_verifier x s)),
             cr_exchanged_at := Some now, cr_overlap_expires_at := Some overlap\<rparr>"
      have "pick r"
        using r None found(9,10) fresh(4) by (auto simp: rotation_wf_def exchange_recorded_def rotation_expired_def)
      then have "find (\<lambda>r. cr_id r = x_show_uuid x oid) (rotations db') = Some ?r"
        using found(1) fresh(7) by (simp add: find_update_where)
      moreover have "\<exists>c. find (\<lambda>c. hk_host_id c = cr_host_id r \<and> hk_generation c = gen) (credentials db') = Some c \<and>
          hk_id c = x_show_uuid x cid"
        using fresh(5,6,8)
        by (subst fresh(8), subst find_update_where) (auto simp: find_append_new find_None_iff)
      then have "exchange_replay x db' ?r oid (secret_verifier x s) (verifier_str (secret_verifier x s)) = Inr receipt"
        using fresh(1-3) assms(4) by (auto simp: exchange_replay_def matches_verifier_def parse_stored_uuid_def)
      ultimately show ?thesis
        using found assms(3) by (simp add: exchange_rotation_def Let_def rotation_expired_def)
    qed
  qed
qed

section \<open>A lost acknowledgement\<close>

text \<open>The client of a network that loses the reply to the acknowledgement after the commit.\<close>

definition lost_acknowledgement ::
  "externals \<Rightarrow> i64 \<Rightarrow> ('j, fleet_db) fleet_client \<Rightarrow> ('j, fleet_db) fleet_client" where
  "lost_acknowledgement x now cl = cl\<lparr>fc_acknowledge_rotation := (\<lambda>h c op db.
     (Inl (Client_Unavailable ''timeout''), snd (api_acknowledge x now h c op db)))\<rparr>"

lemma with_journal_identity:
  assumes "with_journal (rotation_secret x op g fresh) s = (r, s')"
  shows "jn_identity (fst (fst s')) = jn_identity (fst (fst s))"
  using assms
  by (auto simp: with_journal_def dest!: rotation_secret_stored(2) split: sum.splits prod.splits)

lemma lost_rotation_fails:
  assumes "rotate x (lost_acknowledgement x now cl) host cred p fresh s = (r, s')"
  shows "\<exists>e. r = Inl e" "jn_identity (fst (fst s')) = jn_identity (fst (fst s))"
proof -
  obtain r1 s1 where s1: "with_journal (rotation_secret x (pn_operation_id p) (pn_next_generation p) fresh) s =
      (r1, s1)" by (cases "with_journal (rotation_secret x (pn_operation_id p) (pn_next_generation p) fresh) s")
  note with_journal_identity [OF s1]
  moreover have "(\<exists>e. r = Inl e) \<and> fst s' = fst s1"
    using assms s1
    by (auto simp: rotate_def abind_def ask_def lost_acknowledgement_def split: sum.splits prod.splits)
  ultimately show "\<exists>e. r = Inl e" "jn_identity (fst (fst s')) = jn_identity (fst (fst s))" by simp_all
qed

lemma map_err_eq_Inl: "map_err f r = Inl e \<longleftrightarrow> (\<exists>e'. r = Inl e' \<and> e = f e')"
  by (cases r) auto

lemma authenticate_error: "authenticate x db host secret now = Inl e \<Longrightarrow> \<forall>m. e \<noteq> Reg_Database m"
  by (auto simp: authenticate_def Let_def result_splits map_err_eq_Inl split: prod.splits)

lemma bearer_auth_token: "bearer False (bearer_auth cred) = Some token \<Longrightarrow> token = cred"
  by (auto simp: bearer_auth_def bearer_def split_once_space_def Let_def split: if_splits)

lemma refused_credential:
  assumes "\<And>a. authenticate x db host cred now \<noteq> Inr a"
  shows "via_http (fleet_agent x db host False (bearer_auth cred) now) = Inl Client_Unauthenticated"
proof -
  have "fleet_agent x db host False (bearer_auth cred) now = Inl Code_Unauthenticated"
  proof (cases "bearer False (bearer_auth cred)")
    case (Some token)
    with bearer_auth_token [OF Some] assms authenticate_error [of x db host cred now] show ?thesis
      by (cases "authenticate x db host cred now") (auto simp: fleet_agent_def split: registry_error.splits)
  qed (simp add: fleet_agent_def)
  then show ?thesis by (simp add: via_http_def send_reply_def)
qed

section \<open>The sample rotation\<close>

definition rotating_journal :: journal where
  "rotating_journal = empty_journal\<lparr>jn_identity := Some \<lparr>ir_host_id = ''u'', ir_host_epoch = 1,
     ir_credential = sample_secret (CHR ''c''), ir_credential_generation = 1\<rparr>\<rparr>"

definition proposed_journal :: journal where
  "proposed_journal = rotating_journal\<lparr>jn_rotation := Some \<lparr>ps_operation_id = ''uuuu'',
     ps_next_generation = 2, ps_next_secret = sample_secret (CHR ''d'')\<rparr>\<rparr>"

lemma sample_proposal:
  "rotation_secret registry_externals (OperationId 4) (Generation 2) (sample_secret (CHR ''d''))
     rotating_journal = Inr (sample_secret (CHR ''d''), proposed_journal)"
  by (simp add: rotation_secret_def rotating_journal_def proposed_journal_def empty_journal_def
      journal_i64_def generation_get_def)

lemma requested_reachable: "registry_reachable registry_externals registry_db requested_db"
  using registry_reachable.more [OF registry_reachable.more [OF registry_reachable.more [OF
      registry_reachable.start registry_step.issues [OF sample_issues]]
      registry_step.consumes [OF sample_consumes]] registry_step.requests [OF sample_requests]] .

lemma sample_old_live:
  "ensure_authenticated_generation registry_externals exchanged_db (sample_agent 3 1) 5000 = Inr ()"
  by (simp add: ensure_authenticated_generation_def exchanged_db_def requested_db_def
      enrolled_db_def issued_db_def audit_and_event_def new_host_def sample_agent_def
      generation_i64_def sample_credential_def credential_live_def)

definition sample_registry_client :: "(agent_command_envelope, fleet_db) fleet_client" where
  "sample_registry_client = registry_client registry_externals (\<lambda>_. None) (\<lambda>_. None) Linux X64 4000
     \<lparr>ee_bytes = [], ee_host = 1, ee_domain = 2, ee_credential = 5\<rparr>"

lemma secret_input_sample:
  assumes "bearer_char c"
  shows "secret_input_ok (sample_secret c)"
    "bearer False (bearer_auth (sample_secret c)) = Some (sample_secret c)"
proof -
  have "bearer_char (CHR ''A'')" by (simp add: bearer_char_def)
  with assms show ok: "secret_input_ok (sample_secret c)"
    by (simp add: secret_input_ok_def sample_secret_def list_all_iff)
  have "map ascii_lower ''Bearer'' = ''bearer''" by code_simp
  with ok show "bearer False (bearer_auth (sample_secret c)) = Some (sample_secret c)"
    by (simp add: bearer_def bearer_auth_def split_once_space_def secret_input_ok_def)
qed

lemma sample_exchange_route:
  "api_exchange registry_externals 4000 5 (HostId 1) (sample_secret (CHR ''c'')) (OperationId 4)
     (sample_secret (CHR ''d'')) requested_db = (Inr (), exchanged_db)"
proof -
  have "authenticate registry_externals requested_db (HostId 1) (sample_secret (CHR ''c'')) 4000 =
      Inr (sample_agent 3 1)"
    by (simp add: authenticate_def requested_db_def enrolled_db_def issued_db_def
      audit_and_event_def new_host_def sample_credential_def credential_live_def
      matches_verifier_def word_try_from_def generation_new_def host_epoch_new_def sample_agent_def)
  then have "fleet_agent registry_externals requested_db (HostId 1) False
      (bearer_auth (sample_secret (CHR ''c''))) 4000 = Inr (sample_agent 3 1)"
    by (simp add: fleet_agent_def secret_input_sample bearer_char_def)
  then show ?thesis
    by (simp add: api_exchange_def agent_route_def secret_input_sample bearer_char_def sample_exchanges
        reply_with_def api_timestamp_def wire_timestamp_from_millis_def)
      (simp add: registry_externals_def)
qed

lemma sample_acknowledge_route:
  "snd (api_acknowledge registry_externals 6000 (HostId 1) (sample_secret (CHR ''d'')) (OperationId 4)
     exchanged_db) = acknowledged_db"
proof -
  have "authenticate registry_externals exchanged_db (HostId 1) (sample_secret (CHR ''d'')) 6000 =
      Inr (sample_agent 5 2)"
    by (simp add: authenticate_def exchanged_db_def requested_db_def enrolled_db_def issued_db_def
      audit_and_event_def new_host_def sample_credential_def credential_live_def
      matches_verifier_def word_try_from_def generation_new_def host_epoch_new_def sample_agent_def)
  then have "fleet_agent registry_externals exchanged_db (HostId 1) False
      (bearer_auth (sample_secret (CHR ''d''))) 6000 = Inr (sample_agent 5 2)"
    by (simp add: fleet_agent_def secret_input_sample bearer_char_def)
  then show ?thesis
    by (simp add: api_acknowledge_def agent_route_def sample_acknowledges reply_with_def)
qed

lemma sample_lost_rotation:
  "rotate registry_externals (lost_acknowledgement registry_externals 6000 sample_registry_client)
     (HostId 1) (sample_secret (CHR ''c'')) \<lparr>pn_operation_id = OperationId 4, pn_next_generation = Generation 2\<rparr>
     (sample_secret (CHR ''d'')) ((rotating_journal, ()), requested_db) =
   (Inl (Client_Unavailable ''timeout''), ((proposed_journal, ()), acknowledged_db))"
  by (simp add: rotate_def abind_def ask_def with_journal_def sample_proposal lost_acknowledgement_def
      sample_registry_client_def registry_client_def over_http_def via_http_def send_reply_def
      sample_exchange_route sample_acknowledge_route)

section \<open>Properties\<close>

text \<open>
  C20. A rotation survives the death of the agent and the loss of the exchange's reply: the retry
  proposes the secret the journal kept, whatever new randomness there is, and the registry answers it
  with the receipt of the first exchange and changes nothing.
\<close>

theorem rotation_retry_is_answered_alike:
  assumes "registry_reachable x db0 db" and "hosts db0 = []" and "rotations db0 = []"
    and "rotation_secret x op g fresh j = Inr (secret, j1)"
    and "exchange_rotation x db a (operation_uuid op) secret cid now = Inr (db', receipt)"
    and "jn_rotation j2 = jn_rotation j1"
    and "ensure_authenticated_generation x db' a now' = Inr ()"
    and "x_parse_uuid x (x_show_uuid x cid) = Some cid"
  shows "rotation_secret x op g' fresh' j2 = Inr (secret, j2) \<and>
    exchange_rotation x db' a (operation_uuid op) secret cid' now' = Inr (db', receipt)"
proof -
  have "registry_sound db"
    using registry_reachable_sound [OF assms(1)] registry_sound_empty assms(2,3) by blast
  then have "\<forall>r \<in> set (rotations db). rotation_wf r" by (simp add: registry_sound_def)
  from exchange_repeats [OF assms(5) this assms(7,8)]
  have "exchange_rotation x db' a (operation_uuid op) secret cid' now' = Inr (db', receipt)" .
  moreover from rotation_secret_stored(1) [OF assms(4)] assms(6)
  have "rotation_secret x op g' fresh' j2 = Inr (secret, j2)" by (auto simp: rotation_secret_again)
  ultimately show ?thesis by simp
qed

theorem rotation_retry_is_answered_alike_witness:
  "rotation_secret registry_externals (OperationId 4) (Generation 2) (sample_secret (CHR ''b''))
     proposed_journal = Inr (sample_secret (CHR ''d''), proposed_journal) \<and>
   exchange_rotation registry_externals exchanged_db (sample_agent 3 1) 4 (sample_secret (CHR ''d'')) 77 5000 =
     Inr (exchanged_db, \<lparr>rx_operation_id = 4, rx_credential_id = 5, rx_generation = Generation 2,
       rx_overlap_expires_at = 304000\<rparr>)"
  using rotation_retry_is_answered_alike [OF requested_reachable _ _ sample_proposal, of "sample_agent 3 1"
      5 4000 exchanged_db _ proposed_journal 5000 "Generation 2" "sample_secret (CHR ''b'')" 77]
    sample_exchanges sample_old_live
  by (simp add: registry_db_def sample_db_def registry_externals_def sample_externals_def unary_def)

text \<open>
  C21. When the reply to an acknowledgement is lost after the registry committed it, the rotation
  fails on the agent, which keeps its old credential; the registry refuses that credential from
  then on, and the supervisor stops: the host is stranded until it is recovered.
\<close>

theorem lost_acknowledgement_strands_agent:
  assumes "rotate x (lost_acknowledgement x now cl) host cred p fresh s = (r, s')"
    and "jn_identity (fst (fst s)) = Some ident" and "ir_credential ident = cred"
    and "registry_reachable x db0 (snd s')" and "hosts db0 = []" and "rotations db0 = []"
    and "rot \<in> set (rotations (snd s'))" and "cr_phase rot = ''acknowledged''"
    and "cr_host_id rot = x_show_uuid x (host_uuid host)"
    and "\<And>c. \<lbrakk>c \<in> set (credentials (snd s')); hk_host_id c = x_show_uuid x (host_uuid host);
           hk_verifier c = verifier_str (verifier_from_secret x cred)\<rbrakk> \<Longrightarrow>
           hk_generation c < cr_next_generation rot"
  shows "(\<exists>e. r = Inl e) \<and> jn_identity (fst (fst s')) = Some ident \<and>
    (\<exists>e. via_http (fleet_agent x (snd s') host False (bearer_auth (ir_credential ident)) now') = Inl e \<and>
         after_session draw (Inl e) failures = Inl Stop_CredentialRejected)"
proof -
  have "registry_sound (snd s')"
    using registry_reachable_sound [OF assms(4)] registry_sound_empty assms(5,6) by blast
  then have "authenticate x (snd s') host cred now' \<noteq> Inr a" for a
    using assms(7-10)
    by (auto elim!: authenticate_eq_Inr simp: registry_sound_def rotations_fence_def credential_live_def)
      (metis linorder_not_less)
  from refused_credential [OF this] lost_rotation_fails [OF assms(1)] assms(2,3) show ?thesis
    by (simp add: after_session_def)
qed

theorem lost_acknowledgement_strands_agent_witness:
  "\<exists>e. via_http (fleet_agent registry_externals acknowledged_db (HostId 1) False
       (bearer_auth (sample_secret (CHR ''c''))) 7000) = Inl e \<and>
     after_session max (Inl e) 0 = Inl Stop_CredentialRejected"
proof -
  have "jn_identity rotating_journal = Some \<lparr>ir_host_id = ''u'', ir_host_epoch = 1,
      ir_credential = sample_secret (CHR ''c''), ir_credential_generation = 1\<rparr>"
    by (simp add: rotating_journal_def)
  moreover have "hk_generation c < 2"
    if "c \<in> set (credentials acknowledged_db)" "hk_verifier c = sample_secret (CHR ''c'')" for c
    using that by (auto simp: acknowledged_db_def audit_and_event_def sample_credential_def)
  moreover have "hosts registry_db = []" "rotations registry_db = []"
    by (simp_all add: registry_db_def sample_db_def)
  moreover have "cr_phase (hd (rotations acknowledged_db)) = ''acknowledged''"
    "cr_host_id (hd (rotations acknowledged_db)) = ''u''"
    "cr_next_generation (hd (rotations acknowledged_db)) = 2"
    "hd (rotations acknowledged_db) \<in> set (rotations acknowledged_db)"
    by (simp_all add: acknowledged_db_simps sample_rotation_def)
  ultimately show ?thesis
    using lost_acknowledgement_strands_agent [OF sample_lost_rotation, of _ registry_db
        "hd (rotations acknowledged_db)" 7000 max 0] sample_reachable
    by simp
qed

end
