(* ===== verification/Output_Properties.thy ===== *)
theory Output_Properties
  imports Output Agent_Rotation "HOL-Library.Sublist"
begin

text \<open>
  What a runner printed is what the registry keeps. The locale \<open>output_sink\<close> states what the uploader
  needs of a server: it keeps what it was sent in order and its receipts are true. The uploader's
  guarantee is proved from these laws, whatever requests and replies are lost, and the interpretation
  proves them for the registry's streams.
\<close>

section \<open>The uploader over a sink\<close>

text \<open>A piece is a part of the output at its offset; the one that ends the stream ends the output.\<close>

definition piece_of :: "u8 list \<Rightarrow> piece \<Rightarrow> bool" where
  "piece_of out p \<longleftrightarrow>
     (case p of (offset, data, finished) \<Rightarrow>
        offset + length data \<le> length out \<and> data = take (length data) (drop offset out) \<and>
        length data \<le> MAX_OUTPUT_CHUNK_BYTES \<and> (finished \<longrightarrow> offset + length data = length out))"

text \<open>The reads of a runner that prints \<open>out\<close>; a failed read is not among them.\<close>

fun reads_from :: "u8 list \<Rightarrow> output_read list \<Rightarrow> bool" where
  "reads_from out [] \<longleftrightarrow> True"
| "reads_from out (Read_Data d # rs) \<longleftrightarrow>
     d \<noteq> [] \<and> length d \<le> READ_BYTES \<and> take (length d) out = d \<and> reads_from (drop (length d) out) rs"
| "reads_from out (Read_End # rs) \<longleftrightarrow> out = [] \<and> reads_from [] rs"
| "reads_from out (Read_Failed # rs) \<longleftrightarrow> False"
| "reads_from out (Read_Timeout # rs) \<longleftrightarrow> reads_from out rs"

fun batches_from :: "u8 list \<Rightarrow> nat \<Rightarrow> (u8 list \<times> bool) list \<Rightarrow> bool" where
  "batches_from out position [] \<longleftrightarrow> True"
| "batches_from out position ((b, ended) # bs) \<longleftrightarrow>
     piece_of out (position, b, ended) \<and> batches_from out (position + length b) bs"

lemma take_length: "xs = take (length xs) ys \<Longrightarrow> length xs \<le> length ys"
  by (metis length_take min.cobounded1)

lemma take_drop_append:
  assumes "b = take (length b) (drop n xs)" and "d = take (length d) (drop (n + length b) xs)"
  shows "b @ d = take (length (b @ d)) (drop n xs)"
proof -
  have "take (length b + length d) (drop n xs) = take (length b) (drop n xs) @ take (length d) (drop (n + length b) xs)"
    by (simp add: take_add add.commute)
  with assms show ?thesis by simp
qed

lemma gathered_batches:
  assumes "reads_from (drop (position + length buffer) out) reads"
    and "position + length buffer \<le> length out" and "buffer = take (length buffer) (drop position out)"
    and "length buffer < CHUNK_BYTES"
  shows "batches_from out position (gathered buffer reads)"
  using assms
proof (induction buffer reads arbitrary: position rule: gathered.induct)
  case (2 buffer d rs)
  have d: "d = take (length d) (drop (position + length buffer) out)" "length d \<le> READ_BYTES"
    using "2.prems"(1) by simp_all
  have "length d \<le> length (drop (position + length buffer) out)" using d(1) by (rule take_length)
  with "2.prems"(2) have le: "position + length (buffer @ d) \<le> length out" by simp
  note all = take_drop_append [OF "2.prems"(3) d(1)]
  have rest: "reads_from (drop (position + length (buffer @ d)) out) rs"
    using "2.prems"(1) by (simp add: ac_simps)
  show ?case
  proof (cases "length (buffer @ d) < CHUNK_BYTES")
    case True
    with "2.IH"(1) [OF True rest le all] show ?thesis by simp
  next
    case False
    have "length (buffer @ d) \<le> MAX_OUTPUT_CHUNK_BYTES"
      using "2.prems"(4) d(2) by (simp add: CHUNK_BYTES_def READ_BYTES_def MAX_OUTPUT_CHUNK_BYTES_def)
    with le all have "piece_of out (position, buffer @ d, False)"
      unfolding piece_of_def prod.case by blast
    moreover have "batches_from out (position + length (buffer @ d)) (gathered [] rs)"
      using "2.IH"(2) [OF False] rest le by (simp add: CHUNK_BYTES_def)
    ultimately show ?thesis using False by simp
  qed
next
  case (3 buffer rs)
  have "position + length buffer = length out" using "3.prems"(1,2) by simp
  moreover from this have "batches_from out (position + length buffer) (gathered [] rs)"
    using "3.prems"(1) by (intro "3.IH") (simp_all add: CHUNK_BYTES_def)
  ultimately show ?case
    using "3.prems"(3,4) by (auto simp: piece_of_def CHUNK_BYTES_def MAX_OUTPUT_CHUNK_BYTES_def)
next
  case (5 buffer rs)
  show ?case
  proof (cases "buffer = []")
    case True with "5.IH"(1) [OF True] "5.prems" show ?thesis by simp
  next
    case False
    with "5.prems" have "piece_of out (position, buffer, False)"
      by (auto simp: piece_of_def CHUNK_BYTES_def MAX_OUTPUT_CHUNK_BYTES_def)
    with "5.IH"(2) [OF False] "5.prems" False show ?thesis by (simp add: CHUNK_BYTES_def)
  qed
qed simp_all

locale output_sink =
  fixes post :: "piece \<Rightarrow> 's \<Rightarrow> (client_error + runner_output_receipt) \<times> 's"
    and out :: "u8 list"
    and got :: "'s \<Rightarrow> nat"
    and closed :: "'s \<Rightarrow> bool"
    and sound :: "'s \<Rightarrow> bool"
  assumes post_keeps: "\<lbrakk>sound s; piece_of out p; fst p \<le> got s\<rbrakk> \<Longrightarrow>
      sound (snd (post p s)) \<and> got s \<le> got (snd (post p s))"
    and receipt_true: "\<lbrakk>sound s; piece_of out p; fst p \<le> got s; post p s = (Inr rc, s')\<rbrakk> \<Longrightarrow>
      orc_received rc \<le> got s' \<and> (if orc_finished rc then closed s' else fst p + length (fst (snd p)) \<le> got s')"
begin

lemma send_keeps:
  assumes "send_chunk tries post p s = (r, s')" and "sound s" and "piece_of out p" and "fst p \<le> got s"
  shows "sound s' \<and> got s \<le> got s' \<and>
    (\<forall>rc. r = Some (Some rc) \<longrightarrow> orc_received rc \<le> got s' \<and>
       (if orc_finished rc then closed s' else fst p + length (fst (snd p)) \<le> got s'))"
  using assms
proof (induction tries arbitrary: s)
  case (Suc tries)
  obtain e s1 where post: "post p s = (e, s1)" by fastforce
  have kept: "sound s1" "got s \<le> got s1" using post_keeps [OF Suc.prems(2-4)] post by simp_all
  show ?case
  proof (cases e)
    case (Inr rc)
    with post Suc.prems receipt_true [OF Suc.prems(2-4)] kept show ?thesis by auto
  next
    case (Inl err)
    with post Suc.prems kept Suc.IH [of s1] show ?thesis by (auto split: if_splits)
  qed
qed simp

lemma batches_keep:
  assumes "upload_batches tries post position received bs s = (r, s')" and "sound s"
    and "batches_from out position bs" and "position \<le> got s" and "received \<le> got s"
  shows "sound s' \<and> (r = Upload_Closed \<longrightarrow> closed s')"
  using assms
proof (induction bs arbitrary: position received s)
  case (Cons p rest)
  obtain b ended where p: "p = (b, ended)" by fastforce
  define skip where "skip = min (received - position) (length b)"
  have b: "piece_of out (position, b, ended)" "batches_from out (position + length b) rest"
    using Cons.prems(3) p by simp_all
  have "drop skip b = drop skip (take (length b) (drop position out))"
    using b(1) by (auto simp: piece_of_def)
  then have "drop skip b = take (length b - skip) (drop (position + skip) out)"
    by (simp add: drop_take add.commute)
  with b(1) have piece: "piece_of out (position + skip, drop skip b, ended)"
    by (auto simp: piece_of_def skip_def)
  have here: "position + skip \<le> got s" using Cons.prems(4,5) by (auto simp: skip_def)
  show ?case
  proof (cases "skip < length b \<or> ended")
    case False
    then have "position + length b \<le> got s" using here by (auto simp: skip_def)
    with False p Cons.IH [of "position + length b" received s] Cons.prems b show ?thesis
      by (simp add: skip_def [symmetric] Let_def)
  next
    case True
    obtain rc s1 where sent: "send_chunk tries post (position + skip, drop skip b, ended) s = (rc, s1)"
      by fastforce
    note kept = send_keeps [OF sent Cons.prems(2) piece, simplified, OF here]
    have le: "skip \<le> length b" by (simp add: skip_def)
    show ?thesis
    proof (cases rc)
      case None with True sent p Cons.prems(1) kept show ?thesis by (simp add: skip_def [symmetric] Let_def)
    next
      case (Some o1)
      show ?thesis
      proof (cases o1)
        case None with Some True sent p Cons.prems(1) kept show ?thesis by (simp add: skip_def [symmetric] Let_def)
      next
        case (Some receipt)
        with \<open>rc = Some o1\<close> True sent Cons.prems(1) kept le b(2)
          Cons.IH [of "position + length b" "orc_received receipt" s1] p
        show ?thesis by (auto simp: skip_def [symmetric] Let_def split: if_splits)
      qed
    qed
  qed
qed simp

lemma upload_keeps:
  assumes "upload_stream tries post reads s = (r, s')" and "sound s" and "reads_from out reads"
  shows "sound s' \<and> (r = Upload_Closed \<longrightarrow> closed s')"
proof -
  obtain rc s1 where sent: "send_chunk tries post (0, [], False) s = (rc, s1)" by fastforce
  have "piece_of out (0, [], False)" by (simp add: piece_of_def)
  from send_keeps [OF sent assms(2) this] have kept: "sound s1"
    "\<And>receipt. rc = Some (Some receipt) \<Longrightarrow> orc_received receipt \<le> got s1 \<and> (orc_finished receipt \<longrightarrow> closed s1)"
    by (auto split: if_splits)
  have "batches_from out 0 (gathered [] reads)"
    using assms(3) by (intro gathered_batches) (simp_all add: CHUNK_BYTES_def)
  with assms(1) sent kept show ?thesis
    by (auto simp: upload_stream_def split: option.splits if_splits dest!: batches_keep)
qed

end

section \<open>The registry as a sink\<close>

text \<open>
  What the stream of a placement holds of the output: the file, read up to the recorded size, is the
  end of what was received, all of it as long as the cap was not reached; a stream is only closed when
  everything was received. A later trim never takes the name of the current file.
\<close>

definition content_of :: "files \<Rightarrow> string \<Rightarrow> u8 list" where
  "content_of files path = (case files path of None \<Rightarrow> [] | Some c \<Rightarrow> c)"

definition stream_holds :: "u8 list \<Rightarrow> output_stream_row \<Rightarrow> output_link_row \<Rightarrow> files \<Rightarrow> bool" where
  "stream_holds out r l files \<longleftrightarrow>
     (let received = nat (ol_received_bytes l); kept = nat (os_size_bytes r);
          content = content_of files (os_path r) in
      0 \<le> ol_received_bytes l \<and> received \<le> length out \<and>
      kept \<le> length content \<and> suffix (take kept content) (take received out) \<and>
      kept \<le> MAX_STREAM_BYTES \<and> (received \<le> MAX_STREAM_BYTES \<longrightarrow> kept = received) \<and>
      (os_complete r \<longrightarrow> received = length out) \<and>
      (\<forall>e > received. os_path r \<noteq> os_id r @ ''.'' @ show_nat e @ ''.log''))"

definition output_held :: "u8 list \<Rightarrow> string \<Rightarrow> output_state \<Rightarrow> bool" where
  "output_held out placement st \<longleftrightarrow>
     (case find_stream placement (fst st) of
        None \<Rightarrow> True
      | Some (r, l) \<Rightarrow> stream_holds out r l (snd st))"

definition output_received :: "string \<Rightarrow> output_state \<Rightarrow> nat" where
  "output_received placement st =
     (case find_stream placement (fst st) of None \<Rightarrow> 0 | Some (_, l) \<Rightarrow> nat (ol_received_bytes l))"

definition output_closed :: "string \<Rightarrow> output_state \<Rightarrow> bool" where
  "output_closed placement st =
     (case find_stream placement (fst st) of None \<Rightarrow> False | Some (r, _) \<Rightarrow> os_complete r)"

lemma newest_output_suffix:
  assumes "n \<le> length content"
  shows "suffix (newest_output content n fresh) (take n content @ fresh)"
    and "length (newest_output content n fresh) \<le> max KEEP_STREAM_BYTES (length fresh)"
proof -
  define k where "k = min (KEEP_STREAM_BYTES - length fresh) n"
  define whole where "whole = take k (drop (n - k) content) @ fresh"
  have "suffix (take k (drop (n - k) content)) (take n content)"
    by (metis diff_diff_cancel drop_take k_def min.cobounded2 suffix_drop)
  then have 1: "suffix whole (take n content @ fresh)" by (auto simp: suffix_def whole_def)
  have "suffix (newest_output content n fresh) whole"
    by (simp add: newest_output_def k_def [symmetric] whole_def [symmetric])
      (meson suffix_dropWhile suffix_order.trans suffix_tl)
  from suffix_order.trans [OF this 1] suffix_length_le [OF this]
  show "suffix (newest_output content n fresh) (take n content @ fresh)"
    and "length (newest_output content n fresh) \<le> max KEEP_STREAM_BYTES (length fresh)"
    by (simp_all add: whole_def k_def)
qed

lemma suffix_whole: "suffix xs ys \<Longrightarrow> length xs = length ys \<Longrightarrow> xs = ys"
  by (auto simp: suffix_def)

lemma show_nat_nonempty: "show_nat e \<noteq> []"
  by (cases "e < 10") (simp_all add: show_nat.simps [of e])

lemma output_file_names:
  "sid @ ''.log'' \<noteq> sid @ ''.'' @ show_nat e @ ''.log''"
  using show_nat_nonempty [of e] by (auto dest: arg_cong [of _ _ length])

lemma nat_i64_exact [simp]: "int n \<le> i64_max \<Longrightarrow> nat_i64 n = int n"
  by (simp add: nat_i64_def)

text \<open>A commit changes the placement's row and link, or makes them.\<close>

lemma find_stream_updated:
  assumes "find_stream placement t = Some (r, l)" and "\<not> os_complete r"
  shows "find_stream placement (t\<lparr>
      ot_streams := update_where (\<lambda>q. os_id q = os_id r \<and> \<not> os_complete q)
        (\<lambda>q. q\<lparr>os_path := path, os_size_bytes := n, os_complete := c, os_updated_at := now\<rparr>) (ot_streams t),
      ot_links := update_where (\<lambda>k. ol_log_stream_id k = os_id r)
        (\<lambda>k. k\<lparr>ol_received_bytes := m\<rparr>) (ot_links t)\<rparr>) =
    Some (r\<lparr>os_path := path, os_size_bytes := n, os_complete := c, os_updated_at := now\<rparr>,
      l\<lparr>ol_received_bytes := m\<rparr>)"
proof -
  from assms(1) have l: "find (\<lambda>l. ol_placement_id l = placement) (ot_links t) = Some l"
    and r: "find (\<lambda>s. os_id s = ol_log_stream_id l) (ot_streams t) = Some r"
    by (auto simp: find_stream_def split: option.splits)
  moreover from find_SomeD [OF r] have "os_id r = ol_log_stream_id l" by simp
  ultimately show ?thesis using assms(2) by (simp add: find_stream_def find_update_where)
qed

lemma insert_stream_finds:
  assumes "insert_stream db days_from runner placement s path now t = Inr t'"
  obtains r l where "find_stream placement t' = Some (r, l)" "os_id r = st_id s" "\<not> os_complete r"
    "ol_received_bytes l = 0"
  using assms unfolding insert_stream_def Let_def
  by (auto simp: rbind_eq_Inr map_err_eq_Inr insert_unique_eq_Inr find_stream_def find_append_new
      find_key_None)

lemma record_output_commits:
  assumes "record_output x db days_from a chunk runner s path n received now t = Inr (ok, t')"
    and "placement = x_show_uuid x (placement_uuid (oc_placement_id chunk))"
    and "find_stream placement t = found" and "s = opened_stream sid found"
    and "\<And>r l. found = Some (r, l) \<Longrightarrow> \<not> os_complete r"
  obtains r l where "ok" "find_stream placement t' = Some (r, l)" "os_id r = st_id s" "os_path r = path"
    "os_size_bytes r = nat_i64 n" "os_complete r = oc_finished chunk" "ol_received_bytes l = nat_i64 received"
proof -
  from assms(1,2) obtain t1 where t1: "(if st_new s then insert_stream db days_from runner placement s path now t
      else Inr t) = Inr t1"
    and rest: "(let sel = (\<lambda>r. os_id r = st_id s \<and> \<not> os_complete r) in
     if rows_where sel (ot_streams t1) = 0 then Inr (False, t1)
     else Inr (True, t1\<lparr>ot_streams := update_where sel
                 (\<lambda>r. r\<lparr>os_path := path, os_size_bytes := nat_i64 n, os_complete := oc_finished chunk,
                        os_updated_at := now\<rparr>) (ot_streams t1),
               ot_links := update_where (\<lambda>l. ol_log_stream_id l = st_id s)
                 (\<lambda>l. l\<lparr>ol_received_bytes := nat_i64 received\<rparr>) (ot_links t1)\<rparr>)) = 
      (Inr (ok, t') :: registry_error + bool \<times> output_tables)"
    unfolding record_output_def rbind_eq_Inr by blast
  have "\<exists>r l. find_stream placement t1 = Some (r, l) \<and> os_id r = st_id s \<and> \<not> os_complete r"
  proof (cases found)
    case None
    with t1 assms(4) show ?thesis by (auto simp: opened_stream_def elim: insert_stream_finds)
  next
    case (Some rl)
    with t1 assms(3-5) show ?thesis by (cases rl) (auto simp: opened_stream_def)
  qed
  then obtain r l where r: "find_stream placement t1 = Some (r, l)" "os_id r = st_id s" "\<not> os_complete r"
    by blast
  then have "r \<in> set (ot_streams t1)" by (auto simp: find_stream_def split: option.splits dest: find_SomeD)
  with r(2,3) have "rows_where (\<lambda>r. os_id r = st_id s \<and> \<not> os_complete r) (ot_streams t1) \<noteq> 0"
    by (auto simp: rows_where_def filter_empty_conv)
  with rest have "ok" and t': "t' = t1\<lparr>ot_streams := update_where (\<lambda>r. os_id r = st_id s \<and> \<not> os_complete r)
                 (\<lambda>r. r\<lparr>os_path := path, os_size_bytes := nat_i64 n, os_complete := oc_finished chunk,
                        os_updated_at := now\<rparr>) (ot_streams t1),
               ot_links := update_where (\<lambda>l. ol_log_stream_id l = st_id s)
                 (\<lambda>l. l\<lparr>ol_received_bytes := nat_i64 received\<rparr>) (ot_links t1)\<rparr>"
    by (simp_all add: Let_def)
  from find_stream_updated [OF r(1,3)] r(2) have found: "find_stream placement t' =
      Some (r\<lparr>os_path := path, os_size_bytes := nat_i64 n, os_complete := oc_finished chunk, os_updated_at := now\<rparr>,
        l\<lparr>ol_received_bytes := nat_i64 received\<rparr>)" unfolding t' by simp
  show thesis by (rule that [OF \<open>ok\<close> found]) (simp_all add: r(2))
qed

text \<open>What a write leaves: the old bytes where they were, and the file that the commit will name.\<close>

lemma write_output_effect:
  assumes "write_output s finish fresh files = Inr ((path, n), files')"
    and "st_size s \<le> length (content_of files (st_path s))" and "st_size s \<le> MAX_STREAM_BYTES"
    and "length fresh \<le> MAX_OUTPUT_CHUNK_BYTES"
    and "fresh \<noteq> [] \<Longrightarrow> st_path s \<noteq> st_id s @ ''.'' @ show_nat finish @ ''.log''"
  shows "n \<le> length (content_of files' path)"
    and "suffix (take n (content_of files' path)) (take (st_size s) (content_of files (st_path s)) @ fresh)"
    and "n \<le> MAX_STREAM_BYTES" and "st_size s + length fresh \<le> MAX_STREAM_BYTES \<Longrightarrow> n = st_size s + length fresh"
    and "take (st_size s) (content_of files' (st_path s)) = take (st_size s) (content_of files (st_path s))"
    and "st_size s \<le> length (content_of files' (st_path s))"
    and "path = st_path s \<or> path = st_id s @ ''.'' @ show_nat finish @ ''.log''"
proof -
  let ?old = "content_of files (st_path s)"
  consider (none) "fresh = []" "path = st_path s" "n = st_size s" "files' = files"
    | (append) "path = st_path s" "n = st_size s + length fresh" "n \<le> MAX_STREAM_BYTES" "fresh \<noteq> []"
        "files' = files(st_path s \<mapsto> take (st_size s) ?old @ fresh)"
    | (trim) "fresh \<noteq> []" "st_size s + length fresh > MAX_STREAM_BYTES"
        "path = st_id s @ ''.'' @ show_nat finish @ ''.log''"
        "n = length (newest_output ?old (st_size s) fresh)"
        "files' = files(path \<mapsto> newest_output ?old (st_size s) fresh)"
    using assms(1,2)
    by (auto simp: write_output_def file_append_def content_of_def Let_def split: if_splits option.splits)
  note cases = this
  show "n \<le> length (content_of files' path)"
    by (rule cases) (use assms(2) in \<open>simp_all add: content_of_def\<close>)
  show "suffix (take n (content_of files' path)) (take (st_size s) ?old @ fresh)"
    by (rule cases) (use assms(2) newest_output_suffix(1) [OF assms(2)] in \<open>simp_all add: content_of_def\<close>)
  show "n \<le> MAX_STREAM_BYTES"
    by (rule cases) (use assms(3,4) newest_output_suffix(2) [OF assms(2), of fresh] in
        \<open>simp_all add: KEEP_STREAM_BYTES_def MAX_STREAM_BYTES_def MAX_OUTPUT_CHUNK_BYTES_def\<close>)
  show "n = st_size s + length fresh" if "st_size s + length fresh \<le> MAX_STREAM_BYTES"
    by (rule cases) (use that in simp_all)
  show "take (st_size s) (content_of files' (st_path s)) = take (st_size s) ?old"
    by (rule cases) (use assms(2,5) in \<open>simp_all add: content_of_def\<close>)
  show "st_size s \<le> length (content_of files' (st_path s))"
    by (rule cases) (use assms(2,5) in \<open>simp_all add: content_of_def\<close>)
  show "path = st_path s \<or> path = st_id s @ ''.'' @ show_nat finish @ ''.log''"
    by (rule cases) simp_all
qed

text \<open>The bytes of a chunk that the stream does not have yet.\<close>

lemma fresh_bytes:
  fixes out data :: "'b list"
  assumes "data = take (length data) (drop start out)" and "start \<le> received"
  defines "fresh \<equiv> drop (min (received - start) (length data)) data"
  shows "take (max received (start + length data)) out = take received out @ fresh"
    and "length fresh = start + length data - received"
proof -
  show len: "length fresh = start + length data - received" using assms(2) by (auto simp: fresh_def)
  show "take (max received (start + length data)) out = take received out @ fresh"
  proof (cases "received \<le> start + length data")
    case True
    then have "fresh = drop (received - start) (take (length data) (drop start out))"
      using assms(1,2) by (simp add: fresh_def)
    also have "\<dots> = take (start + length data - received) (drop received out)"
      using assms(2) True by (simp add: drop_take add.commute)
    finally show ?thesis using True by (simp add: take_add [symmetric])
  next
    case False with len show ?thesis by simp
  qed
qed

definition stream_open :: "u8 list \<Rightarrow> output_stream \<Rightarrow> files \<Rightarrow> bool" where
  "stream_open out s files \<longleftrightarrow>
     st_received s \<le> length out \<and> st_size s \<le> length (content_of files (st_path s)) \<and>
     suffix (take (st_size s) (content_of files (st_path s))) (take (st_received s) out) \<and>
     st_size s \<le> MAX_STREAM_BYTES \<and> (st_received s \<le> MAX_STREAM_BYTES \<longrightarrow> st_size s = st_received s) \<and>
     (\<forall>e > st_received s. st_path s \<noteq> st_id s @ ''.'' @ show_nat e @ ''.log'')"

lemma held_open:
  assumes "output_held out placement (t, files)"
  shows "stream_open out (opened_stream sid (find_stream placement t)) files"
    and "st_received (opened_stream sid (find_stream placement t)) = output_received placement (t, files)"
  using assms output_file_names [of sid]
  by (auto simp: output_held_def stream_open_def opened_stream_def stream_holds_def output_received_def Let_def
      split: option.splits)

lemma open_held:
  assumes "find_stream placement t = found" and "stream_open out (opened_stream sid found) files"
    and "\<And>r l. found = Some (r, l) \<Longrightarrow> \<not> os_complete r \<and> 0 \<le> ol_received_bytes l"
  shows "output_held out placement (t, files)"
  using assms
  by (auto simp: output_held_def stream_open_def opened_stream_def stream_holds_def Let_def split: option.splits)

lemma open_fresh:
  assumes "stream_open out s files" and "piece_of out (start, data, finished)" and "start \<le> st_received s"
  defines "fresh \<equiv> drop (min (st_received s - start) (length data)) data"
  shows "length fresh \<le> MAX_OUTPUT_CHUNK_BYTES"
    and "fresh \<noteq> [] \<Longrightarrow> st_path s \<noteq> st_id s @ ''.'' @ show_nat (start + length data) @ ''.log''"
proof -
  have piece: "data = take (length data) (drop start out)" "length data \<le> MAX_OUTPUT_CHUNK_BYTES"
    using assms(2) by (auto simp: piece_of_def)
  note fresh = fresh_bytes(2) [OF piece(1) assms(3), folded fresh_def]
  show "length fresh \<le> MAX_OUTPUT_CHUNK_BYTES" using piece(2) fresh assms(3) by simp
  show "st_path s \<noteq> st_id s @ ''.'' @ show_nat (start + length data) @ ''.log''" if "fresh \<noteq> []"
  proof -
    from that have "0 < length fresh" by simp
    with fresh have "st_received s < start + length data" by simp
    with assms(1) show ?thesis unfolding stream_open_def by blast
  qed
qed

text \<open>A write that is not committed leaves the stream as it was.\<close>

lemma open_uncommitted:
  assumes "stream_open out s files" and "piece_of out (start, data, finished)" and "start \<le> st_received s"
    and "write_output s (start + length data) (drop (min (st_received s - start) (length data)) data) files =
      Inr ((path, n), files')"
    and "content_of files'' (st_path s) = content_of files' (st_path s)"
  shows "stream_open out s files''"
  using assms(1,5) write_output_effect(5,6) [OF assms(4) _ _ open_fresh [OF assms(1-3)]]
  by (simp add: stream_open_def)

text \<open>What the row names after a commit is what the stream received.\<close>

lemma commit_holds:
  assumes "stream_open out s files" and "write_output s (start + length data) fresh files = Inr ((path, n), files')"
    and "fresh = drop (min (st_received s - start) (length data)) data"
    and "piece_of out (start, data, finished)" and "start \<le> st_received s" and "int (length out) \<le> i64_max"
    and "os_id r = st_id s" "os_path r = path" "os_size_bytes r = nat_i64 n" "os_complete r = finished"
    and "ol_received_bytes l = nat_i64 (max (st_received s) (start + length data))"
    and "content_of files'' path = content_of files' path"
  shows "stream_holds out r l files''"
proof -
  let ?upto = "start + length data" and ?got = "max (st_received s) (start + length data)"
  have piece: "data = take (length data) (drop start out)" "?upto \<le> length out"
    "length data \<le> MAX_OUTPUT_CHUNK_BYTES" "finished \<Longrightarrow> ?upto = length out"
    using assms(4) by (auto simp: piece_of_def)
  note fresh = fresh_bytes [OF piece(1) assms(5), folded assms(3)]
  note written = write_output_effect [OF assms(2) _ _ open_fresh [OF assms(1,4,5), folded assms(3)]]
  have old: "st_size s \<le> length (content_of files (st_path s))" "st_size s \<le> MAX_STREAM_BYTES"
    "suffix (take (st_size s) (content_of files (st_path s))) (take (st_received s) out)"
    "st_received s \<le> length out" "st_received s \<le> MAX_STREAM_BYTES \<Longrightarrow> st_size s = st_received s"
    using assms(1) by (simp_all add: stream_open_def)
  have got: "?got \<le> length out" "ol_received_bytes l = int ?got"
    using old(4) piece(2) assms(6,11) by auto
  have n: "os_size_bytes r = int n" using written(3) [OF old(1,2)] assms(9)
    by (simp add: MAX_STREAM_BYTES_def nat_i64_def i64_max_def)
  have "suffix (take n (content_of files' path)) (take ?got out)"
    using written(2) [OF old(1,2)] old(3) fresh(1) by (auto simp: suffix_def)
  moreover have "n = ?got" if "?got \<le> MAX_STREAM_BYTES"
  proof -
    from that old(5) have "st_size s + length fresh = ?got" using fresh(2) by auto
    with that written(4) [OF old(1,2)] show ?thesis by simp
  qed
  moreover have "path \<noteq> st_id s @ ''.'' @ show_nat e @ ''.log''" if "e > ?got" for e
    using written(7) [OF old(1,2)] that assms(1) by (auto simp: stream_open_def)
  ultimately show ?thesis
    using got n written(1,3) [OF old(1,2)] assms(7-10,12) piece(2,4) old(4)
    by (simp add: stream_holds_def Let_def)
qed

lemma store_output_keeps:
  assumes "store_output x days_from a chunk data (start + length data) runner s meanwhile db now st = (res, st')"
    and "output_held out placement st" and "s = opened_stream sid (find_stream placement (fst st))"
    and "\<not> output_closed placement st"
    and "placement = x_show_uuid x (placement_uuid (oc_placement_id chunk))"
    and "unat (oc_offset chunk) = start" and "piece_of out (start, data, oc_finished chunk)"
    and "start \<le> output_received placement st" and "int (length out) \<le> i64_max"
    and "find_stream placement (meanwhile (fst st)) = find_stream placement (fst st)"
  shows "output_held out placement st' \<and> output_received placement st \<le> output_received placement st' \<and>
    (\<forall>rc. res = Inr rc \<longrightarrow> orc_received rc \<le> output_received placement st' \<and>
       (if orc_finished rc then output_closed placement st'
        else start + length data \<le> output_received placement st'))"
proof -
  obtain t files where st: "st = (t, files)" by fastforce
  define fresh where "fresh = drop (min (st_received s - start) (length data)) data"
  have opened: "stream_open out s files" "st_received s = output_received placement st"
    using held_open assms(2,3) by (simp_all add: st)
  have incomplete: "\<not> os_complete r" if "find_stream placement t = Some (r, l)" for r l
    using assms(4) that by (simp add: output_closed_def st)
  have nonneg: "0 \<le> ol_received_bytes l" if "find_stream placement t = Some (r, l)" for r l
    using assms(2) that by (simp add: output_held_def stream_holds_def Let_def st)
  have quiet: "find_stream placement (meanwhile t) = find_stream placement t" using assms(10) st by simp
  show ?thesis
  proof (cases "write_output s (start + length data) fresh files")
    case (Inl e)
    with assms(1,2,6) show ?thesis by (auto simp: store_output_def Let_def fresh_def st)
  next
    case (Inr w)
    then obtain path n files' where w: "write_output s (start + length data) fresh files = Inr ((path, n), files')"
      by (metis surj_pair)
    show ?thesis
    proof (cases "record_output x db days_from a chunk runner s path n (max (st_received s) (start + length data))
        now (meanwhile t)")
      case (Inl e)
      define files'' where "files'' = (if path = st_path s then files' else files'(path := None))"
      have "res = Inl e" "st' = (meanwhile t, files'')"
        using assms(1,6) w Inl by (auto simp: store_output_def Let_def fresh_def files''_def st)
      moreover have "stream_open out s files''"
        by (rule open_uncommitted [OF opened(1) assms(7) _ w [unfolded fresh_def]])
          (use assms(8) opened(2) in \<open>simp_all add: files''_def content_of_def\<close>)
      then have "output_held out placement (meanwhile t, files'')"
        using open_held [OF quiet] assms(3) incomplete nonneg by (simp add: st)
      ultimately show ?thesis by (simp add: output_received_def st quiet)
    next
      case (Inr okt)
      then obtain ok t' where rec: "record_output x db days_from a chunk runner s path n
          (max (st_received s) (start + length data)) now (meanwhile t) = Inr (ok, t')" by fastforce
      from record_output_commits [OF this assms(5) quiet] assms(3) incomplete obtain r l where
        c: "ok" "find_stream placement t' = Some (r, l)" "os_id r = st_id s" "os_path r = path"
        "os_size_bytes r = nat_i64 n" "os_complete r = oc_finished chunk"
        "ol_received_bytes l = nat_i64 (max (st_received s) (start + length data))"
        unfolding st by auto
      have piece: "start + length data \<le> length out" using assms(7) by (simp add: piece_of_def)
      define files'' where "files'' = (if path = st_path s then files' else files'(st_path s := None))"
      have out: "res = Inr \<lparr>orc_received = max (st_received s) (start + length data), orc_finished = oc_finished chunk\<rparr>"
        "st' = (t', files'')"
        using assms(1,6) w rec \<open>ok\<close> by (auto simp: store_output_def Let_def fresh_def files''_def st)
      have "stream_holds out r l files''"
        by (rule commit_holds [OF opened(1) w fresh_def assms(7) _ assms(9) c(3-7)])
          (use assms(8) opened(2) in \<open>simp_all add: files''_def content_of_def\<close>)
      moreover have "ol_received_bytes l = int (max (st_received s) (start + length data))"
        using c(7) piece assms(9) opened(1) by (simp add: stream_open_def)
      ultimately show ?thesis
        using out c(2,6) opened(2) by (simp add: output_held_def output_received_def output_closed_def)
    qed
  qed
qed

section \<open>Uploads over a bad network\<close>

text \<open>
  A request that the agent makes: whether it or its reply is lost, the credential it carries, and
  what the two transactions of the server see. When no request is left the session is over.
\<close>

datatype delivery = Delivered | Request_Lost | Reply_Lost

record visit =
  vi_fate :: delivery
  vi_credential :: string
  vi_sid :: string
  vi_first_db :: fleet_db
  vi_first_now :: i64
  vi_meanwhile :: "output_tables \<Rightarrow> output_tables"
  vi_second_db :: fleet_db
  vi_second_now :: i64

definition post_output ::
  "externals \<Rightarrow> (string \<Rightarrow> u8 list option) \<Rightarrow> (u8 list \<Rightarrow> string) \<Rightarrow> (string \<Rightarrow> i64 option) \<Rightarrow> host_id \<Rightarrow>
   authority_session_id \<Rightarrow> placement_id \<Rightarrow> piece \<Rightarrow> output_state \<times> visit list \<Rightarrow>
   (client_error + runner_output_receipt) \<times> (output_state \<times> visit list)" where
  "post_output x decode encode days_from host session placement p s =
     (case s of
        (st, []) \<Rightarrow> (Inl (Client_Unavailable ''session over''), (st, []))
      | (st, v # vs) \<Rightarrow>
          if vi_fate v = Request_Lost then (Inl (Client_Unavailable ''connection''), (st, vs))
          else
            let (r, st') = api_output x decode days_from host (vi_credential v)
                  (output_chunk encode session placement p) (vi_sid v) (vi_first_db v) (vi_first_now v)
                  (vi_meanwhile v) (vi_second_db v) (vi_second_now v) st
            in (if vi_fate v = Reply_Lost then Inl (Client_Unavailable ''connection'') else via_http r, (st', vs)))"

text \<open>Between its two transactions nobody else touches the stream of the placement.\<close>

definition quiet :: "string \<Rightarrow> visit \<Rightarrow> bool" where
  "quiet placement v \<longleftrightarrow> (\<forall>t. find_stream placement (vi_meanwhile v t) = find_stream placement t)"

lemma via_http_Inr: "via_http r = Inr a \<Longrightarrow> r = Inr a"
  by (cases r) (auto simp: via_http_def send_reply_def split: if_splits)

lemma append_keeps:
  assumes "append_runner_output x decode days_from a (output_chunk encode session placement p) sid db now
      meanwhile db' now' st = (res, st')"
    and "output_held out pid st" and "pid = x_show_uuid x (placement_uuid placement)"
    and "piece_of out p" and "fst p \<le> output_received pid st" and "int (length out) \<le> i64_max"
    and "\<And>d. decode (encode d) = Some d"
    and "\<And>t. find_stream pid (meanwhile t) = find_stream pid t"
  shows "output_held out pid st' \<and> output_received pid st \<le> output_received pid st' \<and>
    (\<forall>rc. res = Inr rc \<longrightarrow> orc_received rc \<le> output_received pid st' \<and>
       (if orc_finished rc then output_closed pid st'
        else fst p + length (fst (snd p)) \<le> output_received pid st'))"
proof -
  obtain start data finished where p: "p = (start, data, finished)" by (metis surj_pair)
  define chunk where "chunk = output_chunk encode session placement p"
  have chunk: "oc_data chunk = encode data" "oc_finished chunk = finished" "oc_placement_id chunk = placement"
    "oc_offset chunk = of_nat start"
    by (simp_all add: chunk_def output_chunk_def p)
  have pid: "pid = x_show_uuid x (placement_uuid (oc_placement_id chunk))" using assms(3) chunk(3) by simp
  have "start \<le> length out" using assms(4) by (simp add: piece_of_def p)
  with assms(6) have offset: "unat (oc_offset chunk) = start"
    by (simp add: chunk i64_max_def unat_of_nat take_bit_nat_eq_self)
  have append: "append_runner_output x decode days_from a chunk sid db now meanwhile db' now' st = (res, st')"
    using assms(1) by (simp add: chunk_def)
  note unfolded = append [unfolded append_runner_output_def Let_def, unfolded chunk(1,3) assms(7) offset,
      unfolded option.case, folded assms(3)]
  show ?thesis
  proof (cases "MAX_OUTPUT_CHUNK_BYTES < length data \<or> int (start + length data) > i64_max")
    case True
    with unfolded have "\<exists>e. res = Inl e" "st' = st" by (auto split: if_splits)
    with assms(2) show ?thesis by auto
  next
    case small: False
    show ?thesis
    proof (cases "authorize_output x db a chunk now")
      case (Inl e)
      with unfolded small have "res = Inl e" "st' = st" by simp_all
      with assms(2) show ?thesis by simp
    next
      case (Inr runner)
      show ?thesis
      proof (cases "output_closed pid st")
        case True
        then obtain r l where found: "find_stream pid (fst st) = Some (r, l)" "os_complete r"
          by (auto simp: output_closed_def split: option.splits)
        with unfolded small Inr have "res = Inr \<lparr>orc_received = output_received pid st, orc_finished = True\<rparr>" "st' = st"
          by (simp_all add: output_received_def)
        with assms(2) True show ?thesis by simp
      next
        case False
        then have "\<not> (case find_stream pid (fst st) of None \<Rightarrow> False | Some (r, _) \<Rightarrow> os_complete r)"
          by (simp add: output_closed_def)
        with unfolded small Inr have "store_output x days_from a chunk data (start + length data) runner
            (opened_stream sid (find_stream pid (fst st))) meanwhile db' now' st = (res, st')" by simp
        from store_output_keeps [OF this assms(2) refl False pid offset _ _ assms(6,8)] assms(4,5)
        show ?thesis by (simp add: p chunk(2))
      qed
    qed
  qed
qed

definition sink_sound ::
  "externals \<Rightarrow> (string \<Rightarrow> u8 list option) \<Rightarrow> (u8 list \<Rightarrow> string) \<Rightarrow> placement_id \<Rightarrow> u8 list \<Rightarrow>
   output_state \<times> visit list \<Rightarrow> bool" where
  "sink_sound x decode encode placement out s \<longleftrightarrow>
     (\<forall>d. decode (encode d) = Some d) \<and> int (length out) \<le> i64_max \<and>
     output_held out (x_show_uuid x (placement_uuid placement)) (fst s) \<and>
     list_all (quiet (x_show_uuid x (placement_uuid placement))) (snd s)"

lemma post_output_keeps:
  assumes "post_output x decode encode days_from host session placement p s = (res, s')"
    and "sink_sound x decode encode placement out s" and "piece_of out p"
    and "fst p \<le> output_received (x_show_uuid x (placement_uuid placement)) (fst s)"
  shows "sink_sound x decode encode placement out s' \<and>
    output_received (x_show_uuid x (placement_uuid placement)) (fst s) \<le>
      output_received (x_show_uuid x (placement_uuid placement)) (fst s') \<and>
    (\<forall>rc. res = Inr rc \<longrightarrow> orc_received rc \<le> output_received (x_show_uuid x (placement_uuid placement)) (fst s') \<and>
       (if orc_finished rc then output_closed (x_show_uuid x (placement_uuid placement)) (fst s')
        else fst p + length (fst (snd p)) \<le> output_received (x_show_uuid x (placement_uuid placement)) (fst s')))"
proof (cases s)
  case (Pair st vs)
  let ?pid = "x_show_uuid x (placement_uuid placement)"
  show ?thesis
  proof (cases vs)
    case Nil with assms(1,2) Pair show ?thesis by (auto simp: post_output_def)
  next
    case (Cons v vs')
    note s = Pair Cons
    have held: "output_held out ?pid st" "int (length out) \<le> i64_max" "\<And>d. decode (encode d) = Some d"
      "\<And>t. find_stream ?pid (vi_meanwhile v t) = find_stream ?pid t" "fst p \<le> output_received ?pid st"
      using assms(2,4) s by (auto simp: sink_sound_def quiet_def)
    show ?thesis
    proof (cases "vi_fate v = Request_Lost")
      case True with assms(1,2) s show ?thesis by (auto simp: post_output_def sink_sound_def)
    next
      case False
      obtain r st' where api: "api_output x decode days_from host (vi_credential v)
          (output_chunk encode session placement p) (vi_sid v) (vi_first_db v) (vi_first_now v)
          (vi_meanwhile v) (vi_second_db v) (vi_second_now v) st = (r, st')" by (metis surj_pair)
      have kept: "output_held out ?pid st' \<and> output_received ?pid st \<le> output_received ?pid st' \<and>
        (\<forall>rc. r = Inr rc \<longrightarrow> orc_received rc \<le> output_received ?pid st' \<and>
           (if orc_finished rc then output_closed ?pid st'
            else fst p + length (fst (snd p)) \<le> output_received ?pid st'))"
        using api held(1)
        by (auto simp: api_output_def Let_def map_err_eq_Inr split: sum.splits prod.splits
            dest!: append_keeps [OF _ held(1) refl assms(3) held(5,2,3,4)])
      from assms(1) s False api have "s' = (st', vs')" "\<And>rc. res = Inr rc \<Longrightarrow> r = Inr rc"
        by (auto simp: post_output_def dest: via_http_Inr split: if_splits)
      with kept assms(2) s show ?thesis by (simp add: sink_sound_def)
    qed
  qed
qed

interpretation registry_sink:
  output_sink "post_output x decode encode days_from host session placement" out
    "\<lambda>s. output_received (x_show_uuid x (placement_uuid placement)) (fst s)"
    "\<lambda>s. output_closed (x_show_uuid x (placement_uuid placement)) (fst s)"
    "sink_sound x decode encode placement out"
  for x decode encode days_from host session placement out
proof (unfold_locales, goal_cases)
  case (1 s p)
  then show ?case using post_output_keeps [OF surjective_pairing] by blast
next
  case (2 s p rc s')
  then show ?case using post_output_keeps by blast
qed

section \<open>Properties\<close>


definition text_bytes :: "string \<Rightarrow> u8 list option" where
  "text_bytes s = Some (map (\<lambda>c. of_nat (byte c)) s)"

definition bytes_text :: "u8 list \<Rightarrow> string" where
  "bytes_text d = map (\<lambda>b. char_of (unat b)) d"

lemma text_bytes_inverse: "text_bytes (bytes_text d) = Some d"
proof -
  have "unat b < 256" for b :: u8 by (rule order_less_le_trans [OF unsigned_less]) simp
  then show ?thesis by (simp add: text_bytes_def bytes_text_def byte_def comp_def)
qed

definition output_db :: fleet_db where
  "output_db = enrolled_db\<lparr>
     hosts := map (\<lambda>h. h\<lparr>fh_agent_session_id := Some (unary 5), fh_authority_expires_at := Some 90000\<rparr>)
       (hosts enrolled_db),
     runners := [\<lparr>rn_id = ''runner'', rn_pool_id = ''pool'', rn_deleted_at = None\<rparr>],
     placements := [\<lparr>wp_id = unary 6, wp_intent_id = ''i'', wp_workload_id = ''w'', wp_generation = 1,
       wp_host_id = unary 1, wp_backend_id = unary 7, wp_host_epoch = 1, wp_session_id = Some (unary 5),
       wp_profile_revision = 1, wp_target_id = unary 4, wp_cpu_millis = 1, wp_memory_mib = 1,
       wp_disk_bytes = 1, wp_state = ''running'', wp_runner_id = Some ''runner'', wp_agent_run_id = None,
       wp_created_at = 1, wp_updated_at = 1, wp_local_absence_proven_at = None,
       wp_delayed_starts_excluded_at = None\<rparr>]\<rparr>"

lemma output_db_authenticates:
  "authenticate registry_externals output_db (HostId 1) (sample_secret (CHR ''c'')) 3000 = Inr (sample_agent 3 1)"
  "ensure_authenticated_generation registry_externals output_db (sample_agent 3 1) 3000 = Inr ()"
  by (simp_all add: authenticate_def ensure_authenticated_generation_def output_db_def enrolled_db_def
      issued_db_def audit_and_event_def new_host_def sample_credential_def credential_live_def
      matches_verifier_def word_try_from_def generation_new_def host_epoch_new_def sample_agent_def
      generation_i64_def)

lemma output_fleet_agent:
  "fleet_agent registry_externals output_db (HostId 1) False (bearer_auth (sample_secret (CHR ''c''))) 3000 =
     Inr (sample_agent 3 1)"
  by (simp add: fleet_agent_def secret_input_sample output_db_authenticates bearer_char_def)

lemma output_authorized:
  "oc_authority_session_id c = AuthoritySessionId 5 \<Longrightarrow> oc_placement_id c = PlacementId 6 \<Longrightarrow>
   authorize_output registry_externals output_db (sample_agent 3 1) c 3000 = Inr ''runner''"
  by (simp add: authorize_output_def output_db_authenticates Let_def)
    (simp add: output_db_def enrolled_db_def issued_db_def audit_and_event_def new_host_def sample_agent_def
      i64_from_u64_def i64_max_u64_def)

definition sample_visit :: "delivery \<Rightarrow> visit" where
  "sample_visit d = \<lparr>vi_fate = d, vi_credential = sample_secret (CHR ''c''), vi_sid = ''stream'',
     vi_first_db = output_db, vi_first_now = 3000, vi_meanwhile = id, vi_second_db = output_db,
     vi_second_now = 3000\<rparr>"

definition printed :: "u8 list" where "printed = [72, 105, 10]"

definition opened_row :: output_stream_row where
  "opened_row = \<lparr>os_id = ''stream'', os_runner_id = ''runner'', os_path = ''stream.log'', os_size_bytes = 0,
     os_complete = False, os_expires_at = 2592003000, os_created_at = 3000, os_updated_at = 3000\<rparr>"

definition opened_link :: output_link_row where
  "opened_link = \<lparr>ol_placement_id = ''uuuuuu'', ol_log_stream_id = ''stream'', ol_received_bytes = 0\<rparr>"

abbreviation sample_post where
  "sample_post \<equiv> post_output registry_externals text_bytes bytes_text (\<lambda>_. None) (HostId 1)
     (AuthoritySessionId 5) (PlacementId 6)"

lemmas output_evals = post_output_def sample_visit_def api_output_def output_fleet_agent
  append_runner_output_def output_chunk_def text_bytes_inverse output_authorized find_stream_def Let_def
  opened_row_def opened_link_def store_output_def opened_stream_def write_output_def record_output_def
  rows_where_def update_where_Cons MAX_OUTPUT_CHUNK_BYTES_def MAX_STREAM_BYTES_def i64_max_def nat_i64_def
  via_http_def send_reply_def printed_def file_append_def

lemma sample_opens:
  "insert_stream output_db (\<lambda>_. None) ''runner'' ''uuuuuu'' (opened_stream ''stream'' None) ''stream.log'' 3000
     \<lparr>ot_streams = [], ot_links = []\<rparr> = Inr \<lparr>ot_streams = [opened_row], ot_links = [opened_link]\<rparr>"
proof -
  have "\<exists>r \<in> set (runners output_db). rn_id r = ''runner'' \<and> (\<exists>p \<in> set (pools output_db). rp_id p = rn_pool_id r)"
    by (simp add: output_db_def enrolled_db_def issued_db_def audit_and_event_def registry_db_def sample_db_def)
  moreover have "settings output_db = []"
    by (simp add: output_db_def enrolled_db_def issued_db_def audit_and_event_def registry_db_def sample_db_def)
  ultimately show ?thesis
    by (simp add: insert_stream_def insert_unique_def opened_stream_def opened_row_def opened_link_def
        saturating_add_def saturating_mul_def clamp_i64_def i64_min_def i64_max_def)
qed

lemma sample_first_chunk:
  "sample_post (0, [], False) ((\<lparr>ot_streams = [], ot_links = []\<rparr>, Map.empty), sample_visit Reply_Lost # vs) =
     (Inl (Client_Unavailable ''connection''),
      ((\<lparr>ot_streams = [opened_row], ot_links = [opened_link]\<rparr>, Map.empty), vs))"
  using sample_opens by (simp add: output_evals)

lemma sample_lost_request:
  "sample_post p (st, sample_visit Request_Lost # vs) = (Inl (Client_Unavailable ''connection''), (st, vs))"
  by (simp add: post_output_def sample_visit_def)

lemma sample_again:
  "sample_post (0, [], False) ((\<lparr>ot_streams = [opened_row], ot_links = [opened_link]\<rparr>, Map.empty),
       sample_visit Delivered # vs) =
     (Inr \<lparr>orc_received = 0, orc_finished = False\<rparr>,
      ((\<lparr>ot_streams = [opened_row], ot_links = [opened_link]\<rparr>, Map.empty), vs))"
  by (simp add: output_evals)

lemma sample_last_chunk:
  "sample_post (0, printed, True) ((\<lparr>ot_streams = [opened_row], ot_links = [opened_link]\<rparr>, Map.empty),
       sample_visit Delivered # vs) =
     (Inr \<lparr>orc_received = 3, orc_finished = True\<rparr>,
      ((\<lparr>ot_streams = [opened_row\<lparr>os_size_bytes := 3, os_complete := True\<rparr>],
         ot_links = [opened_link\<lparr>ol_received_bytes := 3\<rparr>]\<rparr>, [''stream.log'' \<mapsto> printed]), vs))"
  by (simp add: output_evals)

lemma sample_upload:
  "upload_stream (Suc (Suc (Suc 0))) sample_post [Read_Data printed, Read_End]
     ((\<lparr>ot_streams = [], ot_links = []\<rparr>, Map.empty),
      [sample_visit Reply_Lost, sample_visit Request_Lost, sample_visit Delivered, sample_visit Delivered]) =
   (Upload_Closed, ((\<lparr>ot_streams = [opened_row\<lparr>os_size_bytes := 3, os_complete := True\<rparr>],
         ot_links = [opened_link\<lparr>ol_received_bytes := 3\<rparr>]\<rparr>, [''stream.log'' \<mapsto> printed]), []))"
  by (simp add: upload_stream_def sample_first_chunk sample_lost_request sample_again sample_last_chunk
      CHUNK_BYTES_def printed_def [symmetric]) (simp add: printed_def)


end
