(* ===== verification/Logs.thy ===== *)
theory Logs
  imports Registry_Properties "HOL-Library.Sublist"
begin

text \<open>
  The agent's own log on its way to the registry: the bounded buffer of the agent
  (\<^verbatim>\<open>crates/gridops-host-agent/src/logs.rs\<close>) with the upload loop of \<^verbatim>\<open>supervisor.rs\<close>, and the
  table of the registry (\<^verbatim>\<open>crates/gridops-core/src/fleet/registry/logs.rs\<close>). A string here is its
  UTF-8 bytes, one character per byte. The table is a list in the order of its identifiers.
\<close>

section \<open>The agent's buffer\<close>

record log_line =
  ll_logged_at :: i64
  ll_level :: string
  ll_target :: string
  ll_message :: string

record log_buffer =
  lb_lines :: "log_line list"
  lb_dropped :: u64

definition BUFFER_LINES :: nat where "BUFFER_LINES = 5000"
definition BATCH_LINES :: nat where "BATCH_LINES = 500"
definition BATCH_BYTES :: nat where "BATCH_BYTES = 512 * 1024"

definition line_bytes :: "log_line \<Rightarrow> nat" where
  "line_bytes l = length (ll_message l) + length (ll_target l) + 64"

text \<open>How many lines fit: \<^verbatim>\<open>take_while\<close> with the running sum.\<close>

fun fitting :: "nat \<Rightarrow> log_line list \<Rightarrow> nat" where
  "fitting bytes [] = 0"
| "fitting bytes (l # ls) =
     (let total = bytes + line_bytes l in
      if total \<le> BATCH_BYTES then Suc (fitting total ls) else 0)"

definition buffer_take :: "log_buffer \<Rightarrow> (log_line list \<times> u64) \<times> log_buffer" where
  "buffer_take b =
     (let count = max (fitting 0 (take BATCH_LINES (lb_lines b))) (if lb_lines b = [] then 0 else 1)
      in ((take count (lb_lines b), lb_dropped b),
          b\<lparr>lb_lines := drop count (lb_lines b), lb_dropped := 0\<rparr>))"

definition restore_line :: "log_line \<Rightarrow> log_buffer \<Rightarrow> log_buffer" where
  "restore_line l b =
     (if BUFFER_LINES \<le> length (lb_lines b) then b\<lparr>lb_dropped := lb_dropped b + 1\<rparr>
      else b\<lparr>lb_lines := l # lb_lines b\<rparr>)"

definition buffer_restore :: "log_line list \<Rightarrow> u64 \<Rightarrow> log_buffer \<Rightarrow> log_buffer" where
  "buffer_restore ls dropped b =
     foldr restore_line ls (b\<lparr>lb_dropped := lb_dropped b + dropped\<rparr>)"

definition buffer_push :: "log_line \<Rightarrow> log_buffer \<Rightarrow> log_buffer" where
  "buffer_push l b =
     (let b = (if BUFFER_LINES \<le> length (lb_lines b)
               then b\<lparr>lb_lines := tl (lb_lines b), lb_dropped := lb_dropped b + 1\<rparr> else b)
      in b\<lparr>lb_lines := lb_lines b @ [l]\<rparr>)"

text \<open>
  The uploader between two uploads or in the middle of one, while lines keep coming. \<open>pushed\<close> and
  \<open>shipped\<close> are the lines so far, \<open>reported\<close> the drops the server was told of. An upload with
  nothing to send does not take place.
\<close>

record log_shipping =
  ls_buffer :: log_buffer
  ls_batch :: "(log_line list \<times> u64) option"
  ls_pushed :: "log_line list"
  ls_shipped :: "log_line list"
  ls_reported :: u64

definition empty_buffer :: log_buffer where
  "empty_buffer = \<lparr>lb_lines = [], lb_dropped = 0\<rparr>"

definition no_logs :: log_shipping where
  "no_logs = \<lparr>ls_buffer = empty_buffer, ls_batch = None, ls_pushed = [], ls_shipped = [], ls_reported = 0\<rparr>"

inductive log_reachable :: "log_shipping \<Rightarrow> bool" where
  start: "log_reachable no_logs"
| pushes: "log_reachable s \<Longrightarrow>
    log_reachable (s\<lparr>ls_buffer := buffer_push l (ls_buffer s), ls_pushed := ls_pushed s @ [l]\<rparr>)"
| takes: "\<lbrakk>log_reachable s; ls_batch s = None; buffer_take (ls_buffer s) = ((ls, n), b);
    \<not> (ls = [] \<and> n = 0)\<rbrakk> \<Longrightarrow> log_reachable (s\<lparr>ls_buffer := b, ls_batch := Some (ls, n)\<rparr>)"
| finds_none: "\<lbrakk>log_reachable s; ls_batch s = None; buffer_take (ls_buffer s) = (([], 0), b)\<rbrakk> \<Longrightarrow>
    log_reachable (s\<lparr>ls_buffer := b\<rparr>)"
| posts: "\<lbrakk>log_reachable s; ls_batch s = Some (ls, n)\<rbrakk> \<Longrightarrow>
    log_reachable (s\<lparr>ls_batch := None, ls_shipped := ls_shipped s @ ls, ls_reported := ls_reported s + n\<rparr>)"
| fails: "\<lbrakk>log_reachable s; ls_batch s = Some (ls, n)\<rbrakk> \<Longrightarrow>
    log_reachable (s\<lparr>ls_batch := None, ls_buffer := buffer_restore ls n (ls_buffer s)\<rparr>)"

section \<open>The registry's table\<close>

definition AGENT_LOG_RETENTION_MILLIS :: i64 where "AGENT_LOG_RETENTION_MILLIS = 86400000"
definition MAX_LOG_BATCH :: nat where "MAX_LOG_BATCH = 500"
definition AGENT_LOG_LINES_PER_HOUR :: i64 where "AGENT_LOG_LINES_PER_HOUR = 6000"
definition HOUR_MILLIS :: i64 where "HOUR_MILLIS = 3600000"
definition NOTICE_TARGET :: string where "NOTICE_TARGET = ''gridops''"

record agent_log_row =
  al_host_id :: string
  al_line :: log_line
  al_received_at :: i64

text \<open>A boundary is an end of the string or the start of a character.\<close>

definition is_char_boundary :: "string \<Rightarrow> nat \<Rightarrow> bool" where
  "is_char_boundary s n \<longleftrightarrow>
     n = 0 \<or> n = length s \<or> (n < length s \<and> \<not> (128 \<le> byte (s ! n) \<and> byte (s ! n) < 192))"

function boundary_below :: "string \<Rightarrow> nat \<Rightarrow> nat" where
  "boundary_below s n = (if is_char_boundary s n then n else boundary_below s (n - 1))"
  by auto
termination
proof (relation "measure snd")
  fix s and n :: nat assume "\<not> is_char_boundary s n"
  then have "n \<noteq> 0" by (auto simp: is_char_boundary_def)
  then show "((s, n - 1), (s, n)) \<in> measure snd" by simp
qed simp

declare boundary_below.simps [simp del]

definition truncate_text :: "string \<Rightarrow> nat \<Rightarrow> string" where
  "truncate_text s n = (if length s > n then take (boundary_below s n) s else s)"

definition normal_line :: "log_line \<Rightarrow> log_line" where
  "normal_line l =
     \<lparr>ll_logged_at = ll_logged_at l,
      ll_level = (if ll_level l \<in> {''error'', ''warn'', ''info'', ''debug'', ''trace''} then ll_level l
                  else ''info''),
      ll_target = truncate_text (ll_target l) 128, ll_message = truncate_text (ll_message l) 8192\<rparr>"

definition notice :: "i64 \<Rightarrow> string \<Rightarrow> log_line" where
  "notice now message =
     \<lparr>ll_logged_at = now, ll_level = ''warn'', ll_target = NOTICE_TARGET, ll_message = message\<rparr>"

definition newest_line :: "string \<Rightarrow> agent_log_row list \<Rightarrow> log_line option" where
  "newest_line host rows =
     map_option al_line
       (find (\<lambda>r. al_host_id r = host \<and> ll_target (al_line r) \<noteq> NOTICE_TARGET) (rev rows))"

text \<open>What comes after the last occurrence of a line; everything when it does not occur.\<close>

definition after_last :: "log_line \<Rightarrow> log_line list \<Rightarrow> log_line list" where
  "after_last l ls = (if l \<in> set ls then rev (takeWhile (\<lambda>m. m \<noteq> l) (rev ls)) else ls)"

definition stored_since :: "string \<Rightarrow> i64 \<Rightarrow> agent_log_row list \<Rightarrow> nat" where
  "stored_since host t rows = length (filter (\<lambda>r. al_host_id r = host \<and> t \<le> al_received_at r) rows)"

text \<open>The lines a batch leads to: without what is there already, with the notices, within the hour.\<close>

definition cap_lines :: "i64 \<Rightarrow> nat \<Rightarrow> log_line list \<Rightarrow> log_line list" where
  "cap_lines now stored ls =
     (let room = nat (AGENT_LOG_LINES_PER_HOUR - int stored) in
      if room < length ls then
        take room ls @
        (if int stored \<le> AGENT_LOG_LINES_PER_HOUR
         then [notice now (''this machine sent more than '' @ show_nat 6000 @
                 '' log lines this hour; the rest of the hour's lines are dropped'')]
         else [])
      else ls)"

definition batch_lines :: "string \<Rightarrow> i64 \<Rightarrow> log_line list \<Rightarrow> u64 \<Rightarrow> agent_log_row list \<Rightarrow> log_line list" where
  "batch_lines host now lines dropped rows =
     (let lines = map normal_line lines;
          lines = (case newest_line host rows of None \<Rightarrow> lines | Some l \<Rightarrow> after_last l lines);
          lines = (if 0 < dropped then lines @ [notice now (show_nat (unat dropped) @
                     '' agent log lines were dropped while GridOps was unreachable'')] else lines);
          hour = now - now mod HOUR_MILLIS
      in cap_lines now (stored_since host hour rows) lines)"

definition store_agent_logs ::
  "externals \<Rightarrow> fleet_db \<Rightarrow> authenticated_host \<Rightarrow> log_line list \<Rightarrow> u64 \<Rightarrow> i64 \<Rightarrow> agent_log_row list \<Rightarrow>
   registry_error + agent_log_row list" where
  "store_agent_logs x db a lines dropped now rows =
     (let host = x_show_uuid x (host_uuid (ah_host_id a)) in
      rbind (ensure (\<not> MAX_LOG_BATCH < length lines) (Reg_InvalidRequest ''too many log lines'')) (\<lambda>_.
      rbind (ensure_authenticated_generation x db a now) (\<lambda>_.
      Inr (filter (\<lambda>r. \<not> (al_host_id r = host \<and> al_received_at r < now - AGENT_LOG_RETENTION_MILLIS))
             (rows @ map (\<lambda>l. \<lparr>al_host_id = host, al_line = l, al_received_at = now\<rparr>)
                (batch_lines host now lines dropped rows))))))"

definition agent_logs ::
  "externals \<Rightarrow> fleet_db \<Rightarrow> principal \<Rightarrow> host_id \<Rightarrow> nat \<Rightarrow> agent_log_row list \<Rightarrow>
   registry_error + log_line list" where
  "agent_logs x db p host limit rows =
     rbind (map_err (\<lambda>_. Reg_Forbidden) (require_user p)) (\<lambda>user.
     rbind (ensure_system_admin db user) (\<lambda>_.
     let mine = map al_line (filter (\<lambda>r. al_host_id r = x_show_uuid x (host_uuid host)) rows)
     in Inr (drop (length mine - min limit 1000) mine)))"

section \<open>Lemmas on the buffer\<close>

lemma restore_line_length: "length (lb_lines b) \<le> BUFFER_LINES \<Longrightarrow> length (lb_lines (restore_line l b)) \<le> BUFFER_LINES"
  by (simp add: restore_line_def)

lemma buffer_restore_length:
  "length (lb_lines b) \<le> BUFFER_LINES \<Longrightarrow> length (lb_lines (buffer_restore ls n b)) \<le> BUFFER_LINES"
  unfolding buffer_restore_def by (induction ls) (auto simp: restore_line_length)

lemma buffer_push_length: "length (lb_lines b) \<le> BUFFER_LINES \<Longrightarrow> length (lb_lines (buffer_push l b)) \<le> BUFFER_LINES"
  by (auto simp: buffer_push_def BUFFER_LINES_def)

text \<open>The lines and drops a buffer stands for, modulo the width of the counter.\<close>

definition accounted :: "log_buffer \<Rightarrow> u64" where
  "accounted b = of_nat (length (lb_lines b)) + lb_dropped b"

lemma restore_line_accounted: "accounted (restore_line l b) = accounted b + 1"
  by (simp add: restore_line_def accounted_def)

lemma buffer_restore_accounted:
  "accounted (buffer_restore ls n b) = accounted b + of_nat (length ls) + n"
proof -
  have "accounted (foldr restore_line ls b) = accounted b + of_nat (length ls)" for b
    by (induction ls) (simp_all add: restore_line_accounted)
  then show ?thesis by (simp add: buffer_restore_def accounted_def)
qed

lemma buffer_push_accounted: "accounted (buffer_push l b) = accounted b + 1"
  by (cases "lb_lines b") (simp_all add: buffer_push_def accounted_def BUFFER_LINES_def)

lemma fitting_le: "fitting n ls \<le> length ls"
  by (induction ls arbitrary: n) (auto simp: Let_def)

lemma buffer_take_split:
  assumes "buffer_take b = ((ls, n), b')"
  shows "lb_lines b = ls @ lb_lines b'" "n = lb_dropped b" "lb_dropped b' = 0"
  using assms by (auto simp: buffer_take_def Let_def)

text \<open>Nothing that is restored is put out of order.\<close>

lemma restore_line_subseq: "subseq (lb_lines (restore_line l b)) (l # lb_lines b)"
  by (auto simp: restore_line_def)

lemma buffer_restore_subseq: "subseq (lb_lines (buffer_restore ls n b)) (ls @ lb_lines b)"
proof -
  have "subseq (lb_lines (foldr restore_line ls b)) (ls @ lb_lines b)" for b
  proof (induction ls)
    case (Cons l ls)
    have "subseq (lb_lines (foldr restore_line (l # ls) b)) (l # lb_lines (foldr restore_line ls b))"
      by (simp add: restore_line_subseq)
    also have "subseq (l # lb_lines (foldr restore_line ls b)) (l # ls @ lb_lines b)"
      using Cons by simp
    finally show ?case by simp
  qed simp
  from this [of "b\<lparr>lb_dropped := lb_dropped b + n\<rparr>"] show ?thesis by (simp add: buffer_restore_def)
qed

lemma buffer_push_subseq: "subseq (lb_lines (buffer_push l b)) (lb_lines b @ [l])"
  by (cases "lb_lines b") (auto simp: buffer_push_def)

definition batch_held :: "log_shipping \<Rightarrow> log_line list" where
  "batch_held s = (case ls_batch s of None \<Rightarrow> [] | Some (ls, n) \<Rightarrow> ls)"

definition batch_dropped :: "log_shipping \<Rightarrow> u64" where
  "batch_dropped s = (case ls_batch s of None \<Rightarrow> 0 | Some (ls, n) \<Rightarrow> n)"

definition log_sound :: "log_shipping \<Rightarrow> bool" where
  "log_sound s \<longleftrightarrow>
     length (lb_lines (ls_buffer s)) \<le> BUFFER_LINES \<and>
     subseq (ls_shipped s @ batch_held s @ lb_lines (ls_buffer s)) (ls_pushed s) \<and>
     of_nat (length (ls_pushed s)) =
       of_nat (length (ls_shipped s)) + ls_reported s + of_nat (length (batch_held s)) +
       batch_dropped s + accounted (ls_buffer s)"

lemma log_reachable_sound: "log_reachable s \<Longrightarrow> log_sound s"
proof (induction rule: log_reachable.induct)
  case start
  show ?case
    by (simp add: log_sound_def no_logs_def empty_buffer_def batch_held_def batch_dropped_def accounted_def)
next
  case (pushes s l)
  have "subseq (ls_shipped s @ batch_held s @ lb_lines (buffer_push l (ls_buffer s)))
      ((ls_shipped s @ batch_held s @ lb_lines (ls_buffer s)) @ [l])"
    using buffer_push_subseq by (simp add: list_emb_append_mono)
  also have "subseq \<dots> (ls_pushed s @ [l])"
    by (rule list_emb_append_mono) (use pushes.IH in \<open>simp_all add: log_sound_def\<close>)
  finally show ?case
    using pushes.IH
    by (simp add: log_sound_def batch_held_def batch_dropped_def buffer_push_length buffer_push_accounted)
next
  case (takes s ls n b)
  from buffer_take_split [OF takes.hyps(3)] takes.IH takes.hyps(2) show ?case
    by (auto simp: log_sound_def batch_held_def batch_dropped_def accounted_def)
next
  case (finds_none s b)
  from buffer_take_split [OF finds_none.hyps(3)] finds_none.IH finds_none.hyps(2) show ?case
    by (auto simp: log_sound_def batch_held_def batch_dropped_def accounted_def)
next
  case (posts s ls n)
  then show ?case by (auto simp: log_sound_def batch_held_def batch_dropped_def accounted_def)
next
  case (fails s ls n)
  have "subseq (ls_shipped s @ lb_lines (buffer_restore ls n (ls_buffer s)))
      (ls_shipped s @ ls @ lb_lines (ls_buffer s))"
    using buffer_restore_subseq by (simp add: list_emb_append_mono)
  also have "subseq \<dots> (ls_pushed s)"
    using fails.IH fails.hyps(2) by (simp add: log_sound_def batch_held_def)
  finally show ?case
    using fails.IH fails.hyps(2)
    by (simp add: log_sound_def batch_held_def batch_dropped_def buffer_restore_length
        buffer_restore_accounted)
qed

section \<open>Lemmas on the table\<close>

lemma cap_lines_length:
  "length (cap_lines now stored ls) = 0 \<or> int (stored + length (cap_lines now stored ls)) \<le> AGENT_LOG_LINES_PER_HOUR + 1"
  by (auto simp: cap_lines_def Let_def AGENT_LOG_LINES_PER_HOUR_def)

definition in_hour :: "string \<Rightarrow> i64 \<Rightarrow> agent_log_row list \<Rightarrow> nat" where
  "in_hour host hour rows = length (filter (\<lambda>r. al_host_id r = host \<and> hour \<le> al_received_at r \<and>
     al_received_at r < hour + HOUR_MILLIS) rows)"

lemma filter_length_mono: "(\<And>x. P x \<Longrightarrow> Q x) \<Longrightarrow> length (filter P xs) \<le> length (filter Q xs)"
  by (induction xs) auto

lemma in_hour_stored: "in_hour host hour rows \<le> stored_since host hour rows"
  unfolding in_hour_def stored_since_def by (rule filter_length_mono) simp

lemma in_hour_filter: "in_hour host hour (filter P rows) \<le> in_hour host hour rows"
  unfolding in_hour_def filter_filter by (rule filter_length_mono) simp

lemma same_hour:
  assumes "hour mod HOUR_MILLIS = 0" "hour \<le> now" "now < hour + HOUR_MILLIS"
  shows "now - now mod HOUR_MILLIS = hour"
proof -
  obtain k where "hour = HOUR_MILLIS * k" using assms(1) by (auto simp: mod_0_imp_dvd dvd_def)
  moreover have "now div HOUR_MILLIS = k"
    using assms(2,3) calculation by (intro int_div_pos_eq [of _ _ _ "now - hour"]) (auto simp: HOUR_MILLIS_def)
  ultimately show ?thesis by (simp add: minus_mod_eq_mult_div)
qed

text \<open>A batch keeps every clock hour of every host within the cap and its notice.\<close>

lemma store_agent_logs_hour:
  assumes "store_agent_logs x db a lines dropped now rows = Inr rows'"
    and "hour mod HOUR_MILLIS = 0" and "int (in_hour host hour rows) \<le> AGENT_LOG_LINES_PER_HOUR + 1"
  shows "int (in_hour host hour rows') \<le> AGENT_LOG_LINES_PER_HOUR + 1"
proof -
  let ?me = "x_show_uuid x (host_uuid (ah_host_id a))"
  let ?new = "map (\<lambda>l. \<lparr>al_host_id = ?me, al_line = l, al_received_at = now\<rparr>)
    (batch_lines ?me now lines dropped rows)"
  from assms(1) obtain P where "rows' = filter P (rows @ ?new)"
    unfolding store_agent_logs_def Let_def rbind_eq_Inr by (elim exE conjE) blast
  then have "in_hour host hour rows' \<le> in_hour host hour (rows @ ?new)"
    by (simp only: in_hour_filter)
  then have "in_hour host hour rows' \<le> in_hour host hour rows + in_hour host hour ?new"
    by (simp add: in_hour_def)
  moreover have "int (in_hour host hour rows + in_hour host hour ?new) \<le> AGENT_LOG_LINES_PER_HOUR + 1"
  proof (cases "host = ?me \<and> hour \<le> now \<and> now < hour + HOUR_MILLIS")
    case True
    with assms(2) have hour: "now - now mod HOUR_MILLIS = hour" by (intro same_hour) auto
    have "in_hour host hour ?new \<le> length (batch_lines ?me now lines dropped rows)"
      unfolding in_hour_def by (rule order_trans [OF length_filter_le]) simp
    moreover have "length (batch_lines ?me now lines dropped rows) = 0 \<or>
        int (stored_since ?me hour rows + length (batch_lines ?me now lines dropped rows)) \<le>
        AGENT_LOG_LINES_PER_HOUR + 1"
      unfolding batch_lines_def Let_def hour by (rule cap_lines_length)
    ultimately show ?thesis using in_hour_stored [of host hour rows] assms(3) True by fastforce
  next
    case False
    then have "in_hour host hour ?new = 0" by (auto simp: in_hour_def filter_empty_conv)
    with assms(3) show ?thesis by simp
  qed
  ultimately show ?thesis by linarith
qed

lemma boundary_below_le: "n \<le> length s \<Longrightarrow> boundary_below s n \<le> n \<and> is_char_boundary s (boundary_below s n)"
proof (induction s n rule: boundary_below.induct)
  case (1 s n)
  then show ?case by (subst (1 2) boundary_below.simps) fastforce
qed

lemma after_last_end: "ls \<noteq> [] \<Longrightarrow> after_last (last ls) ls = []"
  by (cases ls rule: rev_cases) (simp_all add: after_last_def)

lemma after_last_last: "after_last l ls \<noteq> [] \<Longrightarrow> last (after_last l ls) = last ls \<and> length (after_last l ls) \<le> length ls"
  by (cases ls rule: rev_cases)
    (auto simp: after_last_def last_rev takeWhile_eq_Nil_iff length_takeWhile_le
      intro: order_trans [OF length_takeWhile_le])

lemma cap_lines_Nil [simp]: "cap_lines now stored [] = []"
  by (simp add: cap_lines_def)

lemma cap_lines_room: "int (stored + length ls) \<le> AGENT_LOG_LINES_PER_HOUR \<Longrightarrow> cap_lines now stored ls = ls"
  by (auto simp: cap_lines_def Let_def)

lemma newest_line_append:
  assumes "ls \<noteq> []" and "ll_target (last ls) \<noteq> NOTICE_TARGET"
  shows "newest_line host (rows @ map (\<lambda>l. \<lparr>al_host_id = host, al_line = l, al_received_at = t\<rparr>) ls) = Some (last ls)"
  using assms by (cases ls rule: rev_cases) (simp_all add: newest_line_def)

section \<open>Properties\<close>


definition sample_line :: "string \<Rightarrow> log_line" where
  "sample_line m = \<lparr>ll_logged_at = 1000, ll_level = ''info'', ll_target = ''agent'', ll_message = m\<rparr>"


text \<open>
  C25. A flooding agent cannot fill the table: in every clock hour the registry stores at most 6000
  lines of a host and the one notice that says so, whatever batches arrive in whatever order.
\<close>

theorem log_storage_is_bounded:
  assumes "rfold (\<lambda>rows (a, lines, dropped, now). store_agent_logs x db a lines dropped now rows) batches [] =
      Inr rows"
    and "hour mod HOUR_MILLIS = 0"
  shows "in_hour host hour rows \<le> 6001"
proof -
  have "int (in_hour host hour rows) \<le> AGENT_LOG_LINES_PER_HOUR + 1"
    using assms(1)
  proof (rule rfold_keeps)
    show "int (in_hour host hour []) \<le> AGENT_LOG_LINES_PER_HOUR + 1"
      by (simp add: in_hour_def AGENT_LOG_LINES_PER_HOUR_def)
  qed (use assms(2) store_agent_logs_hour in \<open>auto split: prod.splits\<close>)
  then show ?thesis by (simp add: AGENT_LOG_LINES_PER_HOUR_def)
qed

lemma sample_agent_host [simp]: "host_uuid (ah_host_id (sample_agent c g)) = 1"
  by (simp add: sample_agent_def)

lemma sample_store:
  "store_agent_logs registry_externals requested_db (sample_agent 3 1) [sample_line ''a''] 0 4000 [] =
     Inr [\<lparr>al_host_id = ''u'', al_line = sample_line ''a'', al_received_at = 4000\<rparr>]"
  by (simp add: store_agent_logs_def sample_live MAX_LOG_BATCH_def batch_lines_def Let_def
      newest_line_def stored_since_def cap_lines_def AGENT_LOG_LINES_PER_HOUR_def HOUR_MILLIS_def
      AGENT_LOG_RETENTION_MILLIS_def normal_line_def sample_line_def truncate_text_def)

theorem log_storage_is_bounded_witness:
  "in_hour ''u'' 0 [\<lparr>al_host_id = ''u'', al_line = sample_line ''a'', al_received_at = 4000\<rparr>] \<le> 6001"
  by (rule log_storage_is_bounded [where batches = "[(sample_agent 3 1, [sample_line ''a''], 0, 4000)]"
        and x = registry_externals and db = requested_db])
    (simp_all add: sample_store)

text \<open>
  A batch that arrives again because its reply was lost is stored once: when the first arrival
  was within the hour's cap and ends with a line of the agent, the second adds nothing.
\<close>

theorem resent_log_batch_is_stored_once:
  assumes "store_agent_logs x db a lines 0 now rows = Inr rows'"
    and "lines \<noteq> []" and "ll_target (last (map normal_line lines)) \<noteq> NOTICE_TARGET"
    and "batch_lines (x_show_uuid x (host_uuid (ah_host_id a))) now lines 0 rows \<noteq> []"
    and "int (stored_since (x_show_uuid x (host_uuid (ah_host_id a))) (now - now mod HOUR_MILLIS) rows
           + length lines) \<le> AGENT_LOG_LINES_PER_HOUR"
    and "ensure_authenticated_generation x db a now' = Inr ()" and "now' - now \<le> AGENT_LOG_RETENTION_MILLIS"
  shows "\<exists>rows''. store_agent_logs x db a lines 0 now' rows' = Inr rows'' \<and> set rows'' \<subseteq> set rows' \<and>
    {r \<in> set rows'. al_received_at r = now} \<subseteq> set rows''"
proof -
  let ?me = "x_show_uuid x (host_uuid (ah_host_id a))" and ?ls = "map normal_line lines"
  define kept where "kept = (case newest_line ?me rows of None \<Rightarrow> ?ls | Some l \<Rightarrow> after_last l ?ls)"
  have "batch_lines ?me now lines 0 rows =
      cap_lines now (stored_since ?me (now - now mod HOUR_MILLIS) rows) kept"
    by (simp add: batch_lines_def kept_def Let_def)
  moreover from this assms(4) have "kept \<noteq> []" by auto
  then have kept: "last kept = last ?ls" "length kept \<le> length lines"
    by (auto simp: kept_def after_last_last split: option.splits dest!: after_last_last)
  ultimately have first: "batch_lines ?me now lines 0 rows = kept"
    using assms(5) by (simp add: cap_lines_room)
  have rows': "rows' = filter (\<lambda>r. \<not> (al_host_id r = ?me \<and> al_received_at r < now - AGENT_LOG_RETENTION_MILLIS))
      rows @ map (\<lambda>l. \<lparr>al_host_id = ?me, al_line = l, al_received_at = now\<rparr>) kept"
    using assms(1) by (auto simp: store_agent_logs_def Let_def rbind_eq_Inr first filter_map comp_def
        AGENT_LOG_RETENTION_MILLIS_def)
  have "newest_line ?me rows' = Some (last kept)"
    unfolding rows' by (rule newest_line_append) (use \<open>kept \<noteq> []\<close> assms(3) kept in auto)
  then have "batch_lines ?me now' lines 0 rows' = []"
    using after_last_end [of ?ls] assms(2) kept(1) by (simp add: batch_lines_def Let_def)
  with assms(1,6,7) show ?thesis
    by (auto simp: store_agent_logs_def Let_def rbind_eq_Inr)
qed

theorem resent_log_batch_is_stored_once_witness:
  "\<exists>rows. store_agent_logs registry_externals requested_db (sample_agent 3 1) [sample_line ''a''] 0 4000
     [\<lparr>al_host_id = ''u'', al_line = sample_line ''a'', al_received_at = 4000\<rparr>] = Inr rows \<and>
     set rows \<subseteq> {\<lparr>al_host_id = ''u'', al_line = sample_line ''a'', al_received_at = 4000\<rparr>}"
proof -
  have "batch_lines ''u'' 4000 [sample_line ''a''] 0 [] \<noteq> []"
    "ll_target (last (map normal_line [sample_line ''a''])) \<noteq> NOTICE_TARGET"
    by (simp_all add: batch_lines_def newest_line_def stored_since_def cap_lines_def Let_def
        AGENT_LOG_LINES_PER_HOUR_def normal_line_def sample_line_def truncate_text_def NOTICE_TARGET_def)
  with resent_log_batch_is_stored_once [OF sample_store, of 4000] show ?thesis
    by (auto simp: sample_live stored_since_def AGENT_LOG_LINES_PER_HOUR_def AGENT_LOG_RETENTION_MILLIS_def)
qed

end
