(* ===== verification/Eligibility.thy ===== *)
theory Eligibility
  imports Service Capacity "HOL-Library.Product_Lexorder" "HOL-Library.List_Lexorder"
    "HOL-Library.Char_ord"
begin

text \<open>
  Which machines may take an intent: the candidate query, session and selector checks,
  compatibility, pool limits and the reasons recorded when nothing fits, from
  \<^verbatim>\<open>crates/gridops-core/src/fleet/admission.rs\<close>. SQL's three-valued comparisons with
  \<^verbatim>\<open>NULL\<close> are written out: a comparison with an absent value does not hold.
\<close>

section \<open>Parsing stored values\<close>

definition parse_runtime_kind :: "string \<Rightarrow> fleet_error + runtime_kind" where
  "parse_runtime_kind v =
     (if v = ''docker'' then Inr Docker else if v = ''tart_vm'' then Inr TartVm
      else if v = ''native_process'' then Inr NativeProcess
      else Inl (Fleet_Invariant ''invalid runtime kind''))"

definition parse_execution_os :: "string \<Rightarrow> fleet_error + execution_os" where
  "parse_execution_os v =
     (if v = ''linux'' then Inr Linux else if v = ''macos'' then Inr Macos
      else if v = ''windows'' then Inr Windows
      else Inl (Fleet_Invariant ''invalid execution OS''))"

definition parse_architecture :: "string \<Rightarrow> fleet_error + architecture" where
  "parse_architecture v =
     (if v = ''x64'' then Inr X64 else if v = ''arm64'' then Inr Arm64
      else Inl (Fleet_Invariant ''invalid architecture''))"

definition parse_external_id :: "i64 option \<Rightarrow> string \<Rightarrow> fleet_error + external_id" where
  "parse_external_id v msg =
     rbind (ok_or v Fleet_Panic) (\<lambda>i.
     rbind (u64_from_i64 i msg) (\<lambda>w.
     map_err (\<lambda>_. Fleet_Invariant msg) (external_id_try_from w)))"

definition parse_target_uuid ::
  "externals \<Rightarrow> string option \<Rightarrow> string \<Rightarrow> string \<Rightarrow> fleet_error + non_nil_target_uuid" where
  "parse_target_uuid x v msg nilmsg =
     rbind (ok_or v Fleet_Panic) (\<lambda>s.
     rbind (ok_or (x_parse_uuid x (trim_braces s)) (Fleet_Invariant msg)) (\<lambda>u.
     map_err (\<lambda>_. Fleet_Invariant nilmsg) (non_nil_target_uuid_new u)))"

definition target_from_db :: "externals \<Rightarrow> fleet_db \<Rightarrow> string \<Rightarrow> fleet_error + ci_target" where
  "target_from_db x db target_id =
     rbind (ok_or (find_target db target_id) Fleet_NotFound) (\<lambda>row.
     if ct_kind row = ''github_repository'' then
       rbind (parse_external_id (ct_installation_id row) ''invalid target installation ID'')
         (\<lambda>inst.
       rbind (parse_external_id (ct_repository_id row) ''invalid target repository ID'') (\<lambda>repo.
       Inr (GithubRepository inst repo)))
     else if ct_kind row = ''github_organization'' then
       rbind (parse_external_id (ct_installation_id row) ''invalid target installation ID'')
         (\<lambda>inst.
       rbind (parse_external_id (ct_organization_id row) ''invalid target organization ID'')
         (\<lambda>org.
       Inr (GithubOrganization inst org)))
     else if ct_kind row = ''bitbucket_workspace'' \<or> ct_kind row = ''bitbucket_repository'' then
       rbind (ok_or (ct_bitbucket_connection_id row) Fleet_Panic) (\<lambda>cs.
       rbind (map_err (\<lambda>_. Fleet_Invariant ''invalid Bitbucket connection ID'')
                (bitbucket_connection_id_new cs)) (\<lambda>conn.
       rbind (parse_target_uuid x (ct_workspace_uuid row) ''invalid Bitbucket workspace UUID''
                ''nil Bitbucket workspace UUID'') (\<lambda>ws.
       if ct_kind row = ''bitbucket_workspace'' then Inr (BitbucketWorkspace conn ws)
       else
         rbind (parse_target_uuid x (ct_repository_uuid row) ''invalid Bitbucket repository UUID''
                  ''nil Bitbucket repository UUID'') (\<lambda>repo.
         Inr (BitbucketRepository conn ws repo)))))
     else Inl (Fleet_Invariant ''invalid target kind''))"

definition parse_counter ::
  "(u64 \<Rightarrow> counter_error + 'c) \<Rightarrow> i64 \<Rightarrow> string \<Rightarrow> fleet_error + 'c" where
  "parse_counter new v msg =
     rbind (u64_from_i64 v msg) (\<lambda>w. map_err (\<lambda>_. Fleet_Invariant msg) (new w))"

definition parse_uuid_or ::
  "externals \<Rightarrow> (uuid \<Rightarrow> 'id) \<Rightarrow> string \<Rightarrow> string \<Rightarrow> fleet_error + 'id" where
  "parse_uuid_or x C v msg =
     map_err (\<lambda>_. Fleet_Invariant msg)
       (fleet_uuid_from_str (\<lambda>s. ok_or (x_parse_uuid x s) ()) C v)"

definition parse_text :: "string \<Rightarrow> string \<Rightarrow> fleet_error + upstream_text" where
  "parse_text v msg = map_err (\<lambda>_. Fleet_Invariant msg) (upstream_text_new v)"

definition parse_timestamp :: "externals \<Rightarrow> i64 \<Rightarrow> string \<Rightarrow> fleet_error + wire_timestamp" where
  "parse_timestamp x v msg =
     map_err (\<lambda>_. Fleet_Invariant msg) (wire_timestamp_from_millis (x_year_of x) v)"

definition candidate_resources :: "candidate \<Rightarrow> fleet_error + resource_request" where
  "candidate_resources c =
     rbind (ok_or (word_try_from (cd_cpu_millis c)) (Fleet_Invariant ''invalid profile CPU''))
       (\<lambda>cpu.
     rbind (u64_from_i64 (cd_memory_mib c) ''invalid profile memory'') (\<lambda>mem.
     rbind (u64_from_i64 (cd_disk_bytes c) ''invalid profile disk'') (\<lambda>disk.
     map_err (\<lambda>_. Fleet_Invariant ''invalid profile resources'')
       (resource_request_new cpu mem disk))))"

section \<open>Compatibility of a candidate\<close>

definition candidate_authority ::
  "externals \<Rightarrow> candidate \<Rightarrow> host_id \<Rightarrow> fleet_error + current_authority" where
  "candidate_authority x c host =
     rbind (parse_counter host_epoch_new (cd_host_epoch c) ''invalid host epoch'') (\<lambda>epoch.
     rbind (parse_uuid_or x AuthoritySessionId (cd_authority_session_id c)
              ''invalid authority session ID'') (\<lambda>session.
     rbind (parse_text (cd_boot_id c) ''invalid boot identity'') (\<lambda>boot.
     rbind (parse_uuid_or x ControlPlaneIncarnation (cd_control_plane_incarnation c)
              ''invalid control-plane incarnation'') (\<lambda>inc.
     Inr \<lparr>cau_host_id = host, cau_host_epoch = epoch, cau_authority_session_id = session,
          cau_boot_id = boot, cau_control_plane_incarnation = inc\<rparr>))))"

definition candidate_probe ::
  "externals \<Rightarrow> candidate \<Rightarrow> host_id \<Rightarrow> backend_id \<Rightarrow> fleet_error + current_probe option" where
  "candidate_probe x c host backend =
     (case (cd_probe_received_at c, cd_probe_epoch c, cd_probe_session_id c, cd_probe_boot_id c,
            cd_probe_incarnation c) of
        (Some received_at, Some epoch, Some session, Some boot, Some incarnation) \<Rightarrow>
          rbind (parse_timestamp x received_at ''invalid probe receipt timestamp'') (\<lambda>ts.
          rbind (parse_counter host_epoch_new epoch ''invalid probe epoch'') (\<lambda>e.
          rbind (parse_uuid_or x AuthoritySessionId session ''invalid probe session ID'') (\<lambda>s.
          rbind (parse_text boot ''invalid probe boot identity'') (\<lambda>b.
          rbind (parse_uuid_or x ControlPlaneIncarnation incarnation
                   ''invalid probe incarnation'') (\<lambda>inc.
          Inr (Some \<lparr>cpb_host_id = host, cpb_backend_id = backend, cpb_received_at = ts,
                     cpb_host_epoch = e, cpb_authority_session_id = s, cpb_boot_id = b,
                     cpb_control_plane_incarnation = inc\<rparr>))))))
      | _ \<Rightarrow> Inr None)"

definition parse_capabilities :: "externals \<Rightarrow> string \<Rightarrow> contract_error + backend_capabilities" where
  "parse_capabilities x json =
     parse_json (\<lambda>s. case x_report_from_str x s of
                        None \<Rightarrow> None
                      | Some r \<Rightarrow> (case backend_capabilities_try_from r of
                                     Inl _ \<Rightarrow> None | Inr caps \<Rightarrow> Some caps))
       json MAX_BATCH_BYTES"

definition valid_labels :: "externals \<Rightarrow> candidate \<Rightarrow> bool" where
  "valid_labels x c =
     (case x_labels x (cd_labels_json c) of
        None \<Rightarrow> False
      | Some ls \<Rightarrow> \<forall>l \<in> set ls. is_ok (upstream_text_new l))"

definition invalid_profile :: "externals \<Rightarrow> candidate \<Rightarrow> bool" where
  "invalid_profile x c \<longleftrightarrow>
     \<not> valid_labels x c \<or> x_config_network x (cd_config_json c) = None \<or>
     cd_image c = [] \<or> chars_count (cd_image c) > 300 \<or> has_control (cd_image c)"

text \<open>The checks after the profile is known to be well-formed.\<close>

definition candidate_evaluate ::
  "externals \<Rightarrow> candidate \<Rightarrow> ci_target \<Rightarrow> runtime_kind \<Rightarrow> execution_os \<Rightarrow> architecture \<Rightarrow>
   image_reference \<Rightarrow> i64 \<Rightarrow> fleet_error + string option" where
  "candidate_evaluate x c target runtime os arch img pnow =
     rbind (candidate_resources c) (\<lambda>resources.
     rbind (fleet_parse_id x HostId (cd_host_id c)) (\<lambda>host.
     rbind (fleet_parse_id x BackendId (cd_backend_id c)) (\<lambda>backend.
     let identity = \<lparr>bi_host_id = host, bi_backend_id = backend, bi_runtime_kind = runtime,
                     bi_execution_os = os, bi_architecture = arch\<rparr>;
         requirement = \<lparr>er_runtime_kind = runtime, er_execution_os = os, er_architecture = arch,
           er_runner = \<lparr>sup_target_kind = target_kind_from target,
             sup_mode = (if cd_mode c = ''persistent'' then Persistent else Ephemeral)\<rparr>,
           er_environment = img, er_resources = resources,
           er_requires_interactive = cd_requires_interactive c,
           er_requires_docker_socket = cd_requires_docker_socket c\<rparr> in
     rbind (candidate_authority x c host) (\<lambda>authority.
     rbind (candidate_probe x c host backend) (\<lambda>probe.
     case parse_capabilities x (cd_capabilities_json c) of
       Inl _ \<Rightarrow> Inr (Some ''capability_unverified'')
     | Inr caps \<Rightarrow>
         rbind (parse_timestamp x pnow ''invalid admission timestamp'') (\<lambda>now.
         case evaluate caps identity requirement probe authority now of
           Inr _ \<Rightarrow> Inr None
         | Inl e \<Rightarrow> Inr (Some (rejection_reason_code e))))))))"

definition candidate_compatible ::
  "externals \<Rightarrow> fleet_db \<Rightarrow> intent_row \<Rightarrow> candidate \<Rightarrow> i64 \<Rightarrow> fleet_error + string option" where
  "candidate_compatible x db intent c pnow =
     rbind (target_from_db x db (wi_target_id intent)) (\<lambda>target.
     rbind (parse_runtime_kind (cd_runtime_kind c)) (\<lambda>runtime.
     rbind (parse_execution_os (cd_execution_os c)) (\<lambda>os.
     rbind (parse_architecture (cd_architecture c)) (\<lambda>arch.
     if cd_mode c \<noteq> ''ephemeral'' \<and> \<not> cd_mode c = ''persistent'' then
       Inr (Some ''unsupported_mode'')
     else if wi_kind intent = workload_kind_str FixSandbox \<and>
             (\<not> is_github_repository target \<or> runtime \<noteq> Docker \<or> os \<noteq> Linux) then
       Inr (Some ''unsupported_mode'')
     else if invalid_profile x c then Inr (Some ''invalid_profile'')
     else case image_reference_try_from (cd_image c) of
       Inl _ \<Rightarrow> Inr (Some ''invalid_profile'')
     | Inr img \<Rightarrow> candidate_evaluate x c target runtime os arch img pnow))))"

section \<open>Refusals and reasons\<close>

definition pool_refusal :: "fleet_db \<Rightarrow> string \<Rightarrow> string option" where
  "pool_refusal db pool_id =
     (case find (\<lambda>p. rp_id p = pool_id) (pools db) of
        None \<Rightarrow> None
      | Some p \<Rightarrow>
          if rp_paused p \<or> rp_state p = ''paused'' then Some ''pool_paused''
          else if rp_state p = ''draining'' then Some ''pool_draining''
          else if (''provisioningPaused'', ''true'') \<in> set (settings db)
          then Some ''provisioning_paused''
          else None)"

fun reason_code :: "fleet_error \<Rightarrow> string" where
  "reason_code Fleet_Forbidden = ''forbidden''"
| "reason_code Fleet_NotFound = ''policy_unavailable''"
| "reason_code Fleet_StaleProfileRevision = ''stale_profile_revision''"
| "reason_code (Fleet_Queued reason) = reason"
| "reason_code Fleet_IdempotencyConflict = ''duplicate_workload''"
| "reason_code _ = ''no_eligible_host''"

fun is_durable_candidate_error :: "fleet_error \<Rightarrow> bool" where
  "is_durable_candidate_error Fleet_Forbidden = True"
| "is_durable_candidate_error Fleet_NotFound = True"
| "is_durable_candidate_error Fleet_StaleProfileRevision = True"
| "is_durable_candidate_error (Fleet_Queued _) = True"
| "is_durable_candidate_error Fleet_IdempotencyConflict = True"
| "is_durable_candidate_error _ = False"

definition persist_rejection :: "fleet_db \<Rightarrow> string \<Rightarrow> string \<Rightarrow> i64 \<Rightarrow> fleet_db" where
  "persist_rejection db intent_id reason now =
     (let db1 = db\<lparr>intents := update_where
            (\<lambda>i. wi_id i = intent_id \<and> wi_status i = ''queued'' \<and>
                  (\<exists>o' \<in> set (operations db). op_id o' = wi_id i \<and> op_status o' = ''queued''))
            (\<lambda>i. i\<lparr>wi_reason_code := Some reason, wi_updated_at := now\<rparr>) (intents db)\<rparr>
      in db1\<lparr>operations := update_where
            (\<lambda>o'. op_id o' = intent_id \<and> op_status o' = ''queued'' \<and>
                  (\<exists>i \<in> set (intents db1). wi_id i = op_id o' \<and> wi_status i = ''queued''))
            (\<lambda>o'. o'\<lparr>op_reason_code := Some reason, op_updated_at := now\<rparr>) (operations db1)\<rparr>)"

definition ensure_control_plane_ready :: "fleet_db \<Rightarrow> fleet_error + unit" where
  "ensure_control_plane_ready db =
     (case control_plane db of
        Some cp \<Rightarrow> ensure (cp_readiness cp = ''active'') (Fleet_Queued ''control_plane_not_ready'')
      | None \<Rightarrow> Inl (Fleet_Queued ''control_plane_not_ready''))"

definition platform_matches :: "backend_row \<Rightarrow> profile_row \<Rightarrow> bool" where
  "platform_matches b p \<longleftrightarrow>
     hb_runtime_kind b = pr_runtime_kind p \<and> hb_execution_os b = pr_execution_os p \<and>
     hb_architecture b = pr_architecture p"

definition gt_opt :: "i64 option \<Rightarrow> i64 \<Rightarrow> bool" where
  "gt_opt v t = (case v of None \<Rightarrow> False | Some w \<Rightarrow> w > t)"

definition le_opt :: "i64 option \<Rightarrow> i64 \<Rightarrow> bool" where
  "le_opt v t = (case v of None \<Rightarrow> False | Some w \<Rightarrow> w \<le> t)"

definition diagnose :: "fleet_db \<Rightarrow> intent_row \<Rightarrow> i64 \<Rightarrow> string" where
  "diagnose db intent now =
     (let ps = filter (\<lambda>p. pr_id p = wi_profile_id intent) (profiles db);
          active = filter (\<lambda>h. fh_enrollment_state h = ''approved'' \<and>
                     fh_lifecycle_state h = ''active'') (hosts db);
          online = filter (\<lambda>h. gt_opt (fh_last_heartbeat_at h) (now - 45000) \<and>
                     gt_opt (fh_authority_expires_at h) now) active;
          granted = [h. h \<leftarrow> online, g \<leftarrow> target_grants db, tg_host_id g = fh_id h \<and>
                     tg_target_id g = wi_target_id intent \<and> tg_allow_schedule g \<and>
                     tg_revoked_at g = None];
          matching = [(b, fh_pressure_state h). h \<leftarrow> granted, b \<leftarrow> backends db,
                     hb_host_id b = fh_id h, p \<leftarrow> ps, platform_matches b p];
          enabled = filter (\<lambda>(b, _). hb_enabled b \<and> hb_readiness b = ''ready'') matching;
          calm = filter (\<lambda>(b, pressure). hb_enabled b \<and> pressure = ''normal'') matching;
          native = [b. (b, _) \<leftarrow> matching, g \<leftarrow> target_grants db, tg_host_id g = hb_host_id b \<and>
                     tg_target_id g = wi_target_id intent \<and> tg_allow_native g \<and>
                     tg_revoked_at g = None];
          runtime = (case ps of [] \<Rightarrow> None | p # _ \<Rightarrow> Some (pr_runtime_kind p))
      in if active = [] then ''no_active_machine''
         else if online = [] then ''machines_offline''
         else if granted = [] then ''target_not_granted''
         else if matching = [] then ''no_matching_backend''
         else if enabled = [] then ''backend_disabled''
         else if runtime = Some ''native_process'' \<and> native = [] then ''native_not_trusted''
         else if calm = [] then ''machines_under_pressure''
         else ''no_eligible_host'')"

section \<open>The candidate query\<close>

definition fix_sandbox_eligible :: "fleet_db \<Rightarrow> intent_row \<Rightarrow> operation_row \<Rightarrow> profile_row \<Rightarrow> bool"
  where
  "fix_sandbox_eligible db i o' p \<longleftrightarrow>
     (wi_kind i \<noteq> ''fix_sandbox'' \<or>
       (pr_runtime_kind p = ''docker'' \<and> pr_execution_os p = ''linux'' \<and>
        (\<exists>t \<in> set (targets db). \<exists>ar \<in> set (agent_runs db).
           ct_repository_id t = Some (ag_repository_id ar) \<and>
           ct_id t = wi_target_id i \<and> ct_kind t = ''github_repository'' \<and>
           wi_agent_run_id i = Some (ag_id ar) \<and> ag_status ar \<in> {''queued'', ''running''} \<and>
           \<not> ag_cancel_requested ar \<and>
           (op_principal_kind o' \<noteq> ''user'' \<or>
            (ag_requested_by ar \<noteq> None \<and> ag_requested_by ar = op_requested_by_user_id o'))))) \<and>
     (wi_kind i \<noteq> ''fix_sandbox'' \<or>
       \<not> (\<exists>dup \<in> set (intents db).
            wi_agent_run_id dup \<noteq> None \<and> wi_agent_run_id dup = wi_agent_run_id i \<and>
            wi_id dup \<noteq> wi_id i \<and> wi_status dup \<in> {''queued'', ''admitted''}))"

definition host_eligible :: "host_row \<Rightarrow> i64 \<Rightarrow> bool" where
  "host_eligible h now \<longleftrightarrow>
     fh_enrollment_state h = ''approved'' \<and> fh_lifecycle_state h = ''active'' \<and>
     fh_integrity_state h = ''verified'' \<and> fh_pressure_state h = ''normal'' \<and>
     gt_opt (fh_last_heartbeat_at h) (saturating_sub now 45000) \<and>
     le_opt (fh_last_heartbeat_at h) now \<and>
     gt_opt (fh_last_inventory_at h) (saturating_sub now 45000) \<and>
     le_opt (fh_last_inventory_at h) now \<and>
     gt_opt (fh_authority_expires_at h) now \<and>
     le_opt (fh_authority_expires_at h) (saturating_add now 90000) \<and>
     fh_inventory_complete h \<and> fh_authority_incarnation h \<noteq> None \<and>
     fh_agent_session_id h \<noteq> None \<and> fh_boot_id h \<noteq> None \<and>
     fh_inventory_epoch h = Some (fh_epoch h) \<and>
     fh_inventory_session_id h = fh_agent_session_id h \<and>
     fh_inventory_boot_id h = fh_boot_id h"

definition grant_eligible :: "target_grant_row \<Rightarrow> profile_row \<Rightarrow> bool" where
  "grant_eligible g p \<longleftrightarrow>
     tg_allow_schedule g \<and> tg_revoked_at g = None \<and>
     (\<not> pr_requires_interactive p \<or> tg_allow_interactive g) \<and>
     (pr_runtime_kind p \<noteq> ''native_process'' \<or> tg_allow_native g) \<and>
     (\<not> pr_requires_docker_socket p \<or> tg_allow_docker_socket g)"

definition no_suspended_installation :: "fleet_db \<Rightarrow> intent_row \<Rightarrow> bool" where
  "no_suspended_installation db i \<longleftrightarrow>
     \<not> (\<exists>t \<in> set (targets db). \<exists>ins \<in> set (installations db).
          ct_installation_id t = Some (in_id ins) \<and> ct_id t = wi_target_id i \<and>
          in_suspended_at ins \<noteq> None) \<and>
     \<not> (\<exists>(pool, inst) \<in> set (pool_installations db). \<exists>ins \<in> set (installations db).
          in_id ins = inst \<and> pool = wi_pool_id i \<and> in_suspended_at ins \<noteq> None)"

definition user_admin_of_installation :: "fleet_db \<Rightarrow> string option \<Rightarrow> i64 option \<Rightarrow> bool" where
  "user_admin_of_installation db user inst \<longleftrightarrow>
     (\<exists>ui \<in> set (user_installations db). \<exists>u \<in> set (users db).
        us_id u = ui_user_id ui \<and> user = Some (ui_user_id ui) \<and>
        inst = Some (ui_installation_id ui) \<and>
        (ui_permission ui = ''admin'' \<or> us_role u = ''admin''))"

definition user_admin_of_connection :: "fleet_db \<Rightarrow> string option \<Rightarrow> string option \<Rightarrow> bool" where
  "user_admin_of_connection db user conn \<longleftrightarrow>
     (\<exists>bug \<in> set (bitbucket_grants db). \<exists>u \<in> set (users db).
        us_id u = bg_user_id bug \<and> user = Some (bg_user_id bug) \<and>
        conn = Some (bg_connection_id bug) \<and> bg_revoked_at bug = None \<and>
        (bg_permission bug = ''admin'' \<or> us_role u = ''admin''))"

text \<open>The clauses that apply when a user, and not a controller, asked for the work.\<close>

definition user_eligible ::
  "fleet_db \<Rightarrow> intent_row \<Rightarrow> operation_row \<Rightarrow> host_row \<Rightarrow> bool" where
  "user_eligible db i o' h \<longleftrightarrow>
     op_principal_kind o' \<noteq> ''user'' \<or>
     (let user = op_requested_by_user_id o' in
      (\<exists>hug \<in> set (user_grants db). ug_host_id hug = fh_id h \<and> user = Some (ug_user_id hug) \<and>
         ug_permission hug \<in> {''operator'', ''admin''} \<and> ug_revoked_at hug = None) \<and>
      (\<forall>(pool, inst) \<in> set (pool_installations db). pool = wi_pool_id i \<longrightarrow>
         user_admin_of_installation db user (Some inst)) \<and>
      (\<forall>p \<in> set (pools db). rp_id p = wi_pool_id i \<longrightarrow>
         user_admin_of_installation db user (rp_installation_id p)) \<and>
      (\<forall>(pool, conn) \<in> set (pool_connections db). pool = wi_pool_id i \<longrightarrow>
         user_admin_of_connection db user (Some conn)) \<and>
      (\<exists>t \<in> set (targets db). ct_id t = wi_target_id i \<and>
         (user_admin_of_installation db user (ct_installation_id t) \<or>
          user_admin_of_connection db user (ct_bitbucket_connection_id t))))"

definition platform_key :: "string \<Rightarrow> string \<Rightarrow> string \<Rightarrow> string" where
  "platform_key r os a = r @ ''/'' @ os @ ''/'' @ a"

definition other_platforms :: "fleet_db \<Rightarrow> host_row \<Rightarrow> profile_row \<Rightarrow> nat" where
  "other_platforms db h p =
     length (remdups [platform_key (pr_runtime_kind q) (pr_execution_os q) (pr_architecture q).
       q \<leftarrow> profiles db, s \<leftarrow> backends db,
       hb_host_id s = fh_id h \<and> hb_enabled s \<and> platform_matches s q \<and>
       pr_enabled q \<and> pr_archived_at q = None \<and>
       \<not> (pr_runtime_kind q = pr_runtime_kind p \<and> pr_execution_os q = pr_execution_os p \<and>
          pr_architecture q = pr_architecture p)])"

definition free_cpu_millis :: "fleet_db \<Rightarrow> host_row \<Rightarrow> backend_row \<Rightarrow> int option" where
  "free_cpu_millis db h b =
     map_option (\<lambda>d. dr_cpu_millis d -
         (\<Sum>a\<leftarrow>charged_allocations db (hb_domain_id b) (fh_id h). ca_cpu_millis a))
       (find (\<lambda>d. dr_id d = hb_domain_id b \<and> dr_host_id d = fh_id h) (domains db))"

text \<open>
  \<^verbatim>\<open>ORDER BY other_platforms,free_cpu_millis DESC,h.id,b.id\<close>; \<^verbatim>\<open>NULL\<close>
  sorts last in a descending order.
\<close>

definition candidate_order ::
  "fleet_db \<Rightarrow> host_row \<Rightarrow> backend_row \<Rightarrow> profile_row \<Rightarrow> nat \<times> (nat \<times> int) \<times> string \<times> string"
  where
  "candidate_order db h b p =
     (other_platforms db h p,
      (case free_cpu_millis db h b of None \<Rightarrow> (1, 0) | Some v \<Rightarrow> (0, - v)), fh_id h, hb_id b)"

definition candidate_of :: "host_row \<Rightarrow> backend_row \<Rightarrow> profile_row \<Rightarrow> candidate" where
  "candidate_of h b p =
     \<lparr>cd_host_id = fh_id h, cd_backend_id = hb_id b, cd_domain_id = hb_domain_id b,
      cd_host_epoch = fh_epoch h, cd_authority_session_id = the (fh_agent_session_id h),
      cd_boot_id = the (fh_boot_id h),
      cd_control_plane_incarnation = the (fh_authority_incarnation h), cd_session_id = None,
      cd_profile_revision = pr_revision p, cd_cpu_millis = pr_cpu_millis p,
      cd_memory_mib = pr_memory_mib p, cd_disk_bytes = pr_disk_bytes p,
      cd_runtime_kind = pr_runtime_kind p, cd_execution_os = pr_execution_os p,
      cd_architecture = pr_architecture p, cd_mode = pr_mode p,
      cd_requires_interactive = pr_requires_interactive p,
      cd_requires_docker_socket = pr_requires_docker_socket p,
      cd_labels_json = pr_labels_json p, cd_config_json = pr_config_json p,
      cd_image = pr_image p, cd_capabilities_json = hb_capabilities_json b,
      cd_probe_received_at = hb_last_probed_at b, cd_probe_epoch = hb_probe_epoch b,
      cd_probe_session_id = hb_probe_session_id b, cd_probe_boot_id = hb_probe_boot_id b,
      cd_probe_incarnation = hb_probe_incarnation b\<rparr>"

definition candidate_row_eligible ::
  "fleet_db \<Rightarrow> intent_row \<Rightarrow> operation_row \<Rightarrow> profile_row \<Rightarrow> backend_row \<Rightarrow> host_row \<Rightarrow>
   target_grant_row \<Rightarrow> i64 \<Rightarrow> bool" where
  "candidate_row_eligible db i o' p b h g now \<longleftrightarrow>
     op_id o' = wi_id i \<and> pr_id p = wi_profile_id i \<and> pr_pool_id p = wi_pool_id i \<and>
     platform_matches b p \<and> fh_id h = hb_host_id b \<and>
     (case control_plane db of
        None \<Rightarrow> False
      | Some cp \<Rightarrow> cp_readiness cp = ''active'' \<and>
          fh_authority_incarnation h = Some (cp_incarnation cp)) \<and>
     tg_host_id g = fh_id h \<and> tg_target_id g = wi_target_id i \<and>
     wi_status i = ''queued'' \<and> op_status o' = ''queued'' \<and>
     \<not> (\<exists>e \<in> set (placements db). wp_intent_id e = wi_id i) \<and>
     pr_enabled p \<and> pr_revision p = wi_expected_profile_revision i \<and>
     fix_sandbox_eligible db i o' p \<and>
     (\<exists>l \<in> set (profile_targets db). pt_profile_id l = wi_profile_id i \<and>
        pt_target_id l = wi_target_id i \<and> pt_enabled l \<and> pt_revoked_at l = None) \<and>
     hb_enabled b \<and> hb_readiness b = ''ready'' \<and> grant_eligible g p \<and> host_eligible h now \<and>
     no_suspended_installation db i \<and> user_eligible db i o' h"

definition candidate_rows :: "fleet_db \<Rightarrow> string \<Rightarrow> i64 \<Rightarrow> candidate list" where
  "candidate_rows db iid now =
     map (\<lambda>(h, b, p). candidate_of h b p)
       (sort_key (\<lambda>(h, b, p). candidate_order db h b p)
         [(h, b, p). i \<leftarrow> intents db, wi_id i = iid, o' \<leftarrow> operations db, p \<leftarrow> profiles db,
           b \<leftarrow> backends db, h \<leftarrow> hosts db, g \<leftarrow> target_grants db,
           candidate_row_eligible db i o' p b h g now])"

section \<open>Sessions, selectors and pools\<close>

text \<open>A placement is over when its absence is proven and nothing of it is charged.\<close>

definition placement_over :: "fleet_db \<Rightarrow> placement_row \<Rightarrow> bool" where
  "placement_over db p \<longleftrightarrow>
     absence_proven p \<and>
     \<not> (\<exists>a \<in> set (allocations db). ca_placement_id a = wp_id p \<and> charged a)"

definition available_session :: "fleet_db \<Rightarrow> intent_row \<Rightarrow> string \<Rightarrow> i64 \<Rightarrow> string option" where
  "available_session db intent host now =
     (case sort [hs_id s. s \<leftarrow> host_sessions db, st \<leftarrow> session_targets db,
        st_session_id st = hs_id s \<and> st_target_id st = wi_target_id intent \<and>
        hs_host_id s = host \<and> hs_helper_state s = ''ready'' \<and> hs_authorized s \<and>
        st_revoked_at st = None \<and> gt_opt (hs_last_seen_at s) (saturating_sub now 45000) \<and>
        le_opt (hs_last_seen_at s) now \<and>
        int (rows_where (\<lambda>p. wp_session_id p = Some (hs_id s) \<and> \<not> placement_over db p)
               (placements db)) < hs_max_jobs s] of
        [] \<Rightarrow> None
      | s # _ \<Rightarrow> Some s)"

definition host_selector_matches ::
  "externals \<Rightarrow> fleet_db \<Rightarrow> intent_row \<Rightarrow> string \<Rightarrow> fleet_error + bool" where
  "host_selector_matches x db intent host =
     (let mine = filter (\<lambda>s. ph_profile_id s = wi_profile_id intent) (host_selectors db);
          host_sel = filter (\<lambda>s. ph_kind s = ''host'') mine;
          tag_sel = filter (\<lambda>s. ph_kind s = ''tag'') mine
      in if host_sel = [] \<and> tag_sel = [] then
           rbind (ok_or (find_profile db (wi_profile_id intent) (wi_pool_id intent))
                    (Fleet_Database ''RowNotFound'')) (\<lambda>p.
           Inr (pr_all_authorized_hosts p))
         else if host_sel \<noteq> [] \<and> \<not> (\<exists>s \<in> set host_sel. ph_host_id s = Some host) then Inr False
         else case find (\<lambda>h. fh_id h = host) (hosts db) of
           None \<Rightarrow> Inr False
         | Some h \<Rightarrow>
             rbind (ok_or (x_host_tags x (fh_tags_json h))
                      (Fleet_Invariant ''host tags are not valid JSON'')) (\<lambda>tags.
             rbind (ensure (\<forall>s \<in> set tag_sel. ph_tag_key s \<noteq> None \<and> ph_tag_value s \<noteq> None)
                      Fleet_Panic) (\<lambda>_.
             Inr (length (filter (\<lambda>s. tags (the (ph_tag_key s)) = ph_tag_value s) tag_sel) =
                  length tag_sel))))"

text \<open>
  The runners a pool counts against its limit: the ones from before the fleet, and the placements
  of its CI runners that are not over.
\<close>

definition legacy_runners :: "fleet_db \<Rightarrow> string \<Rightarrow> int" where
  "legacy_runners db pool =
     int (rows_where (\<lambda>r. rn_pool_id r = pool \<and> rn_deleted_at r = None \<and>
            \<not> (\<exists>p \<in> set (placements db). wp_runner_id p = Some (rn_id r)) \<and>
            \<not> (\<exists>i \<in> set (intents db). wi_workload_id i = rn_id r)) (runners db))"

definition managed_runners :: "fleet_db \<Rightarrow> string \<Rightarrow> int" where
  "managed_runners db pool =
     int (length [p. p \<leftarrow> placements db, i \<leftarrow> intents db,
            wi_id i = wp_intent_id p \<and> wi_pool_id i = pool \<and> wi_kind i = ''ci_runner'' \<and>
            \<not> placement_over db p])"

definition pool_has_capacity :: "fleet_db \<Rightarrow> intent_row \<Rightarrow> fleet_error + bool" where
  "pool_has_capacity db intent =
     (if wi_kind intent \<noteq> workload_kind_str CiRunner then Inr True
      else
        rbind (ok_or (find (\<lambda>p. rp_id p = wi_pool_id intent) (pools db)) Fleet_NotFound) (\<lambda>pool.
        rbind (ok_or (checked_add_i64 (legacy_runners db (wi_pool_id intent))
                        (managed_runners db (wi_pool_id intent)))
                 (Fleet_Invariant ''pool count overflow'')) (\<lambda>total.
        Inr (total < rp_max_count pool))))"

text \<open>The loop of \<^verbatim>\<open>candidates\<close> over the rows of the query.\<close>

fun candidates_loop ::
  "externals \<Rightarrow> fleet_db \<Rightarrow> intent_row \<Rightarrow> i64 \<Rightarrow> candidate list \<Rightarrow> candidate list \<Rightarrow>
   fleet_error + candidate list" where
  "candidates_loop x db intent now [] acc = Inr acc"
| "candidates_loop x db intent now (c # cs) acc =
     (case (if cd_requires_interactive c
            then (case available_session db intent (cd_host_id c) now of
                    None \<Rightarrow> None
                  | Some s \<Rightarrow> Some (c\<lparr>cd_session_id := Some s\<rparr>))
            else Some c) of
        None \<Rightarrow> candidates_loop x db intent now cs acc
      | Some c' \<Rightarrow>
          rbind (host_selector_matches x db intent (cd_host_id c')) (\<lambda>ok.
          if \<not> ok then candidates_loop x db intent now cs acc
          else candidates_loop x db intent now cs (acc @ [c'])))"

definition candidates ::
  "externals \<Rightarrow> fleet_db \<Rightarrow> intent_row \<Rightarrow> i64 \<Rightarrow> fleet_error + candidate list" where
  "candidates x db intent now =
     candidates_loop x db intent now (candidate_rows db (wi_id intent) now) []"

section \<open>Lemmas\<close>

text \<open>What is known of a machine on the candidate list.\<close>

inductive candidate_backed :: "fleet_db \<Rightarrow> string \<Rightarrow> i64 \<Rightarrow> candidate \<Rightarrow> bool"
  for db iid now where
  backed: "\<lbrakk>i \<in> set (intents db); wi_id i = iid; o' \<in> set (operations db); p \<in> set (profiles db);
     b \<in> set (backends db); h \<in> set (hosts db); g \<in> set (target_grants db);
     candidate_row_eligible db i o' p b h g now\<rbrakk> \<Longrightarrow>
     candidate_backed db iid now (candidate_of h b p\<lparr>cd_session_id := s\<rparr>)"

inductive_cases candidate_backedE: "candidate_backed db iid now c"

lemma candidate_of_session: "candidate_of h b p\<lparr>cd_session_id := None\<rparr> = candidate_of h b p"
  by (simp add: candidate_of_def)

lemma candidate_rows_backed:
  assumes "c \<in> set (candidate_rows db iid now)"
  shows "candidate_backed db iid now c"
  using assms unfolding candidate_rows_def
  by (auto intro!: backed [where s = None, unfolded candidate_of_session])

lemma candidate_backed_session:
  "candidate_backed db iid now c \<Longrightarrow> candidate_backed db iid now (c\<lparr>cd_session_id := s\<rparr>)"
  by (erule candidate_backed.cases) (auto intro: backed)

lemma candidates_loop_backed:
  assumes "candidates_loop x db intent now cs acc = Inr out"
    and "\<forall>c \<in> set cs. candidate_backed db iid now c"
    and "\<forall>c \<in> set acc. candidate_backed db iid now c"
  shows "\<forall>c \<in> set out. candidate_backed db iid now c"
  using assms
proof (induction cs arbitrary: acc)
  case (Cons c cs)
  let ?pick = "if cd_requires_interactive c
    then (case available_session db intent (cd_host_id c) now of
            None \<Rightarrow> None | Some s \<Rightarrow> Some (c\<lparr>cd_session_id := Some s\<rparr>)) else Some c"
  show ?case
  proof (cases ?pick)
    case None
    with Cons show ?thesis by simp
  next
    case (Some c')
    then have "candidate_backed db iid now c'"
      using Cons.prems(2) by (auto simp: candidate_backed_session split: if_splits option.splits)
    with Cons.prems(3) have acc: "\<forall>c \<in> set (acc @ [c']). candidate_backed db iid now c"
      by simp
    from Cons.prems(2) have cs: "\<forall>c \<in> set cs. candidate_backed db iid now c" by simp
    from Some Cons.prems(1) obtain ok where loop:
      "(if \<not> ok then candidates_loop x db intent now cs acc
        else candidates_loop x db intent now cs (acc @ [c'])) = Inr out"
      by (auto simp: rbind_eq_Inr)
    show ?thesis
    proof (cases ok)
      case True
      with loop have "candidates_loop x db intent now cs (acc @ [c']) = Inr out" by simp
      from Cons.IH [OF this cs acc] show ?thesis .
    next
      case False
      with loop have "candidates_loop x db intent now cs acc = Inr out" by simp
      from Cons.IH [OF this cs Cons.prems(3)] show ?thesis .
    qed
  qed
qed simp

lemma candidates_backed:
  assumes "candidates x db intent now = Inr cs" and "c \<in> set cs"
  shows "candidate_backed db (wi_id intent) now c"
  using candidates_loop_backed [OF assms(1) [unfolded candidates_def]] candidate_rows_backed
    assms(2) by auto

end
