(* ===== verification/Admission.thy ===== *)
theory Admission
  imports Eligibility
begin

text \<open>
  Transactional placement admission (\<^verbatim>\<open>crates/gridops-core/src/fleet/admission.rs\<close>):
  the rows an admission writes, the loop over candidates and the scan of the queue. The clock
  reading \<open>now\<close> is taken once per transaction and \<open>pnow\<close> again for the age of
  a probe; fresh UUIDs are the argument \<open>fresh\<close>, numbered in the order they are drawn:
  the placement, the command, then one per allocation.
\<close>

section \<open>The prepare command\<close>

definition effective_configuration ::
  "externals \<Rightarrow> candidate \<Rightarrow> fleet_error + execution_configuration" where
  "effective_configuration x c =
     rbind (ok_or (x_config_network x (cd_config_json c))
              (Fleet_Invariant ''invalid profile configuration'')) (\<lambda>network.
     rbind (if cd_requires_interactive c then
              rbind (ok_or (cd_session_id c)
                       (Fleet_Invariant ''interactive session disappeared'')) (\<lambda>s.
              rbind (parse_uuid_or x SessionId s ''invalid interactive session ID'') (\<lambda>sid.
              Inr (Some sid)))
            else Inr None) (\<lambda>session.
     Inr \<lparr>ec_network = network, ec_session_id = session,
          ec_requires_interactive = cd_requires_interactive c,
          ec_requires_docker_socket = cd_requires_docker_socket c\<rparr>))"

fun traverse :: "('a \<Rightarrow> 'e + 'b) \<Rightarrow> 'a list \<Rightarrow> 'e + 'b list" where
  "traverse f [] = Inr []"
| "traverse f (a # as) = rbind (f a) (\<lambda>b. rbind (traverse f as) (\<lambda>bs. Inr (b # bs)))"

definition parse_labels :: "externals \<Rightarrow> candidate \<Rightarrow> fleet_error + upstream_text list" where
  "parse_labels x c =
     rbind (ok_or (x_labels x (cd_labels_json c)) (Fleet_Invariant ''invalid profile labels''))
       (\<lambda>ls. traverse (\<lambda>l. parse_text l ''invalid profile label'') ls)"

definition parse_mode :: "string \<Rightarrow> fleet_error + runner_mode" where
  "parse_mode m =
     (if m = ''ephemeral'' then Inr Ephemeral else if m = ''persistent'' then Inr Persistent
      else Inl (Fleet_Invariant ''invalid profile mode''))"

definition parse_workload :: "string \<Rightarrow> fleet_error + prepared_workload" where
  "parse_workload k =
     (if k = ''ci_runner'' then Inr Prepared_CiRunner
      else if k = ''fix_sandbox'' then Inr Prepared_FixSandbox
      else Inl (Fleet_Invariant ''unknown workload kind''))"

definition build_prepare ::
  "externals \<Rightarrow> intent_row \<Rightarrow> candidate \<Rightarrow> ci_target \<Rightarrow> profile_id \<Rightarrow> revision \<Rightarrow> string list \<Rightarrow>
   fleet_error + prepare_environment" where
  "build_prepare x intent c target profile rvn allocation_ids =
     rbind (parse_runtime_kind (cd_runtime_kind c)) (\<lambda>runtime.
     rbind (parse_execution_os (cd_execution_os c)) (\<lambda>os.
     rbind (parse_architecture (cd_architecture c)) (\<lambda>arch.
     rbind (parse_mode (cd_mode c)) (\<lambda>mode.
     rbind (map_err (\<lambda>_. Fleet_Invariant ''invalid profile image'')
              (image_reference_try_from (cd_image c))) (\<lambda>img.
     rbind (parse_labels x c) (\<lambda>labels.
     rbind (effective_configuration x c) (\<lambda>configuration.
     rbind (candidate_resources c) (\<lambda>resources.
     rbind (traverse (fleet_parse_id x AllocationId) allocation_ids) (\<lambda>ids.
     rbind (parse_workload (wi_kind intent)) (\<lambda>workload.
     Inr \<lparr>pe_execution_profile_id = profile, pe_profile_revision = rvn, pe_workload = workload,
          pe_target = target, pe_runtime_kind = runtime, pe_execution_os = os,
          pe_architecture = arch, pe_mode = mode, pe_image = img, pe_labels = labels,
          pe_configuration = configuration, pe_resource_request = resources,
          pe_allocation_ids = ids\<rparr>))))))))))"

definition build_prepare_envelope ::
  "externals \<Rightarrow> fleet_db \<Rightarrow> intent_row \<Rightarrow> candidate \<Rightarrow> placement_id \<Rightarrow> uuid \<Rightarrow> i64 \<Rightarrow>
   string list \<Rightarrow> i64 \<Rightarrow> i64 \<Rightarrow> fleet_error + agent_command_envelope" where
  "build_prepare_envelope x db intent c placement command gen allocation_ids issued deadline =
     rbind (target_from_db x db (wi_target_id intent)) (\<lambda>target.
     rbind (fleet_parse_id x ProfileId (wi_profile_id intent)) (\<lambda>profile.
     rbind (fleet_parse_id x HostId (cd_host_id c)) (\<lambda>host.
     rbind (fleet_parse_id x BackendId (cd_backend_id c)) (\<lambda>backend.
     rbind (parse_counter host_epoch_new (cd_host_epoch c) ''invalid host epoch'') (\<lambda>epoch.
     rbind (parse_counter generation_new gen ''invalid generation'') (\<lambda>g.
     rbind (parse_counter revision_new (cd_profile_revision c) ''invalid profile revision'')
       (\<lambda>rvn.
     rbind (map_err (\<lambda>_. Fleet_Invariant ''generated nil command ID'')
              (fleet_uuid_try_new CommandId command)) (\<lambda>cid.
     rbind (fleet_parse_id x OperationId (wi_id intent)) (\<lambda>oid.
     rbind (parse_uuid_or x AuthoritySessionId (cd_authority_session_id c)
              ''invalid authority session ID'') (\<lambda>session.
     rbind (parse_uuid_or x ControlPlaneIncarnation (cd_control_plane_incarnation c)
              ''invalid control-plane incarnation'') (\<lambda>inc.
     rbind (build_prepare x intent c target profile rvn allocation_ids) (\<lambda>prepare.
     rbind (map_err (\<lambda>_. Fleet_Invariant ''invalid protocol version'') (protocol_version_new 1))
       (\<lambda>version.
     rbind (map_err (\<lambda>_. Fleet_Invariant ''invalid command idempotency key'')
              (idempotency_key_try_from
                (''prepare:'' @ x_show_uuid x (placement_uuid placement)))) (\<lambda>key.
     rbind (parse_timestamp x (issued - COMMAND_CLOCK_SKEW_MILLIS)
              ''invalid command issue timestamp'') (\<lambda>issued_at.
     rbind (parse_timestamp x deadline ''invalid command deadline'') (\<lambda>deadline_at.
     Inr \<lparr>env_protocol_version = version, env_command_id = cid, env_operation_id = oid,
          env_idempotency_key = key, env_host_id = host, env_host_epoch = epoch,
          env_control_plane_incarnation = inc, env_authority_session_id = session,
          env_scope = Scope_Placement placement backend g, env_expected_revision = rvn,
          env_issued_at = issued_at, env_deadline_at = deadline_at, env_request_hash = [],
          env_operation = PrepareEnvironment prepare\<rparr>))))))))))))))))"

section \<open>The rows of an admission\<close>

definition admission_new_id :: "(uuid \<Rightarrow> 'id) \<Rightarrow> uuid \<Rightarrow> fleet_error + 'id" where
  "admission_new_id C v =
     map_err (\<lambda>_. Fleet_Invariant ''generated nil UUID'') (fleet_uuid_try_new C v)"

definition admission_placement ::
  "externals \<Rightarrow> intent_row \<Rightarrow> candidate \<Rightarrow> placement_id \<Rightarrow> i64 \<Rightarrow> placement_row" where
  "admission_placement x intent c placement now =
     \<lparr>wp_id = x_show_uuid x (placement_uuid placement), wp_intent_id = wi_id intent,
      wp_workload_id = wi_workload_id intent, wp_generation = wi_generation intent,
      wp_host_id = cd_host_id c, wp_backend_id = cd_backend_id c,
      wp_host_epoch = cd_host_epoch c, wp_session_id = cd_session_id c,
      wp_profile_revision = cd_profile_revision c, wp_target_id = wi_target_id intent,
      wp_cpu_millis = cd_cpu_millis c, wp_memory_mib = cd_memory_mib c,
      wp_disk_bytes = cd_disk_bytes c, wp_state = ''preparing'', wp_runner_id = None,
      wp_agent_run_id = wi_agent_run_id intent, wp_created_at = now, wp_updated_at = now,
      wp_local_absence_proven_at = None, wp_delayed_starts_excluded_at = None\<rparr>"

text \<open>
  The unique keys of \<^verbatim>\<open>workload_placements\<close>: its identifier, the intent, and the workload
  with its generation.
\<close>

definition insert_placement :: "placement_row \<Rightarrow> fleet_db \<Rightarrow> fleet_error + fleet_db" where
  "insert_placement row db =
     rbind (insert_unique wp_id row (placements db)) (\<lambda>_.
     rbind (insert_unique wp_intent_id row (placements db)) (\<lambda>_.
     rbind (insert_unique (\<lambda>p. (wp_workload_id p, wp_generation p)) row (placements db)) (\<lambda>t.
     Inr (db\<lparr>placements := t\<rparr>))))"

definition admission_allocation ::
  "externals \<Rightarrow> candidate \<Rightarrow> string \<Rightarrow> allocation_id \<Rightarrow> domain_row \<Rightarrow> i64 \<Rightarrow> allocation_row" where
  "admission_allocation x c pid aid d now =
     \<lparr>ca_id = x_show_uuid x (allocation_uuid aid), ca_placement_id = pid,
      ca_host_id = cd_host_id c, ca_backend_id = cd_backend_id c,
      ca_host_epoch = cd_host_epoch c, ca_domain_id = dr_id d,
      ca_policy_revision = dr_revision d, ca_cpu_millis = cd_cpu_millis c,
      ca_memory_mib = cd_memory_mib c, ca_disk_bytes = cd_disk_bytes c,
      ca_state = ''reserved'', ca_updated_at = now, ca_released_at = None\<rparr>"

fun insert_allocations ::
  "externals \<Rightarrow> candidate \<Rightarrow> string \<Rightarrow> i64 \<Rightarrow> (nat \<Rightarrow> uuid) \<Rightarrow> nat \<Rightarrow> domain_row list \<Rightarrow>
   allocation_row list \<Rightarrow> fleet_error + (allocation_row list \<times> string list)" where
  "insert_allocations x c pid now fresh n [] table = Inr (table, [])"
| "insert_allocations x c pid now fresh n (d # ds) table =
     rbind (admission_new_id AllocationId (fresh n)) (\<lambda>aid.
     rbind (insert_unique ca_id (admission_allocation x c pid aid d now) table) (\<lambda>_.
     rbind (insert_unique (\<lambda>a. (ca_placement_id a, ca_domain_id a))
              (admission_allocation x c pid aid d now) table) (\<lambda>t.
     rbind (insert_allocations x c pid now fresh (Suc n) ds t) (\<lambda>(t', ids).
     Inr (t', x_show_uuid x (allocation_uuid aid) # ids)))))"

definition next_cursor :: "fleet_db \<Rightarrow> nat" where
  "next_cursor db = Suc (fold max (map hc_cursor (commands db)) 0)"

definition insert_command :: "command_row \<Rightarrow> fleet_db \<Rightarrow> fleet_error + fleet_db" where
  "insert_command row db =
     rbind (insert_unique hc_id row (commands db)) (\<lambda>_.
     rbind (insert_unique (\<lambda>c. (hc_host_id c, hc_idempotency_key c)) row (commands db)) (\<lambda>t.
     Inr (db\<lparr>commands := t\<rparr>)))"

definition admission_command ::
  "externals \<Rightarrow> fleet_db \<Rightarrow> intent_row \<Rightarrow> candidate \<Rightarrow> placement_id \<Rightarrow> uuid \<Rightarrow>
   agent_command_envelope \<Rightarrow> string \<Rightarrow> i64 \<Rightarrow> i64 \<Rightarrow> command_row" where
  "admission_command x db intent c placement command envelope payload now deadline =
     \<lparr>hc_cursor = next_cursor db, hc_id = x_show_uuid x command, hc_operation_id = wi_id intent,
      hc_placement_id = Some (x_show_uuid x (placement_uuid placement)),
      hc_host_id = cd_host_id c, hc_backend_id = Some (cd_backend_id c),
      hc_host_epoch = cd_host_epoch c, hc_generation = Some (wi_generation intent),
      hc_kind = ''prepare_environment'', hc_state = ''pending'',
      hc_request_hash = env_request_hash envelope, hc_payload_json = payload,
      hc_expected_revision = cd_profile_revision c, hc_issued_at = now,
      hc_deadline_at = deadline, hc_attempt_count = 0,
      hc_idempotency_key = ''prepare:'' @ x_show_uuid x (placement_uuid placement)\<rparr>"

definition mark_admitted :: "fleet_db \<Rightarrow> string \<Rightarrow> i64 \<Rightarrow> fleet_db" where
  "mark_admitted db iid now =
     db\<lparr>intents := update_where (\<lambda>i. wi_id i = iid)
          (\<lambda>i. i\<lparr>wi_status := ''admitted'', wi_reason_code := None, wi_updated_at := now\<rparr>)
          (intents db),
        operations := update_where (\<lambda>o'. op_id o' = iid \<and> op_status o' = ''queued'')
          (\<lambda>o'. o'\<lparr>op_status := ''running'', op_reason_code := None, op_updated_at := now\<rparr>)
          (operations db)\<rparr>"

definition insert_admission ::
  "externals \<Rightarrow> fleet_db \<Rightarrow> intent_row \<Rightarrow> candidate \<Rightarrow> i64 \<Rightarrow> (nat \<Rightarrow> uuid) \<Rightarrow>
   fleet_error + fleet_db" where
  "insert_admission x db intent c now fresh =
     rbind (admission_new_id PlacementId (fresh 0)) (\<lambda>placement.
     rbind (effective_configuration x c) (\<lambda>configuration.
     rbind (ok_or (x_labels x (cd_labels_json c)) (Fleet_Invariant ''invalid profile labels''))
       (\<lambda>_.
     rbind (insert_placement (admission_placement x intent c placement now) db) (\<lambda>db1.
     rbind (domain_path db1 (cd_domain_id c) (cd_host_id c)) (\<lambda>path.
     rbind (insert_allocations x c (x_show_uuid x (placement_uuid placement)) now fresh 2 path
              (allocations db1)) (\<lambda>(allocs, ids).
     let db2 = db1\<lparr>allocations := allocs\<rparr> in
     rbind (ok_or (checked_add_i64 now 1200000) (Fleet_Invariant ''prepare deadline overflow''))
       (\<lambda>deadline.
     rbind (build_prepare_envelope x db2 intent c placement (fresh 1) (wi_generation intent) ids
              now deadline) (\<lambda>unsealed.
     rbind (map_err (\<lambda>_. Fleet_Invariant ''invalid prepare command envelope'')
              (seal_hash (x_codec x) (x_envelope_to_vec x) unsealed)) (\<lambda>envelope.
     rbind (ok_or (x_envelope_to_string x envelope)
              (Fleet_Invariant ''prepare command serialization failed'')) (\<lambda>payload.
     rbind (insert_command (admission_command x db2 intent c placement (fresh 1) envelope payload
              now deadline) db2) (\<lambda>db3.
     Inr ((mark_admitted db3 (wi_id intent) now)
            \<lparr>events := events db3 @ [(Some (cd_host_id c), ''placement_admitted'')]\<rparr>))))))))))))"

section \<open>Admission\<close>

datatype admission_outcome = Admitted | Adm_Queued | Noop

fun try_candidates ::
  "externals \<Rightarrow> fleet_db \<Rightarrow> intent_row \<Rightarrow> i64 \<Rightarrow> i64 \<Rightarrow> (nat \<Rightarrow> uuid) \<Rightarrow> candidate list \<Rightarrow>
   string option \<Rightarrow> fleet_error + (fleet_db \<times> admission_outcome)" where
  "try_candidates x db intent now pnow fresh [] last_reason =
     (let reason = (case last_reason of Some r \<Rightarrow> r | None \<Rightarrow> diagnose db intent now)
      in Inr (persist_rejection db (wi_id intent) reason now, Adm_Queued))"
| "try_candidates x db intent now pnow fresh (c # cs) last_reason =
     rbind (candidate_compatible x db intent c pnow) (\<lambda>r1.
     case r1 of
       Some reason \<Rightarrow> try_candidates x db intent now pnow fresh cs (Some reason)
     | None \<Rightarrow>
         rbind (pool_has_capacity db intent) (\<lambda>room.
         if \<not> room then
           try_candidates x db intent now pnow fresh cs
             (Some (if wi_kind intent = workload_kind_str FixSandbox
                    then ''physical_resource_exhausted'' else ''pool_capacity_exhausted''))
         else
           rbind (domains_fit db c) (\<lambda>r2.
           case r2 of
             Some reason \<Rightarrow> try_candidates x db intent now pnow fresh cs (Some reason)
           | None \<Rightarrow>
               rbind (insert_admission x db intent c now fresh) (\<lambda>db'.
               Inr (db', Admitted)))))"

definition admit_operation ::
  "externals \<Rightarrow> fleet_db \<Rightarrow> principal \<Rightarrow> string \<Rightarrow> i64 \<Rightarrow> i64 \<Rightarrow> (nat \<Rightarrow> uuid) \<Rightarrow>
   fleet_error + (fleet_db \<times> admission_outcome)" where
  "admit_operation x db controller operation_id now pnow fresh =
     rbind (ensure (is_controller controller) Fleet_Forbidden) (\<lambda>_.
     rbind (ok_or (intent_for_operation db operation_id) Fleet_NotFound) (\<lambda>intent.
     rbind (ok_or (operation_by_id db operation_id) Fleet_NotFound) (\<lambda>oper.
     if wi_status intent \<noteq> ''queued'' \<or> op_status oper \<noteq> ''queued'' then Inr (db, Noop)
     else case recheck_intent_authorization db controller intent of
       Inl e \<Rightarrow>
         if is_durable_candidate_error e
         then Inr (persist_rejection db (wi_id intent) (reason_code e) now, Adm_Queued)
         else Inl e
     | Inr _ \<Rightarrow>
         (case ensure_control_plane_ready db of
            Inl (Fleet_Queued reason) \<Rightarrow>
              Inr (persist_rejection db (wi_id intent) reason now, Adm_Queued)
          | Inl e \<Rightarrow> Inl e
          | Inr _ \<Rightarrow>
              (case pool_refusal db (wi_pool_id intent) of
                 Some reason \<Rightarrow>
                   Inr (persist_rejection db (wi_id intent) reason now, Adm_Queued)
               | None \<Rightarrow>
                   rbind (candidates x db intent now) (\<lambda>cs.
                   try_candidates x db intent now pnow fresh cs None))))))"

section \<open>Scanning the queue\<close>

definition scan_limit_new :: "nat \<Rightarrow> fleet_error + nat" where
  "scan_limit_new v =
     (if v = 0 \<or> v > 100 then Inl (Fleet_InvalidRequest ''scan limit must be between 1 and 100'')
      else Inr v)"

record slice_report =
  sl_scanned :: nat
  sl_admitted :: nat
  sl_queued :: nat

text \<open>
  An intent is prioritised when its repository is flagged for the pool, or has a job that has been
  queued for longer than the pool's window (ten minutes when none is set).
\<close>

definition prioritised :: "fleet_db \<Rightarrow> i64 \<Rightarrow> intent_row \<Rightarrow> bool" where
  "prioritised db now i \<longleftrightarrow>
     (\<exists>t \<in> set (targets db). ct_id t = wi_target_id i \<and>
        (\<exists>(pool, repo) \<in> set (priority_repositories db).
           pool = wi_pool_id i \<and> ct_repository_id t = Some repo)) \<or>
     (\<exists>t \<in> set (targets db). ct_id t = wi_target_id i \<and>
        (\<exists>j \<in> set (workflow_jobs db). ct_repository_id t = Some (wj_repository_id j) \<and>
           wj_run_status j \<in> {''requested'', ''queued'', ''pending'', ''waiting'', ''in_progress''} \<and>
           wj_status j = ''queued'' \<and>
           wj_created_at j \<le> now - 60000 *
             (case find (\<lambda>(pool, m). pool = wi_pool_id i) (pool_priorities db) of
                Some (_, m) \<Rightarrow> m | None \<Rightarrow> 10)))"

definition waiting_intents :: "fleet_db \<Rightarrow> intent_row list" where
  "waiting_intents db =
     filter (\<lambda>i. wi_status i = ''queued'' \<and>
                  \<not> (\<exists>p \<in> set (placements db). wp_intent_id p = wi_id i)) (intents db)"

text \<open>The position of an intent within its pool: \<^verbatim>\<open>ROW_NUMBER() OVER (PARTITION BY ..)\<close>.\<close>

definition turn_key :: "fleet_db \<Rightarrow> i64 \<Rightarrow> intent_row \<Rightarrow> nat \<times> i64 \<times> string" where
  "turn_key db now i = (if prioritised db now i then 0 else 1, wi_created_at i, wi_id i)"

definition turn :: "fleet_db \<Rightarrow> i64 \<Rightarrow> intent_row \<Rightarrow> nat" where
  "turn db now i =
     Suc (rows_where (\<lambda>j. wi_pool_id j = wi_pool_id i \<and> turn_key db now j < turn_key db now i)
            (waiting_intents db))"

definition scan_order :: "fleet_db \<Rightarrow> i64 \<Rightarrow> intent_row list" where
  "scan_order db now =
     sort_key (\<lambda>i. (turn db now i, wi_created_at i, wi_id i)) (waiting_intents db)"

text \<open>
  The rows are read once; each intent is admitted in its own transaction. An error ends the scan
  with what was committed before it.
\<close>

fun slice_loop ::
  "externals \<Rightarrow> fleet_db \<Rightarrow> principal \<Rightarrow> (nat \<Rightarrow> i64) \<Rightarrow> (nat \<Rightarrow> nat \<Rightarrow> uuid) \<Rightarrow> nat \<Rightarrow>
   string list \<Rightarrow> slice_report \<Rightarrow> fleet_db \<times> (fleet_error + slice_report)" where
  "slice_loop x db controller clock fresh n [] report = (db, Inr report)"
| "slice_loop x db controller clock fresh n (i # is) report =
     (case admit_operation x db controller i (clock (2 * n)) (clock (Suc (2 * n))) (fresh n) of
        Inl e \<Rightarrow> (db, Inl e)
      | Inr (db', outcome) \<Rightarrow>
          slice_loop x db' controller clock fresh (Suc n) is
            (case outcome of
               Admitted \<Rightarrow> report\<lparr>sl_admitted := Suc (sl_admitted report)\<rparr>
             | Adm_Queued \<Rightarrow> report\<lparr>sl_queued := Suc (sl_queued report)\<rparr>
             | Noop \<Rightarrow> report))"

definition run_slice ::
  "externals \<Rightarrow> fleet_db \<Rightarrow> principal \<Rightarrow> nat \<Rightarrow> i64 \<Rightarrow> (nat \<Rightarrow> i64) \<Rightarrow> (nat \<Rightarrow> nat \<Rightarrow> uuid) \<Rightarrow>
   fleet_db \<times> (fleet_error + slice_report)" where
  "run_slice x db controller limit now clock fresh =
     (if \<not> is_controller controller then (db, Inl Fleet_Forbidden)
      else
        let ids = map wi_id (take limit (scan_order db now))
        in slice_loop x db controller clock fresh 0 ids
             \<lparr>sl_scanned = length ids, sl_admitted = 0, sl_queued = 0\<rparr>)"

section \<open>What an admission writes\<close>

lemma domain_path_loop_cong:
  "domains db' = domains db \<Longrightarrow>
   domain_path_loop db' host cur seen acc = domain_path_loop db host cur seen acc"
  by (induction db host cur seen acc rule: domain_path_loop.induct)
    (auto split: option.split)

lemma domain_path_cong:
  "domains db' = domains db \<Longrightarrow> domain_path db' leaf host = domain_path db leaf host"
  unfolding domain_path_def by (rule domain_path_loop_cong)

lemma insert_allocations_charges:
  assumes "insert_allocations x c pid now fresh n path table = Inr (t, ids)"
  shows "\<exists>as. t = table @ as \<and> charges_path c path as \<and> map ca_id as = ids \<and>
    (\<forall>a \<in> set as. ca_placement_id a = pid \<and> ca_state a = ''reserved'')"
  using assms
proof (induction path arbitrary: n table t ids)
  case (Cons d ds)
  from Cons.prems obtain aid t' ids'
    where aid: "ids = x_show_uuid x (allocation_uuid aid) # ids'"
      and rest: "insert_allocations x c pid now fresh (Suc n) ds
        (table @ [admission_allocation x c pid aid d now]) = Inr (t, ids')"
    by (auto simp: result_splits)
  from Cons.IH [OF rest] obtain as
    where as: "t = (table @ [admission_allocation x c pid aid d now]) @ as" "charges_path c ds as"
      "map ca_id as = ids'" "\<forall>a \<in> set as. ca_placement_id a = pid \<and> ca_state a = ''reserved''"
    by blast
  let ?a = "admission_allocation x c pid aid d now"
  have "charges_path c (d # ds) (?a # as)"
    using as(2) by (simp add: charges_path_def admission_allocation_def charged_def
        allocation_dim_def candidate_dim_def)
  with as aid show ?case
    by (intro exI [of _ "?a # as"]) (simp add: admission_allocation_def)
qed (simp add: charges_path_def)

text \<open>
  The rows a successful admission adds: one placement being prepared, one reserved allocation per
  domain of the path, and one pending command that carries a sealed envelope; the intent is
  admitted and its operation runs. Nothing else changes.
\<close>

definition admits ::
  "externals \<Rightarrow> fleet_db \<Rightarrow> fleet_db \<Rightarrow> intent_row \<Rightarrow> candidate \<Rightarrow> i64 \<Rightarrow> (nat \<Rightarrow> uuid) \<Rightarrow> bool" where
  "admits x db db' intent c now fresh \<longleftrightarrow>
     (\<exists>path as command envelope unsealed.
        domain_path db (cd_domain_id c) (cd_host_id c) = Inr path \<and>
        charges_path c path as \<and>
        (\<forall>a \<in> set as. ca_placement_id a = x_show_uuid x (fresh 0) \<and> ca_state a = ''reserved'') \<and>
        hc_placement_id command = Some (x_show_uuid x (fresh 0)) \<and>
        hc_kind command = ''prepare_environment'' \<and> hc_state command = ''pending'' \<and>
        hc_attempt_count command = 0 \<and> hc_deadline_at command = now + 1200000 \<and>
        hc_request_hash command = env_request_hash envelope \<and>
        hc_host_id command = cd_host_id c \<and>
        x_envelope_to_string x envelope = Some (hc_payload_json command) \<and>
        seal_hash (x_codec x) (x_envelope_to_vec x) unsealed = Inr envelope \<and>
        wi_id intent \<notin> wp_intent_id ` set (placements db) \<and>
        x_show_uuid x (fresh 0) \<notin> wp_id ` set (placements db) \<and>
        db' = (mark_admitted
                 (db\<lparr>placements := placements db @
                       [admission_placement x intent c (PlacementId (fresh 0)) now],
                     allocations := allocations db @ as,
                     commands := commands db @ [command]\<rparr>) (wi_id intent) now)
              \<lparr>events := events db @ [(Some (cd_host_id c), ''placement_admitted'')]\<rparr>)"

lemma admission_new_id_eq_Inr [result_splits]:
  "admission_new_id C v = Inr i \<longleftrightarrow> v \<noteq> 0 \<and> i = C v"
  by (auto simp: admission_new_id_def fleet_uuid_try_new_def result_splits)

lemma admission_placement_frame [simp]:
  "wp_id (admission_placement x intent c p now) = x_show_uuid x (placement_uuid p)"
  "wp_intent_id (admission_placement x intent c p now) = wi_id intent"
  "wp_host_id (admission_placement x intent c p now) = cd_host_id c"
  "wp_state (admission_placement x intent c p now) = ''preparing''"
  "wp_runner_id (admission_placement x intent c p now) = None"
  "absence_proven (admission_placement x intent c p now) = False"
  by (simp_all add: admission_placement_def absence_proven_def)

lemma insert_admission_admits:
  assumes "insert_admission x db intent c now fresh = Inr db'"
  shows "admits x db db' intent c now fresh"
proof -
  let ?p = "PlacementId (fresh 0)"
  let ?db1 = "db\<lparr>placements := placements db @ [admission_placement x intent c ?p now]\<rparr>"
  from assms obtain path allocs ids deadline unsealed envelope payload db3
    where new: "wi_id intent \<notin> wp_intent_id ` set (placements db)"
        "x_show_uuid x (fresh 0) \<notin> wp_id ` set (placements db)"
      and path: "domain_path ?db1 (cd_domain_id c) (cd_host_id c) = Inr path"
      and allocs: "insert_allocations x c (x_show_uuid x (fresh 0)) now fresh 2 path
        (allocations db) = Inr (allocs, ids)"
      and deadline: "checked_add_i64 now 1200000 = Some deadline"
      and seal: "seal_hash (x_codec x) (x_envelope_to_vec x) unsealed = Inr envelope"
      and payload: "x_envelope_to_string x envelope = Some payload"
      and cmd: "insert_command (admission_command x (?db1\<lparr>allocations := allocs\<rparr>) intent c ?p
        (fresh 1) envelope payload now deadline) (?db1\<lparr>allocations := allocs\<rparr>) = Inr db3"
      and db': "db' = (mark_admitted db3 (wi_id intent) now)
        \<lparr>events := events db3 @ [(Some (cd_host_id c), ''placement_admitted'')]\<rparr>"
    unfolding insert_admission_def insert_placement_def
    by (auto simp: rbind_eq_Inr admission_new_id_eq_Inr insert_unique_eq_Inr ok_or_eq_Inr
        map_err_eq_Inr Let_def admission_placement_frame)
  from insert_allocations_charges [OF allocs] obtain as
    where as: "allocs = allocations db @ as" "charges_path c path as"
      "\<forall>a \<in> set as. ca_placement_id a = x_show_uuid x (fresh 0) \<and> ca_state a = ''reserved''"
    by blast
  have p: "domain_path db (cd_domain_id c) (cd_host_id c) = Inr path"
    using path by (simp add: domain_path_cong [of ?db1 db])
  have d: "deadline = now + 1200000"
    using deadline by (simp add: checked_add_i64_def split: if_splits)
  let ?c = "admission_command x (?db1\<lparr>allocations := allocs\<rparr>) intent c ?p (fresh 1) envelope
    payload now deadline"
  have db3: "db3 = ?db1\<lparr>allocations := allocs, commands := commands db @ [?c]\<rparr>"
    using cmd by (auto simp: insert_command_def rbind_eq_Inr insert_unique_eq_Inr)
  have c: "hc_placement_id ?c = Some (x_show_uuid x (fresh 0))"
    "hc_kind ?c = ''prepare_environment''" "hc_state ?c = ''pending''" "hc_attempt_count ?c = 0"
    "hc_deadline_at ?c = now + 1200000" "hc_request_hash ?c = env_request_hash envelope"
    "hc_host_id ?c = cd_host_id c" "x_envelope_to_string x envelope = Some (hc_payload_json ?c)"
    using d payload by (simp_all add: admission_command_def)
  have "db' = (mark_admitted
      (db\<lparr>placements := placements db @ [admission_placement x intent c ?p now],
          allocations := allocations db @ as, commands := commands db @ [?c]\<rparr>) (wi_id intent) now)
      \<lparr>events := events db @ [(Some (cd_host_id c), ''placement_admitted'')]\<rparr>"
    unfolding db' db3 as(1) by simp
  with p as(2,3) c seal new show ?thesis unfolding admits_def by blast
qed

section \<open>Outcomes of an admission\<close>

text \<open>The candidate a successful admission chose passed every check of the loop.\<close>

definition admitted_with ::
  "externals \<Rightarrow> fleet_db \<Rightarrow> fleet_db \<Rightarrow> intent_row \<Rightarrow> candidate \<Rightarrow> i64 \<Rightarrow> i64 \<Rightarrow> (nat \<Rightarrow> uuid) \<Rightarrow>
   bool" where
  "admitted_with x db db' intent c now pnow fresh \<longleftrightarrow>
     candidate_compatible x db intent c pnow = Inr None \<and>
     pool_has_capacity db intent = Inr True \<and> domains_fit db c = Inr None \<and>
     admits x db db' intent c now fresh"

lemma try_candidates_outcome:
  assumes "try_candidates x db intent now pnow fresh cs reason = Inr (db', out)"
  shows "(\<exists>r. out = Adm_Queued \<and> db' = persist_rejection db (wi_id intent) r now) \<or>
    (out = Admitted \<and> (\<exists>c \<in> set cs. admitted_with x db db' intent c now pnow fresh))"
  using assms
proof (induction cs arbitrary: reason)
  case (Cons c cs)
  from Cons.prems obtain r1 where r1: "candidate_compatible x db intent c pnow = Inr r1"
    and k1: "(case r1 of
       Some reason \<Rightarrow> try_candidates x db intent now pnow fresh cs (Some reason)
     | None \<Rightarrow>
         rbind (pool_has_capacity db intent) (\<lambda>room.
         if \<not> room then
           try_candidates x db intent now pnow fresh cs
             (Some (if wi_kind intent = workload_kind_str FixSandbox
                    then ''physical_resource_exhausted'' else ''pool_capacity_exhausted''))
         else
           rbind (domains_fit db c) (\<lambda>r2.
           case r2 of
             Some reason \<Rightarrow> try_candidates x db intent now pnow fresh cs (Some reason)
           | None \<Rightarrow>
               rbind (insert_admission x db intent c now fresh) (\<lambda>db'.
               Inr (db', Admitted))))) = Inr (db', out)"
    by (simp only: try_candidates.simps rbind_eq_Inr) blast
  show ?case
  proof (cases "\<exists>reason. try_candidates x db intent now pnow fresh cs (Some reason) =
      Inr (db', out)")
    case True
    with Cons.IH show ?thesis by auto
  next
    case False
    with k1 r1 show ?thesis
      by (auto simp: admitted_with_def rbind_eq_Inr insert_admission_admits
          split: option.splits if_splits)
  qed
qed (auto simp: Let_def split: option.splits)

lemma admit_operation_cases:
  assumes "admit_operation x db controller op now pnow fresh = Inr (db', out)"
  obtains (noop) "out = Noop" "db' = db"
  | (queued) intent oper r where "out = Adm_Queued" "intent_for_operation db op = Some intent"
      "wi_status intent = ''queued''" "operation_by_id db op = Some oper"
      "op_status oper = ''queued''" "db' = persist_rejection db (wi_id intent) r now"
  | (admitted) intent oper cs c where "out = Admitted" "is_controller controller"
      "intent_for_operation db op = Some intent" "wi_status intent = ''queued''"
      "operation_by_id db op = Some oper" "op_status oper = ''queued''"
      "recheck_intent_authorization db controller intent = Inr ()"
      "pool_refusal db (wi_pool_id intent) = None"
      "candidates x db intent now = Inr cs" "c \<in> set cs"
      "admitted_with x db db' intent c now pnow fresh"
proof -
  from assms obtain intent oper where c: "is_controller controller"
    and i: "intent_for_operation db op = Some intent" and o: "operation_by_id db op = Some oper"
    and k: "(if wi_status intent \<noteq> ''queued'' \<or> op_status oper \<noteq> ''queued'' then Inr (db, Noop)
     else case recheck_intent_authorization db controller intent of
       Inl e \<Rightarrow>
         if is_durable_candidate_error e
         then Inr (persist_rejection db (wi_id intent) (reason_code e) now, Adm_Queued)
         else Inl e
     | Inr _ \<Rightarrow>
         (case ensure_control_plane_ready db of
            Inl (Fleet_Queued reason) \<Rightarrow>
              Inr (persist_rejection db (wi_id intent) reason now, Adm_Queued)
          | Inl e \<Rightarrow> Inl e
          | Inr _ \<Rightarrow>
              (case pool_refusal db (wi_pool_id intent) of
                 Some reason \<Rightarrow>
                   Inr (persist_rejection db (wi_id intent) reason now, Adm_Queued)
               | None \<Rightarrow>
                   rbind (candidates x db intent now) (\<lambda>cs.
                   try_candidates x db intent now pnow fresh cs None)))) = Inr (db', out)"
    by (auto simp: admit_operation_def rbind_eq_Inr ensure_eq_Inr ok_or_eq_Inr)
  show thesis
  proof (cases "wi_status intent \<noteq> ''queued'' \<or> op_status oper \<noteq> ''queued''")
    case True
    with k show thesis by (intro noop) auto
  next
    case False
    show thesis
    proof (cases "\<exists>r. out = Adm_Queued \<and> db' = persist_rejection db (wi_id intent) r now")
      case True
      with False i o show thesis by (elim exE conjE) (rule queued, auto)
    next
      case nq: False
      with False k obtain cs where r: "recheck_intent_authorization db controller intent = Inr ()"
        and p: "pool_refusal db (wi_pool_id intent) = None"
        and cs: "candidates x db intent now = Inr cs"
        and t: "try_candidates x db intent now pnow fresh cs None = Inr (db', out)"
        by (auto simp: rbind_eq_Inr split: sum.splits fleet_error.splits option.splits if_splits)
      from try_candidates_outcome [OF t] nq obtain c where "out = Admitted" "c \<in> set cs"
        "admitted_with x db db' intent c now pnow fresh" by blast
      with False c i o r p cs show thesis by (intro admitted [of intent oper cs c]) auto
    qed
  qed
qed

lemma mark_admitted_frame [simp]:
  "placements (mark_admitted db i now) = placements db"
  "allocations (mark_admitted db i now) = allocations db"
  "commands (mark_admitted db i now) = commands db"
  "domains (mark_admitted db i now) = domains db"
  "hosts (mark_admitted db i now) = hosts db"
  "pools (mark_admitted db i now) = pools db"
  "runners (mark_admitted db i now) = runners db"
  by (simp_all add: mark_admitted_def)

lemma persist_rejection_frame [simp]:
  "placements (persist_rejection db i r now) = placements db"
  "allocations (persist_rejection db i r now) = allocations db"
  "commands (persist_rejection db i r now) = commands db"
  "domains (persist_rejection db i r now) = domains db"
  "hosts (persist_rejection db i r now) = hosts db"
  "pools (persist_rejection db i r now) = pools db"
  "runners (persist_rejection db i r now) = runners db"
  by (simp_all add: persist_rejection_def Let_def)

section \<open>Invariants of the scan\<close>

text \<open>
  The contract of an invariant of admission: one transaction keeps it. The whole scan then keeps
  it, whether it ends or stops at an error.
\<close>

locale admission_invariant =
  fixes P :: "fleet_db \<Rightarrow> bool"
  assumes keeps: "\<lbrakk>P db; admit_operation x db controller op now pnow fresh = Inr (db', out)\<rbrakk> \<Longrightarrow> P db'"
begin

lemma slice_loop_keeps: "P db \<Longrightarrow> P (fst (slice_loop x db controller clock fresh n is report))"
  by (induction "is" arbitrary: db n report) (auto split: sum.split dest: keeps)

lemma run_slice_keeps: "P db \<Longrightarrow> P (fst (run_slice x db controller limit now clock fresh))"
  by (simp add: run_slice_def Let_def slice_loop_keeps)

end

definition budgets_hold :: "fleet_db \<Rightarrow> bool" where
  "budgets_hold db \<longleftrightarrow> domain_keys db \<and> within_budget db"

lemma within_budget_cong:
  "\<lbrakk>domains db' = domains db; allocations db' = allocations db\<rbrakk> \<Longrightarrow>
   within_budget db' = within_budget db"
  by (simp add: within_budget_def charge_def charged_allocations_def)

lemma within_budget_persist_rejection [simp]:
  "within_budget (persist_rejection db i r now) = within_budget db"
  by (rule within_budget_cong) simp_all

lemma admitted_with_keeps_budgets:
  assumes "budgets_hold db" and "admitted_with x db db' intent c now pnow fresh"
  shows "budgets_hold db'"
proof -
  from assms(2) have fit: "domains_fit db c = Inr None"
    and adm: "admits x db db' intent c now fresh"
    by (simp_all add: admitted_with_def)
  from adm obtain path as
    where "domain_path db (cd_domain_id c) (cd_host_id c) = Inr path" "charges_path c path as"
      "domains db' = domains db" "allocations db' = allocations db @ as"
    unfolding admits_def by (elim exE conjE) simp
  with fit assms(1) show ?thesis
    unfolding budgets_hold_def domain_keys_def
    by (auto intro: charging_keeps_budget simp: domain_keys_def)
qed

interpretation admission_budgets: admission_invariant budgets_hold
proof unfold_locales
  fix x db controller op now pnow fresh db' out
  assume db: "budgets_hold db"
    and adm: "admit_operation x db controller op now pnow fresh = Inr (db', out)"
  from adm show "budgets_hold db'"
  proof (cases rule: admit_operation_cases)
    case (queued intent oper r)
    with db show ?thesis
      by (simp add: budgets_hold_def domain_keys_def)
  qed (use db in \<open>simp_all add: admitted_with_keeps_budgets\<close>)
qed

text \<open>
  The load of a pool after a transaction. Keys are the primary keys of the two tables a load
  joins.
\<close>

definition pool_load :: "fleet_db \<Rightarrow> string \<Rightarrow> int" where
  "pool_load db pool = legacy_runners db pool + managed_runners db pool"

definition fleet_keys :: "fleet_db \<Rightarrow> bool" where
  "fleet_keys db \<longleftrightarrow> distinct (map wi_id (intents db)) \<and> distinct (map wp_id (placements db)) \<and>
     distinct (map rp_id (pools db))"

definition pools_bounded :: "(string \<Rightarrow> int) \<Rightarrow> fleet_db \<Rightarrow> bool" where
  "pools_bounded before db \<longleftrightarrow> fleet_keys db \<and>
     (\<forall>p \<in> set (pools db). pool_load db (rp_id p) \<le> max (before (rp_id p)) (rp_max_count p))"

lemma length_join:
  "length [p. p \<leftarrow> ps, i \<leftarrow> is, C p i] = (\<Sum>p\<leftarrow>ps. length (filter (C p) is))"
proof (induction ps)
  case (Cons p ps)
  have "length (concat (map (\<lambda>i. if C p i then [p] else []) is)) = length (filter (C p) is)"
    by (induction "is") auto
  with Cons show ?case by simp
qed simp

lemma legacy_runners_image:
  "legacy_runners db pool =
     int (rows_where (\<lambda>r. rn_pool_id r = pool \<and> rn_deleted_at r = None \<and>
       Some (rn_id r) \<notin> wp_runner_id ` set (placements db) \<and>
       rn_id r \<notin> wi_workload_id ` set (intents db)) (runners db))"
  unfolding legacy_runners_def
  by (rule arg_cong [where f = "\<lambda>q. int (rows_where q (runners db))"]) (auto simp: fun_eq_iff image_def)

lemma managed_runners_sum:
  "managed_runners db pool =
     int (\<Sum>p\<leftarrow>placements db. length (filter (\<lambda>i. wi_id i = wp_intent_id p \<and>
       wi_pool_id i = pool \<and> wi_kind i = ''ci_runner'' \<and> \<not> placement_over db p) (intents db)))"
  unfolding managed_runners_def length_join ..

lemma length_filter_update_where:
  "(\<And>r. p r \<Longrightarrow> q (f r) = q r) \<Longrightarrow>
   length (filter q (update_where p f rs)) = length (filter q rs)"
  by (induction rs) (auto simp: update_where_Cons)

lemma length_filter_key:
  "\<lbrakk>distinct (map k rs); r \<in> set rs\<rbrakk> \<Longrightarrow>
   length (filter (\<lambda>s. k s = k r \<and> q s) rs) = (if q r then 1 else 0)"
proof (induction rs)
  case (Cons s rs)
  have "filter (\<lambda>s. k s = k r \<and> q s) rs = []" if "r = s"
    using Cons.prems(1) that by (auto simp: filter_empty_conv image_iff)
  with Cons show ?case by auto
qed simp

text \<open>The rows an admission leaves as they are, and the ones it adds.\<close>

lemma admits_rows:
  assumes "admits x db db' intent c now fresh"
  obtains as command where
    "placements db' = placements db @ [admission_placement x intent c (PlacementId (fresh 0)) now]"
    "allocations db' = allocations db @ as" "commands db' = commands db @ [command]"
    "\<forall>a \<in> set as. ca_placement_id a = x_show_uuid x (fresh 0) \<and> ca_state a = ''reserved''"
    "x_show_uuid x (fresh 0) \<notin> wp_id ` set (placements db)"
    "wi_id intent \<notin> wp_intent_id ` set (placements db)"
    "intents db' = update_where (\<lambda>i. wi_id i = wi_id intent)
       (\<lambda>i. i\<lparr>wi_status := ''admitted'', wi_reason_code := None, wi_updated_at := now\<rparr>) (intents db)"
    "operations db' = update_where (\<lambda>o'. op_id o' = wi_id intent \<and> op_status o' = ''queued'')
       (\<lambda>o'. o'\<lparr>op_status := ''running'', op_reason_code := None, op_updated_at := now\<rparr>)
       (operations db)"
    "pools db' = pools db" "runners db' = runners db" "hosts db' = hosts db"
    "domains db' = domains db"
  using assms unfolding admits_def by (elim exE conjE) (auto simp: mark_admitted_def)

lemma admits_pool_load:
  assumes "admits x db db' intent c now fresh" and "fleet_keys db" and "intent \<in> set (intents db)"
  shows "pool_load db' pool = pool_load db pool +
    (if wi_pool_id intent = pool \<and> wi_kind intent = ''ci_runner'' then 1 else 0)"
proof -
  from assms(1) obtain as command where r:
    "placements db' = placements db @ [admission_placement x intent c (PlacementId (fresh 0)) now]"
    "allocations db' = allocations db @ as"
    "\<forall>a \<in> set as. ca_placement_id a = x_show_uuid x (fresh 0) \<and> ca_state a = ''reserved''"
    "x_show_uuid x (fresh 0) \<notin> wp_id ` set (placements db)"
    "intents db' = update_where (\<lambda>i. wi_id i = wi_id intent)
       (\<lambda>i. i\<lparr>wi_status := ''admitted'', wi_reason_code := None, wi_updated_at := now\<rparr>) (intents db)"
    "runners db' = runners db"
    by (rule admits_rows)
  have over: "placement_over db' p = placement_over db p" if "p \<in> set (placements db)" for p
    using that r(3,4) by (auto simp: placement_over_def r(2) image_iff)
  have "wi_workload_id ` set (intents db') = wi_workload_id ` set (intents db)"
    unfolding r(5) by (rule image_set_update_where) simp
  then have "legacy_runners db' pool = legacy_runners db pool"
    by (simp add: legacy_runners_image r(1,6))
  moreover have "managed_runners db' pool = managed_runners db pool +
      (if wi_pool_id intent = pool \<and> wi_kind intent = ''ci_runner'' then 1 else 0)"
    using assms(2,3) length_filter_key [of wi_id "intents db" intent
      "\<lambda>i. wi_pool_id i = pool \<and> wi_kind i = ''ci_runner''"]
    by (simp add: managed_runners_sum r(1) r(5) length_filter_update_where over
        fleet_keys_def placement_over_def [of db' "admission_placement x intent c p now" for p]
        cong: map_cong)
  ultimately show ?thesis by (simp add: pool_load_def)
qed

lemma persist_rejection_intents:
  "map f (intents (persist_rejection db i r now)) = map f (intents db)"
  if "\<And>j r t. f (j\<lparr>wi_reason_code := r, wi_updated_at := t\<rparr>) = f j"
  using that by (simp add: persist_rejection_def Let_def map_update_where)

lemma placement_over_cong:
  "allocations db' = allocations db \<Longrightarrow> placement_over db' p = placement_over db p"
  by (simp add: placement_over_def)

lemma persist_rejection_pool_load [simp]:
  "pool_load (persist_rejection db i r now) pool = pool_load db pool"
proof -
  let ?db = "persist_rejection db i r now"
  have "wi_workload_id ` set (intents ?db) = wi_workload_id ` set (intents db)"
    by (simp add: persist_rejection_def Let_def image_set_update_where)
  then have "legacy_runners ?db pool = legacy_runners db pool"
    by (simp add: legacy_runners_image)
  moreover have "managed_runners ?db pool = managed_runners db pool"
    unfolding managed_runners_sum
    by (simp only: persist_rejection_frame placement_over_cong [of ?db db, OF persist_rejection_frame(2)])
      (simp add: persist_rejection_def Let_def length_filter_update_where)
  ultimately show ?thesis by (simp add: pool_load_def)
qed

lemma admits_fleet_keys:
  assumes "admits x db db' intent c now fresh" and "fleet_keys db"
  shows "fleet_keys db'"
  using assms(1) by (rule admits_rows) (use assms(2) in \<open>simp add: fleet_keys_def map_update_where\<close>)

lemma has_capacity_load:
  assumes "pool_has_capacity db intent = Inr True" and "wi_kind intent = ''ci_runner''"
    and "p \<in> set (pools db)" and "rp_id p = wi_pool_id intent" and "fleet_keys db"
  shows "pool_load db (wi_pool_id intent) < rp_max_count p"
proof -
  from assms(1,2) obtain q where "find (\<lambda>p. rp_id p = wi_pool_id intent) (pools db) = Some q"
    and "pool_load db (wi_pool_id intent) < rp_max_count q"
    by (auto simp: pool_has_capacity_def rbind_eq_Inr ok_or_eq_Inr checked_add_i64_def
        pool_load_def split: if_splits)
  moreover from find_SomeD [OF this(1)] have "q = p"
    using assms(3,4,5) unfolding fleet_keys_def distinct_map by (metis inj_onD)
  ultimately show ?thesis by simp
qed

lemma admitted_with_pools_bounded:
  assumes "pools_bounded before db" and "intent \<in> set (intents db)"
    and "admitted_with x db db' intent c now pnow fresh"
  shows "pools_bounded before db'"
proof -
  from assms(3) have room: "pool_has_capacity db intent = Inr True"
    and adm: "admits x db db' intent c now fresh" by (simp_all add: admitted_with_def)
  from assms(1) have keys: "fleet_keys db" by (simp add: pools_bounded_def)
  have pools: "pools db' = pools db" using adm by (rule admits_rows)
  have "pool_load db' (rp_id p) \<le> max (before (rp_id p)) (rp_max_count p)"
    if p: "p \<in> set (pools db)" for p
  proof (cases "wi_pool_id intent = rp_id p \<and> wi_kind intent = ''ci_runner''")
    case True
    then show ?thesis
      using has_capacity_load [OF room _ p _ keys]
      by (simp add: admits_pool_load [OF adm keys assms(2)])
  next
    case False
    then show ?thesis
      using assms(1) p by (auto simp: admits_pool_load [OF adm keys assms(2)] pools_bounded_def)
  qed
  with admits_fleet_keys [OF adm keys] pools show ?thesis by (simp add: pools_bounded_def)
qed

lemma intent_for_operation_mem: "intent_for_operation db op = Some i \<Longrightarrow> i \<in> set (intents db)"
  by (auto simp: intent_for_operation_def dest: find_SomeD)

interpretation admission_pools: admission_invariant "pools_bounded before" for before
proof unfold_locales
  fix x db controller op now pnow fresh db' out
  assume db: "pools_bounded before db"
    and adm: "admit_operation x db controller op now pnow fresh = Inr (db', out)"
  from adm show "pools_bounded before db'"
  proof (cases rule: admit_operation_cases)
    case (queued intent oper r)
    with db show ?thesis
      by (simp add: pools_bounded_def fleet_keys_def persist_rejection_intents)
  next
    case (admitted intent oper cs c)
    show ?thesis
      by (rule admitted_with_pools_bounded
          [OF db intent_for_operation_mem [OF admitted(3)] admitted(11)])
  qed (use db in simp)
qed

end
