(* ===== verification/Placement.thy ===== *)
theory Placement
  imports Admission Commands
begin

text \<open>
  What the reconciler does with placements after admission
  (\<^verbatim>\<open>crates/gridops-core/src/fleet/placement.rs\<close>): reading them with the results of their
  commands, issuing commands sealed to the host's current session, storing registration material,
  and moving or abandoning a placement. Each function reads the clock once; \<open>fresh\<close> is the
  UUID it draws.
\<close>

section \<open>Reading\<close>

record placement_view =
  pl_id :: placement_id
  pl_workload_id :: string
  pl_host_id :: host_id
  pl_state :: string
  pl_runner_id :: "string option"
  pl_pool_id :: string
  pl_profile_id :: string
  pl_target_id :: string
  pl_runtime_kind :: string
  pl_mode :: string
  pl_labels :: "string list"
  pl_updated_at :: i64

definition placement_view_of ::
  "externals \<Rightarrow> placement_row \<times> intent_row \<times> profile_row \<Rightarrow> fleet_error + placement_view" where
  "placement_view_of x row =
     (let (p, i, pr) = row in
      rbind (fleet_parse_id x PlacementId (wp_id p)) (\<lambda>pid.
      rbind (fleet_parse_id x HostId (wp_host_id p)) (\<lambda>host.
      rbind (ok_or (x_labels x (pr_labels_json pr)) (Fleet_Invariant ''profile labels'')) (\<lambda>ls.
      Inr \<lparr>pl_id = pid, pl_workload_id = wp_workload_id p, pl_host_id = host,
           pl_state = wp_state p, pl_runner_id = wp_runner_id p, pl_pool_id = wi_pool_id i,
           pl_profile_id = wi_profile_id i, pl_target_id = wp_target_id p,
           pl_runtime_kind = pr_runtime_kind pr, pl_mode = pr_mode pr, pl_labels = ls,
           pl_updated_at = wp_updated_at p\<rparr>))))"

definition placements_in ::
  "externals \<Rightarrow> fleet_db \<Rightarrow> string list \<Rightarrow> fleet_error + placement_view list" where
  "placements_in x db states =
     traverse (placement_view_of x)
       (sort_key (\<lambda>(p, _). (wp_created_at p, wp_id p))
         [(p, i, pr). p \<leftarrow> placements db, i \<leftarrow> intents db, pr \<leftarrow> profiles db,
           wi_id i = wp_intent_id p \<and> pr_id pr = wi_profile_id i \<and> wp_state p \<in> set states])"

text \<open>The newest applied result of a kind of command, by the time it was received.\<close>

definition newest_result ::
  "fleet_db \<Rightarrow> string \<Rightarrow> string \<Rightarrow> (command_row \<Rightarrow> bool) \<Rightarrow> result_row option" where
  "newest_result db pid kind q =
     (case sort_key (\<lambda>r. - rr_received_at r)
             [r. r \<leftarrow> results db, c \<leftarrow> commands db,
               hc_id c = rr_command_id r \<and> hc_placement_id c = Some pid \<and> hc_kind c = kind \<and> q c \<and>
               rr_disposition r = ''applied''] of
        [] \<Rightarrow> None | r # _ \<Rightarrow> Some r)"

definition succeeded_evidence ::
  "externals \<Rightarrow> fleet_db \<Rightarrow> placement_id \<Rightarrow> string \<Rightarrow> fleet_error + success_evidence option" where
  "succeeded_evidence x db placement kind =
     (case newest_result db (x_show_uuid x (placement_uuid placement)) kind
             (\<lambda>c. hc_state c = ''succeeded'') of
        None \<Rightarrow> Inr None
      | Some r \<Rightarrow>
          rbind (ok_or (x_result_from_str x (rr_result_json r)) (Fleet_Invariant ''stored result''))
            (\<lambda>result.
          Inr (case res_outcome result of Outcome_Succeeded ev \<Rightarrow> Some ev | _ \<Rightarrow> None)))"

fun prepared_id :: "success_evidence \<Rightarrow> prepared_environment_id option" where
  "prepared_id (Ev_PreparedEnvironment e) = Some e"
| "prepared_id _ = None"

definition prepared_environment ::
  "externals \<Rightarrow> fleet_db \<Rightarrow> placement_id \<Rightarrow> fleet_error + prepared_environment_id option" where
  "prepared_environment x db placement =
     rbind (succeeded_evidence x db placement ''prepare_environment'') (\<lambda>ev.
     Inr (Option.bind ev prepared_id))"

definition newest_command :: "fleet_db \<Rightarrow> string \<Rightarrow> string \<Rightarrow> command_row option" where
  "newest_command db pid kind =
     (case rev (sort_key hc_cursor (filter (\<lambda>c. hc_placement_id c = Some pid \<and> hc_kind c = kind)
              (commands db))) of
        [] \<Rightarrow> None | c # _ \<Rightarrow> Some c)"

definition prepared_with ::
  "externals \<Rightarrow> fleet_db \<Rightarrow> placement_id \<Rightarrow> fleet_error + prepare_environment option" where
  "prepared_with x db placement =
     (case newest_command db (x_show_uuid x (placement_uuid placement)) ''prepare_environment'' of
        None \<Rightarrow> Inr None
      | Some c \<Rightarrow>
          rbind (ok_or (x_envelope_from_str x (hc_payload_json c))
                   (Fleet_Invariant ''stored command'')) (\<lambda>e.
          Inr (case env_operation e of PrepareEnvironment p \<Rightarrow> Some p | _ \<Rightarrow> None)))"

text \<open>
  The scalar is a conjunction of a comparison with a nullable column: it is null when the host has
  no authority in the placement's epoch, and the driver reports a null read as \<^verbatim>\<open>bool\<close>.
\<close>

definition host_has_authority :: "externals \<Rightarrow> fleet_db \<Rightarrow> placement_id \<Rightarrow> i64 \<Rightarrow> fleet_error + bool"
  where
  "host_has_authority x db placement now =
     (case [(p, h). p \<leftarrow> placements db, h \<leftarrow> hosts db,
              fh_id h = wp_host_id p \<and> wp_id p = x_show_uuid x (placement_uuid placement)] of
        [] \<Rightarrow> Inr False
      | (p, h) # _ \<Rightarrow>
          if wp_host_epoch p \<noteq> fh_epoch h then Inr False
          else case fh_authority_expires_at h of
            None \<Rightarrow> Inl (Fleet_Database ''unexpected null'')
          | Some t \<Rightarrow> Inr (t > now + 5000))"

definition reported_gone ::
  "externals \<Rightarrow> fleet_db \<Rightarrow> placement_id \<Rightarrow> string \<Rightarrow> fleet_error + bool" where
  "reported_gone x db placement kind =
     (case newest_result db (x_show_uuid x (placement_uuid placement)) kind (\<lambda>_. True) of
        None \<Rightarrow> Inr False
      | Some r \<Rightarrow>
          rbind (ok_or (x_result_from_str x (rr_result_json r)) (Fleet_Invariant ''stored result''))
            (\<lambda>result.
          Inr (case res_outcome result of
                 Outcome_Failed code _ _ \<Rightarrow> code = Fail_ResourceUnavailable | _ \<Rightarrow> False)))"

definition command_state :: "externals \<Rightarrow> fleet_db \<Rightarrow> placement_id \<Rightarrow> string \<Rightarrow> (string \<times> i64) option"
  where
  "command_state x db placement kind =
     map_option (\<lambda>c. (hc_state c, hc_issued_at c))
       (newest_command db (x_show_uuid x (placement_uuid placement)) kind)"

section \<open>Issuing commands\<close>

definition issue_target ::
  "fleet_db \<Rightarrow> string \<Rightarrow> i64 \<Rightarrow> (placement_row \<times> host_row) option" where
  "issue_target db pid now =
     (case [(p, h). p \<leftarrow> placements db, h \<leftarrow> hosts db,
              fh_id h = wp_host_id p \<and> wp_id p = pid \<and> wp_host_epoch p = fh_epoch h \<and>
              gt_opt (fh_authority_expires_at h) now \<and> fh_agent_session_id h \<noteq> None \<and>
              fh_authority_incarnation h \<noteq> None] of
        [] \<Rightarrow> None | row # _ \<Rightarrow> Some row)"

definition issue_counter :: "(u64 \<Rightarrow> counter_error + 'c) \<Rightarrow> i64 \<Rightarrow> string \<Rightarrow> fleet_error + 'c" where
  "issue_counter new v msg =
     rbind (u64_from_i64 v ''counter'') (\<lambda>w. map_err (\<lambda>_. Fleet_Invariant msg) (new w))"

definition issue_envelope ::
  "externals \<Rightarrow> placement_row \<Rightarrow> host_row \<Rightarrow> placement_id \<Rightarrow> command_id \<Rightarrow> agent_operation \<Rightarrow>
   string \<Rightarrow> i64 \<Rightarrow> i64 \<Rightarrow> fleet_error + agent_command_envelope" where
  "issue_envelope x p h placement cid oper key now deadline =
     rbind (fleet_parse_id x HostId (wp_host_id p)) (\<lambda>host.
     rbind (fleet_parse_id x BackendId (wp_backend_id p)) (\<lambda>backend.
     rbind (issue_counter generation_new (wp_generation p) ''generation'') (\<lambda>g.
     rbind (map_err (\<lambda>_. Fleet_Invariant ''protocol version'') (protocol_version_new 1))
       (\<lambda>version.
     rbind (fleet_parse_id x OperationId (wp_intent_id p)) (\<lambda>oid.
     rbind (map_err (\<lambda>_. Fleet_InvalidRequest ''idempotency key'') (idempotency_key_try_from key))
       (\<lambda>ikey.
     rbind (issue_counter host_epoch_new (fh_epoch h) ''epoch'') (\<lambda>epoch.
     rbind (fleet_parse_id x ControlPlaneIncarnation (the (fh_authority_incarnation h))) (\<lambda>inc.
     rbind (fleet_parse_id x AuthoritySessionId (the (fh_agent_session_id h))) (\<lambda>session.
     rbind (issue_counter revision_new (wp_profile_revision p) ''revision'') (\<lambda>rvn.
     rbind (parse_timestamp x (now - COMMAND_CLOCK_SKEW_MILLIS) ''timestamp'') (\<lambda>issued.
     rbind (parse_timestamp x deadline ''timestamp'') (\<lambda>deadline_at.
     map_err (\<lambda>_. Fleet_InvalidRequest ''command shape'')
       (seal_hash (x_codec x) (x_envelope_to_vec x)
          \<lparr>env_protocol_version = version, env_command_id = cid, env_operation_id = oid,
           env_idempotency_key = ikey, env_host_id = host, env_host_epoch = epoch,
           env_control_plane_incarnation = inc, env_authority_session_id = session,
           env_scope = Scope_Placement placement backend g, env_expected_revision = rvn,
           env_issued_at = issued, env_deadline_at = deadline_at, env_request_hash = [],
           env_operation = oper\<rparr>)))))))))))))"

text \<open>\<^verbatim>\<open>ON CONFLICT(host_id,idempotency_key) DO NOTHING\<close>: the number of rows inserted.\<close>

definition insert_command_once :: "command_row \<Rightarrow> fleet_db \<Rightarrow> fleet_error + (fleet_db \<times> nat)" where
  "insert_command_once row db =
     (if \<exists>c \<in> set (commands db). hc_host_id c = hc_host_id row \<and>
            hc_idempotency_key c = hc_idempotency_key row
      then Inr (db, 0)
      else
        rbind (ensure (hc_deadline_at row > hc_issued_at row) (Fleet_Database ''CHECK'')) (\<lambda>_.
        rbind (insert_unique hc_id row (commands db)) (\<lambda>t.
        Inr (db\<lparr>commands := t\<rparr>, 1))))"

definition issue_command ::
  "externals \<Rightarrow> fleet_db \<Rightarrow> placement_id \<Rightarrow> agent_operation \<Rightarrow> string \<Rightarrow> i64 \<Rightarrow> i64 \<Rightarrow> uuid \<Rightarrow>
   fleet_error + (fleet_db \<times> command_id option)" where
  "issue_command x db placement oper key ttl now fresh =
     (let pid = x_show_uuid x (placement_uuid placement) in
      case issue_target db pid now of
        None \<Rightarrow> Inr (db, None)
      | Some (p, h) \<Rightarrow>
          rbind (map_err (\<lambda>_. Fleet_Invariant ''command ID'') (fleet_uuid_try_new CommandId fresh))
            (\<lambda>cid.
          rbind (issue_envelope x p h placement cid oper key now (now + ttl)) (\<lambda>e.
          rbind (ok_or (x_envelope_to_string x e) (Fleet_Invariant ''envelope'')) (\<lambda>payload.
          rbind (insert_command_once
                   \<lparr>hc_cursor = next_cursor db, hc_id = x_show_uuid x (command_uuid cid),
                    hc_operation_id = x_show_uuid x (operation_uuid (env_operation_id e)),
                    hc_placement_id = Some pid,
                    hc_host_id = x_show_uuid x (host_uuid (env_host_id e)),
                    hc_backend_id = Some (case env_scope e of
                       Scope_Placement _ b _ \<Rightarrow> x_show_uuid x (backend_uuid b) | Scope_Host \<Rightarrow> []),
                    hc_host_epoch = fh_epoch h, hc_generation = Some (wp_generation p),
                    hc_kind = database_kind oper, hc_state = ''pending'',
                    hc_request_hash = env_request_hash e, hc_payload_json = payload,
                    hc_expected_revision = wp_profile_revision p, hc_issued_at = now,
                    hc_deadline_at = now + ttl, hc_attempt_count = 0,
                    hc_idempotency_key = key\<rparr> db) (\<lambda>(db', n).
          Inr (db', if n = 1 then Some cid else None))))))"

section \<open>Registration material and states\<close>

definition store_bootstrap ::
  "externals \<Rightarrow> (string \<Rightarrow> string option) \<Rightarrow> fleet_db \<Rightarrow> placement_id \<Rightarrow> string \<Rightarrow> i64 \<Rightarrow> i64 \<Rightarrow>
   uuid \<Rightarrow> fleet_error + (fleet_db \<times> bootstrap_reference)" where
  "store_bootstrap x vault_seal db placement material ttl now fresh =
     rbind (map_err (\<lambda>_. Fleet_Invariant ''bootstrap reference'')
              (fleet_uuid_try_new BootstrapReference fresh)) (\<lambda>reference.
     rbind (ok_or (vault_seal material) (Fleet_Invariant ''bootstrap seal'')) (\<lambda>sealed.
     case placement_by_id db (x_show_uuid x (placement_uuid placement)) of
       None \<Rightarrow> Inr (db, reference)
     | Some p \<Rightarrow>
         rbind (ensure (now + ttl > now) (Fleet_Database ''CHECK'')) (\<lambda>_.
         rbind (insert_unique bm_reference
                  \<lparr>bm_reference = x_show_uuid x (bootstrap_uuid reference),
                   bm_placement_id = wp_id p, bm_host_id = wp_host_id p, bm_sealed = Some sealed,
                   bm_expires_at = now + ttl, bm_claimed_at = None, bm_erased_at = None\<rparr>
                  (bootstrap db)) (\<lambda>t.
         Inr (db\<lparr>bootstrap := t\<rparr>, reference)))))"

text \<open>The trigger on the workload of a placement, for the row as it would be.\<close>

definition matches_intent :: "fleet_db \<Rightarrow> placement_row \<Rightarrow> bool" where
  "matches_intent db p \<longleftrightarrow>
     (\<exists>i \<in> set (intents db). wi_id i = wp_intent_id p \<and> wi_agent_run_id i = wp_agent_run_id p \<and>
        ((wi_kind i = ''ci_runner'' \<and> wp_agent_run_id p = None) \<or>
         (wi_kind i = ''fix_sandbox'' \<and> wp_runner_id p = None)))"

definition mark_starting ::
  "externals \<Rightarrow> fleet_db \<Rightarrow> placement_id \<Rightarrow> string \<Rightarrow> i64 \<Rightarrow> fleet_error + fleet_db" where
  "mark_starting x db placement runner now =
     (let pid = x_show_uuid x (placement_uuid placement);
          f = (\<lambda>p. (set_placement_state ''starting'' now p)\<lparr>wp_runner_id := Some runner\<rparr>)
      in rbind (ensure (\<forall>p \<in> set (placements db). wp_id p = pid \<longrightarrow> matches_intent db (f p))
                  (Fleet_Database ''placement workload must match intent'')) (\<lambda>_.
         Inr (db\<lparr>placements := update_where (\<lambda>p. wp_id p = pid) f (placements db)\<rparr>)))"

definition abandon_unstarted ::
  "externals \<Rightarrow> fleet_db \<Rightarrow> placement_id \<Rightarrow> i64 \<Rightarrow> fleet_error + (fleet_db \<times> bool)" where
  "abandon_unstarted x db placement now =
     (let pid = x_show_uuid x (placement_uuid placement) in
      if \<exists>c \<in> set (commands db). hc_placement_id c = Some pid \<and> hc_kind c = ''start_runner''
      then Inr (db, False)
      else
        rbind (release_allocations
                 (db\<lparr>placements := update_where (\<lambda>p. wp_id p = pid \<and>
                       wp_state p \<in> {''preparing'', ''registering'', ''failed''})
                     (\<lambda>p. (record_absence now p)\<lparr>wp_state := ''failed''\<rparr>) (placements db)\<rparr>)
                 pid now) (\<lambda>(db', n).
        Inr (db', n > 0)))"

definition set_state ::
  "externals \<Rightarrow> fleet_db \<Rightarrow> placement_id \<Rightarrow> string \<Rightarrow> string \<Rightarrow> i64 \<Rightarrow> fleet_db \<times> bool" where
  "set_state x db placement from_state to_state now =
     (let q = (\<lambda>p. wp_id p = x_show_uuid x (placement_uuid placement) \<and> wp_state p = from_state)
      in (set_state_where q to_state now db, rows_where q (placements db) = 1))"

section \<open>What the reconciler's operations do to capacity\<close>

lemma capacity_step_other:
  "\<lbrakk>domains db' = domains db; allocations db' = allocations db; placements db' = placements db\<rbrakk> \<Longrightarrow>
   capacity_step db db'"
  by (rule capacity_step_frame) (simp_all add: release_permitted_def)

lemma issue_command_frame:
  assumes "issue_command x db placement oper key ttl now fresh = Inr (db', r)"
  shows "domains db' = domains db" "allocations db' = allocations db" "placements db' = placements db"
    "intents db' = intents db" "hosts db' = hosts db"
  using assms unfolding issue_command_def insert_command_once_def Let_def
  by (auto simp: rbind_eq_Inr insert_unique_eq_Inr split: option.splits if_splits)

lemma issue_command_step:
  "issue_command x db placement oper key ttl now fresh = Inr (db', r) \<Longrightarrow> capacity_step db db'"
  by (rule capacity_step_other) (erule issue_command_frame)+

lemma store_bootstrap_step:
  assumes "store_bootstrap x vault db placement material ttl now fresh = Inr (db', r)"
  shows "capacity_step db db'"
  by (rule capacity_step_other)
    (use assms in \<open>auto simp: store_bootstrap_def rbind_eq_Inr split: option.splits\<close>)

lemma placements_update_step:
  assumes "\<And>p. wp_id (f p) = wp_id p" and "\<And>p. absence_proven p \<Longrightarrow> absence_proven (f p)"
  shows "capacity_step db (db\<lparr>placements := update_where q f (placements db)\<rparr>)"
proof (rule capacity_step_frame)
  show "release_permitted (db\<lparr>placements := update_where q f (placements db)\<rparr>) pid"
    if "release_permitted db pid" for pid
    using that by (rule release_permitted_update [where q = q and f = f]) (use assms in simp_all)
qed (simp_all add: map_update_where assms)

lemma mark_starting_step:
  assumes "mark_starting x db placement runner now = Inr db'"
  shows "capacity_step db db'"
proof -
  let ?f = "\<lambda>p. (set_placement_state ''starting'' now p)\<lparr>wp_runner_id := Some runner\<rparr>"
  have "db' = db\<lparr>placements := update_where (\<lambda>p. wp_id p = x_show_uuid x (placement_uuid placement))
      ?f (placements db)\<rparr>"
    using assms by (simp add: mark_starting_def Let_def result_splits)
  then show ?thesis
    by (simp only:) (rule placements_update_step, auto simp: set_placement_state_def absence_proven_def)
qed

lemma abandon_unstarted_step:
  assumes "abandon_unstarted x db placement now = Inr (db', b)"
  shows "capacity_step db db'"
proof -
  have p: "capacity_step db (db\<lparr>placements := update_where q
      (\<lambda>p. (record_absence now p)\<lparr>wp_state := ''failed''\<rparr>) (placements db)\<rparr>)" for q
    by (rule placements_update_step) (auto simp: record_absence_def absence_proven_def)
  show ?thesis
    using assms unfolding abandon_unstarted_def Let_def
    by (auto simp: rbind_eq_Inr split: if_splits
        intro: capacity.step_refl capacity.step_trans [OF p release_allocations_step])
qed

lemma set_state_step: "capacity_step db (fst (set_state x db placement from_state to_state now))"
  by (simp add: set_state_def Let_def set_state_where_step)

end
