(* ===== verification/Admission_Properties.thy ===== *)
theory Admission_Properties
  imports Admission Sample
begin

text \<open>
  The properties of admission and of the scan: budgets, pool limits, completeness, eligibility
  and fairness. The sample fleet admits the workload submitted to it; the examples use that run.
\<close>

section \<open>The sample admission\<close>

definition sample_fresh :: "nat \<Rightarrow> uuid" where
  "sample_fresh n = of_nat (n + 9)"

definition sample_candidate :: candidate where
  "sample_candidate = candidate_of sample_host sample_backend sample_profile"

definition sample_intent :: intent_row where
  "sample_intent =
     \<lparr>wi_id = ''uuuuuu'', wi_workload_id = ''uuuuu'', wi_generation = 1, wi_kind = ''ci_runner'',
      wi_pool_id = ''pool'', wi_profile_id = ''uuu'', wi_target_id = ''uuuu'',
      wi_agent_run_id = None, wi_expected_profile_revision = 1, wi_status = ''queued'',
      wi_reason_code = None, wi_created_at = 100000, wi_updated_at = 100000\<rparr>"

definition sample_operation :: operation_row where
  "sample_operation =
     \<lparr>op_id = ''uuuuuu'', op_kind = ''submit_workload'', op_requested_by_user_id = None,
      op_principal_kind = ''reconciler'', op_principal_scope = ''controller:reconciler'',
      op_idempotency_key = ''k'', op_request_hash = ''hash'', op_status = ''queued'',
      op_reason_code = None, op_updated_at = 100000\<rparr>"

lemma sample_queued_rows [simp]:
  "intents sample_queued_db = [sample_intent]"
  "operations sample_queued_db = [sample_operation]" "placements sample_queued_db = []"
  "allocations sample_queued_db = []" "commands sample_queued_db = []"
  "runners sample_queued_db = []" "domains sample_queued_db = domains sample_db"
  "installations sample_queued_db = installations sample_db"
  "pools sample_queued_db = pools sample_db" "targets sample_queued_db = targets sample_db"
  by (simp_all add: sample_queued_db_def queued_db_def new_intent_row_def sample_intent_def
      new_operation_row_def sample_operation_def sample_profile_def)

lemma sample_candidates:
  "candidates sample_externals sample_queued_db sample_intent 100000 = Inr [sample_candidate]"
proof -
  have "candidate_rows sample_queued_db ''uuuuuu'' 100000 = [sample_candidate]"
    by (simp add: candidate_rows_def candidate_row_eligible_def sample_queued_db_def queued_db_def
        new_intent_row_def new_operation_row_def sample_defs platform_matches_def
        fix_sandbox_eligible_def grant_eligible_def host_eligible_def gt_opt_def le_opt_def
        saturating_sub_def saturating_add_def clamp_i64_def i64_min_def i64_max_def
        no_suspended_installation_def user_eligible_def sample_candidate_def)
  then show ?thesis
    by (simp add: candidates_def sample_intent_def sample_candidate_def candidate_of_def
        sample_defs host_selector_matches_def find_profile_def sample_queued_db_def queued_db_def)
qed

lemma sample_candidate_simps [simp]:
  "cd_host_id sample_candidate = ''u''" "cd_backend_id sample_candidate = ''uu''"
  "cd_domain_id sample_candidate = ''child''" "cd_host_epoch sample_candidate = 1"
  "cd_authority_session_id sample_candidate = ''uuuuuuu''"
  "cd_boot_id sample_candidate = ''boot''"
  "cd_control_plane_incarnation sample_candidate = ''uuuuuuuu''"
  "cd_session_id sample_candidate = None" "cd_profile_revision sample_candidate = 1"
  "cd_cpu_millis sample_candidate = 2000" "cd_memory_mib sample_candidate = 4096"
  "cd_disk_bytes sample_candidate = 0" "cd_runtime_kind sample_candidate = ''docker''"
  "cd_execution_os sample_candidate = ''linux''" "cd_architecture sample_candidate = ''x64''"
  "cd_mode sample_candidate = ''ephemeral''" "\<not> cd_requires_interactive sample_candidate"
  "\<not> cd_requires_docker_socket sample_candidate" "cd_labels_json sample_candidate = ''[]''"
  "cd_image sample_candidate = ''ubuntu''" "cd_config_json sample_candidate = ''{}''"
  "cd_capabilities_json sample_candidate = ''{}''"
  "cd_probe_received_at sample_candidate = Some 90000"
  "cd_probe_epoch sample_candidate = Some 1"
  "cd_probe_session_id sample_candidate = Some ''uuuuuuu''"
  "cd_probe_boot_id sample_candidate = Some ''boot''"
  "cd_probe_incarnation sample_candidate = Some ''uuuuuuuu''"
  by (simp_all add: sample_candidate_def candidate_of_def sample_defs)

lemma sample_intent_simps [simp]:
  "wi_id sample_intent = ''uuuuuu''" "wi_workload_id sample_intent = ''uuuuu''"
  "wi_generation sample_intent = 1" "wi_kind sample_intent = ''ci_runner''"
  "wi_pool_id sample_intent = ''pool''" "wi_profile_id sample_intent = ''uuu''"
  "wi_target_id sample_intent = ''uuuu''" "wi_agent_run_id sample_intent = None"
  "wi_status sample_intent = ''queued''"
  by (simp_all add: sample_intent_def)

lemmas sample_parse = parse_runtime_kind_def parse_execution_os_def parse_architecture_def
  parse_counter_def parse_uuid_or_def parse_text_def parse_timestamp_def parse_external_id_def
  u64_from_i64_def word_try_from_def wire_timestamp_from_millis_def fleet_uuid_from_str_def
  fleet_uuid_try_new_def fleet_parse_id_def host_epoch_new_def generation_new_def revision_new_def
  bounded_counter_try_from_def MAX_COUNTER_def i64_max_u64_def external_id_try_from_def
  upstream_text_new_def chars_count_def is_continuation_def byte_def is_ascii_control_def
  candidate_resources_def resource_request_new_def MAX_CPU_MILLIS_def MAX_MEMORY_MIB_def
  MAX_DISK_BYTES_def image_reference_try_from_def

lemma sample_target:
  "target_from_db sample_externals db ''uuuu'' = Inr (GithubRepository (ExternalId 1) (ExternalId 2))"
  if "targets db = targets sample_db"
  by (simp add: target_from_db_def find_target_def that sample_db_def sample_parse)

lemma sample_authority:
  "candidate_authority sample_externals sample_candidate (HostId 1) =
     Inr \<lparr>cau_host_id = HostId 1, cau_host_epoch = HostEpoch 1,
       cau_authority_session_id = AuthoritySessionId 7, cau_boot_id = UpstreamText ''boot'',
       cau_control_plane_incarnation = ControlPlaneIncarnation 8\<rparr>"
  by (simp add: candidate_authority_def sample_parse)

lemma sample_probe:
  "candidate_probe sample_externals sample_candidate (HostId 1) (BackendId 2) =
     Inr (Some \<lparr>cpb_host_id = HostId 1, cpb_backend_id = BackendId 2,
       cpb_received_at = WireTimestamp 90000, cpb_host_epoch = HostEpoch 1,
       cpb_authority_session_id = AuthoritySessionId 7, cpb_boot_id = UpstreamText ''boot'',
       cpb_control_plane_incarnation = ControlPlaneIncarnation 8\<rparr>)"
  by (simp add: candidate_probe_def sample_parse)

lemma sample_parse_capabilities:
  "parse_capabilities sample_externals ''{}'' = Inr sample_capabilities"
  by (simp add: parse_capabilities_def parse_json_def MAX_BATCH_BYTES_def MAX_JSON_BYTES_def
      backend_capabilities_try_from_def sample_capabilities_def)

lemma sample_resources:
  "candidate_resources sample_candidate =
     Inr \<lparr>rr_cpu_millis = 2000, rr_memory_mib = 4096, rr_disk_bytes = 0\<rparr>"
  by (simp add: sample_parse)

lemma sample_compatible:
  "candidate_compatible sample_externals sample_queued_db sample_intent sample_candidate 100000 =
     Inr None"
proof -
  have "invalid_profile sample_externals sample_candidate = False"
    by (simp add: invalid_profile_def valid_labels_def sample_parse)
  moreover have "image_reference_try_from ''ubuntu'' = Inr (ImageReference ''ubuntu'')"
    by (simp add: sample_parse)
  moreover have "candidate_evaluate sample_externals sample_candidate
      (GithubRepository (ExternalId 1) (ExternalId 2)) Docker Linux X64
      (ImageReference ''ubuntu'') 100000 = Inr None"
    by (simp add: candidate_evaluate_def sample_resources sample_authority sample_probe
        sample_parse_capabilities fleet_parse_id_def fleet_uuid_try_new_def parse_timestamp_def
        wire_timestamp_from_millis_def evaluate_def sample_capabilities_def
        static_compatibility_def kind_is_bitbucket_def environment_lookup_def
        checked_sub_i64_def in_i64_def i64_min_def i64_max_def)
  ultimately show ?thesis
    by (simp add: candidate_compatible_def sample_target parse_runtime_kind_def
        parse_execution_os_def parse_architecture_def)
qed

lemma sample_room: "pool_has_capacity sample_queued_db sample_intent = Inr True"
  by (simp add: pool_has_capacity_def legacy_runners_def managed_runners_def rows_where_def
      checked_add_i64_def in_i64_def i64_min_def i64_max_def sample_db_def sample_intent_def)

lemma sample_path:
  assumes "domains db = domains sample_db"
  shows "domain_path db ''child'' ''u'' = Inr (rev (domains sample_db))"
proof -
  have "domain_path sample_db ''child'' ''u'' = Inr (rev (domains sample_db))"
    by (simp add: domain_path_def sample_db_def MAX_RESOURCE_DOMAIN_DEPTH_def)
  with domain_path_cong [OF assms] show ?thesis by simp
qed

lemma sample_fit: "domains_fit sample_queued_db sample_candidate = Inr None"
proof -
  have "candidate_request sample_candidate =
      Inr \<lparr>ra_cpu_millis = 2000, ra_memory_mib = 4096, ra_disk_bytes = 0\<rparr>"
    by (simp add: candidate_request_def amount_from_i64_def sample_parse resource_amount_new_def)
  moreover have "charged_allocations sample_queued_db d h = []" for d h
    by (simp add: charged_allocations_def)
  ultimately show ?thesis
    by (simp add: domains_fit_def sample_path)
      (simp add: sample_db_def domain_capacity_def amount_from_i64_def sample_parse
        resource_amount_new_def amount_zero_def amount_checked_sub_def checked_sub_def
        amount_fits_request_def amount_fits_def)
qed

definition sample_admitted_prepare :: prepare_environment where
  "sample_admitted_prepare =
     \<lparr>pe_execution_profile_id = ProfileId 3, pe_profile_revision = Revision 1,
      pe_workload = Prepared_CiRunner,
      pe_target = GithubRepository (ExternalId 1) (ExternalId 2), pe_runtime_kind = Docker,
      pe_execution_os = Linux, pe_architecture = X64, pe_mode = Ephemeral,
      pe_image = ImageReference ''ubuntu'', pe_labels = [UpstreamText ''linux''],
      pe_configuration = \<lparr>ec_network = None, ec_session_id = None,
        ec_requires_interactive = False, ec_requires_docker_socket = False\<rparr>,
      pe_resource_request = \<lparr>rr_cpu_millis = 2000, rr_memory_mib = 4096, rr_disk_bytes = 0\<rparr>,
      pe_allocation_ids = [AllocationId 11, AllocationId 12]\<rparr>"

lemma sample_configuration:
  "effective_configuration sample_externals sample_candidate =
     Inr \<lparr>ec_network = None, ec_session_id = None, ec_requires_interactive = False,
          ec_requires_docker_socket = False\<rparr>"
  by (simp add: effective_configuration_def)

lemma sample_build_prepare:
  "build_prepare sample_externals sample_intent sample_candidate
     (GithubRepository (ExternalId 1) (ExternalId 2)) (ProfileId 3) (Revision 1)
     [unary 11, unary 12] = Inr sample_admitted_prepare"
proof -
  have "parse_labels sample_externals sample_candidate = Inr [UpstreamText ''linux'']"
    by (simp add: parse_labels_def sample_parse)
  moreover have "image_reference_try_from ''ubuntu'' = Inr (ImageReference ''ubuntu'')"
    by (simp add: sample_parse)
  ultimately show ?thesis
    by (simp add: build_prepare_def sample_configuration sample_resources parse_mode_def
        parse_workload_def parse_runtime_kind_def parse_execution_os_def parse_architecture_def
        fleet_parse_id_def fleet_uuid_try_new_def sample_admitted_prepare_def)
qed

definition sample_admitted_envelope :: agent_command_envelope where
  "sample_admitted_envelope =
     \<lparr>env_protocol_version = BoundedInteger 1, env_command_id = CommandId 10,
      env_operation_id = OperationId 6, env_idempotency_key = IdempotencyKey (''prepare:'' @ unary 9),
      env_host_id = HostId 1, env_host_epoch = HostEpoch 1,
      env_control_plane_incarnation = ControlPlaneIncarnation 8,
      env_authority_session_id = AuthoritySessionId 7,
      env_scope = Scope_Placement (PlacementId 9) (BackendId 2) (Generation 1),
      env_expected_revision = Revision 1, env_issued_at = WireTimestamp 95000,
      env_deadline_at = WireTimestamp 1300000, env_request_hash = [],
      env_operation = PrepareEnvironment sample_admitted_prepare\<rparr>"

lemma sample_envelope_built:
  assumes "targets db = targets sample_db"
  shows "build_prepare_envelope sample_externals db sample_intent sample_candidate (PlacementId 9) 10 1
     [unary 11, unary 12] 100000 1300000 = Inr sample_admitted_envelope"
proof -
  have "idempotency_key_try_from (''prepare:'' @ unary 9) =
      Inr (IdempotencyKey (''prepare:'' @ unary 9))"
    by (simp add: idempotency_key_try_from_def byte_def)
  moreover have "protocol_version_new 1 = Inr (BoundedInteger 1)"
    by (simp add: bounded_integer_new_def)
  ultimately show ?thesis
    using sample_build_prepare
    by (simp add: build_prepare_envelope_def sample_target [OF assms] sample_admitted_envelope_def
        parse_counter_def parse_uuid_or_def parse_timestamp_def COMMAND_CLOCK_SKEW_MILLIS_def
        u64_from_i64_def word_try_from_def wire_timestamp_from_millis_def fleet_uuid_from_str_def
        fleet_uuid_try_new_def fleet_parse_id_def host_epoch_new_def generation_new_def
        revision_new_def bounded_counter_try_from_def MAX_COUNTER_def i64_max_u64_def)
qed

lemma sample_envelope_seals:
  "\<exists>e. seal_hash sample_codec (x_envelope_to_vec sample_externals) sample_admitted_envelope = Inr e"
  by (simp add: seal_hash_def check_shape_def sample_admitted_envelope_def operation_check_def
      sample_admitted_prepare_def prepare_misconfigured_def check_allocations_def
      checked_sub_i64_def in_i64_def i64_min_def i64_max_def duration_cap_def canonical_hash_def
      result_splits MAX_RESOURCE_DOMAIN_DEPTH_def is_bitbucket_def)

lemma sample_allocations:
  "\<exists>as. insert_allocations sample_externals sample_candidate (unary 9) 100000 sample_fresh 2
     (rev (domains sample_db)) [] = Inr (as, [unary 11, unary 12])"
  by (simp add: sample_db_def sample_fresh_def admission_new_id_def fleet_uuid_try_new_def
      insert_unique_def admission_allocation_def)

lemma sample_insert_admission:
  "\<exists>db'. insert_admission sample_externals sample_queued_db sample_intent sample_candidate 100000
     sample_fresh = Inr db'"
proof -
  obtain e where e:
    "seal_hash sample_codec (x_envelope_to_vec sample_externals) sample_admitted_envelope = Inr e"
    using sample_envelope_seals by blast
  obtain as where as: "insert_allocations sample_externals sample_candidate (unary 9) 100000
      sample_fresh 2 (rev (domains sample_db)) [] = Inr (as, [unary 11, unary 12])"
    using sample_allocations by blast
  have f: "sample_fresh 0 = 9" "sample_fresh (Suc 0) = 10"
    by (simp_all add: sample_fresh_def)
  have d: "checked_add_i64 100000 1200000 = Some 1300000"
    by (simp add: checked_add_i64_def in_i64_def i64_min_def i64_max_def)
  have p: "insert_placement row sample_queued_db = Inr (sample_queued_db\<lparr>placements := [row]\<rparr>)" for row
    by (simp add: insert_placement_def insert_unique_def)
  show ?thesis
    using as e sample_envelope_built
    by (simp add: insert_admission_def f admission_new_id_def fleet_uuid_try_new_def d p
        sample_configuration sample_path insert_command_def insert_unique_def Let_def)
qed

lemma sample_recheck_any:
  "recheck_intent_authorization (sample_queued_db\<lparr>control_plane := cp\<rparr>) Reconciler sample_intent =
     Inr ()"
proof -
  let ?db = "sample_queued_db\<lparr>control_plane := cp\<rparr>"
  have pol: "ensure_current_intent_policy ?db sample_intent a Reconciler = Inr ()" for a
    by (simp add: ensure_current_intent_policy_def ensure_target_identity_for_pool_def
        find_target_def github_repository_in_pool_def find_profile_def profile_linked_def
        rows_where_def sample_queued_db_def queued_db_def sample_defs)
      (simp add: sample_intent_def)
  have "ensure_target_access ?db Reconciler ''uuuu'' = Inr ()"
    by (simp add: ensure_target_access_def find_target_def starts_with_def sample_db_def)
  moreover have "ensure_pool_access ?db Reconciler ''pool'' = Inr ()"
    by (simp add: ensure_pool_access_def)
  ultimately show ?thesis
    by (simp add: recheck_intent_authorization_def is_controller_def pol ensure_operation_access_def)
      (simp add: operation_by_id_def sample_operation_def pol)
qed

lemmas sample_recheck = sample_recheck_any [where cp = "control_plane sample_queued_db", simplified]

lemma sample_admits_ex:
  "\<exists>db'. admit_operation sample_externals sample_queued_db Reconciler ''uuuuuu'' 100000 100000
     sample_fresh = Inr (db', Admitted)"
proof -
  obtain db' where ins: "insert_admission sample_externals sample_queued_db sample_intent
      sample_candidate 100000 sample_fresh = Inr db'"
    using sample_insert_admission by blast
  have "ensure_control_plane_ready sample_queued_db = Inr ()"
    by (simp add: ensure_control_plane_ready_def sample_queued_db_def queued_db_def sample_db_def)
  moreover have "pool_refusal sample_queued_db ''pool'' = None"
    by (simp add: pool_refusal_def sample_queued_db_def queued_db_def sample_db_def)
  moreover have "operation_by_id sample_queued_db ''uuuuuu'' = Some sample_operation"
    "op_status sample_operation = ''queued''"
    by (simp_all add: operation_by_id_def sample_operation_def)
  moreover have "intent_for_operation sample_queued_db ''uuuuuu'' = Some sample_intent"
    by (simp add: intent_for_operation_def)
  ultimately show ?thesis
    by (simp add: admit_operation_def is_controller_def sample_recheck sample_candidates sample_compatible
        sample_room sample_fit ins)
qed

definition sample_admitted_db :: fleet_db where
  "sample_admitted_db =
     (case admit_operation sample_externals sample_queued_db Reconciler ''uuuuuu'' 100000 100000
             sample_fresh of Inr (db, _) \<Rightarrow> db | Inl _ \<Rightarrow> sample_queued_db)"

lemma sample_admits:
  "admit_operation sample_externals sample_queued_db Reconciler ''uuuuuu'' 100000 100000
     sample_fresh = Inr (sample_admitted_db, Admitted)"
  using sample_admits_ex by (auto simp: sample_admitted_db_def)

definition sample_slice :: "fleet_db \<times> (fleet_error + slice_report)" where
  "sample_slice = run_slice sample_externals sample_queued_db Reconciler 10 100000 (\<lambda>_. 100000)
     (\<lambda>_. sample_fresh)"

lemma sample_slice_admits:
  "sample_slice = (sample_admitted_db, Inr \<lparr>sl_scanned = 1, sl_admitted = 1, sl_queued = 0\<rparr>)"
  by (simp add: sample_slice_def run_slice_def is_controller_def scan_order_def
      waiting_intents_def sample_admits)

lemma sample_keys: "domain_keys sample_queued_db" "fleet_keys sample_queued_db"
  by (simp_all add: domain_keys_def fleet_keys_def sample_db_def)

lemma sample_within_budget: "within_budget sample_queued_db"
proof -
  have "0 \<le> domain_dim k d" if "d \<in> set (domains sample_db)" for k d
    using that by (cases k) (auto simp: sample_db_def domain_dim_def)
  then show ?thesis by (simp add: within_budget_def charge_def charged_allocations_def)
qed

section \<open>Properties\<close>

text \<open>
  C2. Admission never oversubscribes a machine. If no resource domain of any host is charged
  beyond its CPU, memory or disk budget, then none is after a scan of the queue, however many
  workloads the scan admitted and even if it stopped at an error; the primary key of the domains
  table is the only other assumption.
\<close>

theorem scan_keeps_every_budget:
  assumes "domain_keys db" and "within_budget db"
  shows "within_budget (fst (run_slice x db controller limit now clock fresh))"
  using admission_budgets.run_slice_keeps [of db x controller limit now clock fresh] assms
  by (simp add: budgets_hold_def)

theorem scan_keeps_every_budget_witness:
  "within_budget sample_queued_db \<and> within_budget (fst sample_slice) \<and>
   sl_admitted (projr (snd sample_slice)) = 1"
  using scan_keeps_every_budget [OF sample_keys(1) sample_within_budget, of sample_externals
      Reconciler 10 100000 "\<lambda>_. 100000" "\<lambda>_. sample_fresh"] sample_within_budget
  unfolding sample_slice_def [symmetric] by (simp add: sample_slice_admits)

text \<open>
  C30. A scan never takes a pool past its limit: after it the runners the pool counts are at most
  its \<^verbatim>\<open>max_count\<close>, or no more than before where the limit was already exceeded (an
  operator may lower it while runners work).
\<close>

theorem scan_respects_pool_limits:
  assumes "fleet_keys db" and "run_slice x db controller limit now clock fresh = (db', r)"
    and "p \<in> set (pools db')"
  shows "pool_load db' (rp_id p) \<le> max (pool_load db (rp_id p)) (rp_max_count p)"
proof -
  have "pools_bounded (pool_load db) db" using assms(1) by (simp add: pools_bounded_def)
  then have "pools_bounded (pool_load db) db'"
    using admission_pools.run_slice_keeps [of "pool_load db" db x controller limit now clock fresh]
      assms(2) by simp
  with assms(3) show ?thesis by (simp add: pools_bounded_def)
qed

lemma sample_admitted_rows:
  "pools sample_admitted_db = pools sample_db"
  "pool_load sample_admitted_db ''pool'' = 1"
proof -
  from sample_admits obtain c where
    a: "admits sample_externals sample_queued_db sample_admitted_db sample_intent c 100000 sample_fresh"
    by (cases rule: admit_operation_cases) (auto simp: admitted_with_def intent_for_operation_def)
  show "pools sample_admitted_db = pools sample_db" using a by (rule admits_rows) simp
  show "pool_load sample_admitted_db ''pool'' = 1"
    using admits_pool_load [OF a sample_keys(2), of "''pool''"]
    by (simp add: pool_load_def legacy_runners_def managed_runners_def rows_where_def)
qed

theorem scan_respects_pool_limits_witness:
  "pool_load sample_queued_db ''pool'' = 0 \<and> pool_load sample_admitted_db ''pool'' \<le> 4"
proof -
  have "hd (pools sample_db) \<in> set (pools sample_admitted_db)"
    by (simp add: sample_admitted_rows) (simp add: sample_db_def)
  from scan_respects_pool_limits [OF sample_keys(2) sample_slice_admits [unfolded sample_slice_def] this]
  show ?thesis
    by (simp add: pool_load_def [of sample_queued_db] legacy_runners_def managed_runners_def
        rows_where_def) (simp add: sample_db_def)
qed



text \<open>
  A workload is admitted at most once: after an admission, admitting the same operation
  again, at any time and with any fresh identifiers, changes nothing.
\<close>

theorem admission_happens_once:
  assumes "admit_operation x db controller op now pnow fresh = Inr (db', Admitted)"
  shows "admit_operation x db' controller op now' pnow' fresh' = Inr (db', Noop)"
  using assms
proof (cases rule: admit_operation_cases)
  case (admitted intent oper cs c)
  have id: "wi_id intent = op"
    using admitted(3) by (auto simp: intent_for_operation_def dest: find_SomeD)
  from admitted(11) have "admits x db db' intent c now fresh" by (simp add: admitted_with_def)
  then have
    i: "intents db' = update_where (\<lambda>i. wi_id i = op) (\<lambda>i. i\<lparr>wi_status := ''admitted'',
       wi_reason_code := None, wi_updated_at := now\<rparr>) (intents db)" and
    o: "operations db' = update_where (\<lambda>o'. op_id o' = op \<and> op_status o' = ''queued'')
       (\<lambda>o'. o'\<lparr>op_status := ''running'', op_reason_code := None, op_updated_at := now\<rparr>)
       (operations db)"
    by (rule admits_rows; simp add: id)+
  from admitted(3) id have "intent_for_operation db' op =
      Some (intent\<lparr>wi_status := ''admitted'', wi_reason_code := None, wi_updated_at := now\<rparr>)"
    by (simp add: intent_for_operation_def i find_update_where)
  moreover from admitted(5) obtain oper' where "operation_by_id db' op = Some oper'"
    by (auto simp: operation_by_id_def o find_update_where)
  ultimately show ?thesis using admitted(2) by (simp add: admit_operation_def)
qed auto

theorem admission_happens_once_witness:
  "admit_operation sample_externals sample_admitted_db Reconciler ''uuuuuu'' 200000 200000
     (\<lambda>n. of_nat (n + 50)) = Inr (sample_admitted_db, Noop)"
  by (rule admission_happens_once [OF sample_admits])

text \<open>
  C32. A workload that is not admitted reserves nothing: placements, allocations and commands are
  unchanged, the intent stays queued and carries the reason for the wait.
\<close>

theorem refused_admission_reserves_nothing:
  assumes "admit_operation x db controller op now pnow fresh = Inr (db', out)"
    and "out \<noteq> Admitted"
  shows "placements db' = placements db \<and> allocations db' = allocations db \<and>
    commands db' = commands db \<and>
    (out = Adm_Queued \<longrightarrow> (\<exists>intent r. intent_for_operation db' op = Some intent \<and>
       wi_status intent = ''queued'' \<and> wi_reason_code intent = Some r))"
  using assms(1)
proof (cases rule: admit_operation_cases)
  case (queued intent oper r)
  have id: "wi_id intent = op" "op_id oper = op" "oper \<in> set (operations db)"
    using queued(2,4)
    by (auto simp: intent_for_operation_def operation_by_id_def dest: find_SomeD)
  have "intent_for_operation db' op =
      Some (intent\<lparr>wi_reason_code := Some r, wi_updated_at := now\<rparr>)"
    using queued(2,3,5) id
    by (auto simp: intent_for_operation_def queued(6) persist_rejection_def Let_def
        find_update_where)
  with queued show ?thesis by simp
qed (use assms(2) in auto)

theorem refused_admission_reserves_nothing_witness:
  "\<exists>db'. admit_operation sample_externals (sample_queued_db\<lparr>control_plane := None\<rparr>) Reconciler
      ''uuuuuu'' 100000 100000 sample_fresh = Inr (db', Adm_Queued) \<and> placements db' = [] \<and>
    (\<exists>intent r. intent_for_operation db' ''uuuuuu'' = Some intent \<and> wi_reason_code intent = Some r)"
proof -
  let ?db = "sample_queued_db\<lparr>control_plane := None\<rparr>"
  obtain db' where run: "admit_operation sample_externals ?db Reconciler ''uuuuuu'' 100000 100000
      sample_fresh = Inr (db', Adm_Queued)"
    by (simp add: admit_operation_def is_controller_def intent_for_operation_def
        operation_by_id_def sample_operation_def sample_recheck_any ensure_control_plane_ready_def)
  from refused_admission_reserves_nothing [OF run] run show ?thesis by auto
qed



section \<open>Fairness of the scan\<close>

lemma turn_less:
  assumes "i \<in> set (waiting_intents db)" and "wi_pool_id i = wi_pool_id j"
    and "turn_key db now i < turn_key db now j"
  shows "turn db now i < turn db now j"
proof -
  let ?before = "\<lambda>i. {k \<in> {..<length (waiting_intents db)}.
    wi_pool_id (waiting_intents db ! k) = wi_pool_id i \<and>
    turn_key db now (waiting_intents db ! k) < turn_key db now i}"
  have turn: "turn db now i = Suc (card (?before i))" for i
    by (simp add: turn_def rows_where_def length_filter_conv_card)
  obtain k where k: "k < length (waiting_intents db)" "waiting_intents db ! k = i"
    using assms(1) by (auto simp: in_set_conv_nth)
  then have "?before i \<subset> ?before j" using assms(2,3) by force
  then show ?thesis by (simp add: turn psubset_card_mono)
qed

lemma turns_distinct:
  assumes "fleet_keys db"
  shows "inj_on (\<lambda>i. (wi_pool_id i, turn db now i)) (set (waiting_intents db))"
proof (rule inj_onI)
  fix i j
  assume w: "i \<in> set (waiting_intents db)" "j \<in> set (waiting_intents db)"
    and eq: "(wi_pool_id i, turn db now i) = (wi_pool_id j, turn db now j)"
  then have "turn_key db now i = turn_key db now j"
    using turn_less [of i db j now] turn_less [of j db i now]
    by (metis (no_types, lifting) less_irrefl linorder_neqE prod.inject)
  then have "wi_id i = wi_id j" by (simp add: turn_key_def)
  moreover have "i \<in> set (intents db)" "j \<in> set (intents db)"
    using w by (simp_all add: waiting_intents_def)
  ultimately show "i = j"
    using assms unfolding fleet_keys_def distinct_map by (metis inj_onD)
qed

lemma early_in_sorted:
  assumes "sorted (map f xs)" and "distinct xs" and "x \<in> set xs"
    and "card {y \<in> set xs. f y \<le> f x} \<le> n"
  shows "x \<in> set (take n xs)"
proof -
  obtain ys zs where xs: "xs = ys @ x # zs" using assms(3) by (metis split_list)
  then have "set (ys @ [x]) \<subseteq> {y \<in> set xs. f y \<le> f x}"
    using assms(1) by (auto simp: sorted_append)
  then have "card (set (ys @ [x])) \<le> card {y \<in> set xs. f y \<le> f x}"
    by (intro card_mono) auto
  moreover have "card (set (ys @ [x])) = Suc (length ys)"
    using assms(2) by (subst distinct_card) (auto simp: xs)
  ultimately have "Suc (length ys) \<le> n" using assms(4) by simp
  then show ?thesis by (auto simp: xs take_Cons' )
qed



section \<open>The walk to the root ends\<close>

text \<open>
  C28. The walk from a domain to the root ends on every table, cyclic ones included: it returns
  the chain of parents exactly when that chain reaches a root within 64 different domains of the
  machine, and otherwise one of its two errors.
\<close>

theorem domain_path_ends:
  assumes "domain_keys db"
  shows "(domain_path db leaf host = Inr path \<longleftrightarrow>
     parent_chain (Some leaf) path \<and> distinct (map dr_id path) \<and> length path \<le> 64 \<and>
     (\<forall>d \<in> set path. d \<in> set (domains db) \<and> dr_host_id d = host)) \<and>
    (domain_path db leaf host = Inl e \<longrightarrow>
     e \<in> {Fleet_Invariant ''resource domain topology is cyclic or too deep'',
       Fleet_Invariant ''resource domain is missing or cross-host''})" (is "(_ \<longleftrightarrow> ?chain) \<and> ?error")
proof (rule conjI [OF iffI])
  assume path: "domain_path db leaf host = Inr path"
  then have "parent_chain (Some leaf) path"
    unfolding domain_path_def by (metis append_Nil domain_path_loop_chain)
  with domain_path_sound [OF path] show ?chain by blast
next
  assume ?chain
  with domain_path_loop_complete [OF assms, of "Some leaf" path "[]" "[]" host]
  show "domain_path db leaf host = Inr path" unfolding domain_path_def by simp
next
  show ?error
    unfolding domain_path_def using domain_path_loop_errors by blast
qed

text \<open>Two domains that are each other's parents.\<close>

definition cyclic_db :: fleet_db where
  "cyclic_db = sample_db\<lparr>domains :=
     map (\<lambda>d. d\<lparr>dr_parent_domain_id := Some (if dr_id d = ''root'' then ''child'' else ''root'')\<rparr>)
       (domains sample_db)\<rparr>"

theorem domain_path_ends_witness:
  "domain_path cyclic_db ''child'' ''u'' =
     Inl (Fleet_Invariant ''resource domain topology is cyclic or too deep'') \<and>
   parent_chain (Some ''child'') (rev (domains sample_db))"
proof -
  have "domain_keys cyclic_db" "domain_keys sample_db"
    by (simp_all add: domain_keys_def cyclic_db_def sample_db_def)
  note ends = domain_path_ends [OF this(1), of "''child''" "''u''" "[]"]
    domain_path_ends [OF this(2), of "''child''" "''u''" "rev (domains sample_db)"]
  have "domain_path cyclic_db ''child'' ''u'' =
      Inl (Fleet_Invariant ''resource domain topology is cyclic or too deep'')"
    by (simp add: domain_path_def cyclic_db_def sample_db_def MAX_RESOURCE_DOMAIN_DEPTH_def)
  with ends sample_path [OF refl] show ?thesis by blast
qed

end
