(* ===== verification/Fleet_System.thy ===== *)
theory Fleet_System
  imports Placement Admission_Properties
begin

text \<open>
  The fleet as one transition system. Every transaction of the fleet service, of admission, of
  command delivery and of the reconciler is a step on the shared database; a step that fails
  changes nothing and is left out. The invariants of capacity hold in every reachable state, and
  the whole system refines the abstract ledger.
\<close>

inductive fleet_step :: "externals \<Rightarrow> fleet_db \<Rightarrow> fleet_db \<Rightarrow> bool" for x where
  submits: "submit x h db p r fresh now = Inr (db', s) \<Longrightarrow> fleet_step x db db'"
| cancels: "cancel_queued db op reason now = (db', b) \<Longrightarrow> fleet_step x db db'"
| admits_one: "admit_operation x db controller op now pnow ids = Inr (db', out) \<Longrightarrow>
    fleet_step x db db'"
| polls: "poll_commands x db a session now = Inr (db', es) \<Longrightarrow> fleet_step x db db'"
| claims: "claim_bootstrap x vault db a reference now = (db', r) \<Longrightarrow> fleet_step x db db'"
| records: "record_command_result x db a result now = Inr (db', d) \<Longrightarrow> fleet_step x db db'"
| settles: "settle_unreceived x host epoch session now db = Inr db' \<Longrightarrow> fleet_step x db db'"
| issues: "issue_command x db placement oper key ttl now fresh = Inr (db', cid) \<Longrightarrow>
    fleet_step x db db'"
| stores: "store_bootstrap x vault db placement material ttl now fresh = Inr (db', ref) \<Longrightarrow>
    fleet_step x db db'"
| starts: "mark_starting x db placement runner now = Inr db' \<Longrightarrow> fleet_step x db db'"
| abandons: "abandon_unstarted x db placement now = Inr (db', b) \<Longrightarrow> fleet_step x db db'"
| moves: "set_state x db placement s t now = (db', b) \<Longrightarrow> fleet_step x db db'"

inductive fleet_reachable :: "externals \<Rightarrow> fleet_db \<Rightarrow> fleet_db \<Rightarrow> bool" for x db where
  start: "fleet_reachable x db db"
| more: "\<lbrakk>fleet_reachable x db db'; fleet_step x db' db''\<rbrakk> \<Longrightarrow> fleet_reachable x db db''"

section \<open>Two kinds of steps\<close>

lemma submit_frame:
  assumes "submit x h db p r fresh now = Inr (db', s)"
  shows "domains db' = domains db" "allocations db' = allocations db" "placements db' = placements db"
  using assms
  by (auto simp: submit_def rbind_eq_Inr replay_submission_def queue_submission_def Let_def
      split: option.splits if_splits)

text \<open>A step either only gives capacity back, or is an admission.\<close>

lemma fleet_step_cases:
  assumes "fleet_step x db db'"
  obtains (gives_back) "capacity_step db db'"
  | (reserves) intent c now pnow ids where "admitted_with x db db' intent c now pnow ids"
  using assms
proof cases
  case (submits h p r fresh now s)
  then show thesis by (intro gives_back capacity_step_other) (erule submit_frame)+
next
  case (cancels op reason now b)
  then show thesis
    by (intro gives_back capacity_step_other)
      (auto simp: cancel_queued_def Let_def split: if_splits)
next
  case (admits_one controller op now pnow ids out)
  then show thesis
  proof (cases rule: admit_operation_cases)
    case noop
    then show ?thesis by (intro gives_back) (simp add: capacity.step_refl)
  next
    case (queued intent oper r)
    then show ?thesis by (intro gives_back capacity_step_other) simp_all
  next
    case (admitted intent oper cs c)
    then show ?thesis by (intro reserves) auto
  qed
qed (metis gives_back poll_commands_step claim_bootstrap_step record_command_result_step
    settle_unreceived_step issue_command_step store_bootstrap_step mark_starting_step
    abandon_unstarted_step set_state_step fst_conv)+

section \<open>Invariants of capacity\<close>

definition capacity_sound :: "fleet_db \<Rightarrow> bool" where
  "capacity_sound db \<longleftrightarrow>
     domain_keys db \<and> within_budget db \<and> claims_nonneg (live db) \<and> released_proven db \<and>
     allocations_owned db"

lemma admitted_claims:
  assumes "admitted_with x db db' intent c now pnow ids"
  obtains as pid where "allocations db' = allocations db @ as" "domains db' = domains db"
    "map wp_id (placements db') = map wp_id (placements db) @ [pid]"
    "pid \<notin> set (map wp_id (placements db))"
    "\<And>a. a \<in> set as \<Longrightarrow> ca_placement_id a = pid \<and> charged a \<and> (\<forall>k. 0 \<le> allocation_dim k a)"
    "\<And>q. release_permitted db q \<Longrightarrow> release_permitted db' q"
proof -
  from assms have fit: "domains_fit db c = Inr None"
    and adm: "admits x db db' intent c now ids" by (simp_all add: admitted_with_def)
  from fit have nonneg: "0 \<le> candidate_dim k c" for k by (rule domains_fit_sound)
  from adm obtain path as command where r: "charges_path c path as"
    "\<forall>a \<in> set as. ca_placement_id a = x_show_uuid x (ids 0) \<and> ca_state a = ''reserved''"
    "allocations db' = allocations db @ as" "domains db' = domains db"
    "placements db' = placements db @ [admission_placement x intent c (PlacementId (ids 0)) now]"
    "x_show_uuid x (ids 0) \<notin> wp_id ` set (placements db)"
    unfolding admits_def by (elim exE conjE) auto
  show thesis
    by (rule that [of as "x_show_uuid x (ids 0)"])
      (use r nonneg in \<open>auto simp: charges_path_def release_permitted_def\<close>)
qed

lemma not_held:
  assumes "allocations_owned db" and "pid \<notin> set (map wp_id (placements db))"
  shows "held (live db) pid = {#}"
proof -
  have "fst c \<noteq> pid" if "c \<in># live db" for c
    using that assms by (auto simp: live_def allocations_owned_def claim_of_def)
  then have "filter_mset (\<lambda>c. fst c = pid) (live db) = filter_mset (\<lambda>c. False) (live db)"
    by (intro filter_mset_cong) auto
  then show ?thesis by (simp add: held_def)
qed

lemma admitted_with_sound:
  assumes "admitted_with x db db' intent c now pnow ids" and "capacity_sound db"
  shows "capacity_sound db'"
proof -
  have b: "budgets_hold db'"
    by (rule admitted_with_keeps_budgets [OF _ assms(1)])
      (use assms(2) in \<open>simp add: budgets_hold_def capacity_sound_def\<close>)
  from assms(1) obtain as pid where r: "allocations db' = allocations db @ as"
    "map wp_id (placements db') = map wp_id (placements db) @ [pid]"
    "\<And>a. a \<in> set as \<Longrightarrow> ca_placement_id a = pid \<and> charged a \<and> (\<forall>k. 0 \<le> allocation_dim k a)"
    "\<And>q. release_permitted db q \<Longrightarrow> release_permitted db' q"
    by (rule admitted_claims) blast
  have "claims_nonneg (live db')"
    using assms(2) r(1,3) by (auto simp: live_append capacity_sound_def claims_nonneg_def claim_of_def)
  moreover have "released_proven db'"
    using assms(2) r by (auto simp: released_proven_def capacity_sound_def)
  moreover have "allocations_owned db'"
    using assms(2) r(1,3) unfolding allocations_owned_def capacity_sound_def r(2) by auto
  ultimately show ?thesis using b by (simp add: capacity_sound_def budgets_hold_def)
qed

lemma capacity_step_sound:
  assumes "capacity_step db db'" and "capacity_sound db"
  shows "capacity_sound db'"
  using assms capacity_step_within [OF assms(1)] capacity_step_released_proven [OF assms(1)]
    capacity_step_owned [OF assms(1)]
  by (auto simp: capacity_sound_def domain_keys_def capacity_step_def)

lemma fleet_step_sound: "\<lbrakk>fleet_step x db db'; capacity_sound db\<rbrakk> \<Longrightarrow> capacity_sound db'"
  by (erule fleet_step_cases) (auto intro: capacity_step_sound admitted_with_sound)

lemma fleet_reachable_sound: "\<lbrakk>fleet_reachable x db db'; capacity_sound db\<rbrakk> \<Longrightarrow> capacity_sound db'"
  by (induction rule: fleet_reachable.induct) (auto intro: fleet_step_sound)

section \<open>Refinement of the ledger\<close>

lemma admitted_with_reserves:
  assumes "admitted_with x db db' intent c now pnow ids" and "capacity_sound db"
  shows "ledger_step (budgets db) (live db) (live db')"
proof -
  from assms(1) obtain as pid where r: "allocations db' = allocations db @ as"
    "domains db' = domains db" "pid \<notin> set (map wp_id (placements db))"
    "\<And>a. a \<in> set as \<Longrightarrow> ca_placement_id a = pid \<and> charged a \<and> (\<forall>k. 0 \<le> allocation_dim k a)"
    by (rule admitted_claims) blast
  let ?C = "mset (map claim_of (filter charged as))"
  have "within_budget db'"
    using admitted_with_sound [OF assms] by (simp add: capacity_sound_def)
  then have "ledger_within (budgets db) (live db + ?C)"
    by (simp add: within_budget_live budgets_def r(2) live_append [OF r(1)])
  moreover have "held (live db) pid = {#}"
    using assms(2) r(3) by (intro not_held) (auto simp: capacity_sound_def)
  ultimately have "ledger_step (budgets db) (live db) (live db + ?C)"
    using r(4) by (intro ledger_step.reserve [where pid = pid])
      (auto simp: claim_of_def claims_nonneg_def)
  then show ?thesis by (simp add: live_append [OF r(1)])
qed

lemma fleet_step_refines:
  assumes "fleet_step x db db'" and "capacity_sound db"
  shows "(ledger_step (budgets db))\<^sup>*\<^sup>* (live db) (live db')"
  using assms(1)
proof (cases rule: fleet_step_cases)
  case gives_back
  then show ?thesis by (rule capacity_step_refines)
next
  case (reserves intent c now pnow ids)
  from admitted_with_reserves [OF this assms(2)] show ?thesis by (rule r_into_rtranclp)
qed

lemma fleet_step_domains: "fleet_step x db db' \<Longrightarrow> domains db' = domains db"
  by (erule fleet_step_cases) (auto simp: capacity_step_def elim: admitted_claims)

section \<open>A run of the sample fleet\<close>

lemma sample_sound: "capacity_sound sample_queued_db"
  using sample_keys sample_within_budget
  by (simp add: capacity_sound_def claims_nonneg_def live_def released_proven_def
      allocations_owned_def)

lemma admits_path_rows:
  assumes "admits x db db' intent c now fresh"
  obtains path as command where
    "domain_path db (cd_domain_id c) (cd_host_id c) = Inr path" "charges_path c path as"
    "\<And>a. a \<in> set as \<Longrightarrow> ca_placement_id a = x_show_uuid x (fresh 0) \<and> ca_state a = ''reserved''"
    "hc_kind command = ''prepare_environment''" "commands db' = commands db @ [command]"
    "allocations db' = allocations db @ as"
    "placements db' =
       placements db @ [admission_placement x intent c (PlacementId (fresh 0)) now]"
  using assms unfolding admits_def by (elim exE conjE) auto

lemma sample_admission:
  "admits sample_externals sample_queued_db sample_admitted_db sample_intent sample_candidate 100000
     sample_fresh"
  using sample_admits
  by (cases rule: admit_operation_cases)
    (auto simp: admitted_with_def intent_for_operation_def sample_candidates)

lemma sample_admitted_facts:
  obtains p command as where "placements sample_admitted_db = [p]" "wp_id p = unary 9"
    "wp_state p = ''preparing''" "commands sample_admitted_db = [command]"
    "hc_kind command = ''prepare_environment''" "allocations sample_admitted_db = as"
    "length as = 2" "\<And>a. a \<in> set as \<Longrightarrow> ca_placement_id a = unary 9 \<and> ca_state a = ''reserved''"
proof -
  have f: "sample_fresh 0 = 9" by (simp add: sample_fresh_def)
  from sample_admission obtain path as command where r:
    "domain_path sample_queued_db ''child'' ''u'' = Inr path"
    "charges_path sample_candidate path as"
    "\<And>a. a \<in> set as \<Longrightarrow> ca_placement_id a = unary 9 \<and> ca_state a = ''reserved''"
    "hc_kind command = ''prepare_environment''" "commands sample_admitted_db = [command]"
    "allocations sample_admitted_db = as"
    "placements sample_admitted_db =
       [admission_placement sample_externals sample_intent sample_candidate (PlacementId 9) 100000]"
    by (rule admits_path_rows) (simp only: sample_queued_rows sample_candidate_simps
        sample_externals_simps append_Nil f)
  have "length as = length path"
    using r(2) by (metis charges_path_def length_map)
  also have "\<dots> = 2" using r(1) by (auto simp: sample_path sample_db_def)
  finally show thesis
    using r by (intro that [of _ command as]) (auto simp: admission_placement_def)
qed

definition sample_abandoned_db :: fleet_db where
  "sample_abandoned_db =
     (case abandon_unstarted sample_externals sample_admitted_db (PlacementId 9) 200000 of
        Inr (db, _) \<Rightarrow> db | Inl _ \<Rightarrow> sample_admitted_db)"

lemma sample_abandon:
  "abandon_unstarted sample_externals sample_admitted_db (PlacementId 9) 200000 =
     Inr (sample_abandoned_db, True)"
  "\<exists>a. a \<in> set (allocations sample_abandoned_db) \<and> ca_state a = ''released''"
proof -
  obtain p command as where r: "placements sample_admitted_db = [p]" "wp_id p = unary 9"
    "wp_state p = ''preparing''" "commands sample_admitted_db = [command]"
    "hc_kind command = ''prepare_environment''" "allocations sample_admitted_db = as"
    "length as = 2" "\<And>a. a \<in> set as \<Longrightarrow> ca_placement_id a = unary 9 \<and> ca_state a = ''reserved''"
    by (rule sample_admitted_facts) blast
  then obtain a b where as: "as = [a, b]"
    by (metis length_0_conv length_Suc_conv numeral_2_eq_2)
  have ab: "ca_placement_id a = unary 9" "ca_state a = ''reserved''"
    "ca_placement_id b = unary 9" "ca_state b = ''reserved''"
    using r(8) by (simp_all add: as)
  have perm: "release_permitted (sample_admitted_db\<lparr>placements := [(record_absence 200000 p)
      \<lparr>wp_state := ''failed''\<rparr>]\<rparr>) (unary 9)"
    using r(2) by (simp add: release_permitted_def record_absence_def absence_proven_def)
  have "\<exists>db'. abandon_unstarted sample_externals sample_admitted_db (PlacementId 9) 200000 =
      Inr (db', True) \<and> (\<exists>a. a \<in> set (allocations db') \<and> ca_state a = ''released'')"
    using perm r(1-6) ab
    by (auto simp: abandon_unstarted_def release_allocations_def update_where_Cons rows_where_def
        charged_def as Let_def)
  then show "abandon_unstarted sample_externals sample_admitted_db (PlacementId 9) 200000 =
     Inr (sample_abandoned_db, True)"
    "\<exists>a. a \<in> set (allocations sample_abandoned_db) \<and> ca_state a = ''released''"
    by (auto simp: sample_abandoned_db_def)
qed

lemma sample_run: "fleet_reachable sample_externals sample_queued_db sample_abandoned_db"
  by (rule fleet_reachable.more [OF fleet_reachable.more [OF fleet_reachable.start
        fleet_step.admits_one [OF sample_admits]] fleet_step.abandons [OF sample_abandon(1)]])

section \<open>Properties\<close>

text \<open>
  C1. The fleet implements the capacity ledger: from a sound database, whatever sequence of
  submissions, admissions, polls, results, commands and reconciler steps runs, the live claims
  change only by ledger steps, each of which reserves for a placement that held nothing within
  the budgets, or frees all a placement holds.
\<close>

theorem fleet_refines_ledger:
  assumes "fleet_reachable x db db'" and "capacity_sound db"
  shows "(ledger_step (budgets db))\<^sup>*\<^sup>* (live db) (live db')"
  using assms
proof (induction rule: fleet_reachable.induct)
  case (more db' db'')
  have "budgets db' = budgets db"
    using more.hyps(1) by (induction rule: fleet_reachable.induct)
      (simp_all add: budgets_def fleet_step_domains)
  with more fleet_step_refines [OF more.hyps(2) fleet_reachable_sound [OF more.hyps(1)]]
  show ?case by (auto intro: rtranclp_trans)
qed simp

theorem fleet_refines_ledger_witness:
  "capacity_sound sample_queued_db \<and>
   (ledger_step (budgets sample_queued_db))\<^sup>*\<^sup>* {#} (live sample_abandoned_db)"
  using fleet_refines_ledger [OF sample_run sample_sound] sample_sound by (simp add: live_def)

text \<open>
  C5. In every reachable state no domain is charged past its budget, every released allocation
  belongs to a placement with both proofs of absence, and every allocation belongs to a placement.
\<close>

theorem capacity_is_sound_everywhere:
  assumes "fleet_reachable x db db'" and "capacity_sound db"
  shows "within_budget db' \<and> released_proven db' \<and> allocations_owned db'"
  using fleet_reachable_sound [OF assms] by (simp add: capacity_sound_def)

theorem capacity_is_sound_everywhere_witness:
  "within_budget sample_abandoned_db \<and> released_proven sample_abandoned_db \<and>
   (\<exists>a \<in> set (allocations sample_abandoned_db). ca_state a = ''released'')"
  using capacity_is_sound_everywhere [OF sample_run sample_sound] sample_abandon(2) by blast



end
