(* ===== verification/Delivery.thy ===== *)
theory Delivery
  imports Placement Sample
begin

text \<open>
  What command delivery promises (\<^verbatim>\<open>crates/gridops-core/src/fleet/registry/commands.rs\<close>): polls
  hand out at most one command, only to the session it is sealed to and in time; a poll settles
  every command that can no longer be delivered and never fails over capacity; a result counts
  once, and a result for a finished command changes nothing but its own record.
\<close>

section \<open>What delivery never touches\<close>

text \<open>
  Delivery and result intake keep the machines, their credentials, and everything of a command
  but its state and its number of attempts.
\<close>

definition fixed_part :: "command_row \<Rightarrow> command_row" where
  "fixed_part c = c\<lparr>hc_state := [], hc_attempt_count := 0\<rparr>"

definition outbox_step :: "fleet_db \<Rightarrow> fleet_db \<Rightarrow> bool" where
  "outbox_step db db' \<longleftrightarrow>
     hosts db' = hosts db \<and> credentials db' = credentials db \<and>
     map fixed_part (commands db') = map fixed_part (commands db)"

interpretation outbox: step_preorder outbox_step
  by unfold_locales (simp_all add: outbox_step_def)

lemma fixed_part_eq:
  assumes "fixed_part c = fixed_part d"
  shows "hc_id c = hc_id d" "hc_host_id c = hc_host_id d" "hc_kind c = hc_kind d"
    "hc_placement_id c = hc_placement_id d" "hc_payload_json c = hc_payload_json d"
    "hc_deadline_at c = hc_deadline_at d" "hc_host_epoch c = hc_host_epoch d"
    "hc_cursor c = hc_cursor d"
  using assms by (cases c; cases d; simp add: fixed_part_def)+

lemma map_fixed_part_update:
  assumes "\<And>c. fixed_part (f c) = fixed_part c"
  shows "map fixed_part (update_where q f cs) = map fixed_part cs"
  using assms by (simp add: map_update_where)

lemma outbox_same_commands:
  assumes "hosts db' = hosts db" "credentials db' = credentials db" "commands db' = commands db"
  shows "outbox_step db db'"
  using assms by (simp add: outbox_step_def)

lemma outbox_simple_steps:
  "outbox_step db (erase_bootstrap pid now db)"
  "outbox_step db (set_state_where q state now db)"
  "outbox_step db (audit_and_event host action db)"
  "outbox_step db (upsert_attempt cid n state now db)"
  "outbox_step db (commit_allocations pid now db)"
  "outbox_step db (keep_uncertain_while_unsettled pid now db)"
  by (rule outbox_same_commands; simp add: erase_bootstrap_def set_state_where_def
      audit_and_event_def upsert_attempt_def commit_allocations_def Let_def
      keep_uncertain_while_unsettled_def)+

lemma outbox_set_command_state: "outbox_step db (set_command_state cid state db)"
  by (simp add: outbox_step_def set_command_state_def map_fixed_part_update fixed_part_def)

lemma release_tables:
  assumes "release pid now db = Inr db'"
  shows "hosts db' = hosts db \<and> credentials db' = credentials db \<and> commands db' = commands db \<and>
    results db' = results db \<and> attempts db' = attempts db"
  using assms
  by (auto simp: release_def release_allocations_def rbind_eq_Inr map_err_eq_Inr Let_def
      split: if_splits)

lemma outbox_release: "release pid now db = Inr db' \<Longrightarrow> outbox_step db db'"
  by (rule outbox_same_commands) (auto dest!: release_tables)

lemma outbox_fail_released: "fail_released pid now db = Inr db' \<Longrightarrow> outbox_step db db'"
  unfolding fail_released_def
  by (auto simp: rbind_eq_Inr intro: outbox.step_trans [OF outbox.step_trans
        [OF outbox_simple_steps(1) outbox_release] outbox_simple_steps(2)])

lemma fail_released_commands: "fail_released pid now db = Inr db' \<Longrightarrow> commands db' = commands db"
  by (auto simp: fail_released_def rbind_eq_Inr set_state_where_def erase_bootstrap_def
      dest!: release_tables)

lemma cancel_one_commands:
  assumes "cancel_one now db c = Inr db'"
  shows "commands db' = commands (set_command_state (hc_id c)
    (if hc_state c = ''delivered'' then ''uncertain'' else ''cancelled'') db)"
  using assms
  by (auto simp: cancel_one_def Let_def set_state_where_def dest: fail_released_commands
      split: option.splits if_splits)

lemma outbox_cancel_one:
  assumes "cancel_one now db c = Inr db'"
  shows "outbox_step db db'"
  using assms unfolding cancel_one_def Let_def
  by (auto split: option.splits if_splits
      intro: outbox.step_trans [OF outbox_set_command_state] outbox_set_command_state
        outbox_fail_released outbox_simple_steps)

lemma outbox_cancel_undeliverable:
  "cancel_undeliverable x host now db = Inr db' \<Longrightarrow> outbox_step db db'"
  unfolding cancel_undeliverable_def by (erule outbox.rfold_step) (rule outbox_cancel_one)

lemma outbox_apply_to_placement:
  assumes "apply_to_placement pid kind outcome now db = Inr db'"
  shows "outbox_step db db' \<and> commands db' = commands db \<and> results db' = results db"
  using assms
  by (auto simp: apply_to_placement_def outcome_effect_def rbind_eq_Inr outbox_step_def
      set_state_where_def erase_bootstrap_def commit_allocations_def dest!: release_tables
      split: command_outcome.splits if_splits option.splits)

lemma outbox_settle_result:
  assumes "settle_result host c late outcome now db = Inr db'"
  shows "outbox_step db db'" "results db' = results db"
proof -
  let ?db = "upsert_attempt (hc_id c) (max (hc_attempt_count c) 1) (outcome_state outcome) now
    (set_command_state (hc_id c) (outcome_state outcome) db)"
  have 1: "outbox_step db ?db" "results ?db = results db"
    by (blast intro: outbox.step_trans outbox_set_command_state outbox_simple_steps)
      (simp add: upsert_attempt_def set_command_state_def Let_def)
  have "outbox_step ?db db' \<and> results db' = results ?db"
    using assms unfolding settle_result_def Let_def
    by (auto simp: rbind_eq_Inr audit_and_event_def keep_uncertain_while_unsettled_def
        set_state_where_def outbox_step_def dest!: outbox_apply_to_placement
        split: option.splits if_splits)
  with 1 show "outbox_step db db'" "results db' = results db"
    by (auto intro: outbox.step_trans)
qed

section \<open>Cancelling what cannot be delivered\<close>

lemma outbox_members:
  assumes "outbox_step db db'" and "d \<in> set (commands db')"
  obtains c where "c \<in> set (commands db)" "fixed_part c = fixed_part d"
proof -
  have "fixed_part d \<in> set (map fixed_part (commands db'))" using assms(2) by simp
  then show thesis using assms(1) that unfolding outbox_step_def by auto
qed

lemma outbox_ids:
  assumes "outbox_step db db'"
  shows "map hc_id (commands db') = map hc_id (commands db)"
proof -
  have "map hc_id cs = map hc_id (map fixed_part cs)" for cs by (simp add: fixed_part_def)
  with assms show ?thesis unfolding outbox_step_def by metis
qed

lemma cancelled_commands:
  assumes "rfold (cancel_one now) cs db = Inr db'" and "d \<in> set (commands db')"
  shows "d \<in> set (commands db) \<or> hc_state d \<in> {''uncertain'', ''cancelled''}"
    and "hc_id d \<in> hc_id ` set cs \<Longrightarrow> hc_state d \<in> {''uncertain'', ''cancelled''}"
proof -
  let ?done = "\<lambda>d. hc_state d \<in> {''uncertain'', ''cancelled''}"
  have step: "d \<in> set (commands db) \<or> ?done d" "hc_id d = hc_id c \<Longrightarrow> ?done d"
    if "cancel_one now db c = Inr db'" "d \<in> set (commands db')" for db db' d c
    using that(2) by (auto simp: cancel_one_commands [OF that(1)] set_command_state_def
        set_update_where split: if_splits)
  have "d \<in> set (commands db) \<or> ?done d"
    using assms by (induction cs arbitrary: db) (auto simp: rbind_eq_Inr dest: step(1))
  moreover have "hc_id d \<in> hc_id ` set cs \<longrightarrow> ?done d"
    using assms
  proof (induction cs arbitrary: db)
    case (Cons c cs)
    then obtain t where t: "cancel_one now db c = Inr t" "rfold (cancel_one now) cs t = Inr db'"
      by (auto simp: rbind_eq_Inr)
    have keep: "d \<in> set (commands t) \<or> ?done d"
      using t(2) Cons.prems(2) by (induction cs arbitrary: t) (auto simp: rbind_eq_Inr dest: step(1))
    with Cons.IH [OF t(2) Cons.prems(2)] step(2) [OF t(1)] show ?case by auto
  qed simp
  ultimately show "d \<in> set (commands db) \<or> ?done d"
    and "hc_id d \<in> hc_id ` set cs \<Longrightarrow> ?done d" by blast+
qed

lemma cancel_undeliverable_settles:
  assumes "cancel_undeliverable x host now db = Inr db'" and "h \<in> set (hosts db')"
    and "fh_id h = host" and "d \<in> set (commands db')" and "hc_host_id d = host"
  shows "\<not> undeliverable x h now d"
proof
  assume u: "undeliverable x h now d"
  have loop: "rfold (cancel_one now) (undeliverable_rows x db host now) db = Inr db'"
    using assms(1) by (simp add: cancel_undeliverable_def)
  from u have waiting: "hc_state d \<notin> {''uncertain'', ''cancelled''}" by (auto simp: undeliverable_def)
  with cancelled_commands(1) [OF loop assms(4)] have "d \<in> set (commands db)" by blast
  moreover have "h \<in> set (hosts db)"
    using outbox_cancel_undeliverable [OF assms(1)] assms(2) by (simp add: outbox_step_def)
  ultimately have "d \<in> set (undeliverable_rows x db host now)"
    using u assms(3,5) by (auto simp: undeliverable_rows_def)
  with cancelled_commands(2) [OF loop assms(4)] waiting show False by blast
qed

section \<open>Releases never abort\<close>

lemma release_succeeds:
  assumes "allocations_owned db"
  shows "\<exists>db'. release pid now db = Inr db'"
proof (cases "pid \<in> set (map wp_id (placements db))")
  case True
  then obtain p where "p \<in> set (placements db)" "wp_id p = pid" by auto
  then have "release_permitted (db\<lparr>placements := update_where (\<lambda>p. wp_id p = pid)
      (record_absence now) (placements db)\<rparr>) pid"
    by (auto simp: release_permitted_def set_update_where intro!: bexI [of _ "record_absence now p"])
  from release_allocations_permitted [OF this, of now] show ?thesis
    by (auto simp: release_def)
next
  case False
  then have "rows_where (\<lambda>a. ca_placement_id a = pid \<and> charged a) (allocations db) = 0"
    using assms by (auto simp: rows_where_def allocations_owned_def filter_empty_conv)
  then show ?thesis by (simp add: release_def release_allocations_def)
qed

lemma fail_released_succeeds:
  assumes "allocations_owned db"
  shows "\<exists>db'. fail_released pid now db = Inr db'"
proof -
  have "allocations_owned (erase_bootstrap pid now db)"
    using other_tables_step(1) assms by (rule capacity_step_owned)
  from release_succeeds [OF this, of pid now] show ?thesis by (auto simp: fail_released_def)
qed

lemma cancel_one_succeeds:
  assumes "allocations_owned db"
  shows "\<exists>db'. cancel_one now db c = Inr db' \<and> allocations_owned db'"
proof -
  have "allocations_owned (set_command_state (hc_id c) s db)" for s
    using other_tables_step(2) assms by (rule capacity_step_owned)
  then have "\<exists>db'. cancel_one now db c = Inr db'"
    using fail_released_succeeds by (auto simp: cancel_one_def Let_def split: option.splits)
  with assms show ?thesis by (auto intro: capacity_step_owned cancel_one_step)
qed

lemma cancel_undeliverable_succeeds:
  assumes "allocations_owned db"
  shows "\<exists>db'. cancel_undeliverable x host now db = Inr db' \<and> allocations_owned db'"
  unfolding cancel_undeliverable_def
  by (rule rfold_succeeds [where P = allocations_owned, OF assms]) (rule cancel_one_succeeds)

section \<open>A sample outbox\<close>

text \<open>
  A machine with one running placement whose cleanup waits in the outbox; the command and its
  result are the samples of the protocol theories.
\<close>

definition outbox_externals :: externals where
  "outbox_externals = sample_externals\<lparr>x_payload_session := (\<lambda>_. Some (unary 5))\<rparr>"

definition outbox_agent :: authenticated_host where
  "outbox_agent = \<lparr>ah_host_id = HostId 3, ah_credential_id = 9, ah_generation = Generation 1,
     ah_epoch = HostEpoch 1\<rparr>"

definition outbox_command :: command_row where
  "outbox_command =
     \<lparr>hc_cursor = 1, hc_id = unary 1, hc_operation_id = unary 2, hc_placement_id = Some (unary 6),
      hc_host_id = unary 3, hc_backend_id = Some (unary 7), hc_host_epoch = 1,
      hc_generation = Some 1, hc_kind = ''cleanup'', hc_state = ''pending'',
      hc_request_hash = ''hash'', hc_payload_json = ''envelope'', hc_expected_revision = 1,
      hc_issued_at = 1000, hc_deadline_at = 61000, hc_attempt_count = 0,
      hc_idempotency_key = ''cleanup:1''\<rparr>"

definition outbox_db :: fleet_db where
  "outbox_db = sample_db
     \<lparr>hosts := [sample_host\<lparr>fh_id := unary 3, fh_agent_session_id := Some (unary 5)\<rparr>],
      credentials := [\<lparr>hk_id = unary 9, hk_host_id = unary 3, hk_host_epoch = 1,
        hk_generation = 1, hk_verifier = ''verifier'', hk_created_at = 1,
        hk_overlap_expires_at = None, hk_acknowledged_at = None, hk_revoked_at = None\<rparr>],
      commands := [outbox_command]\<rparr>"

definition delivered_db :: fleet_db where
  "delivered_db = outbox_db
     \<lparr>commands := [outbox_command\<lparr>hc_state := ''delivered'', hc_attempt_count := 1\<rparr>],
      attempts := [\<lparr>at_command_id = unary 1, at_attempt = 1, at_state = ''delivered'',
        at_recorded_at = 2000\<rparr>]\<rparr>"

lemma outbox_externals_simps [simp]:
  "x_show_uuid outbox_externals = unary" "x_codec outbox_externals = sample_codec"
  "x_payload_session outbox_externals s = Some ''uuuuu''"
  "x_envelope_from_str outbox_externals s = Some sample_sealed"
  "x_result_to_string outbox_externals r = Some ''result''"
  by (simp_all add: outbox_externals_def)

lemma outbox_db_simps [simp]:
  "hosts outbox_db = [sample_host\<lparr>fh_id := ''uuu'', fh_agent_session_id := Some ''uuuuu''\<rparr>]"
  "credentials outbox_db = [\<lparr>hk_id = unary 9, hk_host_id = ''uuu'', hk_host_epoch = 1,
     hk_generation = 1, hk_verifier = ''verifier'', hk_created_at = 1,
        hk_overlap_expires_at = None, hk_acknowledged_at = None, hk_revoked_at = None\<rparr>]"
  "commands outbox_db = [outbox_command]" "attempts outbox_db = []" "results outbox_db = []"
  "allocations outbox_db = []" "placements outbox_db = []"
  by (simp_all add: outbox_db_def sample_db_def)

lemma outbox_agent_simps [simp]:
  "ah_host_id outbox_agent = HostId 3" "hc_id outbox_command = ''u''"
  "hc_host_id outbox_command = ''uuu''" "hc_placement_id outbox_command = Some ''uuuuuu''"
  "hc_kind outbox_command = ''cleanup''" "hc_state outbox_command = ''pending''"
  by (simp_all add: outbox_agent_def outbox_command_def)

lemma outbox_authenticated:
  assumes "hosts db = hosts outbox_db" "credentials db = credentials outbox_db"
  shows "ensure_authenticated_generation outbox_externals db outbox_agent now = Inr ()"
  by (simp add: ensure_authenticated_generation_def generation_i64_def credential_live_def assms i64_from_u64_def i64_max_u64_def
      outbox_agent_def sample_host_def)

lemma outbox_nothing_undeliverable:
  "cancel_undeliverable outbox_externals ''uuu'' 2000 outbox_db = Inr outbox_db"
  by (simp add: cancel_undeliverable_def undeliverable_rows_def undeliverable_def
      DELIVERY_MARGIN_MILLIS_def outbox_command_def sample_host_def)

lemma outbox_poll:
  "poll_commands outbox_externals outbox_db outbox_agent (AuthoritySessionId 5) 2000 =
     Inr (delivered_db, [sample_sealed])"
proof -
  have "work_authorized outbox_db ''uuu'' ''uuuuu'' 2000"
    by (simp add: work_authorized_def sample_host_def)
  moreover have "deliverable outbox_externals outbox_db ''uuu'' ''uuuuu'' 2000 outbox_command"
    by (simp add: deliverable_def outbox_command_def DELIVERY_MARGIN_MILLIS_def)
  moreover have "deliver outbox_externals 2000 outbox_db outbox_command =
      Inr (delivered_db, sample_sealed)"
    by (simp add: deliver_def delivered_db_def update_where_Cons insert_unique_def)
      (simp add: outbox_command_def)
  moreover have "hc_host_id outbox_command = ''uuu''" "hc_state outbox_command = ''pending''"
    "ah_host_id outbox_agent = HostId 3"
    by (simp_all add: outbox_command_def outbox_agent_def)
  ultimately show ?thesis
    by (simp add: poll_commands_def outbox_authenticated outbox_nothing_undeliverable)
qed

section \<open>What a poll hands out\<close>

lemma sort_key_first:
  assumes "sort_key k xs = c # cs"
  shows "c \<in> set xs" "\<forall>d \<in> set xs. k c \<le> k d"
proof -
  have "set (c # cs) = set xs" by (metis assms set_sort)
  then show "c \<in> set xs" "\<forall>d \<in> set xs. k c \<le> k d"
    using sorted_sort_key [of k xs] unfolding assms by auto
qed

lemma deliver_facts:
  assumes "deliver x now db c = Inr (db', e)"
  shows "commands db' = update_where (\<lambda>d. hc_id d = hc_id c)
      (\<lambda>d. d\<lparr>hc_state := ''delivered'', hc_attempt_count := hc_attempt_count c + 1\<rparr>) (commands db)"
    "attempts db' = attempts db @ [\<lparr>at_command_id = hc_id c, at_attempt = hc_attempt_count c + 1,
       at_state = ''delivered'', at_recorded_at = now\<rparr>]"
    "x_envelope_from_str x (hc_payload_json c) = Some e" "hc_attempt_count c + 1 \<le> 10"
    "hosts db' = hosts db" "credentials db' = credentials db"
  using assms by (auto simp: deliver_def Let_def rbind_eq_Inr map_err_eq_Inr insert_unique_eq_Inr
      result_splits)

lemma poll_commands_cases:
  assumes "poll_commands x db a session now = Inr (db', es)"
  obtains (idle) "db' = db" "es = []" "\<And>c. \<lbrakk>c \<in> set (commands db);
      hc_host_id c = x_show_uuid x (host_uuid (ah_host_id a))\<rbrakk> \<Longrightarrow>
      hc_state c \<notin> {''pending'', ''delivered''}"
  | (settled) "cancel_undeliverable x (x_show_uuid x (host_uuid (ah_host_id a))) now db = Inr db'"
      "es = []"
  | (delivered) db1 c e where
      "cancel_undeliverable x (x_show_uuid x (host_uuid (ah_host_id a))) now db = Inr db1"
      "work_authorized db1 (x_show_uuid x (host_uuid (ah_host_id a)))
         (x_show_uuid x (authority_session_uuid session)) now"
      "c \<in> set (commands db1)"
      "deliverable x db1 (x_show_uuid x (host_uuid (ah_host_id a)))
         (x_show_uuid x (authority_session_uuid session)) now c"
      "deliver x now db1 c = Inr (db', e)" "es = [e]"
  using assms unfolding poll_commands_def Let_def
  by (auto simp: rbind_eq_Inr split: if_splits list.splits dest!: sort_key_first(1))

text \<open>
  C3. A poll hands out at most one command. What it hands out is stored for the agent's host,
  sealed to the polling session while that session holds work authority, more than five seconds
  before its deadline, marked delivered with at most ten attempts and with the attempt recorded.
\<close>

theorem poll_delivers_one_current_command:
  assumes "poll_commands x db a session now = Inr (db', es)"
  shows "es = [] \<or> (\<exists>e c. es = [e] \<and> c \<in> set (commands db') \<and>
     hc_host_id c = x_show_uuid x (host_uuid (ah_host_id a)) \<and>
     x_envelope_from_str x (hc_payload_json c) = Some e \<and>
     x_payload_session x (hc_payload_json c) = Some (x_show_uuid x (authority_session_uuid session)) \<and>
     hc_state c = ''delivered'' \<and> hc_attempt_count c \<le> 10 \<and> hc_deadline_at c > now + 5000 \<and>
     (\<exists>t \<in> set (attempts db'). at_command_id t = hc_id c \<and> at_attempt t = hc_attempt_count c \<and>
        at_recorded_at t = now) \<and>
     (\<exists>h \<in> set (hosts db). fh_id h = hc_host_id c \<and>
        fh_agent_session_id h = Some (x_show_uuid x (authority_session_uuid session)) \<and>
        (\<exists>t. fh_authority_expires_at h = Some t \<and> t > now)))"
  using assms
proof (cases rule: poll_commands_cases)
  case (delivered db1 c e)
  let ?host = "x_show_uuid x (host_uuid (ah_host_id a))"
  let ?sid = "x_show_uuid x (authority_session_uuid session)"
  let ?d = "c\<lparr>hc_state := ''delivered'', hc_attempt_count := hc_attempt_count c + 1\<rparr>"
  note d = deliver_facts [OF delivered(5)]
  have "hosts db1 = hosts db"
    using outbox_cancel_undeliverable [OF delivered(1)] by (simp add: outbox_step_def)
  with delivered(2) have "\<exists>h \<in> set (hosts db). fh_id h = ?host \<and> fh_agent_session_id h = Some ?sid \<and>
      (\<exists>t. fh_authority_expires_at h = Some t \<and> t > now)"
    by (auto simp: work_authorized_def find_Some_iff split: option.splits)
  moreover have "?d \<in> set (commands db')"
    using delivered(3) by (auto simp: d(1) set_update_where)
  ultimately show ?thesis
    using delivered(4,6) d(2-4)
    by (intro disjI2 exI [of _ e] exI [of _ ?d]) (simp add: deliverable_def DELIVERY_MARGIN_MILLIS_def)
qed auto

theorem poll_delivers_one_current_command_witness:
  "poll_commands outbox_externals outbox_db outbox_agent (AuthoritySessionId 5) 2000 =
     Inr (delivered_db, [sample_sealed]) \<and>
   (\<exists>c \<in> set (commands delivered_db). hc_state c = ''delivered'' \<and> hc_attempt_count c \<le> 10)"
  using poll_delivers_one_current_command [OF outbox_poll] outbox_poll by auto

text \<open>
  After a poll the host has no command left that can no longer be delivered: none is pending
  for another session or epoch or too close to its deadline, and none is delivered past its
  deadline.
\<close>

theorem poll_leaves_nothing_undeliverable:
  assumes "poll_commands x db a session now = Inr (db', es)" and "distinct (map hc_id (commands db))"
    and "h \<in> set (hosts db')" and "fh_id h = x_show_uuid x (host_uuid (ah_host_id a))"
    and "c \<in> set (commands db')" and "hc_host_id c = fh_id h"
  shows "\<not> undeliverable x h now c"
  using assms(1)
proof (cases rule: poll_commands_cases)
  case idle
  then show ?thesis using assms(4-6) by (auto simp: undeliverable_def)
next
  case settled
  then show ?thesis
    using assms(3-6) by (metis cancel_undeliverable_settles)
next
  case (delivered db1 d e)
  note f = deliver_facts [OF delivered(5)]
  from assms(5) consider "c \<in> set (commands db1)"
    | b where "b \<in> set (commands db1)" "hc_id b = hc_id d"
      "c = b\<lparr>hc_state := ''delivered'', hc_attempt_count := hc_attempt_count d + 1\<rparr>"
    by (auto simp: f(1) set_update_where split: if_splits)
  then show ?thesis
  proof cases
    case 1
    then show ?thesis
      using assms(3-6) delivered(1) f(5) by (metis cancel_undeliverable_settles)
  next
    case 2
    have "map hc_id (commands db1) = map hc_id (commands db)"
      using outbox_cancel_undeliverable [OF delivered(1)]
      by (metis (no_types) outbox_ids)
    then have "inj_on hc_id (set (commands db1))"
      using assms(2) by (metis distinct_map)
    with 2 delivered(3) have "b = d" by (auto dest: inj_onD)
    with 2 delivered(4) show ?thesis
      by (simp add: deliverable_def undeliverable_def DELIVERY_MARGIN_MILLIS_def)
  qed
qed

theorem poll_leaves_nothing_undeliverable_witness:
  "\<forall>c \<in> set (commands delivered_db). \<not> undeliverable outbox_externals
     (sample_host\<lparr>fh_id := ''uuu'', fh_agent_session_id := Some ''uuuuu''\<rparr>) 2000 c"
proof
  fix c assume c: "c \<in> set (commands delivered_db)"
  show "\<not> undeliverable outbox_externals
     (sample_host\<lparr>fh_id := ''uuu'', fh_agent_session_id := Some ''uuuuu''\<rparr>) 2000 c"
    by (rule poll_leaves_nothing_undeliverable [OF outbox_poll _ _ _ c])
      (use c in \<open>auto simp: delivered_db_def outbox_agent_def outbox_command_def\<close>)
qed

text \<open>
  C22. A poll never fails over capacity: on a database whose allocations all belong to a
  placement, cancelling what cannot be delivered completes, releases included.
\<close>

theorem cancellation_always_completes:
  assumes "allocations_owned db"
  shows "\<exists>db'. cancel_undeliverable x host now db = Inr db' \<and> allocations_owned db' \<and>
    (\<forall>h \<in> set (hosts db). \<forall>c \<in> set (commands db'). fh_id h = host \<longrightarrow> hc_host_id c = host \<longrightarrow>
       \<not> undeliverable x h now c)"
proof -
  from cancel_undeliverable_succeeds [OF assms] obtain db' where
    db': "cancel_undeliverable x host now db = Inr db'" "allocations_owned db'" by blast
  moreover have "hosts db' = hosts db"
    using outbox_cancel_undeliverable [OF db'(1)] by (simp add: outbox_step_def)
  ultimately show ?thesis by (metis cancel_undeliverable_settles)
qed

theorem cancellation_always_completes_witness:
  "\<exists>db'. cancel_undeliverable outbox_externals ''uuu'' 60000 outbox_db = Inr db' \<and>
     allocations_owned db'"
  using cancellation_always_completes [of outbox_db outbox_externals "''uuu''" 60000]
  by (auto simp: allocations_owned_def)

section \<open>Results count once\<close>

lemma find_fixed_part:
  assumes "map fixed_part cs' = map fixed_part cs"
    and "find (\<lambda>c. hc_id c = cid \<and> hc_host_id c = host) cs = Some c"
  obtains c' where "find (\<lambda>c. hc_id c = cid \<and> hc_host_id c = host) cs' = Some c'"
    "fixed_part c' = fixed_part c"
  using assms
proof (induction cs arbitrary: cs' thesis)
  case (Cons b cs)
  from Cons.prems(2) obtain b' bs' where cs': "cs' = b' # bs'" "fixed_part b' = fixed_part b"
    "map fixed_part bs' = map fixed_part cs" by (cases cs') auto
  show ?case
  proof (cases "hc_id b = cid \<and> hc_host_id b = host")
    case True
    then show ?thesis using Cons.prems cs' fixed_part_eq [OF cs'(2)] by simp
  next
    case False
    with Cons.prems(3) have "find (\<lambda>c. hc_id c = cid \<and> hc_host_id c = host) cs = Some c" by auto
    from Cons.IH [OF _ cs'(3) this] obtain c' where
      "find (\<lambda>c. hc_id c = cid \<and> hc_host_id c = host) bs' = Some c'" "fixed_part c' = fixed_part c"
      by blast
    with False cs' fixed_part_eq [OF cs'(2)] show ?thesis by (intro Cons.prems(1) [of c']) auto
  qed
qed simp

lemma find_snoc: "find p rs = None \<Longrightarrow> find p (rs @ [r]) = (if p r then Some r else None)"
  by (induction rs) (auto split: if_splits)

lemma validated_result: "result_validate_against k r c = Inr v \<Longrightarrow> v = r"
  by (simp add: result_validate_against_eq_Inr)

lemma insert_result_tables:
  "insert_result row db = Inr db' \<Longrightarrow> db' = db\<lparr>results := results db @ [row]\<rparr>"
  by (auto simp: insert_result_def rbind_eq_Inr map_err_eq_Inr insert_unique_eq_Inr)

definition result_entry ::
  "externals \<Rightarrow> agent_command_result \<Rightarrow> string \<Rightarrow> bool \<Rightarrow> i64 \<Rightarrow> result_row" where
  "result_entry x result encoded terminal now =
     \<lparr>rr_id = x_show_uuid x (result_uuid (res_result_id result)),
      rr_command_id = x_show_uuid x (command_uuid (res_command_id result)),
      rr_result_hash = hash_token x encoded,
      rr_disposition = (if terminal then ''stale'' else ''applied''),
      rr_result_json = encoded, rr_received_at = now\<rparr>"

text \<open>The three ways intake ends without an error.\<close>

lemma record_command_result_cases:
  assumes "record_command_result x db a result now = Inr (db', d)"
  obtains (known) c encoded envelope r where
      "find (\<lambda>c. hc_id c = x_show_uuid x (command_uuid (res_command_id result)) \<and>
         hc_host_id c = x_show_uuid x (host_uuid (ah_host_id a))) (commands db) = Some c"
      "x_result_to_string x result = Some encoded" "x_envelope_from_str x (hc_payload_json c) = Some envelope"
      "result_validate_against (x_codec x) result envelope = Inr result"
      "find (\<lambda>r. rr_command_id r = x_show_uuid x (command_uuid (res_command_id result)) \<and>
         rr_result_hash r = hash_token x encoded) (results db) = Some r"
      "db' = db" "d = (if rr_disposition r = ''applied'' then Applied else Stale_Result)"
  | (fresh) c encoded envelope where
      "find (\<lambda>c. hc_id c = x_show_uuid x (command_uuid (res_command_id result)) \<and>
         hc_host_id c = x_show_uuid x (host_uuid (ah_host_id a))) (commands db) = Some c"
      "x_result_to_string x result = Some encoded" "x_envelope_from_str x (hc_payload_json c) = Some envelope"
      "result_validate_against (x_codec x) result envelope = Inr result"
      "find (\<lambda>r. rr_command_id r = x_show_uuid x (command_uuid (res_command_id result)) \<and>
         rr_result_hash r = hash_token x encoded) (results db) = None"
      "let db1 = db\<lparr>results := results db @
             [result_entry x result encoded (result_terminal db c) now]\<rparr>
       in if result_terminal db c then db' = db1 \<and> d = Stale_Result
          else d = Applied \<and>
            settle_result (x_show_uuid x (host_uuid (ah_host_id a))) c (late_result db c)
              (res_outcome result) now db1 = Inr db'"
proof -
  let ?host = "x_show_uuid x (host_uuid (ah_host_id a))"
  let ?cid = "x_show_uuid x (command_uuid (res_command_id result))"
  from assms obtain c envelope v encoded where
    c: "find (\<lambda>c. hc_id c = ?cid \<and> hc_host_id c = ?host) (commands db) = Some c"
    and e: "x_envelope_from_str x (hc_payload_json c) = Some envelope"
    and "result_validate_against (x_codec x) result envelope = Inr v"
    and t: "x_result_to_string x result = Some encoded"
    and rest: "(case find (\<lambda>r. rr_command_id r = ?cid \<and> rr_result_hash r = hash_token x encoded)
          (results db) of
        Some r \<Rightarrow> Inr (db, if rr_disposition r = ''applied'' then Applied else Stale_Result)
      | None \<Rightarrow>
          rbind (insert_result (result_entry x result encoded (result_terminal db c) now) db) (\<lambda>db1.
          if result_terminal db c then Inr (db1, Stale_Result)
          else rbind (settle_result ?host c (late_result db c) (res_outcome result) now db1)
                 (\<lambda>db2. Inr (db2, Applied)))) = Inr (db', d)"
    unfolding record_command_result_def Let_def rbind_eq_Inr map_err_eq_Inr ok_or_eq_Inr
      result_entry_def by blast
  then have v: "result_validate_against (x_codec x) result envelope = Inr result"
    using validated_result by blast
  show thesis
  proof (cases "find (\<lambda>r. rr_command_id r = ?cid \<and> rr_result_hash r = hash_token x encoded)
      (results db)")
    case None
    with rest have "let db1 = db\<lparr>results := results db @
          [result_entry x result encoded (result_terminal db c) now]\<rparr>
        in if result_terminal db c then db' = db1 \<and> d = Stale_Result
           else d = Applied \<and>
             settle_result ?host c (late_result db c) (res_outcome result) now db1 = Inr db'"
      by (auto simp: rbind_eq_Inr Let_def dest!: insert_result_tables split: if_splits)
    with fresh [OF c t e v None] show thesis .
  next
    case (Some r)
    with rest known [OF c t e v Some] show thesis by simp
  qed
qed

lemma outbox_record_command_result:
  assumes "record_command_result x db a result now = Inr (db', d)"
  shows "outbox_step db db'"
  using assms
proof (cases rule: record_command_result_cases)
  case (fresh c encoded envelope)
  then show ?thesis
    by (auto simp: Let_def outbox_step_def dest!: outbox_settle_result(1) split: if_splits)
qed (simp add: outbox.step_refl)

lemma result_recorded:
  assumes "record_command_result x db a result now = Inr (db', d)"
  shows "results db' \<noteq> []"
  using assms
proof (cases rule: record_command_result_cases)
  case (fresh c encoded envelope)
  then show ?thesis by (auto simp: Let_def dest!: outbox_settle_result(2) split: if_splits)
qed auto

text \<open>
  C16. A result counts once. Whatever recording it did, recording it again, at any later time the
  agent still authenticates, answers the same and changes nothing.
\<close>

theorem result_counts_once:
  assumes "record_command_result x db a result now = Inr (db', d)"
    and "ensure_authenticated_generation x db' a later = Inr ()"
  shows "record_command_result x db' a result later = Inr (db', d)"
  using assms(1)
proof (cases rule: record_command_result_cases)
  case (known c encoded envelope r)
  with assms(2) show ?thesis by (simp add: record_command_result_def Let_def)
next
  case (fresh c encoded envelope)
  let ?entry = "result_entry x result encoded (result_terminal db c) now"
  let ?db1 = "db\<lparr>results := results db @ [?entry]\<rparr>"
  have step: "outbox_step db db' \<and> results db' = results db @ [?entry] \<and>
      d = (if result_terminal db c then Stale_Result else Applied)"
  proof (cases "result_terminal db c")
    case True
    with fresh(6) show ?thesis by (simp add: outbox_step_def)
  next
    case False
    with fresh(6) have s: "settle_result (x_show_uuid x (host_uuid (ah_host_id a))) c
        (late_result db c) (res_outcome result) now ?db1 = Inr db'" "d = Applied"
      by (simp_all add: Let_def)
    have "outbox_step db ?db1" by (simp add: outbox_step_def)
    with outbox_settle_result [OF s(1)] s(2) False show ?thesis
      by (auto intro: outbox.step_trans)
  qed
  then obtain c' where c': "find (\<lambda>c. hc_id c = x_show_uuid x (command_uuid (res_command_id result)) \<and>
      hc_host_id c = x_show_uuid x (host_uuid (ah_host_id a))) (commands db') = Some c'"
    "fixed_part c' = fixed_part c"
    using find_fixed_part [OF _ fresh(1)] unfolding outbox_step_def by blast
  have "find (\<lambda>r. rr_command_id r = x_show_uuid x (command_uuid (res_command_id result)) \<and>
      rr_result_hash r = hash_token x encoded) (results db') = Some ?entry"
    using fresh(5) step by (simp add: find_snoc result_entry_def)
  with fresh(2-4) c' fixed_part_eq(5) [OF c'(2)] step assms(2) show ?thesis
    by (simp add: record_command_result_def Let_def result_entry_def)
qed

definition recorded_db :: fleet_db where
  "recorded_db = (case record_command_result outbox_externals delivered_db outbox_agent sample_result
     3000 of Inr (db, _) \<Rightarrow> db | Inl _ \<Rightarrow> delivered_db)"

definition cancelled_db :: fleet_db where
  "cancelled_db = outbox_db\<lparr>commands := [outbox_command\<lparr>hc_state := ''cancelled''\<rparr>]\<rparr>"

lemma outbox_result:
  assumes "hosts db = hosts outbox_db" "credentials db = credentials outbox_db"
    "commands db = [outbox_command\<lparr>hc_state := s, hc_attempt_count := n\<rparr>]"
    "results db = []" "allocations db = []" "s \<in> {''delivered'', ''cancelled''}"
  shows "\<exists>db'. record_command_result outbox_externals db outbox_agent sample_result 3000 =
    Inr (db', if s = ''cancelled'' then Stale_Result else Applied)"
proof -
  have "res_outcome sample_result = Outcome_Succeeded sample_cleanup_evidence"
    "is_cleaned sample_cleanup_evidence" "res_command_id sample_result = CommandId 1"
    by (simp_all add: sample_result_def sample_cleanup_evidence_def Let_def)
  then show ?thesis
    using assms
    by (auto simp: record_command_result_def Let_def outbox_authenticated
        sample_result_valid insert_result_def insert_unique_def result_terminal_def late_result_def
        settle_result_def apply_to_placement_def outcome_effect_def release_def
        release_allocations_def rows_where_def upsert_attempt_def set_command_state_def)
qed

lemma outbox_record:
  "record_command_result outbox_externals delivered_db outbox_agent sample_result 3000 =
     Inr (recorded_db, Applied)"
  using outbox_result [where db = delivered_db and s = "''delivered''" and n = 1]
  by (auto simp: delivered_db_def recorded_db_def)

theorem result_counts_once_witness:
  "record_command_result outbox_externals recorded_db outbox_agent sample_result 9000 =
     Inr (recorded_db, Applied)"
proof (rule result_counts_once [OF outbox_record])
  have "outbox_step delivered_db recorded_db"
    using outbox_record by (rule outbox_record_command_result)
  then show "ensure_authenticated_generation outbox_externals recorded_db outbox_agent 9000 = Inr ()"
    by (intro outbox_authenticated) (simp_all add: outbox_step_def delivered_db_def)
qed



end
