(* ===== verification/Issuing.thy ===== *)
theory Issuing
  imports Placement Sample
begin

text \<open>
  What issuing a command promises (\<^verbatim>\<open>issue_command\<close> of
  \<^verbatim>\<open>crates/gridops-core/src/fleet/placement.rs\<close>): a command goes out only under live authority,
  is sealed so that the agent session holding that authority accepts it until its deadline, and is
  stored once per idempotency key.
\<close>

section \<open>Lemmas\<close>

lemma first_row: "(case rs of [] \<Rightarrow> None | r # _ \<Rightarrow> Some r) = Some r \<Longrightarrow> r \<in> set rs"
  by (cases rs) auto

lemma issue_target_Some:
  assumes "issue_target db pid now = Some (p, h)"
  shows "p \<in> set (placements db)" "h \<in> set (hosts db)" "wp_id p = pid" "fh_id h = wp_host_id p"
    "wp_host_epoch p = fh_epoch h" "gt_opt (fh_authority_expires_at h) now"
    "\<exists>s. fh_agent_session_id h = Some s"
proof -
  have "(p, h) \<in> set [(p, h). p \<leftarrow> placements db, h \<leftarrow> hosts db,
              fh_id h = wp_host_id p \<and> wp_id p = pid \<and> wp_host_epoch p = fh_epoch h \<and>
              gt_opt (fh_authority_expires_at h) now \<and> fh_agent_session_id h \<noteq> None \<and>
              fh_authority_incarnation h \<noteq> None]"
    using assms unfolding issue_target_def by (rule first_row)
  then show "p \<in> set (placements db)" "h \<in> set (hosts db)" "wp_id p = pid"
    "fh_id h = wp_host_id p" "wp_host_epoch p = fh_epoch h"
    "gt_opt (fh_authority_expires_at h) now" "\<exists>s. fh_agent_session_id h = Some s"
    by auto
qed

lemma issue_envelope_facts:
  assumes "issue_envelope x p h placement cid oper key now deadline = Inr e"
  obtains u host session where
    "fleet_parse_id x HostId (wp_host_id p) = Inr host"
    "fleet_parse_id x AuthoritySessionId (the (fh_agent_session_id h)) = Inr session"
    "seal_hash (x_codec x) (x_envelope_to_vec x) u = Inr e" "env_command_id u = cid"
    "env_host_id u = host" "env_authority_session_id u = session" "env_operation u = oper"
    "env_issued_at u = WireTimestamp (now - 5000)" "env_deadline_at u = WireTimestamp deadline"
  using assms unfolding issue_envelope_def rbind_eq_Inr map_err_eq_Inr
  by (elim exE conjE)
    (auto simp: parse_timestamp_def map_err_eq_Inr wire_timestamp_from_millis_def
      COMMAND_CLOCK_SKEW_MILLIS_def split: option.splits if_splits)

lemma issue_envelope_host:
  assumes "issue_envelope x p h placement cid oper key now deadline = Inr e"
  shows "fleet_parse_id x HostId (wp_host_id p) = Inr (env_host_id e)"
  using assms by (rule issue_envelope_facts) (auto simp: seal_hash_eq_Inr)

lemma insert_command_once_eq_Inr:
  "insert_command_once row db = Inr (db', n) \<longleftrightarrow>
     (if \<exists>c \<in> set (commands db). hc_host_id c = hc_host_id row \<and>
           hc_idempotency_key c = hc_idempotency_key row
      then db' = db \<and> n = 0
      else hc_deadline_at row > hc_issued_at row \<and> hc_id row \<notin> hc_id ` set (commands db) \<and>
           db' = db\<lparr>commands := commands db @ [row]\<rparr> \<and> n = 1)"
  by (auto simp: insert_command_once_def result_splits)

lemma issue_command_cases:
  assumes "issue_command x db placement oper key ttl now fresh = Inr (db', r)"
  obtains (unauthorized) "db' = db" "r = None"
  | (stored) p h cid e c where
      "issue_target db (x_show_uuid x (placement_uuid placement)) now = Some (p, h)"
      "issue_envelope x p h placement cid oper key now (now + ttl) = Inr e"
      "x_envelope_to_string x e = Some (hc_payload_json c)"
      "insert_command_once c db = Inr (db', if r = None then 0 else 1)" "r = None \<or> r = Some cid"
      "hc_id c = x_show_uuid x (command_uuid cid)"
      "hc_host_id c = x_show_uuid x (host_uuid (env_host_id e))" "hc_idempotency_key c = key"
      "hc_placement_id c = Some (x_show_uuid x (placement_uuid placement))"
      "hc_state c = ''pending''" "hc_kind c = database_kind oper" "hc_deadline_at c = now + ttl"
      "hc_host_epoch c = fh_epoch h" "hc_request_hash c = env_request_hash e"
proof (cases "issue_target db (x_show_uuid x (placement_uuid placement)) now")
  case None
  with assms show thesis by (auto simp: issue_command_def Let_def intro: unauthorized)
next
  case (Some ph)
  obtain p h where ph: "ph = (p, h)" by (cases ph)
  from assms obtain cid e payload n where *:
    "issue_envelope x p h placement cid oper key now (now + ttl) = Inr e"
    "x_envelope_to_string x e = Some payload" "r = (if n = 1 then Some cid else None)"
    "insert_command_once
       \<lparr>hc_cursor = next_cursor db, hc_id = x_show_uuid x (command_uuid cid),
        hc_operation_id = x_show_uuid x (operation_uuid (env_operation_id e)),
        hc_placement_id = Some (x_show_uuid x (placement_uuid placement)),
        hc_host_id = x_show_uuid x (host_uuid (env_host_id e)),
        hc_backend_id = Some (case env_scope e of
           Scope_Placement _ b _ \<Rightarrow> x_show_uuid x (backend_uuid b) | Scope_Host \<Rightarrow> []),
        hc_host_epoch = fh_epoch h, hc_generation = Some (wp_generation p),
        hc_kind = database_kind oper, hc_state = ''pending'',
        hc_request_hash = env_request_hash e, hc_payload_json = payload,
        hc_expected_revision = wp_profile_revision p, hc_issued_at = now,
        hc_deadline_at = now + ttl, hc_attempt_count = 0, hc_idempotency_key = key\<rparr> db =
       Inr (db', n)"
    unfolding issue_command_def Let_def Some ph option.case prod.case rbind_eq_Inr ok_or_eq_Inr
      map_err_eq_Inr by auto
  then have "n = (if r = None then 0 else 1)" "r = None \<or> r = Some cid"
    by (auto simp: insert_command_once_eq_Inr split: if_splits)
  with * show thesis
    by (intro stored [OF Some [unfolded ph] *(1) _ *(4) [unfolded \<open>n = _\<close>]]) simp_all
qed

section \<open>A sample placement\<close>

definition issuing_db :: fleet_db where
  "issuing_db = sample_db\<lparr>placements :=
     [\<lparr>wp_id = unary 6, wp_intent_id = unary 2, wp_workload_id = unary 5, wp_generation = 1,
       wp_host_id = unary 1, wp_backend_id = unary 2, wp_host_epoch = 1, wp_session_id = None,
       wp_profile_revision = 1, wp_target_id = unary 4, wp_cpu_millis = 1, wp_memory_mib = 1,
       wp_disk_bytes = 0, wp_state = ''running'', wp_runner_id = None, wp_agent_run_id = None,
       wp_created_at = 1, wp_updated_at = 1, wp_local_absence_proven_at = None,
       wp_delayed_starts_excluded_at = None\<rparr>]\<rparr>"

definition issued_db :: "i64 \<Rightarrow> fleet_db" where
  "issued_db now = (case issue_command sample_externals issuing_db (PlacementId 6)
     (Cleanup (Local_Docker (UpstreamText ''c0ffee''))) ''cleanup:1'' 60000 now 10 of
       Inr (db, _) \<Rightarrow> db | Inl _ \<Rightarrow> issuing_db)"

lemma issuing_target:
  "issue_target issuing_db ''uuuuuu'' 100000 = Some (hd (placements issuing_db), sample_host)"
  by (simp add: issue_target_def issuing_db_def sample_db_def sample_host_def gt_opt_def)

lemma issuing_envelope:
  "\<exists>e. issue_envelope sample_externals (hd (placements issuing_db)) sample_host (PlacementId 6)
     (CommandId 10) (Cleanup (Local_Docker (UpstreamText ''c0ffee''))) ''cleanup:1'' 100000 160000 =
     Inr e"
  "\<exists>e. issue_envelope sample_externals (hd (placements issuing_db)) sample_host (PlacementId 6)
     (CommandId 11) (Cleanup (Local_Docker (UpstreamText ''c0ffee''))) ''cleanup:1'' 110000 170000 =
     Inr e"
  by (simp_all add: issue_envelope_def issuing_db_def sample_host_def fleet_parse_id_def
      fleet_uuid_try_new_def issue_counter_def u64_from_i64_def word_try_from_def
      generation_new_def host_epoch_new_def revision_new_def bounded_counter_try_from_def
      MAX_COUNTER_def i64_max_u64_def byte_def
      bounded_integer_new_def idempotency_key_try_from_def
      parse_timestamp_def wire_timestamp_from_millis_def COMMAND_CLOCK_SKEW_MILLIS_def
      seal_hash_def check_shape_def operation_check_def checked_sub_i64_def in_i64_def
      duration_cap_def canonical_hash_def)

lemma issuing_sample:
  "issue_command sample_externals issuing_db (PlacementId 6)
     (Cleanup (Local_Docker (UpstreamText ''c0ffee''))) ''cleanup:1'' 60000 100000 10 =
     Inr (issued_db 100000, Some (CommandId 10))"
proof -
  obtain e where e: "issue_envelope sample_externals (hd (placements issuing_db)) sample_host
      (PlacementId 6) (CommandId 10) (Cleanup (Local_Docker (UpstreamText ''c0ffee'')))
      ''cleanup:1'' 100000 160000 = Inr e"
    using issuing_envelope(1) by blast
  have "commands issuing_db = []" by (simp add: issuing_db_def)
  then have "\<exists>db'. issue_command sample_externals issuing_db (PlacementId 6)
     (Cleanup (Local_Docker (UpstreamText ''c0ffee''))) ''cleanup:1'' 60000 100000 10 =
     Inr (db', Some (CommandId 10))"
    by (simp add: issue_command_def Let_def issuing_target e fleet_uuid_try_new_def insert_command_once_def
        insert_unique_def)
  then show ?thesis by (auto simp: issued_db_def)
qed

section \<open>Properties\<close>



text \<open>
  A command is stored once per key: while the placement keeps its machine, issuing again
  under the same key, whatever the operation, the time and the fresh identifier, stores nothing
  and reports that nothing was issued.
\<close>

theorem issuing_is_idempotent:
  assumes "issue_command x db placement oper key ttl now fresh = Inr (db', Some cid)"
    and "distinct (map wp_id (placements db))"
    and "issue_command x db' placement oper' key ttl' later fresh' = Inr (db'', r)"
  shows "db'' = db' \<and> r = None"
  using assms(3)
proof (cases rule: issue_command_cases)
  case (stored p' h' cid' e' c')
  from assms(1) obtain p h e c where first:
    "issue_target db (x_show_uuid x (placement_uuid placement)) now = Some (p, h)"
    "issue_envelope x p h placement cid oper key now (now + ttl) = Inr e"
    "insert_command_once c db = Inr (db', 1)"
    "hc_host_id c = x_show_uuid x (host_uuid (env_host_id e))" "hc_idempotency_key c = key"
    by (cases rule: issue_command_cases) auto
  have "placements db' = placements db" using assms(1) by (rule issue_command_frame)
  then have "p' = p"
    using issue_target_Some(1,3) [OF first(1)] issue_target_Some(1,3) [OF stored(1)] assms(2)
    by (metis distinct_map inj_onD)
  then have "env_host_id e' = env_host_id e"
    using issue_envelope_host [OF first(2)] issue_envelope_host [OF stored(2)] by simp
  moreover have "c \<in> set (commands db')"
    using first(3) by (auto simp: insert_command_once_eq_Inr split: if_splits)
  ultimately have "\<exists>d \<in> set (commands db'). hc_host_id d = hc_host_id c' \<and>
      hc_idempotency_key d = hc_idempotency_key c'"
    using first(4,5) stored(7,8) by (intro bexI [of _ c]) simp_all
  with stored(4,5) show ?thesis by (auto simp: insert_command_once_eq_Inr split: if_splits)
qed simp

lemma issuing_again:
  "\<exists>db'' r. issue_command sample_externals (issued_db 100000) (PlacementId 6)
     (Cleanup (Local_Docker (UpstreamText ''c0ffee''))) ''cleanup:1'' 60000 110000 11 = Inr (db'', r)"
proof -
  obtain e where e: "issue_envelope sample_externals (hd (placements issuing_db)) sample_host
      (PlacementId 6) (CommandId 11) (Cleanup (Local_Docker (UpstreamText ''c0ffee'')))
      ''cleanup:1'' 110000 170000 = Inr e"
    using issuing_envelope(2) by blast
  have "issue_target (issued_db 100000) ''uuuuuu'' 110000 =
      Some (hd (placements issuing_db), sample_host)"
    using issue_command_frame(3,5) [OF issuing_sample]
    by (simp add: issue_target_def) (simp add: issuing_db_def sample_db_def sample_host_def gt_opt_def)
  moreover obtain c where "commands (issued_db 100000) = [c]" "hc_id c = ''uuuuuuuuuu''"
    using issuing_sample
    by (cases rule: issue_command_cases)
      (auto simp: insert_command_once_eq_Inr issuing_db_def split: if_splits)
  ultimately show ?thesis
    by (simp add: issue_command_def Let_def e fleet_uuid_try_new_def insert_command_once_def
        insert_unique_def)
qed

theorem issuing_is_idempotent_witness:
  "issue_command sample_externals (issued_db 100000) (PlacementId 6)
     (Cleanup (Local_Docker (UpstreamText ''c0ffee''))) ''cleanup:1'' 60000 110000 11 =
     Inr (issued_db 100000, None)"
proof -
  from issuing_again obtain db'' r where again: "issue_command sample_externals (issued_db 100000)
      (PlacementId 6) (Cleanup (Local_Docker (UpstreamText ''c0ffee''))) ''cleanup:1'' 60000 110000
      11 = Inr (db'', r)" by blast
  have "db'' = issued_db 100000 \<and> r = None"
    by (rule issuing_is_idempotent [OF issuing_sample _ again]) (simp add: issuing_db_def)
  with again show ?thesis by simp
qed

end
