(* ===== verification/Spec2Isabelle.thy ===== *)
theory Spec2Isabelle
  imports Output_Properties Logs Fleet_System Delivery Issuing Chunks Domain Ids
begin

text \<open>
  A model of the fleet of GridOps, a service that runs CI workloads on enrolled machines: its control
  plane and the agent on each machine. Paths are relative to \<^verbatim>\<open>src/crates/gridops-core/src/fleet/\<close>
  unless they start with \<^verbatim>\<open>src/\<close>, \<^verbatim>\<open>agent/\<close> for \<^verbatim>\<open>src/crates/gridops-host-agent/src/\<close> or \<^verbatim>\<open>api/\<close> for
  \<^verbatim>\<open>src/crates/gridops-api/src/fleet/\<close>.

  \<^bold>\<open>The program.\<close> A control plane keeps the fleet in one SQLite database. An administrator issues
  an enrollment code; a machine consumes it, reports its inventory and is approved for CI targets.
  Clients submit workloads; a scheduling slice scans the queue fairly between pools, finds an
  eligible machine, reserves capacity on the path of resource domains from the backend to the
  root, and writes a sealed prepare command to an outbox. The agent of the machine polls for
  commands, executes them and reports results with evidence; results move placements and
  allocations, and capacity is released only on proofs of absence. A reconciler issues the further
  commands of each placement. The agent writes every command to a journal before it acts on it and
  every answer before it sends it, so that a crash or a lost reply leads neither to a second
  execution nor to a second answer; a supervisor enrolls it, delivers what a lost connection kept
  back, rotates its credential, and ships its log lines.

  \<^bold>\<open>Modelling.\<close> Structs are records, enums datatypes, machine integers words or integers with the
  checks of the code, fallible functions return \<open>error + value\<close>. The database is a record of tables
  (theory \<open>Store\<close>), a table is a list of rows in insertion order, and each transaction is a function
  from database to result and new database; an error leaves the database as it was, as a
  rolled-back transaction does. Unique keys, checks and triggers of the migrations that the code
  relies on are part of the inserts and updates. What the sources only call is a parameter: SHA-256
  and base64 (record \<open>byte_codec\<close>), UUID text, serde's JSON, the calendar (record \<open>externals\<close>), fresh
  UUIDs, random bytes and the clock. Laws assumed of them are hypotheses of the theorems, and the
  witnesses instantiate them with concrete functions.

  \<^bold>\<open>Theories, from the bottom.\<close>
  \<^item> \<open>Prelude\<close>: results, checked arithmetic, text, tables, and the locale \<open>validated_newtype\<close> of
    constructors that check their argument.
  \<^item> \<open>Ids\<close> (\<^verbatim>\<open>ids.rs\<close>), \<open>Domain\<close>, \<open>Resources\<close>, \<open>Lifecycle\<close> (\<^verbatim>\<open>domain.rs\<close>): identifiers, CI targets,
    resource arithmetic, and the state machines of hosts, backends, placements and allocations.
  \<^item> \<open>Authorization\<close> (\<^verbatim>\<open>authorization.rs\<close>): grants and the proofs minted from them.
  \<^item> \<open>Primitives\<close>, \<open>Chunks\<close>, \<open>Agent_Command\<close>, \<open>Outcomes\<close> (\<^verbatim>\<open>protocol/\<close>): validated wire values, transfer
    chunks, sealed commands, results and the evidence they carry.
  \<^item> \<open>Capabilities\<close> (\<^verbatim>\<open>capabilities.rs\<close>): what a backend can run.
  \<^item> \<open>Store\<close> (\<^verbatim>\<open>store.rs\<close> and the migrations), \<open>Sample\<close>: the tables, and a small fleet for examples.
  \<^item> \<open>Service\<close> (\<^verbatim>\<open>service.rs\<close>): submission, replay, cancellation, status.
  \<^item> \<open>Capacity\<close>, \<open>Eligibility\<close>, \<open>Admission\<close> (\<^verbatim>\<open>admission.rs\<close>): the domain path and capacity check, the
    candidate query, the rows of an admission, the scan of the queue; \<open>Admission_Properties\<close> proves
    what a scan guarantees.
  \<^item> \<open>Registry\<close>, \<open>Enrollment\<close>, \<open>Host_Admin\<close>, \<open>Rotation\<close> (\<^verbatim>\<open>registry/\<close>): secrets, codes, hosts,
    authentication and rotation; \<open>Registry_Invariants\<close> makes them a transition system with its
    invariant, \<open>Registry_Properties\<close> and \<open>Registry_Finality\<close> draw the guarantees.
  \<^item> \<open>Ledger\<close>: the abstract capacity ledger and the locale \<open>step_preorder\<close> that composes steps; it is
    interpreted for capacity, the outbox, the registry, codes and retirement.
  \<^item> \<open>Commands\<close> (\<^verbatim>\<open>registry/commands.rs\<close>), \<open>Placement\<close> (\<^verbatim>\<open>placement.rs\<close>): the outbox, results and the
    reconciler's operations; \<open>Delivery\<close> and \<open>Issuing\<close> prove their properties.
  \<^item> \<open>Fleet_System\<close>: the composition of service, admission, outbox and reconciler as one step relation,
    its refinement of the ledger and the invariants of every reachable state.
  \<^item> \<open>Journal\<close>, \<open>Dispatch\<close> (\<^verbatim>\<open>agent/journal.rs\<close>, \<^verbatim>\<open>agent/dispatch.rs\<close>, \<^verbatim>\<open>agent/helper.rs\<close>): the journal
    and the execution of a command, with the helper that drives the runtime as a parameter;
    \<open>Agent_Runs\<close> makes them a step relation in which the agent may die at every commit, and
    \<open>Agent_Properties\<close> draws the guarantees.
  \<^item> \<open>Supervisor\<close> (\<^verbatim>\<open>agent/supervisor.rs\<close>, \<^verbatim>\<open>agent/client.rs\<close>): enrollment, redelivery, commands of a
    session, rotation, back-off, against an arbitrary server; \<open>Supervisor_Properties\<close> proves that it
    refines the agent's runs.
  \<^item> \<open>Agent_Api\<close> (\<^verbatim>\<open>api/\<close>): the routes the agents call, as functions from the registry's operations to
    what the client sees; \<open>Agent_Rotation\<close> composes supervisor, routes and registry.
  \<^item> \<open>Logs\<close> (\<^verbatim>\<open>agent/logs.rs\<close>, \<^verbatim>\<open>registry/logs.rs\<close>): log lines from the agent's buffer to the table.
  \<^item> \<open>Output\<close> (\<^verbatim>\<open>agent/output.rs\<close>, \<^verbatim>\<open>registry/output.rs\<close>): a runner's console output from its reads to the
    stored file; \<open>Output_Properties\<close> states what the uploader needs of a server as the locale
    \<open>output_sink\<close> and interprets it for the registry over a network that loses requests and replies.

  \<^bold>\<open>What is proved.\<close> Capacity: every interleaving of the operations refines the ledger, no domain is
  charged past its budget, a released allocation is final and needs both absence proofs. Scheduling:
  admissions are complete, happen once, only on eligible machines, within pool limits; the scan is
  fair and refusals reserve nothing. Commands: a poll delivers one current command to the session
  it is sealed to, results count once, cancellation always completes, sealed envelopes are accepted
  exactly by their session and are tamper evident. Registry: codes enroll once, an acknowledged
  rotation fences older credentials, retirement is final, an approval stays within its code, and
  rotation rows keep their shape in every reachable state. Agent: a command is begun at most once
  and answered the same for ever, answers pass the control plane's check, the helper is asked only
  for what the command allows, the supervisor refines the agent and its claim that results are
  flushed is true; a retried rotation is answered alike, and a lost acknowledgement strands the
  host, which is a flaw of the code. Logs: no line is lost uncounted, the table is bounded, a batch
  sent again is stored once. Console output: the stored file is the end of what the runner printed,
  all of it up to the cap. Primitives: wire round trips, bounds and
  state machines of hosts and placements.

  \<^bold>\<open>Bounds.\<close> Loops of the code are structural recursions over the rows they read; the walk up the
  domain tree is bounded by 64 as in the code (\<open>MAX_RESOURCE_DOMAIN_DEPTH\<close>) and terminates on every
  table. No fuel is used. The supervisor's session loop is a relation: each theorem about it holds after
  every number of steps. The retries of an upload are bounded by a parameter, and the theorem holds for
  every bound, running out of it being the end of the session.

  \<^bold>\<open>Not modelled.\<close> The audit table (write only), the text of events beyond their kind, read-only
  pages for the browser, the handshake and inventory of agents, the HTTP layer beyond
  the routes named above, the GitHub and Bitbucket clients, the loops of the reconciler, and the
  drivers of Docker, Tart and native processes, which are input and output. Concurrency is that of SQLite's immediate transactions: the
  steps are atomic and interleave freely.
\<close>

end
